(* ===== verification/Ordered_Map.thy ===== *)
theory Ordered_Map
  imports Prelude
begin

text \<open>
  Rust's \<open>BTreeMap\<close>, as far as the sources use it: lookup, insertion, \<open>entry(..).or_default()\<close>
  followed by a mutation, and iteration in key order. The carrier is an association list kept strictly
  sorted by key. The interface is the locale \<open>ordered_map\<close>; its laws are discharged for the list
  operations below and the clients use the facts of that interpretation.
\<close>

section \<open>Interface\<close>

locale ordered_map =
  fixes empty :: "'m"
    and get :: "'m \<Rightarrow> 'k::linorder \<Rightarrow> 'v option"
    and insert :: "'k \<Rightarrow> 'v \<Rightarrow> 'm \<Rightarrow> 'm"
    and entries :: "'m \<Rightarrow> ('k \<times> 'v) list"
    and invar :: "'m \<Rightarrow> bool"
  assumes invar_empty: "invar empty"
    and invar_insert: "invar m \<Longrightarrow> invar (insert k v m)"
    and get_empty: "get empty k = None"
    and get_insert: "invar m \<Longrightarrow> get (insert k v m) k' = (if k' = k then Some v else get m k')"
    and entries_sorted: "invar m \<Longrightarrow> sorted_wrt (<) (map fst (entries m))"
    and entries_get: "invar m \<Longrightarrow> (k, v) \<in> set (entries m) \<longleftrightarrow> get m k = Some v"
begin

lemma entries_distinct: "invar m \<Longrightarrow> distinct (map fst (entries m))"
  using entries_sorted strict_sorted_iff by blast

text \<open>\<open>map.entry(k).or_default()\<close> followed by the assignment of a new value.\<close>

definition modify_entry :: "'v \<Rightarrow> ('v \<Rightarrow> 'v) \<Rightarrow> 'k \<Rightarrow> 'm \<Rightarrow> 'm" where
  "modify_entry d f k m = insert k (f (case get m k of None \<Rightarrow> d | Some v \<Rightarrow> v)) m"

lemma invar_modify_entry: "invar m \<Longrightarrow> invar (modify_entry d f k m)"
  by (simp add: modify_entry_def invar_insert)

lemma get_modify_entry:
  "invar m \<Longrightarrow> get (modify_entry d f k m) k' =
     (if k' = k then Some (f (case get m k of None \<Rightarrow> d | Some v \<Rightarrow> v)) else get m k')"
  by (simp add: modify_entry_def get_insert)

text \<open>Iteration order does not depend on the order of the insertions: two maps with the same
  lookups have the same entry list.\<close>

lemma entries_ext:
  assumes "invar m" "invar m'" "\<And>k. get m k = get m' k"
  shows "entries m = entries m'"
proof -
  have sets: "set (entries m) = set (entries m')"
    using assms by (auto simp: entries_get)
  have keys: "map fst (entries m) = map fst (entries m')"
  proof (rule strict_sorted_equal)
    show "sorted_wrt (<) (map fst (entries m))" "sorted_wrt (<) (map fst (entries m'))"
      using assms entries_sorted by blast+
    show "set (map fst (entries m)) = set (map fst (entries m'))" using sets by simp
  qed
  have "map_of (entries m) = map_of (entries m')"
    using sets entries_distinct [OF assms(1)] entries_distinct [OF assms(2)]
    by (metis map_of_inject_set)
  have "(map fst (entries m)) = map fst (entries m')" by (rule keys)
  moreover have "entries m = map (\<lambda>k. (k, the (map_of (entries m) k))) (map fst (entries m))"
    using alist_from_keys [OF entries_distinct [OF assms(1)]] .
  moreover have "entries m' = map (\<lambda>k. (k, the (map_of (entries m') k))) (map fst (entries m'))"
    using alist_from_keys [OF entries_distinct [OF assms(2)]] .
  ultimately show ?thesis using \<open>map_of (entries m) = map_of (entries m')\<close> by metis
qed

end

section \<open>Sorted association lists\<close>

type_synonym ('k, 'v) bmap = "('k \<times> 'v) list"

definition bm_invar :: "('k::linorder, 'v) bmap \<Rightarrow> bool" where
  "bm_invar m \<longleftrightarrow> sorted_wrt (<) (map fst m)"

fun bm_insert :: "'k::linorder \<Rightarrow> 'v \<Rightarrow> ('k, 'v) bmap \<Rightarrow> ('k, 'v) bmap" where
  "bm_insert k v [] = [(k, v)]"
| "bm_insert k v (e # m) =
     (if fst e < k then e # bm_insert k v m
      else if fst e = k then (k, v) # m
      else (k, v) # e # m)"

abbreviation bm_get :: "('k, 'v) bmap \<Rightarrow> 'k \<Rightarrow> 'v option" where
  "bm_get \<equiv> map_of"

definition bm_modify :: "'v \<Rightarrow> ('v \<Rightarrow> 'v) \<Rightarrow> 'k::linorder \<Rightarrow> ('k, 'v) bmap \<Rightarrow> ('k, 'v) bmap" where
  "bm_modify d f k m = bm_insert k (f (case bm_get m k of None \<Rightarrow> d | Some v \<Rightarrow> v)) m"

lemma keys_bm_insert: "fst ` set (bm_insert k v m) = insert k (fst ` set m)"
  by (induction m) auto

lemma bm_invar_insert: "bm_invar m \<Longrightarrow> bm_invar (bm_insert k v m)"
proof (induction m)
  case Nil
  then show ?case by (simp add: bm_invar_def)
next
  case (Cons e m)
  then have IH: "sorted_wrt (<) (map fst (bm_insert k v m))"
    and tail: "\<forall>x \<in> fst ` set m. fst e < x" "sorted_wrt (<) (map fst m)"
    by (simp_all add: bm_invar_def)
  consider "fst e < k" | "fst e = k" | "k < fst e" by (rule linorder_cases)
  then show ?case
  proof cases
    case 1
    have "\<forall>x \<in> fst ` set (bm_insert k v m). fst e < x"
      using 1 tail by (simp only: keys_bm_insert) blast
    with 1 IH show ?thesis by (simp add: bm_invar_def)
  next
    case 2
    with tail show ?thesis by (simp add: bm_invar_def)
  next
    case 3
    with tail have "\<forall>x \<in> fst ` set m. k < x" by (meson less_trans)
    moreover from 3 have "\<not> fst e < k" "fst e \<noteq> k" by auto
    ultimately show ?thesis using 3 tail by (simp add: bm_invar_def)
  qed
qed

lemma bm_get_insert: "bm_get (bm_insert k v m) k' = (if k' = k then Some v else bm_get m k')"
  by (induction m) auto

lemma bm_invar_distinct: "bm_invar m \<Longrightarrow> distinct (map fst m)"
  by (simp add: bm_invar_def strict_sorted_iff)

interpretation bm: ordered_map "[]" bm_get bm_insert id bm_invar
  rewrites "ordered_map.modify_entry bm_get bm_insert = bm_modify"
proof -
  show om: "ordered_map [] bm_get bm_insert id bm_invar"
    by unfold_locales
      (simp_all add: bm_invar_insert bm_get_insert bm_invar_distinct map_of_eq_Some_iff,
        simp_all add: bm_invar_def)
  show "ordered_map.modify_entry bm_get bm_insert = bm_modify"
    by (intro ext) (simp add: ordered_map.modify_entry_def [OF om] bm_modify_def)
qed

lemmas bm_simps = bm.get_modify_entry bm.invar_modify_entry bm.invar_insert bm_get_insert

end
