(* ===== verification/Discord_Model.thy ===== *)
theory Discord_Model
  imports Prelude
begin

text \<open>
  The crate \<open>discord-model\<close>: Discord ids, the permission bit set, the entities of a guild and the guild
  snapshot that the control plane compares a desired state with. Field and constructor names carry
  the name of their struct or enum, since the sources reuse names such as \<open>id\<close>, \<open>name\<close> and \<open>Role\<close>.
\<close>

section \<open>Ids\<close>

datatype guild_id = GuildId (guild_u64: u64)
datatype role_id = RoleId (role_u64: u64)
datatype channel_id = ChannelId (channel_u64: u64)
datatype user_id = UserId (user_u64: u64)
datatype message_id = MessageId (message_u64: u64)

text \<open>The macro \<open>define_id\<close> gives every id the same text form: decimal digits, also in JSON.\<close>

definition id_display :: "u64 \<Rightarrow> string" where
  "id_display n = show_u64 n"

definition id_from_str :: "string \<Rightarrow> u64 option" where
  "id_from_str s = parse_u64 s"

definition id_serialize :: "u64 \<Rightarrow> string" where
  "id_serialize n = show_u64 n"

definition id_deserialize :: "string \<Rightarrow> u64 option" where
  "id_deserialize s = id_from_str s"

section \<open>Permissions\<close>

type_synonym permissions = u64

definition CREATE_INSTANT_INVITE :: permissions where "CREATE_INSTANT_INVITE = push_bit 0 1"
definition KICK_MEMBERS :: permissions where "KICK_MEMBERS = push_bit 1 1"
definition BAN_MEMBERS :: permissions where "BAN_MEMBERS = push_bit 2 1"
definition ADMINISTRATOR :: permissions where "ADMINISTRATOR = push_bit 3 1"
definition MANAGE_CHANNELS :: permissions where "MANAGE_CHANNELS = push_bit 4 1"
definition MANAGE_GUILD :: permissions where "MANAGE_GUILD = push_bit 5 1"
definition ADD_REACTIONS :: permissions where "ADD_REACTIONS = push_bit 6 1"
definition VIEW_CHANNEL :: permissions where "VIEW_CHANNEL = push_bit 10 1"
definition SEND_MESSAGES :: permissions where "SEND_MESSAGES = push_bit 11 1"
definition MANAGE_MESSAGES :: permissions where "MANAGE_MESSAGES = push_bit 13 1"
definition EMBED_LINKS :: permissions where "EMBED_LINKS = push_bit 14 1"
definition ATTACH_FILES :: permissions where "ATTACH_FILES = push_bit 15 1"
definition READ_MESSAGE_HISTORY :: permissions where "READ_MESSAGE_HISTORY = push_bit 16 1"
definition MENTION_EVERYONE :: permissions where "MENTION_EVERYONE = push_bit 17 1"
definition CONNECT :: permissions where "CONNECT = push_bit 20 1"
definition SPEAK :: permissions where "SPEAK = push_bit 21 1"
definition MANAGE_ROLES :: permissions where "MANAGE_ROLES = push_bit 28 1"
definition MODERATE_MEMBERS :: permissions where "MODERATE_MEMBERS = push_bit 40 1"

lemmas permission_defs =
  CREATE_INSTANT_INVITE_def KICK_MEMBERS_def BAN_MEMBERS_def ADMINISTRATOR_def MANAGE_CHANNELS_def
  MANAGE_GUILD_def ADD_REACTIONS_def VIEW_CHANNEL_def SEND_MESSAGES_def MANAGE_MESSAGES_def
  EMBED_LINKS_def ATTACH_FILES_def READ_MESSAGE_HISTORY_def MENTION_EVERYONE_def CONNECT_def
  SPEAK_def MANAGE_ROLES_def MODERATE_MEMBERS_def

text \<open>\<open>bitflags\<close>: \<open>all\<close> is the union of the declared flags, \<open>contains\<close> tests that every bit of the
  argument is set. The remaining operators of the sources are the bitwise ones on \<open>bits()\<close>.\<close>

definition permissions_all :: permissions where
  "permissions_all =
     CREATE_INSTANT_INVITE OR KICK_MEMBERS OR BAN_MEMBERS OR ADMINISTRATOR OR MANAGE_CHANNELS OR
     MANAGE_GUILD OR ADD_REACTIONS OR VIEW_CHANNEL OR SEND_MESSAGES OR MANAGE_MESSAGES OR
     EMBED_LINKS OR ATTACH_FILES OR READ_MESSAGE_HISTORY OR MENTION_EVERYONE OR CONNECT OR
     SPEAK OR MANAGE_ROLES OR MODERATE_MEMBERS"

definition permissions_contains :: "permissions \<Rightarrow> permissions \<Rightarrow> bool" where
  "permissions_contains p q \<longleftrightarrow> p AND q = q"

definition permissions_serialize :: "permissions \<Rightarrow> string" where
  "permissions_serialize p = show_u64 p"

definition permissions_deserialize :: "string \<Rightarrow> permissions option" where
  "permissions_deserialize s = parse_u64 s"

section \<open>Entities\<close>

datatype channel_type = CT_Text | CT_Voice | CT_Category

datatype overwrite_target = OT_Role role_id | OT_Member user_id

record guild =
  g_id :: guild_id
  g_name :: string
  g_owner_id :: user_id

record role =
  r_id :: role_id
  r_name :: string
  r_permissions :: permissions
  r_position :: "32 word"
  r_managed :: bool

record permission_overwrite =
  po_target :: overwrite_target
  po_allow :: permissions
  po_deny :: permissions

record channel =
  c_id :: channel_id
  c_name :: string
  c_channel_type :: channel_type
  c_parent_id :: "channel_id option"
  c_position :: "32 word"
  c_overwrites :: "permission_overwrite list"

record member =
  m_user_id :: user_id
  m_roles :: "role_id list"

record guild_state =
  gs_guild :: guild
  gs_roles :: "role list"
  gs_channels :: "channel list"
  gs_members :: "member list"

section \<open>Properties\<close>

lemma permissions_contains_iff:
  "permissions_contains p q \<longleftrightarrow> (\<forall>i. bit q i \<longrightarrow> bit p i)"
proof
  assume "permissions_contains p q"
  then have "bit (p AND q) i = bit q i" for i by (simp add: permissions_contains_def)
  then show "\<forall>i. bit q i \<longrightarrow> bit p i" by (simp add: bit_and_iff) blast
next
  assume "\<forall>i. bit q i \<longrightarrow> bit p i"
  then have "p AND q = q" by (intro bit_eqI) (auto simp: bit_and_iff)
  then show "permissions_contains p q" by (simp add: permissions_contains_def)
qed

lemma permissions_contains_all [simp]:
  "permissions_contains permissions_all VIEW_CHANNEL"
  "permissions_contains permissions_all SEND_MESSAGES"
  "permissions_contains permissions_all ADMINISTRATOR"
  by (simp_all add: permissions_contains_def permissions_all_def permission_defs)

lemma permissions_round_trip: "permissions_deserialize (permissions_serialize p) = Some p"
  by (simp add: permissions_deserialize_def permissions_serialize_def)

lemma id_round_trip: "id_deserialize (id_serialize n) = Some n"
  by (simp add: id_deserialize_def id_serialize_def id_from_str_def)

end
