(* ===== verification/Desired_State.thy ===== *)
theory Desired_State
  imports Ordered_Map Discord_Model
begin

text \<open>
  The crate \<open>desired-state\<close>: the declarative description of a guild (roles, channels, features, scope)
  and its static validation. A \<open>ResourceKey\<close> is a newtype over \<open>String\<close> with the derived order, so it
  is a string here; the \<open>BTreeMap\<close> of per-role grants is an ordered map.
\<close>

section \<open>Data\<close>

type_synonym resource_key = string

datatype match_strategy = ByName | ByExplicitId string

datatype ownership = Managed | Adopted | Referenced

datatype resource_state = Present | Absent

record identity =
  id_key :: resource_key
  id_match_by :: match_strategy
  id_ownership :: ownership
  id_state :: resource_state

datatype capability =
  View | Send | ReadHistory | AddReactions | AttachFiles | EmbedLinks | ManageMessages | Connect | Speak

record access_grant =
  ag_allow :: "capability list"
  ag_deny :: "capability list"

record access_intent =
  ai_everyone :: "access_grant option"
  ai_roles :: "(resource_key, access_grant) bmap"

datatype overwrite_op = OO_Add | OO_Remove | OO_Replace

datatype overwrite_target_intent = OTI_Role resource_key | OTI_Member string

record permission_overwrite_intent =
  poi_target :: overwrite_target_intent
  poi_op :: overwrite_op
  poi_allow :: permissions
  poi_deny :: permissions

record role_intent =
  ri_identity :: identity
  ri_name :: "string option"
  ri_permissions :: "permissions option"

record channel_intent =
  ci_identity :: identity
  ci_name :: "string option"
  ci_channel_type :: "channel_type option"
  ci_parent :: "resource_key option"
  ci_access :: "access_intent option"
  ci_raw_overwrites :: "permission_overwrite_intent list option"

record verification_intent =
  vi_identity :: identity
  vi_channel :: resource_key
  vi_grants_role :: resource_key

datatype feature_intent =
  FI_Verification verification_intent | FI_Moderation | FI_Logging

fun feature_identity :: "feature_intent \<Rightarrow> identity option" where
  "feature_identity (FI_Verification v) = Some (vi_identity v)"
| "feature_identity FI_Moderation = None"
| "feature_identity FI_Logging = None"

datatype desired_state_mode = Patch | ScopedAuthoritative | FullAuthoritative

datatype resource_scope = RS_All | RS_Keys "resource_key list" | RS_NamePrefix string

record scope =
  sc_roles :: "resource_scope option"
  sc_channels :: "resource_scope option"

record desired_state =
  ds_mode :: desired_state_mode
  ds_scope :: "scope option"
  ds_roles :: "role_intent list"
  ds_channels :: "channel_intent list"
  ds_features :: "feature_intent list"

section \<open>Validation\<close>

datatype validation_error =
  DuplicateKey string
| DanglingReference string
| ScopeWithoutScopedMode
| ScopedModeWithoutScope
| ReferencedNotMutable string
| AbsentRequiresOwnership string
| MatchByNameRequiresName string

definition declared_keys :: "desired_state \<Rightarrow> resource_key list" where
  "declared_keys d =
     map (\<lambda>r. id_key (ri_identity r)) (ds_roles d) @
     map (\<lambda>c. id_key (ci_identity c)) (ds_channels d) @
     map id_key (List.map_filter feature_identity (ds_features d))"

text \<open>The loop of \<open>check_key_uniqueness\<close>, with the set of keys seen so far.\<close>

fun duplicate_errors :: "resource_key set \<Rightarrow> resource_key list \<Rightarrow> validation_error list" where
  "duplicate_errors seen [] = []"
| "duplicate_errors seen (k # ks) =
     (if k \<in> seen then DuplicateKey k # duplicate_errors seen ks
      else duplicate_errors (insert k seen) ks)"

definition check_key_uniqueness :: "desired_state \<Rightarrow> validation_error list" where
  "check_key_uniqueness d = duplicate_errors {} (declared_keys d)"

fun raw_overwrite_reference :: "permission_overwrite_intent \<Rightarrow> resource_key option" where
  "raw_overwrite_reference p =
     (case poi_target p of OTI_Role k \<Rightarrow> Some k | OTI_Member m \<Rightarrow> None)"

definition channel_references :: "channel_intent \<Rightarrow> resource_key list" where
  "channel_references c =
     (case ci_parent c of None \<Rightarrow> [] | Some p \<Rightarrow> [p]) @
     (case ci_access c of None \<Rightarrow> [] | Some a \<Rightarrow> map fst (ai_roles a)) @
     (case ci_raw_overwrites c of None \<Rightarrow> []
      | Some raws \<Rightarrow> List.map_filter raw_overwrite_reference raws)"

fun feature_references :: "feature_intent \<Rightarrow> resource_key list" where
  "feature_references (FI_Verification v) = [vi_channel v, vi_grants_role v]"
| "feature_references FI_Moderation = []"
| "feature_references FI_Logging = []"

definition check_reference_integrity :: "desired_state \<Rightarrow> validation_error list" where
  "check_reference_integrity d =
     (let declared = set (declared_keys d);
          references = concat (map channel_references (ds_channels d)) @
                       concat (map feature_references (ds_features d))
      in map DanglingReference (filter (\<lambda>k. k \<notin> declared) references))"

definition check_mode_scope :: "desired_state \<Rightarrow> validation_error list" where
  "check_mode_scope d =
     (case (ds_mode d, ds_scope d \<noteq> None) of
        (ScopedAuthoritative, False) \<Rightarrow> [ScopedModeWithoutScope]
      | (ScopedAuthoritative, True) \<Rightarrow> []
      | (_, True) \<Rightarrow> [ScopeWithoutScopedMode]
      | (_, False) \<Rightarrow> [])"

definition check_one_ownership_state :: "identity \<Rightarrow> bool \<Rightarrow> validation_error list" where
  "check_one_ownership_state i mutated =
     (if id_ownership i = Referenced \<and> mutated then [ReferencedNotMutable (id_key i)] else []) @
     (if id_state i = Absent \<and> id_ownership i = Referenced
      then [AbsentRequiresOwnership (id_key i)] else [])"

definition role_mutated :: "role_intent \<Rightarrow> bool" where
  "role_mutated r \<longleftrightarrow> ri_name r \<noteq> None \<or> ri_permissions r \<noteq> None"

definition channel_mutated :: "channel_intent \<Rightarrow> bool" where
  "channel_mutated c \<longleftrightarrow>
     ci_name c \<noteq> None \<or> ci_channel_type c \<noteq> None \<or> ci_parent c \<noteq> None \<or>
     ci_access c \<noteq> None \<or> ci_raw_overwrites c \<noteq> None"

definition check_ownership_state :: "desired_state \<Rightarrow> validation_error list" where
  "check_ownership_state d =
     concat (map (\<lambda>r. check_one_ownership_state (ri_identity r) (role_mutated r)) (ds_roles d)) @
     concat (map (\<lambda>c. check_one_ownership_state (ci_identity c) (channel_mutated c)) (ds_channels d))"

definition check_match_name :: "desired_state \<Rightarrow> validation_error list" where
  "check_match_name d =
     concat (map (\<lambda>r. if id_match_by (ri_identity r) = ByName \<and> ri_name r = None
        then [MatchByNameRequiresName (id_key (ri_identity r))] else []) (ds_roles d)) @
     concat (map (\<lambda>c. if id_match_by (ci_identity c) = ByName \<and> ci_name c = None
        then [MatchByNameRequiresName (id_key (ci_identity c))] else []) (ds_channels d))"

definition validate :: "desired_state \<Rightarrow> (validation_error list, unit) result" where
  "validate d =
     (let errors = check_key_uniqueness d @ check_reference_integrity d @ check_mode_scope d @
                   check_ownership_state d @ check_match_name d
      in if errors = [] then Ok () else Err errors)"

section \<open>What validation establishes\<close>

definition references_of :: "desired_state \<Rightarrow> resource_key set" where
  "references_of d =
     (\<Union>c \<in> set (ds_channels d). set (channel_references c)) \<union>
     (\<Union>f \<in> set (ds_features d). set (feature_references f))"

text \<open>The identities of the roles and channels, each with what the intent says about it: whether it
  asks for a change and whether it gives a name.\<close>

definition resource_intents :: "desired_state \<Rightarrow> (identity \<times> bool \<times> string option) set" where
  "resource_intents d =
     (\<lambda>r. (ri_identity r, role_mutated r, ri_name r)) ` set (ds_roles d) \<union>
     (\<lambda>c. (ci_identity c, channel_mutated c, ci_name c)) ` set (ds_channels d)"

text \<open>The declarative meaning of each error.\<close>

fun violation :: "desired_state \<Rightarrow> validation_error \<Rightarrow> bool" where
  "violation d (DuplicateKey k) \<longleftrightarrow> 2 \<le> count_list (declared_keys d) k"
| "violation d (DanglingReference k) \<longleftrightarrow> k \<in> references_of d \<and> k \<notin> set (declared_keys d)"
| "violation d ScopeWithoutScopedMode \<longleftrightarrow> ds_scope d \<noteq> None \<and> ds_mode d \<noteq> ScopedAuthoritative"
| "violation d ScopedModeWithoutScope \<longleftrightarrow> ds_scope d = None \<and> ds_mode d = ScopedAuthoritative"
| "violation d (ReferencedNotMutable k) \<longleftrightarrow>
     (\<exists>(i, mutated, n) \<in> resource_intents d. id_key i = k \<and> id_ownership i = Referenced \<and> mutated)"
| "violation d (AbsentRequiresOwnership k) \<longleftrightarrow>
     (\<exists>(i, mutated, n) \<in> resource_intents d.
        id_key i = k \<and> id_ownership i = Referenced \<and> id_state i = Absent)"
| "violation d (MatchByNameRequiresName k) \<longleftrightarrow>
     (\<exists>(i, mutated, n) \<in> resource_intents d. id_key i = k \<and> id_match_by i = ByName \<and> n = None)"

lemma mem_duplicate_errors:
  "e \<in> set (duplicate_errors seen ks) \<longleftrightarrow>
     (\<exists>k. e = DuplicateKey k \<and> k \<in> set ks \<and> (k \<in> seen \<or> 2 \<le> count_list ks k))"
proof (induction seen ks rule: duplicate_errors.induct)
  case (1 seen)
  then show ?case by simp
next
  case (2 seen k ks)
  have "Suc 0 \<le> count_list ks k \<longleftrightarrow> k \<in> set ks"
    by (metis count_list_0_iff not_less_eq_eq le_zero_eq)
  then show ?case
    using 2 by (cases "k \<in> seen") (auto simp: numeral_2_eq_2)
qed

lemma mem_check_key_uniqueness:
  "e \<in> set (check_key_uniqueness d) \<longleftrightarrow> (\<exists>k. e = DuplicateKey k) \<and> violation d e"
proof -
  have "2 \<le> count_list ks k \<Longrightarrow> k \<in> set ks" for ks :: "string list" and k
    by (metis count_notin not_numeral_le_zero)
  then show ?thesis by (auto simp: check_key_uniqueness_def mem_duplicate_errors)
qed

lemma mem_check_reference_integrity:
  "e \<in> set (check_reference_integrity d) \<longleftrightarrow> (\<exists>k. e = DanglingReference k) \<and> violation d e"
  by (cases e) (auto simp: check_reference_integrity_def references_of_def Let_def image_iff)

lemma mem_check_mode_scope:
  "e \<in> set (check_mode_scope d) \<longleftrightarrow>
     e \<in> {ScopeWithoutScopedMode, ScopedModeWithoutScope} \<and> violation d e"
  by (cases "ds_mode d"; cases "ds_scope d") (auto simp: check_mode_scope_def)

lemma mem_check_one_ownership_state:
  "e \<in> set (check_one_ownership_state i m) \<longleftrightarrow>
     e = ReferencedNotMutable (id_key i) \<and> id_ownership i = Referenced \<and> m \<or>
     e = AbsentRequiresOwnership (id_key i) \<and> id_ownership i = Referenced \<and> id_state i = Absent"
  by (auto simp: check_one_ownership_state_def)

lemma mem_check_ownership_state:
  "e \<in> set (check_ownership_state d) \<longleftrightarrow>
     (\<exists>k. e = ReferencedNotMutable k \<or> e = AbsentRequiresOwnership k) \<and> violation d e"
  by (cases e)
    (auto simp: check_ownership_state_def mem_check_one_ownership_state resource_intents_def bex_Un)

lemma mem_check_match_name:
  "e \<in> set (check_match_name d) \<longleftrightarrow> (\<exists>k. e = MatchByNameRequiresName k) \<and> violation d e"
  unfolding check_match_name_def set_append set_concat_if
  by (cases e) (auto simp: resource_intents_def bex_Un)

lemmas mem_checks =
  mem_check_key_uniqueness mem_check_reference_integrity mem_check_mode_scope
  mem_check_ownership_state mem_check_match_name

text \<open>C1: validation reports exactly the violations of the desired state: it accepts when there is
  none, and otherwise the set of reported errors is the set of violations (duplicate keys, references to
  undeclared keys, scope and mode that disagree, changes to or deletion of a referenced resource, a
  resource matched by name without a name).\<close>

theorem validate_reports_violations:
  "case validate d of
     Ok u \<Rightarrow> {e. violation d e} = {}
   | Err es \<Rightarrow> set es = {e. violation d e} \<and> es \<noteq> []
   | Panic \<Rightarrow> False"
proof -
  have "e \<in> set (check_key_uniqueness d @ check_reference_integrity d @ check_mode_scope d @
             check_ownership_state d @ check_match_name d) \<longleftrightarrow> violation d e" for e
    unfolding set_append Un_iff mem_checks by (cases e) simp_all
  then have "set (check_key_uniqueness d @ check_reference_integrity d @ check_mode_scope d @
             check_ownership_state d @ check_match_name d) = {e. violation d e}"
    by blast
  then show ?thesis by (auto simp: validate_def Let_def)
qed

section \<open>An example\<close>

text \<open>A small desired state, carried through the development as the concrete input of the witnesses: one role and
  one channel that only the role may see.\<close>

definition ex_identity :: "resource_key \<Rightarrow> identity" where
  "ex_identity k = \<lparr>id_key = k, id_match_by = ByName, id_ownership = Managed, id_state = Present\<rparr>"

definition example_state :: desired_state where
  "example_state =
     \<lparr>ds_mode = Patch, ds_scope = None,
      ds_roles = [\<lparr>ri_identity = ex_identity ''m'', ri_name = Some ''Member'', ri_permissions = Some 0\<rparr>],
      ds_channels = [\<lparr>ci_identity = ex_identity ''c'', ci_name = Some ''chat'', ci_channel_type = Some CT_Text,
         ci_parent = None,
         ci_access = Some \<lparr>ai_everyone = Some \<lparr>ag_allow = [], ag_deny = [View]\<rparr>,
            ai_roles = [(''m'', \<lparr>ag_allow = [View], ag_deny = []\<rparr>)]\<rparr>,
         ci_raw_overwrites = None\<rparr>],
      ds_features = []\<rparr>"

end
