(* ===== verification/Desired_Compiler.thy ===== *)
theory Desired_Compiler
  imports Desired_State
begin

text \<open>
  The crate \<open>desired-compiler\<close>: capabilities become permission bits and the grants and raw overwrites
  of a channel are merged into one overwrite per target. The \<open>BTreeMap\<close> keyed by target is an ordered
  map over the derived order of \<open>NormalizedTarget\<close>.
\<close>

section \<open>Capabilities\<close>

fun capability_to_permission :: "capability \<Rightarrow> permissions" where
  "capability_to_permission View = VIEW_CHANNEL"
| "capability_to_permission Send = SEND_MESSAGES"
| "capability_to_permission ReadHistory = READ_MESSAGE_HISTORY"
| "capability_to_permission AddReactions = ADD_REACTIONS"
| "capability_to_permission AttachFiles = ATTACH_FILES"
| "capability_to_permission EmbedLinks = EMBED_LINKS"
| "capability_to_permission ManageMessages = MANAGE_MESSAGES"
| "capability_to_permission Connect = CONNECT"
| "capability_to_permission Speak = SPEAK"

definition capabilities_to_permissions :: "capability list \<Rightarrow> permissions" where
  "capabilities_to_permissions caps =
     foldl (\<lambda>acc cap. acc OR capability_to_permission cap) 0 caps"

section \<open>Normalized state\<close>

datatype normalized_target = NT_Everyone | NT_Role resource_key | NT_Member string

text \<open>The derived order: by variant, then by content.\<close>

fun target_rank :: "normalized_target \<Rightarrow> nat \<times> string" where
  "target_rank NT_Everyone = (0, [])"
| "target_rank (NT_Role k) = (1, k)"
| "target_rank (NT_Member m) = (2, m)"

instantiation normalized_target :: linorder
begin

definition less_eq_normalized_target :: "normalized_target \<Rightarrow> normalized_target \<Rightarrow> bool" where
  "less_eq_normalized_target a b \<longleftrightarrow>
     fst (target_rank a) < fst (target_rank b) \<or>
     fst (target_rank a) = fst (target_rank b) \<and> snd (target_rank a) \<le> snd (target_rank b)"

definition less_normalized_target :: "normalized_target \<Rightarrow> normalized_target \<Rightarrow> bool" where
  "less_normalized_target a b \<longleftrightarrow>
     fst (target_rank a) < fst (target_rank b) \<or>
     fst (target_rank a) = fst (target_rank b) \<and> snd (target_rank a) < snd (target_rank b)"

instance
proof
  fix a b c :: normalized_target
  show "a < b \<longleftrightarrow> a \<le> b \<and> \<not> b \<le> a"
    by (auto simp: less_eq_normalized_target_def less_normalized_target_def)
  show "a \<le> a"
    by (simp add: less_eq_normalized_target_def)
  show "a \<le> b \<Longrightarrow> b \<le> c \<Longrightarrow> a \<le> c"
    by (auto simp: less_eq_normalized_target_def)
  show "a \<le> b \<or> b \<le> a"
    by (auto simp: less_eq_normalized_target_def)
  show "a \<le> b \<Longrightarrow> b \<le> a \<Longrightarrow> a = b"
    by (cases a; cases b) (auto simp: less_eq_normalized_target_def)
qed

end

record normalized_overwrite =
  no_target :: normalized_target
  no_allow :: permissions
  no_deny :: permissions

record normalized_role =
  nr_identity :: identity
  nr_name :: "string option"
  nr_permissions :: "permissions option"

record normalized_channel =
  nc_identity :: identity
  nc_name :: "string option"
  nc_channel_type :: "channel_type option"
  nc_parent :: "resource_key option"
  nc_overwrites :: "normalized_overwrite list"

record normalized_verification_panel =
  nv_identity :: identity
  nv_channel :: resource_key
  nv_grants_role :: resource_key

record normalized_desired_state =
  nd_mode :: desired_state_mode
  nd_scope :: "scope option"
  nd_roles :: "normalized_role list"
  nd_channels :: "normalized_channel list"
  nd_verification_panels :: "normalized_verification_panel list"

datatype compile_error = PermissionConflict (pc_channel: string) (pc_target: string)

section \<open>Compilation\<close>

definition normalize_role :: "role_intent \<Rightarrow> normalized_role" where
  "normalize_role r =
     \<lparr>nr_identity = ri_identity r, nr_name = ri_name r, nr_permissions = ri_permissions r\<rparr>"

definition normalize_verification :: "verification_intent \<Rightarrow> normalized_verification_panel" where
  "normalize_verification v =
     \<lparr>nv_identity = vi_identity v, nv_channel = vi_channel v, nv_grants_role = vi_grants_role v\<rparr>"

fun normalize_feature :: "feature_intent \<Rightarrow> normalized_verification_panel option" where
  "normalize_feature (FI_Verification v) = Some (normalize_verification v)"
| "normalize_feature FI_Moderation = None"
| "normalize_feature FI_Logging = None"

type_synonym overwrite_bits = "permissions \<times> permissions"

definition apply_grant :: "access_grant \<Rightarrow> overwrite_bits \<Rightarrow> overwrite_bits" where
  "apply_grant grant entry =
     (fst entry OR capabilities_to_permissions (ag_allow grant),
      snd entry OR capabilities_to_permissions (ag_deny grant))"

definition apply_raw :: "permission_overwrite_intent \<Rightarrow> overwrite_bits \<Rightarrow> overwrite_bits" where
  "apply_raw raw entry =
     (case poi_op raw of
        OO_Add \<Rightarrow> (fst entry OR poi_allow raw, snd entry OR poi_deny raw)
      | OO_Remove \<Rightarrow> (fst entry AND NOT (poi_allow raw), snd entry AND NOT (poi_deny raw))
      | OO_Replace \<Rightarrow> (poi_allow raw, poi_deny raw))"

fun raw_target :: "overwrite_target_intent \<Rightarrow> normalized_target" where
  "raw_target (OTI_Role k) = NT_Role k"
| "raw_target (OTI_Member m) = NT_Member m"

fun target_label :: "normalized_target \<Rightarrow> string" where
  "target_label NT_Everyone = ''everyone''"
| "target_label (NT_Role k) = k"
| "target_label (NT_Member m) = m"

text \<open>The edits of the map in the order the code makes them: the grant to everyone, the grants to the
  roles in key order, the raw overwrites in list order. Each edit is \<open>entry(target).or_default()\<close>
  followed by the mutation.\<close>

definition access_edits :: "access_intent \<Rightarrow> (normalized_target \<times> (overwrite_bits \<Rightarrow> overwrite_bits)) list" where
  "access_edits a =
     (case ai_everyone a of None \<Rightarrow> [] | Some grant \<Rightarrow> [(NT_Everyone, apply_grant grant)]) @
     map (\<lambda>(key, grant). (NT_Role key, apply_grant grant)) (ai_roles a)"

definition raw_edits :: "permission_overwrite_intent list \<Rightarrow> (normalized_target \<times> (overwrite_bits \<Rightarrow> overwrite_bits)) list" where
  "raw_edits raws = map (\<lambda>raw. (raw_target (poi_target raw), apply_raw raw)) raws"

definition channel_edits :: "channel_intent \<Rightarrow> (normalized_target \<times> (overwrite_bits \<Rightarrow> overwrite_bits)) list" where
  "channel_edits c =
     (case ci_access c of None \<Rightarrow> [] | Some a \<Rightarrow> access_edits a) @
     (case ci_raw_overwrites c of None \<Rightarrow> [] | Some raws \<Rightarrow> raw_edits raws)"

fun apply_edits :: "(normalized_target \<times> (overwrite_bits \<Rightarrow> overwrite_bits)) list \<Rightarrow>
    (normalized_target, overwrite_bits) bmap \<Rightarrow> (normalized_target, overwrite_bits) bmap" where
  "apply_edits [] m = m"
| "apply_edits ((target, edit) # edits) m = apply_edits edits (bm_modify (0, 0) edit target m)"

definition overwrite_map :: "channel_intent \<Rightarrow> (normalized_target, overwrite_bits) bmap" where
  "overwrite_map c = apply_edits (channel_edits c) []"

fun split_entries :: "string \<Rightarrow> (normalized_target \<times> overwrite_bits) list \<Rightarrow>
    compile_error list \<times> normalized_overwrite list" where
  "split_entries key [] = ([], [])"
| "split_entries key ((target, (allow, deny)) # entries) =
     (let (errors, overwrites) = split_entries key entries in
      if allow AND deny \<noteq> 0 then (PermissionConflict key (target_label target) # errors, overwrites)
      else (errors, \<lparr>no_target = target, no_allow = allow, no_deny = deny\<rparr> # overwrites))"

definition normalize_channel :: "channel_intent \<Rightarrow> (compile_error list, normalized_channel) result" where
  "normalize_channel c =
     (let (errors, overwrites) = split_entries (id_key (ci_identity c)) (overwrite_map c) in
      if errors \<noteq> [] then Err errors
      else Ok \<lparr>nc_identity = ci_identity c, nc_name = ci_name c, nc_channel_type = ci_channel_type c,
               nc_parent = ci_parent c, nc_overwrites = overwrites\<rparr>)"

fun normalize_channels :: "channel_intent list \<Rightarrow> compile_error list \<times> normalized_channel list" where
  "normalize_channels [] = ([], [])"
| "normalize_channels (c # cs) =
     (let (errors, channels) = normalize_channels cs in
      case normalize_channel c of
        Ok n \<Rightarrow> (errors, n # channels)
      | Err es \<Rightarrow> (es @ errors, channels)
      | Panic \<Rightarrow> (errors, channels))"

definition compile :: "desired_state \<Rightarrow> (compile_error list, normalized_desired_state) result" where
  "compile d =
     (let (errors, channels) = normalize_channels (ds_channels d) in
      if errors \<noteq> [] then Err errors
      else Ok \<lparr>nd_mode = ds_mode d, nd_scope = ds_scope d,
               nd_roles = map normalize_role (ds_roles d),
               nd_channels = channels,
               nd_verification_panels = List.map_filter normalize_feature (ds_features d)\<rparr>)"

section \<open>The merged overwrites\<close>

text \<open>The specification: what a channel says about one target is the composition of the edits for
  that target alone, starting from no bits; a target with no edit has no overwrite.\<close>

definition target_edits :: "channel_intent \<Rightarrow> normalized_target \<Rightarrow> (overwrite_bits \<Rightarrow> overwrite_bits) list" where
  "target_edits c t = map snd (filter (\<lambda>e. fst e = t) (channel_edits c))"

definition declared_bits :: "channel_intent \<Rightarrow> normalized_target \<Rightarrow> overwrite_bits option" where
  "declared_bits c t =
     (if target_edits c t = [] then None else Some (fold (\<lambda>f. f) (target_edits c t) (0, 0)))"

lemma bm_invar_apply_edits: "bm_invar m \<Longrightarrow> bm_invar (apply_edits edits m)"
  by (induction edits m rule: apply_edits.induct) (simp_all add: bm_simps)

lemma bm_get_apply_edits:
  "bm_invar m \<Longrightarrow>
   bm_get (apply_edits edits m) t =
     (let fs = map snd (filter (\<lambda>e. fst e = t) edits) in
      if fs = [] then bm_get m t
      else Some (fold (\<lambda>f. f) fs (case bm_get m t of None \<Rightarrow> (0, 0) | Some v \<Rightarrow> v)))"
  by (induction edits m rule: apply_edits.induct) (auto simp: bm_simps Let_def)

lemma overwrite_map_refines:
  "bm_invar (overwrite_map c)" "bm_get (overwrite_map c) t = declared_bits c t"
  by (simp_all add: overwrite_map_def bm_invar_apply_edits bm_get_apply_edits declared_bits_def
      target_edits_def bm.invar_empty Let_def)

lemma split_entries_errors:
  "fst (split_entries key es) =
     map (\<lambda>e. PermissionConflict key (target_label (fst e)))
       (filter (\<lambda>e. fst (snd e) AND snd (snd e) \<noteq> 0) es)"
  by (induction key es rule: split_entries.induct) (auto simp: Let_def split: prod.splits)

lemma split_entries_overwrites:
  "snd (split_entries key es) =
     map (\<lambda>e. \<lparr>no_target = fst e, no_allow = fst (snd e), no_deny = snd (snd e)\<rparr>)
       (filter (\<lambda>e. fst (snd e) AND snd (snd e) = 0) es)"
  by (induction key es rule: split_entries.induct) (auto simp: Let_def split: prod.splits)

lemma overwrite_map_mem: "(t, v) \<in> set (overwrite_map c) \<longleftrightarrow> declared_bits c t = Some v"
  using bm.entries_get [OF overwrite_map_refines(1)] by (simp add: overwrite_map_refines(2))

text \<open>A channel conflicts when some target would be allowed and denied the same bit.\<close>

definition conflicting :: "channel_intent \<Rightarrow> normalized_target \<Rightarrow> bool" where
  "conflicting c t \<longleftrightarrow> (\<exists>a d. declared_bits c t = Some (a, d) \<and> a AND d \<noteq> 0)"

lemma normalize_channel_Err_iff:
  "(\<exists>es. normalize_channel c = Err es) \<longleftrightarrow> (\<exists>t. conflicting c t)"
proof -
  have "fst (split_entries key (overwrite_map c)) \<noteq> [] \<longleftrightarrow> (\<exists>t. conflicting c t)" for key
  proof -
    have "fst (split_entries key (overwrite_map c)) \<noteq> [] \<longleftrightarrow>
        (\<exists>t a d. (t, (a, d)) \<in> set (overwrite_map c) \<and> a AND d \<noteq> 0)"
      by (force simp: split_entries_errors filter_empty_conv)
    then show ?thesis by (simp add: overwrite_map_mem conflicting_def)
  qed
  from this [of "id_key (ci_identity c)"] show ?thesis
    by (cases "split_entries (id_key (ci_identity c)) (overwrite_map c)")
      (auto simp: normalize_channel_def)
qed

lemma normalize_channel_neq_Panic: "normalize_channel c \<noteq> Panic"
  by (simp add: normalize_channel_def Let_def split: prod.splits)

definition overwrite_entry :: "normalized_overwrite \<Rightarrow> normalized_target \<times> overwrite_bits" where
  "overwrite_entry w = (no_target w, (no_allow w, no_deny w))"

lemma normalize_channel_OkD:
  assumes "normalize_channel c = Ok n"
  shows "nc_identity n = ci_identity c" "nc_name n = ci_name c"
    "nc_channel_type n = ci_channel_type c" "nc_parent n = ci_parent c"
    "map overwrite_entry (nc_overwrites n) = overwrite_map c"
    "\<forall>w \<in> set (nc_overwrites n). no_allow w AND no_deny w = 0"
proof -
  obtain errors overwrites
    where split: "split_entries (id_key (ci_identity c)) (overwrite_map c) = (errors, overwrites)"
    by (cases "split_entries (id_key (ci_identity c)) (overwrite_map c)")
  with assms have "errors = []" and n: "n = \<lparr>nc_identity = ci_identity c, nc_name = ci_name c,
      nc_channel_type = ci_channel_type c, nc_parent = ci_parent c, nc_overwrites = overwrites\<rparr>"
    by (simp_all add: normalize_channel_def split: if_splits)
  then have "filter (\<lambda>e. fst (snd e) AND snd (snd e) \<noteq> 0) (overwrite_map c) = []"
    using split_entries_errors [of "id_key (ci_identity c)" "overwrite_map c"] split by simp
  then have clean: "\<forall>e \<in> set (overwrite_map c). fst (snd e) AND snd (snd e) = 0"
    by (simp add: filter_empty_conv)
  then have ow: "overwrites = map (\<lambda>e. \<lparr>no_target = fst e, no_allow = fst (snd e), no_deny = snd (snd e)\<rparr>)
      (overwrite_map c)"
    using split_entries_overwrites [of "id_key (ci_identity c)" "overwrite_map c"] split by simp
  show "map overwrite_entry (nc_overwrites n) = overwrite_map c"
    by (simp add: n ow overwrite_entry_def comp_def)
  show "\<forall>w \<in> set (nc_overwrites n). no_allow w AND no_deny w = 0"
    using clean by (simp add: n ow)
qed (use assms in \<open>auto simp: normalize_channel_def Let_def split: prod.splits if_splits\<close>)

lemma normalize_channels_correct:
  "fst (normalize_channels cs) = [] \<longleftrightarrow> (\<forall>c \<in> set cs. \<exists>n. normalize_channel c = Ok n)"
  "fst (normalize_channels cs) = [] \<Longrightarrow>
     map Ok (snd (normalize_channels cs)) = map normalize_channel cs"
proof -
  have err: "normalize_channel c = Err es \<Longrightarrow> es \<noteq> []" for c es
    by (auto simp: normalize_channel_def Let_def split: prod.splits if_splits)
  show "fst (normalize_channels cs) = [] \<longleftrightarrow> (\<forall>c \<in> set cs. \<exists>n. normalize_channel c = Ok n)"
    by (induction cs)
      (auto simp: Let_def normalize_channel_neq_Panic split: prod.splits result.splits dest: err)
  show "map Ok (snd (normalize_channels cs)) = map normalize_channel cs"
    if "fst (normalize_channels cs) = []"
    using that by (induction cs)
      (auto simp: Let_def normalize_channel_neq_Panic split: prod.splits result.splits dest: err)
qed

lemma compile_channels:
  assumes "compile d = Ok n"
  shows "map Ok (nd_channels n) = map normalize_channel (ds_channels d)"
proof -
  obtain errors channels where eq: "normalize_channels (ds_channels d) = (errors, channels)"
    by (cases "normalize_channels (ds_channels d)")
  with assms have "errors = []" "nd_channels n = channels"
    by (auto simp: compile_def split: if_splits)
  with eq normalize_channels_correct(2) [of "ds_channels d"] show ?thesis by simp
qed

text \<open>C2: compilation fails exactly when some channel would both allow and deny a bit for some target,
  and a compiled state has one normalized channel per channel intent, in order.\<close>

theorem compile_succeeds_iff_no_conflict:
  "(\<exists>n. compile d = Ok n) \<longleftrightarrow> (\<forall>c \<in> set (ds_channels d). \<forall>t. \<not> conflicting c t)"
proof -
  have "(\<exists>n. normalize_channel c = Ok n) \<longleftrightarrow> (\<forall>t. \<not> conflicting c t)" for c
    using normalize_channel_Err_iff [of c] normalize_channel_neq_Panic [of c]
    by (cases "normalize_channel c") auto
  then have "(\<forall>c \<in> set (ds_channels d). \<forall>t. \<not> conflicting c t) \<longleftrightarrow>
      fst (normalize_channels (ds_channels d)) = []"
    by (simp add: normalize_channels_correct(1))
  then show ?thesis
    by (cases "normalize_channels (ds_channels d)") (auto simp: compile_def)
qed

text \<open>C3: in a compiled state every channel lists one overwrite per declared target in strictly
  increasing target order; its bits are the composition of the edits for that target alone, and no bit
  is both allowed and denied.\<close>

theorem compile_overwrites_exact:
  assumes "compile d = Ok n" and "i < length (ds_channels d)"
  shows "length (nd_channels n) = length (ds_channels d) \<and>
    sorted_wrt (<) (map no_target (nc_overwrites (nd_channels n ! i))) \<and>
    (\<forall>t a b. (t, (a, b)) \<in> overwrite_entry ` set (nc_overwrites (nd_channels n ! i)) \<longleftrightarrow>
         declared_bits (ds_channels d ! i) t = Some (a, b)) \<and>
    (\<forall>w \<in> set (nc_overwrites (nd_channels n ! i)). no_allow w AND no_deny w = 0)"
proof -
  have ch: "map Ok (nd_channels n) = map normalize_channel (ds_channels d)"
    using compile_channels [OF assms(1)] .
  then have len: "length (nd_channels n) = length (ds_channels d)" by (metis length_map)
  with ch assms(2) have ok: "normalize_channel (ds_channels d ! i) = Ok (nd_channels n ! i)"
    by (metis nth_map)
  note facts = normalize_channel_OkD [OF ok]
  have "map no_target (nc_overwrites (nd_channels n ! i)) =
      map fst (map overwrite_entry (nc_overwrites (nd_channels n ! i)))"
    by (simp add: overwrite_entry_def)
  then have "sorted_wrt (<) (map no_target (nc_overwrites (nd_channels n ! i)))"
    using overwrite_map_refines(1) [of "ds_channels d ! i"] by (simp add: bm_invar_def facts(5))
  moreover have "(t, (a, b)) \<in> overwrite_entry ` set (nc_overwrites (nd_channels n ! i)) \<longleftrightarrow>
      declared_bits (ds_channels d ! i) t = Some (a, b)" for t a b
    using overwrite_map_mem [of t "(a, b)" "ds_channels d ! i"]
    unfolding facts(5) [symmetric] by simp
  ultimately show ?thesis using len facts(6) by blast
qed

section \<open>An example\<close>

definition example_normalized :: normalized_desired_state where
  "example_normalized =
     \<lparr>nd_mode = Patch, nd_scope = None,
      nd_roles = [\<lparr>nr_identity = ex_identity ''m'', nr_name = Some ''Member'', nr_permissions = Some 0\<rparr>],
      nd_channels = [\<lparr>nc_identity = ex_identity ''c'', nc_name = Some ''chat'', nc_channel_type = Some CT_Text,
         nc_parent = None,
         nc_overwrites = [\<lparr>no_target = NT_Everyone, no_allow = 0, no_deny = VIEW_CHANNEL\<rparr>,
           \<lparr>no_target = NT_Role ''m'', no_allow = VIEW_CHANNEL, no_deny = 0\<rparr>]\<rparr>],
      nd_verification_panels = []\<rparr>"

lemmas compile_eval = compile_def normalize_role_def normalize_channel_def overwrite_map_def channel_edits_def
  access_edits_def raw_edits_def apply_grant_def capabilities_to_permissions_def bm_modify_def Let_def
  permission_defs List.map_filter_def less_normalized_target_def

lemma compile_example: "compile example_state = Ok example_normalized"
  by (simp add: compile_eval example_state_def example_normalized_def ex_identity_def)

theorem compile_succeeds_iff_no_conflict_witness:
  "compile example_state = Ok example_normalized \<and> (\<forall>t. \<not> conflicting (hd (ds_channels example_state)) t)"
  using compile_succeeds_iff_no_conflict [of example_state] compile_example
  by (simp add: example_state_def)

theorem compile_overwrites_exact_witness:
  "compile example_state = Ok example_normalized \<and>
   sorted_wrt (<) (map no_target (nc_overwrites (nd_channels example_normalized ! 0))) \<and>
   declared_bits (ds_channels example_state ! 0) (NT_Role ''m'') = Some (VIEW_CHANNEL, 0)"
proof -
  have "0 < length (ds_channels example_state)" by (simp add: example_state_def)
  note exact = compile_overwrites_exact [OF compile_example this]
  have "(NT_Role ''m'', (VIEW_CHANNEL, 0)) \<in> overwrite_entry ` set (nc_overwrites (nd_channels example_normalized ! 0))"
    by (simp add: example_normalized_def overwrite_entry_def)
  with exact compile_example show ?thesis by blast
qed

end
