(* ===== verification/Diff_Engine.thy ===== *)
theory Diff_Engine
  imports Desired_Compiler
begin

text \<open>
  The crate \<open>diff-engine\<close>: the comparison of a normalized desired state with a guild. The trait
  \<open>ResourceResolver\<close> is a record of its three methods; \<open>in_memory_match_resolver\<close> is the
  implementation the pipeline uses. The \<open>&mut DiffResult\<close> that the code threads through is an argument
  and the result of each function.
\<close>

section \<open>Resolvers\<close>

datatype 'a resolve_result = Existing 'a | Missing | Conflict string

record resource_resolver =
  resolve_role :: "identity \<Rightarrow> string option \<Rightarrow> role resolve_result"
  resolve_channel :: "identity \<Rightarrow> string option \<Rightarrow> channel resolve_result"
  everyone_overwrite_target :: overwrite_target

definition in_memory_resolve_role :: "guild_state \<Rightarrow> identity \<Rightarrow> string option \<Rightarrow> role resolve_result" where
  "in_memory_resolve_role g i name =
     (case id_match_by i of
        ByName \<Rightarrow>
          (case name of
             None \<Rightarrow> Conflict ''ByName requires a name''
           | Some n \<Rightarrow>
               (case filter (\<lambda>r. r_name r = n) (gs_roles g) of
                  [] \<Rightarrow> Missing
                | [r] \<Rightarrow> Existing r
                | _ \<Rightarrow> Conflict (''multiple roles named '' @ n)))
      | ByExplicitId s \<Rightarrow>
          (case parse_u64 s of
             None \<Rightarrow> Conflict (''invalid id '' @ s)
           | Some raw \<Rightarrow>
               (case find (\<lambda>r. r_id r = RoleId raw) (gs_roles g) of
                  Some r \<Rightarrow> Existing r
                | None \<Rightarrow> Missing)))"

definition in_memory_resolve_channel :: "guild_state \<Rightarrow> identity \<Rightarrow> string option \<Rightarrow> channel resolve_result" where
  "in_memory_resolve_channel g i name =
     (case id_match_by i of
        ByName \<Rightarrow>
          (case name of
             None \<Rightarrow> Conflict ''ByName requires a name''
           | Some n \<Rightarrow>
               (case filter (\<lambda>c. c_name c = n) (gs_channels g) of
                  [] \<Rightarrow> Missing
                | [c] \<Rightarrow> Existing c
                | _ \<Rightarrow> Conflict (''multiple channels named '' @ n)))
      | ByExplicitId s \<Rightarrow>
          (case parse_u64 s of
             None \<Rightarrow> Conflict (''invalid id '' @ s)
           | Some raw \<Rightarrow>
               (case find (\<lambda>c. channel_u64 (c_id c) = raw) (gs_channels g) of
                  Some c \<Rightarrow> Existing c
                | None \<Rightarrow> Missing)))"

definition in_memory_everyone :: "guild_state \<Rightarrow> overwrite_target" where
  "in_memory_everyone g = OT_Role (RoleId (guild_u64 (g_id (gs_guild g))))"

definition in_memory_match_resolver :: "guild_state \<Rightarrow> resource_resolver" where
  "in_memory_match_resolver g =
     \<lparr>resolve_role = in_memory_resolve_role g,
      resolve_channel = in_memory_resolve_channel g,
      everyone_overwrite_target = in_memory_everyone g\<rparr>"

section \<open>Results\<close>

datatype change_op = CO_Create | CO_Update | CO_Delete | CO_NoOp

datatype diff_target =
  DT_Role resource_key | DT_Channel resource_key | DT_Overwrite resource_key normalized_target

datatype changed_field = CF_Name | CF_Permissions | CF_ChannelType | CF_Parent | CF_Allow | CF_Deny

record diff_change =
  dc_op :: change_op
  dc_target :: diff_target
  dc_changed :: "changed_field list"

record diff_conflict =
  df_target :: diff_target
  df_reason :: string

record deferred_item =
  di_kind :: string
  di_key :: resource_key
  di_reason :: string

record diff_result =
  dr_changes :: "diff_change list"
  dr_conflicts :: "diff_conflict list"
  dr_deferred :: "deferred_item list"

definition diff_result_default :: diff_result where
  "diff_result_default = \<lparr>dr_changes = [], dr_conflicts = [], dr_deferred = []\<rparr>"

section \<open>The comparison\<close>

definition is_explicit_id :: "identity \<Rightarrow> bool" where
  "is_explicit_id i \<longleftrightarrow> (case id_match_by i of ByExplicitId s \<Rightarrow> True | ByName \<Rightarrow> False)"

definition noop :: "diff_target \<Rightarrow> diff_change" where
  "noop t = \<lparr>dc_op = CO_NoOp, dc_target = t, dc_changed = []\<rparr>"

definition push_change :: "diff_change \<Rightarrow> diff_result \<Rightarrow> diff_result" where
  "push_change c out = out\<lparr>dr_changes := dr_changes out @ [c]\<rparr>"

definition push_conflict :: "diff_target \<Rightarrow> string \<Rightarrow> diff_result \<Rightarrow> diff_result" where
  "push_conflict t reason out =
     out\<lparr>dr_conflicts := dr_conflicts out @ [\<lparr>df_target = t, df_reason = reason\<rparr>]\<rparr>"

definition role_changed :: "normalized_role \<Rightarrow> role \<Rightarrow> changed_field list" where
  "role_changed nr current =
     (case nr_name nr of None \<Rightarrow> [] | Some n \<Rightarrow> if n \<noteq> r_name current then [CF_Name] else []) @
     (case nr_permissions nr of None \<Rightarrow> []
      | Some p \<Rightarrow> if p \<noteq> r_permissions current then [CF_Permissions] else [])"

definition diff_role :: "normalized_role \<Rightarrow> resource_resolver \<Rightarrow> diff_result \<Rightarrow> diff_result" where
  "diff_role nr resolver out =
     (let i = nr_identity nr;
          target = DT_Role (id_key i);
          resolved = resolve_role resolver i (nr_name nr)
      in case id_state i of
        Present \<Rightarrow>
          (case resolved of
             Existing current \<Rightarrow>
               if id_ownership i = Referenced then push_change (noop target) out
               else let changed = role_changed nr current in
                 if changed = [] then push_change (noop target) out
                 else push_change \<lparr>dc_op = CO_Update, dc_target = target, dc_changed = changed\<rparr> out
           | Missing \<Rightarrow>
               if id_ownership i = Referenced then push_conflict target ''referenced role not found'' out
               else if is_explicit_id i then push_conflict target ''explicit id not found'' out
               else push_change \<lparr>dc_op = CO_Create, dc_target = target, dc_changed = []\<rparr> out
           | Conflict reason \<Rightarrow> push_conflict target reason out)
      | Absent \<Rightarrow>
          (case resolved of
             Existing current \<Rightarrow>
               if id_ownership i = Referenced then push_conflict target ''cannot delete referenced role'' out
               else push_change \<lparr>dc_op = CO_Delete, dc_target = target, dc_changed = []\<rparr> out
           | Missing \<Rightarrow> push_change (noop target) out
           | Conflict reason \<Rightarrow> push_conflict target reason out))"

definition channel_meta_changed :: "normalized_channel \<Rightarrow> channel \<Rightarrow> changed_field list" where
  "channel_meta_changed nc current =
     (case nc_name nc of None \<Rightarrow> [] | Some n \<Rightarrow> if n \<noteq> c_name current then [CF_Name] else []) @
     (case nc_channel_type nc of None \<Rightarrow> []
      | Some t \<Rightarrow> if t \<noteq> c_channel_type current then [CF_ChannelType] else [])"

text \<open>\<open>roles_by_key\<close> is collected from the role list, so a later role with the same key wins.\<close>

definition roles_by_key :: "normalized_role list \<Rightarrow> resource_key \<rightharpoonup> normalized_role" where
  "roles_by_key rs = map_of (rev (map (\<lambda>r. (id_key (nr_identity r), r)) rs))"

definition resolve_overwrite_target :: "normalized_target \<Rightarrow> resource_resolver \<Rightarrow>
    (resource_key \<rightharpoonup> normalized_role) \<Rightarrow> string + overwrite_target option" where
  "resolve_overwrite_target target resolver by_key =
     (case target of
        NT_Everyone \<Rightarrow> Inr (Some (everyone_overwrite_target resolver))
      | NT_Member s \<Rightarrow>
          (case parse_u64 s of
             Some raw \<Rightarrow> Inr (Some (OT_Member (UserId raw)))
           | None \<Rightarrow> Inl (''invalid member id '' @ s))
      | NT_Role key \<Rightarrow>
          (case by_key key of
             None \<Rightarrow> Inl (''overwrite references undeclared role key '' @ key)
           | Some nr \<Rightarrow>
               (case resolve_role resolver (nr_identity nr) (nr_name nr) of
                  Existing current \<Rightarrow> Inr (Some (OT_Role (r_id current)))
                | Missing \<Rightarrow> Inr None
                | Conflict reason \<Rightarrow> Inl reason)))"

definition find_current_overwrite :: "overwrite_target option \<Rightarrow> channel \<Rightarrow> permission_overwrite option" where
  "find_current_overwrite target current =
     (case target of None \<Rightarrow> None
      | Some t \<Rightarrow> find (\<lambda>w. po_target w = t) (c_overwrites current))"

definition overwrite_changed :: "normalized_overwrite \<Rightarrow> permission_overwrite \<Rightarrow> changed_field list" where
  "overwrite_changed w current =
     (if no_allow w \<noteq> po_allow current then [CF_Allow] else []) @
     (if no_deny w \<noteq> po_deny current then [CF_Deny] else [])"

definition diff_overwrite :: "resource_key \<Rightarrow> channel \<Rightarrow> resource_resolver \<Rightarrow>
    (resource_key \<rightharpoonup> normalized_role) \<Rightarrow> normalized_overwrite \<Rightarrow> diff_result \<Rightarrow> diff_result" where
  "diff_overwrite key current resolver by_key w out =
     (let target = DT_Overwrite key (no_target w) in
      case resolve_overwrite_target (no_target w) resolver by_key of
        Inl reason \<Rightarrow> push_conflict target reason out
      | Inr current_target \<Rightarrow>
          (case find_current_overwrite current_target current of
             Some current_overwrite \<Rightarrow>
               (let changed = overwrite_changed w current_overwrite in
                if changed = [] then push_change (noop target) out
                else push_change \<lparr>dc_op = CO_Update, dc_target = target, dc_changed = changed\<rparr> out)
           | None \<Rightarrow> push_change \<lparr>dc_op = CO_Create, dc_target = target, dc_changed = []\<rparr> out))"

definition diff_overwrites :: "normalized_channel \<Rightarrow> channel \<Rightarrow> resource_resolver \<Rightarrow>
    (resource_key \<rightharpoonup> normalized_role) \<Rightarrow> diff_result \<Rightarrow> diff_result" where
  "diff_overwrites nc current resolver by_key out =
     fold (diff_overwrite (id_key (nc_identity nc)) current resolver by_key) (nc_overwrites nc) out"

definition create_overwrite_change :: "resource_key \<Rightarrow> normalized_overwrite \<Rightarrow> diff_change" where
  "create_overwrite_change key w =
     \<lparr>dc_op = CO_Create, dc_target = DT_Overwrite key (no_target w), dc_changed = []\<rparr>"

definition diff_channel :: "normalized_channel \<Rightarrow> resource_resolver \<Rightarrow>
    (resource_key \<rightharpoonup> normalized_role) \<Rightarrow> diff_result \<Rightarrow> diff_result" where
  "diff_channel nc resolver by_key out =
     (let i = nc_identity nc;
          target = DT_Channel (id_key i);
          resolved = resolve_channel resolver i (nc_name nc)
      in case id_state i of
        Present \<Rightarrow>
          (case resolved of
             Existing current \<Rightarrow>
               if id_ownership i = Referenced then push_change (noop target) out
               else let changed = channel_meta_changed nc current in
                 diff_overwrites nc current resolver by_key
                   (if changed = [] then push_change (noop target) out
                    else push_change \<lparr>dc_op = CO_Update, dc_target = target, dc_changed = changed\<rparr> out)
           | Missing \<Rightarrow>
               if id_ownership i = Referenced then push_conflict target ''referenced channel not found'' out
               else if is_explicit_id i then push_conflict target ''explicit id not found'' out
               else fold (\<lambda>w. push_change (create_overwrite_change (id_key i) w)) (nc_overwrites nc)
                 (push_change \<lparr>dc_op = CO_Create, dc_target = target, dc_changed = []\<rparr> out)
           | Conflict reason \<Rightarrow> push_conflict target reason out)
      | Absent \<Rightarrow>
          (case resolved of
             Existing current \<Rightarrow>
               if id_ownership i = Referenced then push_conflict target ''cannot delete referenced channel'' out
               else push_change \<lparr>dc_op = CO_Delete, dc_target = target, dc_changed = []\<rparr> out
           | Missing \<Rightarrow> push_change (noop target) out
           | Conflict reason \<Rightarrow> push_conflict target reason out))"

definition defer_panel :: "normalized_verification_panel \<Rightarrow> diff_result \<Rightarrow> diff_result" where
  "defer_panel p out =
     out\<lparr>dr_deferred := dr_deferred out @
       [\<lparr>di_kind = ''verification_panel'', di_key = id_key (nv_identity p),
         di_reason = ''panel state not tracked in Phase 4''\<rparr>]\<rparr>"

definition diff :: "normalized_desired_state \<Rightarrow> resource_resolver \<Rightarrow> diff_result" where
  "diff desired resolver =
     (let by_key = roles_by_key (nd_roles desired) in
      fold defer_panel (nd_verification_panels desired)
        (fold (\<lambda>c. diff_channel c resolver by_key) (nd_channels desired)
          (fold (\<lambda>r. diff_role r resolver) (nd_roles desired) diff_result_default)))"

section \<open>The diff as a concatenation\<close>

text \<open>Every step only appends to the result, so the diff is the concatenation of what each declared
  resource contributes on its own.\<close>

definition joined :: "diff_result \<Rightarrow> diff_result \<Rightarrow> diff_result" where
  "joined a b = \<lparr>dr_changes = dr_changes a @ dr_changes b, dr_conflicts = dr_conflicts a @ dr_conflicts b,
     dr_deferred = dr_deferred a @ dr_deferred b\<rparr>"

abbreviation role_part :: "resource_resolver \<Rightarrow> normalized_role \<Rightarrow> diff_result" where
  "role_part resolver r \<equiv> diff_role r resolver diff_result_default"

abbreviation channel_part :: "resource_resolver \<Rightarrow> (resource_key \<rightharpoonup> normalized_role) \<Rightarrow> normalized_channel \<Rightarrow> diff_result" where
  "channel_part resolver by_key c \<equiv> diff_channel c resolver by_key diff_result_default"

lemma joined_default [simp]: "joined diff_result_default a = a" "joined a diff_result_default = a"
  by (simp_all add: joined_def diff_result_default_def)

lemma joined_assoc: "joined (joined a b) c = joined a (joined b c)"
  by (simp add: joined_def)

lemma push_change_joined: "push_change c (joined a b) = joined a (push_change c b)"
  by (simp add: push_change_def joined_def)

lemma push_conflict_joined: "push_conflict t r (joined a b) = joined a (push_conflict t r b)"
  by (simp add: push_conflict_def joined_def)

lemma fold_joined:
  assumes "\<And>x a b. f x (joined a b) = joined a (f x b)"
  shows "fold f xs (joined a b) = joined a (fold f xs b)"
  by (induction xs arbitrary: b) (simp_all add: assms)

lemma diff_role_joined: "diff_role r resolver (joined a b) = joined a (diff_role r resolver b)"
  by (simp add: diff_role_def Let_def push_change_joined push_conflict_joined
      split: resource_state.split resolve_result.split)

lemma diff_overwrite_joined:
  "diff_overwrite k cur resolver by_key w (joined a b) = joined a (diff_overwrite k cur resolver by_key w b)"
  by (simp add: diff_overwrite_def Let_def push_change_joined push_conflict_joined
      split: sum.split option.split)

lemma diff_channel_joined:
  "diff_channel c resolver by_key (joined a b) = joined a (diff_channel c resolver by_key b)"
  by (simp add: diff_channel_def diff_overwrites_def Let_def push_change_joined push_conflict_joined
      fold_joined diff_overwrite_joined split: resource_state.split resolve_result.split)

lemma defer_panel_joined: "defer_panel p (joined a b) = joined a (defer_panel p b)"
  by (simp add: defer_panel_def joined_def)

lemma fold_parts:
  assumes "\<And>x a b. f x (joined a b) = joined a (f x b)"
  shows "dr_changes (fold f xs a) = dr_changes a @ concat (map (\<lambda>x. dr_changes (f x diff_result_default)) xs)"
    and "dr_conflicts (fold f xs a) = dr_conflicts a @ concat (map (\<lambda>x. dr_conflicts (f x diff_result_default)) xs)"
proof -
  have step: "f x a = joined a (f x diff_result_default)" for x a
    using assms [of x a diff_result_default] by simp
  have "dr_changes (fold f xs a) = dr_changes a @ concat (map (\<lambda>x. dr_changes (f x diff_result_default)) xs) \<and>
      dr_conflicts (fold f xs a) = dr_conflicts a @ concat (map (\<lambda>x. dr_conflicts (f x diff_result_default)) xs)"
  proof (induction xs arbitrary: a)
    case (Cons x xs)
    from Cons.IH [of "f x a"] step [of x a] show ?case by (simp add: joined_def)
  qed simp
  then show "dr_changes (fold f xs a) = dr_changes a @ concat (map (\<lambda>x. dr_changes (f x diff_result_default)) xs)"
    "dr_conflicts (fold f xs a) = dr_conflicts a @ concat (map (\<lambda>x. dr_conflicts (f x diff_result_default)) xs)"
    by auto
qed

lemma diff_parts:
  "dr_changes (diff desired resolver) =
     concat (map (\<lambda>r. dr_changes (role_part resolver r)) (nd_roles desired)) @
     concat (map (\<lambda>c. dr_changes (channel_part resolver (roles_by_key (nd_roles desired)) c)) (nd_channels desired))"
  "dr_conflicts (diff desired resolver) =
     concat (map (\<lambda>r. dr_conflicts (role_part resolver r)) (nd_roles desired)) @
     concat (map (\<lambda>c. dr_conflicts (channel_part resolver (roles_by_key (nd_roles desired)) c)) (nd_channels desired))"
  using fold_parts [of "\<lambda>r. diff_role r resolver", OF diff_role_joined]
    fold_parts [of "\<lambda>c. diff_channel c resolver (roles_by_key (nd_roles desired))", OF diff_channel_joined]
    fold_parts [of defer_panel, OF defer_panel_joined]
  by (simp_all add: diff_def Let_def diff_result_default_def defer_panel_def)

lemma channel_part_existing:
  assumes "id_state (nc_identity c) = Present" "id_ownership (nc_identity c) \<noteq> Referenced"
    and "resolve_channel resolver (nc_identity c) (nc_name c) = Existing cur"
  shows "dr_changes (channel_part resolver by_key c) =
      \<lparr>dc_op = if channel_meta_changed c cur = [] then CO_NoOp else CO_Update,
       dc_target = DT_Channel (id_key (nc_identity c)), dc_changed = channel_meta_changed c cur\<rparr> #
      concat (map (\<lambda>w. dr_changes (diff_overwrite (id_key (nc_identity c)) cur resolver by_key w diff_result_default))
        (nc_overwrites c))"
    and "dr_conflicts (channel_part resolver by_key c) =
      concat (map (\<lambda>w. dr_conflicts (diff_overwrite (id_key (nc_identity c)) cur resolver by_key w diff_result_default))
        (nc_overwrites c))"
  using assms fold_parts [of "diff_overwrite (id_key (nc_identity c)) cur resolver by_key", OF diff_overwrite_joined]
  by (simp_all add: diff_channel_def diff_overwrites_def Let_def push_change_def diff_result_default_def noop_def)

lemma channel_part_missing:
  assumes "id_state (nc_identity c) = Present" "id_ownership (nc_identity c) \<noteq> Referenced"
    and "\<not> is_explicit_id (nc_identity c)" "resolve_channel resolver (nc_identity c) (nc_name c) = Missing"
  shows "dr_changes (channel_part resolver by_key c) =
      \<lparr>dc_op = CO_Create, dc_target = DT_Channel (id_key (nc_identity c)), dc_changed = []\<rparr> #
      map (create_overwrite_change (id_key (nc_identity c))) (nc_overwrites c)"
    and "dr_conflicts (channel_part resolver by_key c) = []"
proof -
  have "fold (\<lambda>w. push_change (create_overwrite_change k w)) ws out =
      out\<lparr>dr_changes := dr_changes out @ map (create_overwrite_change k) ws\<rparr>" for k ws out
    by (induction ws arbitrary: out) (simp_all add: push_change_def)
  with assms show "dr_changes (channel_part resolver by_key c) =
      \<lparr>dc_op = CO_Create, dc_target = DT_Channel (id_key (nc_identity c)), dc_changed = []\<rparr> #
      map (create_overwrite_change (id_key (nc_identity c))) (nc_overwrites c)"
    "dr_conflicts (channel_part resolver by_key c) = []"
    by (simp_all add: diff_channel_def Let_def push_change_def diff_result_default_def)
qed

section \<open>What the diff reports\<close>

definition planned :: "diff_result \<Rightarrow> diff_change list" where
  "planned d = filter (\<lambda>c. dc_op c \<noteq> CO_NoOp) (dr_changes d)"

text \<open>The changes a desired state requires of the guild the resolver sees, rule by rule.\<close>

inductive required :: "normalized_desired_state \<Rightarrow> resource_resolver \<Rightarrow> diff_change \<Rightarrow> bool"
  for d :: normalized_desired_state and R :: resource_resolver
where
  role_create:
    "\<lbrakk>r \<in> set (nd_roles d); nr_identity r = i; id_state i = Present; id_ownership i \<noteq> Referenced;
      id_match_by i = ByName; resolve_role R i (nr_name r) = Missing\<rbrakk> \<Longrightarrow>
     required d R \<lparr>dc_op = CO_Create, dc_target = DT_Role (id_key i), dc_changed = []\<rparr>"
| role_update:
    "\<lbrakk>r \<in> set (nd_roles d); nr_identity r = i; id_state i = Present; id_ownership i \<noteq> Referenced;
      resolve_role R i (nr_name r) = Existing cur; role_changed r cur \<noteq> []\<rbrakk> \<Longrightarrow>
     required d R \<lparr>dc_op = CO_Update, dc_target = DT_Role (id_key i), dc_changed = role_changed r cur\<rparr>"
| role_delete:
    "\<lbrakk>r \<in> set (nd_roles d); nr_identity r = i; id_state i = Absent; id_ownership i \<noteq> Referenced;
      resolve_role R i (nr_name r) = Existing cur\<rbrakk> \<Longrightarrow>
     required d R \<lparr>dc_op = CO_Delete, dc_target = DT_Role (id_key i), dc_changed = []\<rparr>"
| channel_create:
    "\<lbrakk>c \<in> set (nd_channels d); nc_identity c = i; id_state i = Present; id_ownership i \<noteq> Referenced;
      id_match_by i = ByName; resolve_channel R i (nc_name c) = Missing\<rbrakk> \<Longrightarrow>
     required d R \<lparr>dc_op = CO_Create, dc_target = DT_Channel (id_key i), dc_changed = []\<rparr>"
| overwrite_of_new_channel:
    "\<lbrakk>c \<in> set (nd_channels d); nc_identity c = i; id_state i = Present; id_ownership i \<noteq> Referenced;
      id_match_by i = ByName; resolve_channel R i (nc_name c) = Missing; w \<in> set (nc_overwrites c)\<rbrakk> \<Longrightarrow>
     required d R (create_overwrite_change (id_key i) w)"
| channel_update:
    "\<lbrakk>c \<in> set (nd_channels d); nc_identity c = i; id_state i = Present; id_ownership i \<noteq> Referenced;
      resolve_channel R i (nc_name c) = Existing cur; channel_meta_changed c cur \<noteq> []\<rbrakk> \<Longrightarrow>
     required d R \<lparr>dc_op = CO_Update, dc_target = DT_Channel (id_key i), dc_changed = channel_meta_changed c cur\<rparr>"
| overwrite_create:
    "\<lbrakk>c \<in> set (nd_channels d); nc_identity c = i; id_state i = Present; id_ownership i \<noteq> Referenced;
      resolve_channel R i (nc_name c) = Existing cur; w \<in> set (nc_overwrites c);
      resolve_overwrite_target (no_target w) R (roles_by_key (nd_roles d)) = Inr t;
      find_current_overwrite t cur = None\<rbrakk> \<Longrightarrow>
     required d R (create_overwrite_change (id_key i) w)"
| overwrite_update:
    "\<lbrakk>c \<in> set (nd_channels d); nc_identity c = i; id_state i = Present; id_ownership i \<noteq> Referenced;
      resolve_channel R i (nc_name c) = Existing cur; w \<in> set (nc_overwrites c);
      resolve_overwrite_target (no_target w) R (roles_by_key (nd_roles d)) = Inr t;
      find_current_overwrite t cur = Some v; overwrite_changed w v \<noteq> []\<rbrakk> \<Longrightarrow>
     required d R \<lparr>dc_op = CO_Update, dc_target = DT_Overwrite (id_key i) (no_target w),
       dc_changed = overwrite_changed w v\<rparr>"
| channel_delete:
    "\<lbrakk>c \<in> set (nd_channels d); nc_identity c = i; id_state i = Absent; id_ownership i \<noteq> Referenced;
      resolve_channel R i (nc_name c) = Existing cur\<rbrakk> \<Longrightarrow>
     required d R \<lparr>dc_op = CO_Delete, dc_target = DT_Channel (id_key i), dc_changed = []\<rparr>"

lemmas diff_part_simps = push_change_def push_conflict_def diff_result_default_def noop_def

lemma is_explicit_id_iff: "is_explicit_id i \<longleftrightarrow> id_match_by i \<noteq> ByName"
  by (simp add: is_explicit_id_def split: match_strategy.split)

lemma overwrite_part_changes:
  "x \<in> set (dr_changes (diff_overwrite k cur R by_key w diff_result_default)) \<longleftrightarrow>
     (\<exists>t. resolve_overwrite_target (no_target w) R by_key = Inr t \<and>
        ((find_current_overwrite t cur = None \<and> x = create_overwrite_change k w) \<or>
         (\<exists>v. find_current_overwrite t cur = Some v \<and>
            x = \<lparr>dc_op = if overwrite_changed w v = [] then CO_NoOp else CO_Update,
                 dc_target = DT_Overwrite k (no_target w), dc_changed = overwrite_changed w v\<rparr>)))"
proof (cases "resolve_overwrite_target (no_target w) R by_key")
  case (Inr t)
  then show ?thesis
    by (cases "find_current_overwrite t cur")
      (auto simp: diff_overwrite_def Let_def diff_part_simps create_overwrite_change_def)
qed (simp add: diff_overwrite_def Let_def diff_part_simps)

lemma overwrite_part_conflicts:
  "dr_conflicts (diff_overwrite k cur R by_key w diff_result_default) = [] \<longleftrightarrow>
     (\<exists>t. resolve_overwrite_target (no_target w) R by_key = Inr t)"
  by (auto simp: diff_overwrite_def Let_def diff_part_simps split: sum.splits option.splits)

lemma role_part_required:
  assumes "r \<in> set (nd_roles d)" "x \<in> set (dr_changes (role_part R r))" "dc_op x \<noteq> CO_NoOp"
  shows "required d R x"
  using assms
  by (auto simp: diff_role_def Let_def diff_part_simps is_explicit_id_iff intro: required.intros
      split: resource_state.splits resolve_result.splits if_splits)

lemma channel_part_required:
  assumes "c \<in> set (nd_channels d)" "x \<in> set (dr_changes (channel_part R (roles_by_key (nd_roles d)) c))"
    and "dc_op x \<noteq> CO_NoOp"
  shows "required d R x"
proof -
  let ?i = "nc_identity c"
  consider (ex) cur where "id_state ?i = Present" "id_ownership ?i \<noteq> Referenced"
      "resolve_channel R ?i (nc_name c) = Existing cur"
    | (new) "id_state ?i = Present" "id_ownership ?i \<noteq> Referenced" "id_match_by ?i = ByName"
      "resolve_channel R ?i (nc_name c) = Missing"
    | (other) "id_state ?i = Absent \<or> id_ownership ?i = Referenced \<or>
        (resolve_channel R ?i (nc_name c) = Missing \<and> id_match_by ?i \<noteq> ByName) \<or>
        (\<exists>s. resolve_channel R ?i (nc_name c) = Conflict s)"
    by (cases "id_state ?i"; cases "resolve_channel R ?i (nc_name c)") auto
  then show ?thesis
  proof cases
    case ex
    with assms show ?thesis
      unfolding channel_part_existing(1) [OF ex]
      by (auto simp: overwrite_part_changes intro: required.intros split: if_splits)
  next
    case new
    with assms show ?thesis
      by (auto simp: channel_part_missing is_explicit_id_iff intro: required.intros)
  next
    case other
    with assms show ?thesis
      by (auto simp: diff_channel_def Let_def diff_part_simps is_explicit_id_iff intro: required.intros
          split: resource_state.splits resolve_result.splits if_splits)
  qed
qed

lemma role_changes_in_diff:
  "x \<in> set (dr_changes (role_part R r)) \<Longrightarrow> r \<in> set (nd_roles d) \<Longrightarrow> x \<in> set (dr_changes (diff d R))"
  by (auto simp: diff_parts)

lemma channel_changes_in_diff:
  "x \<in> set (dr_changes (channel_part R (roles_by_key (nd_roles d)) c)) \<Longrightarrow> c \<in> set (nd_channels d) \<Longrightarrow>
     x \<in> set (dr_changes (diff d R))"
  by (auto simp: diff_parts)

lemma required_not_noop: "required d R x \<Longrightarrow> dc_op x \<noteq> CO_NoOp"
  by (induction rule: required.induct) (simp_all add: create_overwrite_change_def)

lemma required_in_changes: "required d R x \<Longrightarrow> x \<in> set (dr_changes (diff d R))"
proof (induction rule: required.induct)
  case (role_create r i)
  then show ?case
    by (intro role_changes_in_diff [where r = r]) (auto simp: diff_role_def Let_def diff_part_simps is_explicit_id_iff)
next
  case (role_update r i cur)
  then show ?case
    by (intro role_changes_in_diff [where r = r]) (auto simp: diff_role_def Let_def diff_part_simps)
next
  case (role_delete r i cur)
  then show ?case
    by (intro role_changes_in_diff [where r = r]) (auto simp: diff_role_def Let_def diff_part_simps)
next
  case (channel_create c i)
  then show ?case
    by (intro channel_changes_in_diff [where c = c]) (auto simp: channel_part_missing is_explicit_id_iff)
next
  case (overwrite_of_new_channel c i w)
  then show ?case
    by (intro channel_changes_in_diff [where c = c]) (auto simp: channel_part_missing is_explicit_id_iff)
next
  case (channel_update c i cur)
  then show ?case
    by (intro channel_changes_in_diff [where c = c]) (auto simp: channel_part_existing)
next
  case (overwrite_create c i cur w t)
  then show ?case
    by (intro channel_changes_in_diff [where c = c]) (auto simp: channel_part_existing overwrite_part_changes)
next
  case (overwrite_update c i cur w t v)
  then show ?case
    by (intro channel_changes_in_diff [where c = c]) (fastforce simp: channel_part_existing overwrite_part_changes)+
next
  case (channel_delete c i cur)
  then show ?case
    by (intro channel_changes_in_diff [where c = c]) (auto simp: diff_channel_def Let_def diff_part_simps)
qed


section \<open>A silent diff\<close>

text \<open>What it means for the guild to meet a desired state, without reference to the diff.\<close>

definition meets :: "'a option \<Rightarrow> 'a \<Rightarrow> bool" where
  "meets wanted actual \<longleftrightarrow> (case wanted of None \<Rightarrow> True | Some x \<Rightarrow> x = actual)"

definition role_satisfied :: "resource_resolver \<Rightarrow> normalized_role \<Rightarrow> bool" where
  "role_satisfied R r \<longleftrightarrow>
     (case (id_state (nr_identity r), resolve_role R (nr_identity r) (nr_name r)) of
        (Present, Existing cur) \<Rightarrow> id_ownership (nr_identity r) = Referenced \<or>
          (meets (nr_name r) (r_name cur) \<and> meets (nr_permissions r) (r_permissions cur))
      | (Absent, Missing) \<Rightarrow> True
      | _ \<Rightarrow> False)"

definition overwrite_satisfied :: "resource_resolver \<Rightarrow> (resource_key \<rightharpoonup> normalized_role) \<Rightarrow> channel \<Rightarrow>
    normalized_overwrite \<Rightarrow> bool" where
  "overwrite_satisfied R by_key cur w \<longleftrightarrow>
     (case resolve_overwrite_target (no_target w) R by_key of
        Inr (Some t) \<Rightarrow>
          (case find (\<lambda>v. po_target v = t) (c_overwrites cur) of
             Some v \<Rightarrow> po_allow v = no_allow w \<and> po_deny v = no_deny w
           | None \<Rightarrow> False)
      | _ \<Rightarrow> False)"

definition channel_satisfied :: "resource_resolver \<Rightarrow> (resource_key \<rightharpoonup> normalized_role) \<Rightarrow> normalized_channel \<Rightarrow> bool" where
  "channel_satisfied R by_key c \<longleftrightarrow>
     (case (id_state (nc_identity c), resolve_channel R (nc_identity c) (nc_name c)) of
        (Present, Existing cur) \<Rightarrow> id_ownership (nc_identity c) = Referenced \<or>
          (meets (nc_name c) (c_name cur) \<and> meets (nc_channel_type c) (c_channel_type cur) \<and>
           list_all (overwrite_satisfied R by_key cur) (nc_overwrites c))
      | (Absent, Missing) \<Rightarrow> True
      | _ \<Rightarrow> False)"

definition satisfied :: "normalized_desired_state \<Rightarrow> resource_resolver \<Rightarrow> bool" where
  "satisfied d R \<longleftrightarrow> list_all (role_satisfied R) (nd_roles d) \<and>
     list_all (channel_satisfied R (roles_by_key (nd_roles d))) (nd_channels d)"

definition silent :: "diff_result \<Rightarrow> bool" where
  "silent out \<longleftrightarrow> dr_conflicts out = [] \<and> planned out = []"

lemma role_changed_Nil:
  "role_changed r cur = [] \<longleftrightarrow> meets (nr_name r) (r_name cur) \<and> meets (nr_permissions r) (r_permissions cur)"
  by (simp add: role_changed_def meets_def split: option.splits)

lemma channel_meta_changed_Nil:
  "channel_meta_changed c cur = [] \<longleftrightarrow>
     meets (nc_name c) (c_name cur) \<and> meets (nc_channel_type c) (c_channel_type cur)"
  by (simp add: channel_meta_changed_def meets_def split: option.splits)

lemma silent_role: "silent (role_part R r) \<longleftrightarrow> role_satisfied R r"
  by (simp add: silent_def planned_def diff_role_def role_satisfied_def Let_def diff_part_simps role_changed_Nil
      split: resource_state.split resolve_result.split)

lemma silent_overwrite:
  "silent (diff_overwrite k cur R by_key w diff_result_default) \<longleftrightarrow> overwrite_satisfied R by_key cur w"
  by (auto simp: silent_def planned_def diff_overwrite_def overwrite_satisfied_def Let_def diff_part_simps
      find_current_overwrite_def overwrite_changed_def split: sum.split option.split)

lemma silent_channel: "silent (channel_part R by_key c) \<longleftrightarrow> channel_satisfied R by_key c"
proof -
  let ?i = "nc_identity c"
  consider (ex) cur where "id_state ?i = Present" "id_ownership ?i \<noteq> Referenced"
      "resolve_channel R ?i (nc_name c) = Existing cur"
    | (new) "id_state ?i = Present" "id_ownership ?i \<noteq> Referenced" "\<not> is_explicit_id ?i"
      "resolve_channel R ?i (nc_name c) = Missing"
    | (other) "id_state ?i = Absent \<or> id_ownership ?i = Referenced \<or>
        (resolve_channel R ?i (nc_name c) = Missing \<and> is_explicit_id ?i) \<or>
        (\<exists>s. resolve_channel R ?i (nc_name c) = Conflict s)"
    by (cases "id_state ?i"; cases "resolve_channel R ?i (nc_name c)") auto
  then show ?thesis
  proof cases
    case ex
    let ?part = "\<lambda>w. diff_overwrite (id_key ?i) cur R by_key w diff_result_default"
    have "silent (channel_part R by_key c) \<longleftrightarrow> channel_meta_changed c cur = [] \<and>
        (\<forall>w \<in> set (nc_overwrites c). silent (?part w))"
      by (auto simp: silent_def planned_def channel_part_existing [OF ex] filter_empty_conv)
    then show ?thesis
      using ex by (simp add: silent_overwrite channel_satisfied_def channel_meta_changed_Nil list_all_iff)
  next
    case new
    then show ?thesis by (simp add: silent_def planned_def channel_part_missing channel_satisfied_def)
  next
    case other
    then show ?thesis
      by (auto simp: silent_def planned_def channel_satisfied_def diff_channel_def Let_def diff_part_simps
          split: resource_state.split resolve_result.split)
  qed
qed


section \<open>An example\<close>

definition example_guild :: guild_state where
  "example_guild =
     \<lparr>gs_guild = \<lparr>g_id = GuildId 1, g_name = ''guild'', g_owner_id = UserId 2\<rparr>,
      gs_roles = [\<lparr>r_id = RoleId 1, r_name = ''@everyone'', r_permissions = VIEW_CHANNEL, r_position = 0, r_managed = False\<rparr>],
      gs_channels = [], gs_members = []\<rparr>"

definition example_diff :: diff_result where
  "example_diff = \<lparr>dr_changes =
     [\<lparr>dc_op = CO_Create, dc_target = DT_Role ''m'', dc_changed = []\<rparr>,
      \<lparr>dc_op = CO_Create, dc_target = DT_Channel ''c'', dc_changed = []\<rparr>,
      \<lparr>dc_op = CO_Create, dc_target = DT_Overwrite ''c'' NT_Everyone, dc_changed = []\<rparr>,
      \<lparr>dc_op = CO_Create, dc_target = DT_Overwrite ''c'' (NT_Role ''m''), dc_changed = []\<rparr>],
     dr_conflicts = [], dr_deferred = []\<rparr>"

lemma diff_example: "diff example_normalized (in_memory_match_resolver example_guild) = example_diff"
  by (simp add: diff_def example_normalized_def example_guild_def example_diff_def ex_identity_def
      in_memory_match_resolver_def in_memory_resolve_role_def in_memory_resolve_channel_def
      diff_role_def diff_channel_def Let_def diff_part_simps is_explicit_id_def create_overwrite_change_def)

end
