(* ===== verification/Operation_Graph.thy ===== *)
theory Operation_Graph
  imports Diff_Engine
begin

text \<open>
  The crate \<open>operation-graph\<close>: the changes of a diff become operations with the resource symbols they
  produce and consume, the symbols give the dependencies, and the operations are ordered by Kahn's
  algorithm with a min-heap. The heap is a sorted list of ids (the sources only push, pop the minimum
  and collect), the hash maps are partial functions, and the counters of type \<open>usize\<close> are naturals
  whose decrement below zero is a panic.
\<close>

section \<open>Operations\<close>

datatype op_id = OpId (op_u32: u32)

instantiation op_id :: linorder
begin

definition less_eq_op_id :: "op_id \<Rightarrow> op_id \<Rightarrow> bool" where
  "less_eq_op_id a b \<longleftrightarrow> op_u32 a \<le> op_u32 b"

definition less_op_id :: "op_id \<Rightarrow> op_id \<Rightarrow> bool" where
  "less_op_id a b \<longleftrightarrow> op_u32 a < op_u32 b"

instance
  by standard (auto simp: less_eq_op_id_def less_op_id_def op_id.expand)

end

instance op_id :: finite
proof
  have "(UNIV :: op_id set) = OpId ` UNIV"
    by (metis UNIV_I image_eqI op_id.exhaust subsetI subset_antisym top_greatest)
  then show "finite (UNIV :: op_id set)"
    by (metis finite_imageI finite_class.finite_UNIV)
qed

datatype resource_symbol = RS_Role resource_key | RS_Channel resource_key

datatype operation =
  CreateRole resource_key "string option" "permissions option"
| UpdateRole resource_key "string option" "permissions option"
| DeleteRole resource_key
| CreateChannel resource_key "string option" "channel_type option" "resource_key option"
| UpdateChannel resource_key "string option" "channel_type option"
| DeleteChannel resource_key
| CreateOverwrite resource_key normalized_target permissions permissions
| UpdateOverwrite resource_key normalized_target permissions permissions

record operation_node =
  on_id :: op_id
  on_operation :: operation
  on_produces :: "resource_symbol list"
  on_consumes :: "resource_symbol list"
  on_depends_on :: "op_id list"

record operation_graph =
  og_nodes :: "operation_node list"

datatype operation_graph_error =
  DiffHasConflicts nat
| MissingPayload string
| UnsupportedChange
| DependencyCycle

section \<open>Ordering\<close>

definition initial_indegree :: "operation_node list \<Rightarrow> op_id \<rightharpoonup> nat" where
  "initial_indegree nodes = map_of (map (\<lambda>n. (on_id n, 0)) nodes)"

definition bump_indegree :: "op_id \<Rightarrow> (op_id \<rightharpoonup> nat) \<Rightarrow> op_id \<rightharpoonup> nat" where
  "bump_indegree i m = (case m i of None \<Rightarrow> m | Some d \<Rightarrow> m(i \<mapsto> Suc d))"

definition push_dependent :: "op_id \<Rightarrow> op_id \<Rightarrow> (op_id \<rightharpoonup> op_id list) \<Rightarrow> op_id \<rightharpoonup> op_id list" where
  "push_dependent dep i m = m(dep \<mapsto> (case m dep of None \<Rightarrow> [] | Some ds \<Rightarrow> ds) @ [i])"

definition count_edges :: "operation_node \<Rightarrow> (op_id \<rightharpoonup> nat) \<times> (op_id \<rightharpoonup> op_id list) \<Rightarrow>
    (op_id \<rightharpoonup> nat) \<times> (op_id \<rightharpoonup> op_id list)" where
  "count_edges n s =
     fold (\<lambda>dep (indegree, dependents).
        (bump_indegree (on_id n) indegree, push_dependent dep (on_id n) dependents))
       (on_depends_on n) s"

fun relax :: "op_id list \<Rightarrow> (op_id \<rightharpoonup> nat) \<Rightarrow> op_id list \<Rightarrow> ((op_id \<rightharpoonup> nat) \<times> op_id list) option" where
  "relax [] indegree heap = Some (indegree, heap)"
| "relax (d # ds) indegree heap =
     (case indegree d of
        None \<Rightarrow> relax ds indegree heap
      | Some 0 \<Rightarrow> None
      | Some (Suc e) \<Rightarrow>
          relax ds (indegree(d \<mapsto> e)) (if e = 0 then insort d heap else heap))"

definition dependents_of :: "(op_id \<rightharpoonup> op_id list) \<Rightarrow> op_id \<Rightarrow> op_id list" where
  "dependents_of dependents i = (case dependents i of None \<Rightarrow> [] | Some ds \<Rightarrow> ds)"

definition weight :: "(op_id \<rightharpoonup> nat) \<Rightarrow> nat" where
  "weight indegree = (\<Sum>i \<in> UNIV. case indegree i of None \<Rightarrow> 0 | Some d \<Rightarrow> d)"

lemma weight_upd:
  assumes "indegree d = Some (Suc e)"
  shows "weight indegree = Suc (weight (indegree(d \<mapsto> e)))"
proof -
  have "weight m = (case m d of None \<Rightarrow> 0 | Some x \<Rightarrow> x) +
      (\<Sum>i \<in> UNIV - {d}. case m i of None \<Rightarrow> 0 | Some x \<Rightarrow> x)" for m
    unfolding weight_def by (rule sum.remove) simp_all
  moreover have "(\<Sum>i \<in> UNIV - {d}. case (indegree(d \<mapsto> e)) i of None \<Rightarrow> 0 | Some x \<Rightarrow> x) =
      (\<Sum>i \<in> UNIV - {d}. case indegree i of None \<Rightarrow> 0 | Some x \<Rightarrow> x)"
    by (rule sum.cong) auto
  ultimately show ?thesis using assms by simp
qed

lemma relax_weight:
  "relax ds indegree heap = Some (indegree', heap') \<Longrightarrow>
     weight indegree' + length heap' \<le> weight indegree + length heap"
proof (induction ds arbitrary: indegree heap)
  case (Cons d ds)
  show ?case
  proof (cases "indegree d")
    case None
    with Cons show ?thesis by simp
  next
    case (Some k)
    then obtain e where e: "indegree d = Some (Suc e)"
      using Cons.prems by (cases k) auto
    with Cons.prems Cons.IH weight_upd [of indegree d e, OF e] show ?thesis
      by (fastforce split: if_splits)
  qed
qed simp

text \<open>The loop pops the smallest ready id, appends it to the order and releases its dependents. It ends
  because every id pushed on the heap uses up a unit of the remaining in-degrees.\<close>

function schedule :: "(op_id \<rightharpoonup> op_id list) \<Rightarrow> (op_id \<rightharpoonup> nat) \<Rightarrow> op_id list \<Rightarrow> op_id list \<Rightarrow> op_id list option" where
  "schedule dependents indegree [] order = Some order"
| "schedule dependents indegree (i # heap) order =
     (case relax (dependents_of dependents i) indegree heap of
        None \<Rightarrow> None
      | Some (indegree', heap') \<Rightarrow> schedule dependents indegree' heap' (order @ [i]))"
  by pat_completeness auto
termination
  by (relation "measure (\<lambda>(dependents, indegree, heap, order). weight indegree + length heap)")
    (auto dest: relax_weight)

definition topological_order :: "operation_graph \<Rightarrow> (operation_graph_error, op_id list) result" where
  "topological_order g =
     (let nodes = og_nodes g;
          (indegree, dependents) = fold count_edges nodes (initial_indegree nodes, Map.empty);
          heap = sort (map on_id (filter (\<lambda>n. (case indegree (on_id n) of None \<Rightarrow> 0 | Some d \<Rightarrow> d) = 0) nodes))
      in case schedule dependents indegree heap [] of
           None \<Rightarrow> Panic
         | Some order \<Rightarrow> if length order = length nodes then Ok order else Err DependencyCycle)"

definition rollback_order :: "operation_graph \<Rightarrow> (operation_graph_error, op_id list) result" where
  "rollback_order g = and_then (topological_order g) (\<lambda>order. Ok (rev order))"

section \<open>Compiling a diff\<close>

definition find_role :: "normalized_desired_state \<Rightarrow> resource_key \<Rightarrow> (operation_graph_error, normalized_role) result" where
  "find_role desired key =
     ok_or (MissingPayload key) (find (\<lambda>r. id_key (nr_identity r) = key) (nd_roles desired))"

definition find_channel :: "normalized_desired_state \<Rightarrow> resource_key \<Rightarrow> (operation_graph_error, normalized_channel) result" where
  "find_channel desired key =
     ok_or (MissingPayload key) (find (\<lambda>c. id_key (nc_identity c) = key) (nd_channels desired))"

definition find_overwrite :: "normalized_desired_state \<Rightarrow> resource_key \<Rightarrow> normalized_target \<Rightarrow>
    (operation_graph_error, normalized_overwrite) result" where
  "find_overwrite desired channel target =
     and_then (find_channel desired channel) (\<lambda>c.
       ok_or (MissingPayload (id_key (nc_identity c)))
         (find (\<lambda>w. no_target w = target) (nc_overwrites c)))"

definition overwrite_consumes :: "resource_key \<Rightarrow> normalized_target \<Rightarrow> resource_symbol list" where
  "overwrite_consumes channel target =
     RS_Channel channel # (case target of NT_Role k \<Rightarrow> [RS_Role k] | NT_Everyone \<Rightarrow> [] | NT_Member m \<Rightarrow> [])"

fun build_operation_for :: "change_op \<Rightarrow> diff_target \<Rightarrow> normalized_desired_state \<Rightarrow>
    (operation_graph_error, operation \<times> resource_symbol list \<times> resource_symbol list) result" where
  "build_operation_for CO_Create (DT_Role key) desired =
     and_then (find_role desired key) (\<lambda>r.
       Ok (CreateRole key (nr_name r) (nr_permissions r), [RS_Role key], []))"
| "build_operation_for CO_Update (DT_Role key) desired =
     and_then (find_role desired key) (\<lambda>r.
       Ok (UpdateRole key (nr_name r) (nr_permissions r), [], []))"
| "build_operation_for CO_Delete (DT_Role key) desired = Ok (DeleteRole key, [], [])"
| "build_operation_for CO_Create (DT_Channel key) desired =
     and_then (find_channel desired key) (\<lambda>c.
       Ok (CreateChannel key (nc_name c) (nc_channel_type c) (nc_parent c), [RS_Channel key],
           (case nc_parent c of None \<Rightarrow> [] | Some p \<Rightarrow> [RS_Channel p])))"
| "build_operation_for CO_Update (DT_Channel key) desired =
     and_then (find_channel desired key) (\<lambda>c.
       Ok (UpdateChannel key (nc_name c) (nc_channel_type c), [], []))"
| "build_operation_for CO_Delete (DT_Channel key) desired = Ok (DeleteChannel key, [], [])"
| "build_operation_for CO_Create (DT_Overwrite channel target) desired =
     and_then (find_overwrite desired channel target) (\<lambda>w.
       Ok (CreateOverwrite channel target (no_allow w) (no_deny w), [], overwrite_consumes channel target))"
| "build_operation_for CO_Update (DT_Overwrite channel target) desired =
     and_then (find_overwrite desired channel target) (\<lambda>w.
       Ok (UpdateOverwrite channel target (no_allow w) (no_deny w), [], overwrite_consumes channel target))"
| "build_operation_for _ _ desired = Err UnsupportedChange"

definition build_operation :: "diff_change \<Rightarrow> normalized_desired_state \<Rightarrow>
    (operation_graph_error, operation \<times> resource_symbol list \<times> resource_symbol list) result" where
  "build_operation change desired = build_operation_for (dc_op change) (dc_target change) desired"

fun build_nodes :: "normalized_desired_state \<Rightarrow> u32 \<Rightarrow> diff_change list \<Rightarrow>
    (operation_graph_error, operation_node list) result" where
  "build_nodes desired next_id [] = Ok []"
| "build_nodes desired next_id (change # changes) =
     (if dc_op change = CO_NoOp then build_nodes desired next_id changes
      else and_then (build_operation change desired) (\<lambda>(operation, produces, consumes).
        case checked_add next_id 1 of
          None \<Rightarrow> Panic
        | Some next_id' \<Rightarrow>
            and_then (build_nodes desired next_id' changes) (\<lambda>nodes.
              Ok (\<lparr>on_id = OpId next_id, on_operation = operation, on_produces = produces,
                   on_consumes = consumes, on_depends_on = []\<rparr> # nodes))))"

definition producers_of :: "operation_node list \<Rightarrow> resource_symbol \<rightharpoonup> op_id" where
  "producers_of nodes =
     fold (\<lambda>n. fold (\<lambda>s m. m(s \<mapsto> on_id n)) (on_produces n)) nodes Map.empty"

definition node_dependencies :: "(resource_symbol \<rightharpoonup> op_id) \<Rightarrow> operation_node \<Rightarrow> op_id list" where
  "node_dependencies producers n =
     remdups_adj (sort (filter (\<lambda>dep. dep \<noteq> on_id n) (List.map_filter producers (on_consumes n))))"

definition derive_dependencies :: "operation_node list \<Rightarrow> operation_node list" where
  "derive_dependencies nodes =
     (let producers = producers_of nodes in
      map (\<lambda>n. n\<lparr>on_depends_on := node_dependencies producers n\<rparr>) nodes)"

definition compile_operations :: "diff_result \<Rightarrow> normalized_desired_state \<Rightarrow>
    (operation_graph_error, operation_graph) result" where
  "compile_operations d desired =
     (if dr_conflicts d \<noteq> [] then Err (DiffHasConflicts (length (dr_conflicts d)))
      else and_then (build_nodes desired 0 (dr_changes d)) (\<lambda>nodes.
        let graph = \<lparr>og_nodes = derive_dependencies nodes\<rparr> in
        and_then (topological_order graph) (\<lambda>order. Ok graph)))"

section \<open>What the order promises\<close>

definition node_ids :: "operation_node list \<Rightarrow> op_id list" where
  "node_ids ns = map on_id ns"

definition deps_of :: "operation_node list \<Rightarrow> op_id \<Rightarrow> op_id list" where
  "deps_of ns i = (case find (\<lambda>n. on_id n = i) ns of None \<Rightarrow> [] | Some n \<Rightarrow> on_depends_on n)"

definition ready :: "operation_node list \<Rightarrow> op_id set \<Rightarrow> op_id set" where
  "ready ns finished = {i \<in> set (node_ids ns). i \<notin> finished \<and> set (deps_of ns i) \<subseteq> finished}"

text \<open>The reference order: at every position stands the smallest id all of whose dependencies stand
  before it.\<close>

definition greedy :: "operation_node list \<Rightarrow> op_id list \<Rightarrow> bool" where
  "greedy ns order \<longleftrightarrow>
     (\<forall>k < length order. order ! k \<in> ready ns (set (take k order)) \<and>
        (\<forall>i \<in> ready ns (set (take k order)). order ! k \<le> i))"

definition precedes :: "op_id list \<Rightarrow> op_id \<Rightarrow> op_id \<Rightarrow> bool" where
  "precedes order a b \<longleftrightarrow> (\<exists>j k. j < k \<and> k < length order \<and> order ! j = a \<and> order ! k = b)"

definition dependency_relation :: "operation_node list \<Rightarrow> (op_id \<times> op_id) set" where
  "dependency_relation ns = {(d, on_id n) | d n. n \<in> set ns \<and> d \<in> set (on_depends_on n)}"

lemma deps_of_Cons:
  "deps_of (n # ns) i = (if on_id n = i then on_depends_on n else deps_of ns i)"
  by (simp add: deps_of_def)

lemma deps_of_notin: "i \<notin> set (node_ids ns) \<Longrightarrow> deps_of ns i = []"
  by (induction ns) (auto simp: deps_of_Cons node_ids_def, simp add: deps_of_def)

lemma deps_of_node:
  "distinct (node_ids ns) \<Longrightarrow> n \<in> set ns \<Longrightarrow> deps_of ns (on_id n) = on_depends_on n"
  by (induction ns) (auto simp: deps_of_Cons node_ids_def)

lemma dependency_relation_iff:
  assumes "distinct (node_ids ns)"
  shows "(d, i) \<in> dependency_relation ns \<longleftrightarrow> d \<in> set (deps_of ns i)"
proof
  assume "(d, i) \<in> dependency_relation ns"
  then show "d \<in> set (deps_of ns i)"
    using deps_of_node [OF assms] by (auto simp: dependency_relation_def)
next
  assume d: "d \<in> set (deps_of ns i)"
  then have "i \<in> set (node_ids ns)" using deps_of_notin by force
  then obtain n where "n \<in> set ns" "on_id n = i" by (auto simp: node_ids_def)
  with d deps_of_node [OF assms] show "(d, i) \<in> dependency_relation ns"
    by (auto simp: dependency_relation_def)
qed

subsection \<open>The counting pass\<close>

lemma dependents_of_push:
  "dependents_of (push_dependent dep i m) d = dependents_of m d @ (if d = dep then [i] else [])"
  by (auto simp: dependents_of_def push_dependent_def split: option.splits)

lemma count_edges_fold_dependents:
  "dependents_of (snd (fold (\<lambda>dep (m, w). (bump_indegree i m, push_dependent dep i w)) ds (m, w))) d =
     dependents_of w d @ replicate (count_list ds d) i"
  by (induction ds arbitrary: m w) (auto simp: dependents_of_push replicate_append_same)

lemma count_edges_fold_indegree:
  "fst (fold (\<lambda>dep (m, w). (bump_indegree i m, push_dependent dep i w)) ds (m, w)) j =
     map_option (\<lambda>k. k + (if j = i then length ds else 0)) (m j)"
  by (induction ds arbitrary: m w)
    (auto simp: bump_indegree_def option.map_comp comp_def option.map_ident split: option.splits)

lemma count_edges_dependents:
  "dependents_of (snd (count_edges n (m, w))) d =
     dependents_of w d @ replicate (count_list (on_depends_on n) d) (on_id n)"
  unfolding count_edges_def by (rule count_edges_fold_dependents)

lemma count_edges_indegree:
  "fst (count_edges n (m, w)) j =
     map_option (\<lambda>k. k + (if j = on_id n then length (on_depends_on n) else 0)) (m j)"
  unfolding count_edges_def by (rule count_edges_fold_indegree)

lemma count_pass_dependents:
  "distinct (node_ids ns) \<Longrightarrow>
     count_list (dependents_of (snd (fold count_edges ns (m, w))) d) i =
     count_list (dependents_of w d) i + count_list (deps_of ns i) d"
proof (induction ns arbitrary: m w)
  case Nil
  then show ?case by (simp add: deps_of_def)
next
  case (Cons n ns)
  have "count_list (replicate k a) b = (if a = b then k else 0)" for k :: nat and a b :: op_id
    by (induction k) auto
  moreover have "on_id n = i \<Longrightarrow> deps_of ns i = []"
    using Cons.prems by (intro deps_of_notin) (simp add: node_ids_def)
  ultimately show ?case
    using Cons.prems Cons.IH [of "fst (count_edges n (m, w))" "snd (count_edges n (m, w))"]
    by (simp add: node_ids_def deps_of_Cons count_edges_dependents)
qed

lemma count_pass_indegree:
  "distinct (node_ids ns) \<Longrightarrow>
     fst (fold count_edges ns (m, w)) i = map_option (\<lambda>k. k + length (deps_of ns i)) (m i)"
proof (induction ns arbitrary: m w)
  case Nil
  then show ?case by (simp add: deps_of_def option.map_ident)
next
  case (Cons n ns)
  obtain m' w' where c: "count_edges n (m, w) = (m', w')" by (cases "count_edges n (m, w)")
  have "on_id n = i \<Longrightarrow> deps_of ns i = []"
    using Cons.prems by (intro deps_of_notin) (simp add: node_ids_def)
  with Cons c count_edges_indegree [of n m w i] show ?case
    by (auto simp: node_ids_def deps_of_Cons option.map_comp comp_def)
qed

lemma initial_indegree_eq:
  "initial_indegree ns i = (if i \<in> set (node_ids ns) then Some 0 else None)"
  by (induction ns) (auto simp: initial_indegree_def node_ids_def)

subsection \<open>The release pass\<close>

lemma relax_correct:
  assumes "\<And>i e. indegree i = Some e \<Longrightarrow> count_list ds i \<le> e"
    and "sorted heap" "distinct heap" "\<And>i. i \<in> set heap \<Longrightarrow> indegree i = Some 0"
  shows "\<exists>heap'. relax ds indegree heap =
             Some (\<lambda>i. map_option (\<lambda>e. e - count_list ds i) (indegree i), heap') \<and>
           sorted heap' \<and> distinct heap' \<and>
           set heap' = set heap \<union> {i. 0 < count_list ds i \<and> indegree i = Some (count_list ds i)}"
  using assms
proof (induction ds arbitrary: indegree heap)
  case Nil
  then show ?case by (simp add: option.map_ident)
next
  case (Cons d ds)
  show ?case
  proof (cases "indegree d")
    case None
    have "\<exists>heap'. relax ds indegree heap =
             Some (\<lambda>i. map_option (\<lambda>e. e - count_list ds i) (indegree i), heap') \<and>
           sorted heap' \<and> distinct heap' \<and>
           set heap' = set heap \<union> {i. 0 < count_list ds i \<and> indegree i = Some (count_list ds i)}"
    proof (rule Cons.IH)
      show "count_list ds i \<le> e" if "indegree i = Some e" for i e
        using Cons.prems(1) [OF that] by (simp split: if_splits)
    qed (use Cons.prems in auto)
    moreover have "(\<lambda>i. map_option (\<lambda>e. e - count_list ds i) (indegree i)) =
        (\<lambda>i. map_option (\<lambda>e. e - count_list (d # ds) i) (indegree i))"
      using None by (auto simp: fun_eq_iff)
    moreover have "{i. 0 < count_list ds i \<and> indegree i = Some (count_list ds i)} =
        {i. 0 < count_list (d # ds) i \<and> indegree i = Some (count_list (d # ds) i)}"
      using None by auto
    ultimately show ?thesis using None by simp
  next
    case (Some k)
    with Cons.prems(1) [of d] obtain e where e: "indegree d = Some (Suc e)" "count_list ds d \<le> e"
      by (cases k) auto
    let ?m = "indegree(d \<mapsto> e)" and ?h = "if e = 0 then insort d heap else heap"
    have "d \<notin> set heap" using Cons.prems(4) e by force
    have ex: "\<exists>heap'. relax ds ?m ?h =
             Some (\<lambda>i. map_option (\<lambda>e. e - count_list ds i) (?m i), heap') \<and>
           sorted heap' \<and> distinct heap' \<and>
           set heap' = set ?h \<union> {i. 0 < count_list ds i \<and> ?m i = Some (count_list ds i)}"
    proof (intro Cons.IH)
      show "count_list ds i \<le> e'" if "?m i = Some e'" for i e'
        using that e Cons.prems(1) [of i e'] by (simp split: if_splits)
      show "?m i = Some 0" if "i \<in> set ?h" for i
        using that \<open>d \<notin> set heap\<close> Cons.prems(4) by (auto simp: set_insort_key split: if_splits)
    qed (use Cons.prems \<open>d \<notin> set heap\<close> in \<open>auto simp: sorted_insort distinct_insort\<close>)
    have m: "(\<lambda>i. map_option (\<lambda>e. e - count_list ds i) (?m i)) =
        (\<lambda>i. map_option (\<lambda>e. e - count_list (d # ds) i) (indegree i))"
      using e by (auto simp: fun_eq_iff)
    have h: "set ?h \<union> {i. 0 < count_list ds i \<and> ?m i = Some (count_list ds i)} =
        set heap \<union> {i. 0 < count_list (d # ds) i \<and> indegree i = Some (count_list (d # ds) i)}"
      using e by (auto simp: set_insort_key)
    have r: "relax (d # ds) indegree heap = relax ds ?m ?h" using e by simp
    show ?thesis using ex unfolding m h r .
  qed
qed

subsection \<open>The loop invariant\<close>

definition pending :: "operation_node list \<Rightarrow> op_id set \<Rightarrow> op_id \<Rightarrow> nat" where
  "pending ns finished i = length (filter (\<lambda>d. d \<notin> finished) (deps_of ns i))"

definition kahn_inv :: "operation_node list \<Rightarrow> (op_id \<rightharpoonup> nat) \<Rightarrow> op_id list \<Rightarrow> op_id list \<Rightarrow> bool" where
  "kahn_inv ns indegree heap order \<longleftrightarrow>
     sorted heap \<and> distinct (order @ heap) \<and> set heap = ready ns (set order) \<and>
     set order \<subseteq> set (node_ids ns) \<and> (\<forall>i \<in> set order. set (deps_of ns i) \<subseteq> set order) \<and>
     indegree = (\<lambda>i. if i \<in> set (node_ids ns) then Some (pending ns (set order) i) else None) \<and>
     greedy ns order"

lemma pending_insert:
  "x \<notin> finished \<Longrightarrow>
     pending ns finished i = count_list (deps_of ns i) x + pending ns (insert x finished) i"
proof -
  assume x: "x \<notin> finished"
  have "length (filter (\<lambda>d. d \<notin> finished) ds) =
      count_list ds x + length (filter (\<lambda>d. d \<notin> insert x finished) ds)" for ds
    using x by (induction ds) auto
  then show ?thesis by (simp add: pending_def)
qed

lemma pending_zero: "pending ns finished i = 0 \<longleftrightarrow> set (deps_of ns i) \<subseteq> finished"
  by (auto simp: pending_def filter_empty_conv)

lemma greedy_snoc:
  assumes "greedy ns order" "x \<in> ready ns (set order)" "\<And>i. i \<in> ready ns (set order) \<Longrightarrow> x \<le> i"
  shows "greedy ns (order @ [x])"
  using assms by (auto simp: greedy_def nth_append less_Suc_eq)

lemma ready_insert:
  assumes "x \<in> ready ns finished" "\<forall>i \<in> finished. set (deps_of ns i) \<subseteq> finished"
  shows "ready ns (insert x finished) = (ready ns finished - {x}) \<union>
     {i \<in> set (node_ids ns). 0 < count_list (deps_of ns i) x \<and>
        pending ns finished i = count_list (deps_of ns i) x}"
proof -
  have "x \<notin> finished" using assms(1) by (simp add: ready_def)
  note p = pending_insert [OF this]
  have "0 < count_list (deps_of ns i) x \<longleftrightarrow> x \<in> set (deps_of ns i)" for i
    using count_list_0_iff [of "deps_of ns i" x] by auto
  then show ?thesis
    using assms \<open>x \<notin> finished\<close> by (auto simp: ready_def p pending_zero)
qed

lemma kahn_step:
  assumes "kahn_inv ns indegree (x # heap) order"
    and cnt: "\<And>i. count_list ds i = count_list (deps_of ns i) x"
  obtains indegree' heap' where "relax ds indegree heap = Some (indegree', heap')"
    "kahn_inv ns indegree' heap' (order @ [x])"
proof -
  have x: "x \<in> ready ns (set order)" "x \<notin> set order"
    and closed: "\<forall>i \<in> set order. set (deps_of ns i) \<subseteq> set order"
    and ind: "indegree = (\<lambda>i. if i \<in> set (node_ids ns) then Some (pending ns (set order) i) else None)"
    and heap: "set heap = ready ns (set order) - {x}" "sorted heap" "distinct heap" "\<forall>i \<in> set heap. x \<le> i"
    using assms(1) by (auto simp: kahn_inv_def)
  note p = pending_insert [OF x(2), of ns]
  have low: "count_list ds i \<le> e" if "indegree i = Some e" for i e
    using that by (auto simp: ind cnt p split: if_splits)
  have zero: "indegree i = Some 0" if "i \<in> set heap" for i
    using that heap(1) by (auto simp: ind ready_def pending_zero)
  obtain heap' where r: "relax ds indegree heap =
        Some (\<lambda>i. map_option (\<lambda>e. e - count_list ds i) (indegree i), heap')"
      and h: "sorted heap'" "distinct heap'"
        "set heap' = set heap \<union> {i. 0 < count_list ds i \<and> indegree i = Some (count_list ds i)}"
    using relax_correct [of indegree ds heap, OF low heap(2,3) zero] by blast
  have "set heap' = ready ns (insert x (set order))"
    unfolding ready_insert [OF x(1) closed] h(3) heap(1) by (auto simp: cnt ind split: if_splits)
  moreover have "greedy ns (order @ [x])"
    using assms(1) x(1) heap by (intro greedy_snoc) (auto simp: kahn_inv_def)
  moreover have "(\<lambda>i. map_option (\<lambda>e. e - count_list ds i) (indegree i)) =
      (\<lambda>i. if i \<in> set (node_ids ns) then Some (pending ns (insert x (set order)) i) else None)"
    by (auto simp: fun_eq_iff ind cnt p)
  ultimately have "kahn_inv ns (\<lambda>i. map_option (\<lambda>e. e - count_list ds i) (indegree i)) heap' (order @ [x])"
    using assms(1) x closed h(1,2) by (auto simp: kahn_inv_def ready_def)
  with r show thesis by (rule that)
qed

lemma schedule_correct:
  assumes "\<And>x i. count_list (dependents_of dependents x) i = count_list (deps_of ns i) x"
    and "kahn_inv ns indegree heap order"
  shows "\<exists>indegree' order'. schedule dependents indegree heap order = Some order' \<and>
           kahn_inv ns indegree' [] order'"
  using assms
proof (induction dependents indegree heap order rule: schedule.induct)
  case (1 dependents indegree order)
  then show ?case by auto
next
  case (2 dependents indegree x heap order)
  obtain indegree' heap' where
    "relax (dependents_of dependents x) indegree heap = Some (indegree', heap')"
    "kahn_inv ns indegree' heap' (order @ [x])"
    by (rule kahn_step [OF "2.prems"(2,1)])
  with 2 show ?case by simp
qed

lemma kahn_inv_initial:
  assumes "distinct (node_ids ns)"
    and "indegree = (\<lambda>i. if i \<in> set (node_ids ns) then Some (length (deps_of ns i)) else None)"
  shows "kahn_inv ns indegree
    (sort (map on_id (filter (\<lambda>n. (case indegree (on_id n) of None \<Rightarrow> 0 | Some d \<Rightarrow> d) = 0) ns))) []"
proof -
  have "distinct (map on_id (filter P ns))" for P
    using assms(1) by (simp add: node_ids_def distinct_map_filter)
  then show ?thesis
    using assms by (auto simp: kahn_inv_def ready_def greedy_def pending_def node_ids_def)
qed

lemma topological_order_run:
  assumes "distinct (node_ids (og_nodes g))"
  obtains indegree order where "kahn_inv (og_nodes g) indegree [] order"
    "topological_order g = (if length order = length (og_nodes g) then Ok order else Err DependencyCycle)"
proof -
  let ?ns = "og_nodes g"
  obtain m w where mw: "fold count_edges ?ns (initial_indegree ?ns, Map.empty) = (m, w)" by fastforce
  have m: "m = (\<lambda>i. if i \<in> set (node_ids ?ns) then Some (length (deps_of ?ns i)) else None)"
    using count_pass_indegree [OF assms, of "initial_indegree ?ns" Map.empty] mw
    by (auto simp: fun_eq_iff initial_indegree_eq)
  have w: "count_list (dependents_of w x) i = count_list (deps_of ?ns i) x" for x i
    using count_pass_dependents [OF assms, of "initial_indegree ?ns" Map.empty] mw
    by (simp add: dependents_of_def)
  from schedule_correct [OF w kahn_inv_initial [OF assms m]] mw that show thesis
    by (auto simp: topological_order_def)
qed

subsection \<open>Facts about greedy orders\<close>

lemma greedy_nth_ready: "greedy ns order \<Longrightarrow> k < length order \<Longrightarrow> order ! k \<in> ready ns (set (take k order))"
  by (simp add: greedy_def)

lemma greedy_prefix_unique:
  assumes "greedy ns a" "greedy ns b" "k \<le> length a" "k \<le> length b"
  shows "take k a = take k b"
  using assms(3,4)
proof (induction k)
  case (Suc k)
  then have "take k a = take k b" by simp
  moreover from this have "a ! k = b ! k"
    using assms(1,2) Suc.prems unfolding greedy_def by (metis Suc_le_eq antisym)
  ultimately show ?case using Suc.prems by (simp add: take_Suc_conv_app_nth)
qed simp

lemma greedy_distinct: "greedy ns order \<Longrightarrow> distinct order"
proof (rule ccontr)
  assume g: "greedy ns order" and "\<not> distinct order"
  then obtain j k where "j < k" "k < length order" "order ! j = order ! k"
    by (metis distinct_conv_nth linorder_neqE_nat)
  then show False
    using greedy_nth_ready [OF g, of k] by (auto simp: ready_def in_set_conv_nth)
qed

lemma greedy_precedes:
  assumes "greedy ns order" "distinct (node_ids ns)" "(d, i) \<in> dependency_relation ns" "i \<in> set order"
  shows "precedes order d i"
proof -
  obtain k where k: "k < length order" "order ! k = i" using assms(4) by (auto simp: in_set_conv_nth)
  with assms greedy_nth_ready [OF assms(1) k(1)] have "d \<in> set (take k order)"
    by (auto simp: ready_def dependency_relation_iff)
  then obtain j where "j < k" "order ! j = d" using k(1) by (auto simp: in_set_conv_nth)
  with k show ?thesis unfolding precedes_def by blast
qed

lemma full_order_covers:
  assumes "set order \<subseteq> set (node_ids ns)" "distinct order" "distinct (node_ids ns)" "length order = length ns"
  shows "set order = set (node_ids ns)"
  using assms by (metis List.finite_set card_subset_eq distinct_card length_map node_ids_def)

lemma greedy_full_acyclic:
  assumes "greedy ns order" "distinct (node_ids ns)" "set order = set (node_ids ns)"
  shows "acyclic (dependency_relation ns)"
proof -
  let ?pos = "the_inv_into {..< length order} ((!) order)"
  have pos: "?pos (order ! k) = k" if "k < length order" for k
    using that greedy_distinct [OF assms(1)] by (simp add: inj_on_nth the_inv_into_f_f)
  have "dependency_relation ns \<subseteq> measure ?pos"
  proof (rule subrelI)
    fix d i assume di: "(d, i) \<in> dependency_relation ns"
    then have "i \<in> set order" using assms(3) by (auto simp: dependency_relation_def node_ids_def)
    from greedy_precedes [OF assms(1,2) di this] show "(d, i) \<in> measure ?pos"
      using pos unfolding precedes_def by (metis dual_order.strict_trans in_measure)
  qed
  then show ?thesis by (meson wf_acyclic wf_measure wf_subset)
qed

lemma stuck_cyclic:
  assumes "ready ns finished = {}" "distinct (node_ids ns)" "\<not> set (node_ids ns) \<subseteq> finished"
    and closed: "\<forall>n \<in> set ns. set (on_depends_on n) \<subseteq> set (node_ids ns)"
  shows "\<not> acyclic (dependency_relation ns)"
proof
  assume "acyclic (dependency_relation ns)"
  then have "wf (dependency_relation ns)" by (simp add: finite_acyclic_wf)
  moreover obtain i where "i \<in> set (node_ids ns) - finished" using assms(3) by blast
  ultimately obtain z where z: "z \<in> set (node_ids ns) - finished"
      "\<And>y. (y, z) \<in> dependency_relation ns \<Longrightarrow> y \<notin> set (node_ids ns) - finished"
    by (rule wfE_min) blast
  then obtain d where "d \<in> set (deps_of ns z)" "d \<notin> finished"
    using assms(1) by (auto simp: ready_def)
  moreover from this have "(d, z) \<in> dependency_relation ns"
    by (simp add: dependency_relation_iff [OF assms(2)])
  ultimately show False using z(2) closed by (auto simp: dependency_relation_def)
qed

section \<open>Properties of the order\<close>

lemma topological_order_OkD:
  assumes "distinct (node_ids (og_nodes g))" "topological_order g = Ok order"
  shows "greedy (og_nodes g) order" "distinct order" "set order = set (node_ids (og_nodes g))"
proof -
  obtain m a where a: "kahn_inv (og_nodes g) m [] a"
    "topological_order g = (if length a = length (og_nodes g) then Ok a else Err DependencyCycle)"
    by (rule topological_order_run [OF assms(1)])
  then have "a = order" "length order = length (og_nodes g)"
    using assms(2) by (auto split: if_splits)
  with a(1) assms(1) show "greedy (og_nodes g) order" "distinct order"
      "set order = set (node_ids (og_nodes g))"
    using full_order_covers [of order "og_nodes g"] by (auto simp: kahn_inv_def)
qed

text \<open>C6: On a graph with distinct ids, the order \<open>topological_order\<close> returns is exactly the greedy
  one: it lists every operation, and each position holds the smallest id all of whose dependencies stand
  before it. No other list is returned, so the order does not depend on the order of the nodes or on the
  iteration order of the hash maps.\<close>

theorem topological_order_is_greedy:
  assumes "distinct (node_ids (og_nodes g))"
  shows "topological_order g = Ok order \<longleftrightarrow>
           length order = length (og_nodes g) \<and> greedy (og_nodes g) order"
proof -
  let ?ns = "og_nodes g"
  obtain m a where a: "kahn_inv ?ns m [] a"
    "topological_order g = (if length a = length ?ns then Ok a else Err DependencyCycle)"
    by (rule topological_order_run [OF assms])
  have stuck: "ready ?ns (set a) = {}" "greedy ?ns a" "length a \<le> length ?ns"
    using a(1) card_mono [of "set (node_ids ?ns)" "set a"] card_length [of "node_ids ?ns"]
    by (auto simp: kahn_inv_def distinct_card node_ids_def)
  have "a = order" if "length order = length ?ns" "greedy ?ns order"
  proof -
    have "take (length a) order = a"
      using greedy_prefix_unique [OF that(2) stuck(2), of "length a"] that(1) stuck(3) by simp
    then show ?thesis
      using greedy_nth_ready [OF that(2), of "length a"] stuck(1) stuck(3) that(1)
      by (cases "length a < length order") auto
  qed
  then show ?thesis using a(2) stuck(2) by auto
qed

text \<open>C7: On a graph with distinct ids whose dependencies name operations of the graph, ordering
  succeeds exactly when the dependency relation has no cycle, and reports \<open>DependencyCycle\<close> otherwise;
  the in-degree counters never underflow. In the order, every dependency comes strictly before the
  operation that needs it, and \<open>rollback_order\<close> undoes it after.\<close>

theorem topological_order_complete:
  assumes "distinct (node_ids (og_nodes g))"
    and "\<forall>n \<in> set (og_nodes g). set (on_depends_on n) \<subseteq> set (node_ids (og_nodes g))"
  shows "if acyclic (dependency_relation (og_nodes g))
         then \<exists>order. topological_order g = Ok order \<and> rollback_order g = Ok (rev order) \<and>
                distinct order \<and> set order = set (node_ids (og_nodes g)) \<and>
                (\<forall>(d, i) \<in> dependency_relation (og_nodes g). precedes order d i)
         else topological_order g = Err DependencyCycle \<and> rollback_order g = Err DependencyCycle"
proof -
  let ?ns = "og_nodes g"
  obtain m a where a: "kahn_inv ?ns m [] a"
    "topological_order g = (if length a = length ?ns then Ok a else Err DependencyCycle)"
    by (rule topological_order_run [OF assms(1)])
  then have inv: "ready ?ns (set a) = {}" "greedy ?ns a" "distinct a" "set a \<subseteq> set (node_ids ?ns)"
    by (auto simp: kahn_inv_def)
  show ?thesis
  proof (cases "length a = length ?ns")
    case True
    then have cover: "set a = set (node_ids ?ns)" using full_order_covers inv(3,4) assms(1) by blast
    then have "i \<in> set a" if "(d, i) \<in> dependency_relation ?ns" for d i
      using that by (auto simp: dependency_relation_def node_ids_def)
    then show ?thesis
      using greedy_full_acyclic [OF inv(2) assms(1) cover] greedy_precedes [OF inv(2) assms(1)]
        a(2) True inv(3) cover by (fastforce simp: rollback_order_def)
  next
    case False
    then have "\<not> set (node_ids ?ns) \<subseteq> set a"
      using inv(3,4) assms(1) by (metis distinct_card length_map node_ids_def subset_antisym)
    then show ?thesis
      using stuck_cyclic [OF inv(1) assms(1) _ assms(2)] a(2) False by (simp add: rollback_order_def)
  qed
qed

definition example_node :: "u32 \<Rightarrow> resource_symbol list \<Rightarrow> resource_symbol list \<Rightarrow> u32 list \<Rightarrow> operation_node" where
  "example_node i ps cs ds = \<lparr>on_id = OpId i, on_operation = DeleteRole ''r'', on_produces = ps,
     on_consumes = cs, on_depends_on = map OpId ds\<rparr>"

definition example_graph :: operation_graph where
  "example_graph = \<lparr>og_nodes = [example_node 0 [] [] [2], example_node 1 [] [] [], example_node 2 [] [] [1]]\<rparr>"

lemmas example_graph_simps =
  example_graph_def example_node_def node_ids_def greedy_def ready_def deps_of_def

lemma example_graph_greedy: "greedy (og_nodes example_graph) [OpId 1, OpId 2, OpId 0]"
  by (auto simp: example_graph_simps less_Suc_eq numeral_3_eq_3)

theorem topological_order_is_greedy_witness:
  "distinct (node_ids (og_nodes example_graph)) \<and>
   topological_order example_graph = Ok [OpId 1, OpId 2, OpId 0]"
  using topological_order_is_greedy [of example_graph "[OpId 1, OpId 2, OpId 0]"] example_graph_greedy
  by (simp add: example_graph_def example_node_def node_ids_def)

theorem topological_order_complete_witness:
  "topological_order \<lparr>og_nodes = [example_node 0 [] [] [1], example_node 1 [] [] [0]]\<rparr> = Err DependencyCycle"
proof -
  let ?g = "\<lparr>og_nodes = [example_node 0 [] [] [1], example_node 1 [] [] [0]]\<rparr>"
  have "(OpId 1, OpId 0) \<in> dependency_relation (og_nodes ?g)"
    "(OpId 0, OpId 1) \<in> dependency_relation (og_nodes ?g)"
    by (simp_all add: dependency_relation_iff example_node_def node_ids_def deps_of_def)
  then have "\<not> acyclic (dependency_relation (og_nodes ?g))"
    unfolding acyclic_def by (meson trancl.r_into_trancl trancl_trans)
  then show ?thesis
    using topological_order_complete [of ?g] by (simp add: example_node_def node_ids_def)
qed

section \<open>Properties of the compiled graph\<close>

definition node_implements :: "normalized_desired_state \<Rightarrow> diff_change \<Rightarrow> operation_node \<Rightarrow> bool" where
  "node_implements desired c n \<longleftrightarrow>
     build_operation c desired = Ok (on_operation n, on_produces n, on_consumes n)"

lemma build_nodes_Ok:
  "build_nodes desired k changes = Ok ns \<Longrightarrow>
     list_all2 (node_implements desired) (filter (\<lambda>c. dc_op c \<noteq> CO_NoOp) changes) ns \<and>
     unat k + length ns < 2 ^ 32 \<and>
     node_ids ns = map (\<lambda>j. OpId (k + of_nat j)) [0..<length ns]"
proof (induction desired k changes arbitrary: ns rule: build_nodes.induct)
  case (1 desired k)
  then show ?case using unsigned_less [of k, where 'a = nat] by (auto simp: node_ids_def)
next
  case (2 desired k c cs)
  show ?case
  proof (cases "dc_op c = CO_NoOp")
    case True
    with 2 show ?thesis by simp
  next
    case False
    with "2.prems" obtain p ps cs' k' ns' where
      b: "build_operation c desired = Ok (p, ps, cs')" "checked_add k 1 = Some k'"
        "build_nodes desired k' cs = Ok ns'"
      and ns: "ns = \<lparr>on_id = OpId k, on_operation = p, on_produces = ps, on_consumes = cs',
                     on_depends_on = []\<rparr> # ns'"
      by (auto simp: outcome_simps split: option.splits)
    have k': "k' = k + 1" "unat k' = Suc (unat k)"
      using checked_add_Some_unat [OF b(2)] b(2) by (auto simp: checked_add_def split: if_splits)
    have "node_ids ns = OpId k # map (\<lambda>j. OpId (k + of_nat (Suc j))) [0..<length ns']"
      using "2.IH"(2) [OF False b(2,3)] k' ns by (simp add: node_ids_def ac_simps)
    also have "\<dots> = map (\<lambda>j. OpId (k + of_nat j)) [0..<length ns]"
      using ns by (simp add: map_upt_Suc del: upt_Suc)
    finally show ?thesis
      using "2.IH"(2) [OF False b(2,3)] k' ns False b(1)
      by (auto simp: node_implements_def split: if_splits)
  qed
qed

lemma build_nodes_distinct:
  assumes "build_nodes desired k changes = Ok ns"
  shows "distinct (node_ids ns)"
proof -
  have b: "unat k + length ns < 2 ^ 32" "node_ids ns = map (\<lambda>j. OpId (k + of_nat j)) [0..<length ns]"
    using build_nodes_Ok [OF assms] by auto
  have "inj_on (\<lambda>j. OpId (k + of_nat j)) {0..<length ns}"
  proof (rule inj_onI)
    fix i j assume "i \<in> {0..<length ns}" "j \<in> {0..<length ns}" "OpId (k + of_nat i) = OpId (k + of_nat j)"
    then have "unat (of_nat i :: u32) = unat (of_nat j :: u32)" "i < 2 ^ 32" "j < 2 ^ 32"
      using b(1) by auto
    then show "i = j" by (simp add: unat_of_nat)
  qed
  then show ?thesis by (simp add: b(2) distinct_map)
qed

lemma producers_of_snoc:
  "producers_of (ns @ [n]) s = (if s \<in> set (on_produces n) then Some (on_id n) else producers_of ns s)"
proof -
  have "fold (\<lambda>s m. m(s \<mapsto> i)) ss m s = (if s \<in> set ss then Some i else m s)" for ss m and i :: op_id
    by (induction ss arbitrary: m) auto
  then show ?thesis by (simp add: producers_of_def)
qed

lemma producers_of_Nil: "producers_of [] s = None"
  by (simp add: producers_of_def)

lemma producers_of_SomeD:
  "producers_of ns s = Some d \<Longrightarrow> \<exists>n \<in> set ns. on_id n = d \<and> s \<in> set (on_produces n)"
  by (induction ns rule: rev_induct) (auto simp: producers_of_snoc producers_of_Nil split: if_splits)

lemma producers_of_None_iff:
  "producers_of ns s = None \<longleftrightarrow> (\<forall>n \<in> set ns. s \<notin> set (on_produces n))"
  by (induction ns rule: rev_induct) (auto simp: producers_of_snoc producers_of_Nil)

lemma set_node_dependencies:
  "set (node_dependencies producers n) =
     {d. d \<noteq> on_id n \<and> (\<exists>s \<in> set (on_consumes n). producers s = Some d)}"
  by (force simp: node_dependencies_def List.map_filter_def image_iff)

lemma derive_dependencies_node_ids [simp]: "node_ids (derive_dependencies ns) = node_ids ns"
  by (simp add: node_ids_def derive_dependencies_def Let_def)

lemma derive_dependencies_mem:
  "n \<in> set (derive_dependencies ns) \<longleftrightarrow>
     (\<exists>b \<in> set ns. n = b\<lparr>on_depends_on := node_dependencies (producers_of ns) b\<rparr>)"
  by (auto simp: derive_dependencies_def Let_def)

lemma derive_dependencies_closed:
  "n \<in> set (derive_dependencies ns) \<Longrightarrow> set (on_depends_on n) \<subseteq> set (node_ids ns)"
  by (auto simp: derive_dependencies_mem set_node_dependencies node_ids_def dest!: producers_of_SomeD)

lemma derived_dependency:
  assumes "n \<in> set (derive_dependencies ns)" "s \<in> set (on_consumes n)"
    and "p \<in> set (derive_dependencies ns)" "s \<in> set (on_produces p)"
  shows "\<exists>q \<in> set (derive_dependencies ns). s \<in> set (on_produces q) \<and>
           (on_id q = on_id n \<or> (on_id q, on_id n) \<in> dependency_relation (derive_dependencies ns))"
proof -
  obtain b where b: "b \<in> set ns" "n = b\<lparr>on_depends_on := node_dependencies (producers_of ns) b\<rparr>"
    using assms(1) by (auto simp: derive_dependencies_mem)
  have "producers_of ns s \<noteq> None"
    using assms(3,4) by (auto simp: producers_of_None_iff derive_dependencies_mem)
  then obtain q0 where q0: "producers_of ns s = Some (on_id q0)" "q0 \<in> set ns" "s \<in> set (on_produces q0)"
    by (auto dest: producers_of_SomeD)
  let ?q = "q0\<lparr>on_depends_on := node_dependencies (producers_of ns) q0\<rparr>"
  have "?q \<in> set (derive_dependencies ns)" using q0(2) by (auto simp: derive_dependencies_mem)
  moreover have "on_id q0 \<in> set (on_depends_on n)" if "on_id q0 \<noteq> on_id n"
    using that b assms(2) q0(1) by (auto simp: set_node_dependencies)
  ultimately show ?thesis
    using q0(3) assms(1) by (intro bexI [of _ ?q]) (auto simp: dependency_relation_def)
qed

lemma compile_operations_OkD:
  assumes "compile_operations d desired = Ok g"
  obtains ns order where "dr_conflicts d = []" "build_nodes desired 0 (dr_changes d) = Ok ns"
    "og_nodes g = derive_dependencies ns" "topological_order g = Ok order"
  using assms by (auto simp: compile_operations_def outcome_simps Let_def split: if_splits)

text \<open>C8: A compiled graph has no conflicts behind it and holds exactly one operation per change that is
  not a no-op, in the order of the diff and with the payload \<open>build_operation\<close> gives it, numbered from 0
  without gaps. It has an execution order, and in that order a symbol an operation consumes and the plan
  produces has been produced before (or is produced by the operation itself).\<close>

theorem compile_operations_sound:
  assumes "compile_operations d desired = Ok g"
  shows "dr_conflicts d = [] \<and> list_all2 (node_implements desired) (planned d) (og_nodes g) \<and>
         node_ids (og_nodes g) = map (\<lambda>j. OpId (of_nat j)) [0..<length (planned d)] \<and>
         (\<exists>order. topological_order g = Ok order \<and>
            (\<forall>n \<in> set (og_nodes g). \<forall>s \<in> set (on_consumes n). \<forall>p \<in> set (og_nodes g).
               s \<in> set (on_produces p) \<longrightarrow>
               (\<exists>q \<in> set (og_nodes g). s \<in> set (on_produces q) \<and>
                  (on_id q = on_id n \<or> precedes order (on_id q) (on_id n)))))"
proof -
  obtain ns order where d: "dr_conflicts d = []" "build_nodes desired 0 (dr_changes d) = Ok ns"
    and g: "og_nodes g = derive_dependencies ns" and ord: "topological_order g = Ok order"
    by (rule compile_operations_OkD [OF assms])
  note nodes = build_nodes_Ok [OF d(2)] and dist = build_nodes_distinct [OF d(2)]
  then have len: "length ns = length (planned d)"
    by (auto simp: planned_def dest: list_all2_lengthD)
  have impl: "list_all2 (node_implements desired) (planned d) (og_nodes g)"
    using nodes by (auto simp: g derive_dependencies_def Let_def list_all2_map2 planned_def node_implements_def
        elim!: list_all2_mono)
  have gd: "distinct (node_ids (og_nodes g))" using dist by (simp add: g)
  have full: "greedy (og_nodes g) order" "set order = set (node_ids (og_nodes g))"
    using topological_order_OkD [OF gd ord] by auto
  have "\<exists>q \<in> set (og_nodes g). s \<in> set (on_produces q) \<and>
          (on_id q = on_id n \<or> precedes order (on_id q) (on_id n))"
    if n: "n \<in> set (og_nodes g)" "s \<in> set (on_consumes n)" and p: "p \<in> set (og_nodes g)" "s \<in> set (on_produces p)"
    for n s p
  proof -
    obtain q where q: "q \<in> set (og_nodes g)" "s \<in> set (on_produces q)"
        "on_id q = on_id n \<or> (on_id q, on_id n) \<in> dependency_relation (og_nodes g)"
      using derived_dependency [OF n(1)[unfolded g] n(2) p(1)[unfolded g] p(2)] unfolding g by blast
    with n(1) full show ?thesis
      using greedy_precedes [OF full(1) gd] by (fastforce simp: node_ids_def)
  qed
  then show ?thesis using d(1) impl nodes ord g len by (auto simp: planned_def)
qed

section \<open>An example\<close>

definition example_plan :: operation_graph where
  "example_plan = \<lparr>og_nodes =
    [\<lparr>on_id = OpId 0, on_operation = CreateRole ''m'' (Some ''Member'') (Some 0), on_produces = [RS_Role ''m''],
      on_consumes = [], on_depends_on = []\<rparr>,
     \<lparr>on_id = OpId 1, on_operation = CreateChannel ''c'' (Some ''chat'') (Some CT_Text) None, on_produces = [RS_Channel ''c''],
      on_consumes = [], on_depends_on = []\<rparr>,
     \<lparr>on_id = OpId 2, on_operation = CreateOverwrite ''c'' NT_Everyone 0 VIEW_CHANNEL, on_produces = [],
      on_consumes = [RS_Channel ''c''], on_depends_on = [OpId 1]\<rparr>,
     \<lparr>on_id = OpId 3, on_operation = CreateOverwrite ''c'' (NT_Role ''m'') VIEW_CHANNEL 0, on_produces = [],
      on_consumes = [RS_Channel ''c'', RS_Role ''m''], on_depends_on = [OpId 0, OpId 1]\<rparr>]\<rparr>"

lemmas topological_order_eval = topological_order_def Let_def count_edges_def initial_indegree_def bump_indegree_def
  push_dependent_def dependents_of_def less_eq_op_id_def less_op_id_def

lemma order_example: "topological_order example_plan = Ok [OpId 0, OpId 1, OpId 2, OpId 3]"
  by (simp add: example_plan_def topological_order_eval)

lemma example_plan_distinct: "distinct (node_ids (og_nodes example_plan))"
  by (simp add: example_plan_def node_ids_def)

lemma compile_operations_example: "compile_operations example_diff example_normalized = Ok example_plan"
proof -
  let ?bare = "map (\<lambda>n. n\<lparr>on_depends_on := []\<rparr>) (og_nodes example_plan)"
  have b: "build_nodes example_normalized 0 (dr_changes example_diff) = Ok ?bare"
    by (simp add: example_diff_def build_operation_def find_role_def find_channel_def find_overwrite_def
        example_normalized_def ex_identity_def checked_add_def overwrite_consumes_def example_plan_def)
  have d: "derive_dependencies ?bare = og_nodes example_plan"
    by (simp add: derive_dependencies_def producers_of_def node_dependencies_def example_plan_def Let_def
        List.map_filter_def less_eq_op_id_def less_op_id_def)
  have e: "\<lparr>og_nodes = og_nodes example_plan\<rparr> = example_plan" by simp
  have c: "dr_conflicts example_diff = []" by (simp add: example_diff_def)
  show ?thesis unfolding compile_operations_def b and_then.simps d Let_def e order_example c by simp
qed

theorem compile_operations_sound_witness:
  "compile_operations example_diff example_normalized = Ok example_plan \<and>
   list_all2 (node_implements example_normalized) (planned example_diff) (og_nodes example_plan)"
  using compile_operations_sound [OF compile_operations_example] compile_operations_example by blast

end
