(* ===== verification/Policy_Engine.thy ===== *)
theory Policy_Engine
  imports Operation_Graph
begin

text \<open>
  The crate \<open>policy-engine\<close>: rules look at an operation graph and report findings, and the decision is
  the most severe verdict among them. A rule is its \<open>evaluate\<close> method; the trait objects of the engine
  are a list of such functions.
\<close>

section \<open>Verdicts and findings\<close>

datatype verdict = Allow | Warn | RequireApproval | Deny

fun verdict_rank :: "verdict \<Rightarrow> nat" where
  "verdict_rank Allow = 0"
| "verdict_rank Warn = 1"
| "verdict_rank RequireApproval = 2"
| "verdict_rank Deny = 3"

instantiation verdict :: linorder
begin

definition less_eq_verdict :: "verdict \<Rightarrow> verdict \<Rightarrow> bool" where
  "less_eq_verdict a b \<longleftrightarrow> verdict_rank a \<le> verdict_rank b"

definition less_verdict :: "verdict \<Rightarrow> verdict \<Rightarrow> bool" where
  "less_verdict a b \<longleftrightarrow> verdict_rank a < verdict_rank b"

instance
proof
  fix a b :: verdict
  show "a \<le> b \<Longrightarrow> b \<le> a \<Longrightarrow> a = b"
    by (cases a; cases b) (simp_all add: less_eq_verdict_def)
qed (auto simp: less_eq_verdict_def less_verdict_def)

end

record finding =
  fi_rule_id :: string
  fi_verdict :: verdict
  fi_target :: string
  fi_message :: string

section \<open>Rules\<close>

definition privileged_mask :: permissions where
  "privileged_mask =
     ADMINISTRATOR OR MANAGE_GUILD OR MANAGE_ROLES OR MANAGE_CHANNELS OR KICK_MEMBERS OR BAN_MEMBERS OR
     MENTION_EVERYONE OR MODERATE_MEMBERS"

fun privileged_grant :: "operation \<Rightarrow> (permissions option \<times> string) option" where
  "privileged_grant (CreateRole key name permissions) = Some (permissions, ''role:'' @ key)"
| "privileged_grant (UpdateRole key name permissions) = Some (permissions, ''role:'' @ key)"
| "privileged_grant (CreateOverwrite channel target allow deny) = Some (Some allow, ''overwrite:'' @ channel)"
| "privileged_grant (UpdateOverwrite channel target allow deny) = Some (Some allow, ''overwrite:'' @ channel)"
| "privileged_grant _ = None"

definition privileged_finding :: "operation_node \<Rightarrow> finding option" where
  "privileged_finding n =
     (case privileged_grant (on_operation n) of
        Some (Some permissions, target) \<Rightarrow>
          if permissions AND privileged_mask \<noteq> 0
          then Some \<lparr>fi_rule_id = ''privileged-permission'', fi_verdict = Deny, fi_target = target,
                 fi_message = ''privileged permission granted''\<rparr>
          else None
      | _ \<Rightarrow> None)"

definition privileged_permission_rule :: "operation_graph \<Rightarrow> finding list" where
  "privileged_permission_rule g = List.map_filter privileged_finding (og_nodes g)"

fun destructive_finding_of :: "operation \<Rightarrow> finding option" where
  "destructive_finding_of (DeleteRole key) =
     Some \<lparr>fi_rule_id = ''destructive-operation'', fi_verdict = RequireApproval, fi_target = ''role:'' @ key,
       fi_message = ''role deletion''\<rparr>"
| "destructive_finding_of (DeleteChannel key) =
     Some \<lparr>fi_rule_id = ''destructive-operation'', fi_verdict = RequireApproval, fi_target = ''channel:'' @ key,
       fi_message = ''channel deletion''\<rparr>"
| "destructive_finding_of _ = None"

definition destructive_operation_rule :: "operation_graph \<Rightarrow> finding list" where
  "destructive_operation_rule g = List.map_filter (\<lambda>n. destructive_finding_of (on_operation n)) (og_nodes g)"

fun overwrite_subject :: "operation \<Rightarrow> (resource_key \<times> normalized_target) option" where
  "overwrite_subject (CreateOverwrite channel target allow deny) = Some (channel, target)"
| "overwrite_subject (UpdateOverwrite channel target allow deny) = Some (channel, target)"
| "overwrite_subject _ = None"

definition everyone_finding :: "operation_node \<Rightarrow> finding option" where
  "everyone_finding n =
     (case overwrite_subject (on_operation n) of
        Some (channel, NT_Everyone) \<Rightarrow>
          Some \<lparr>fi_rule_id = ''everyone-change'', fi_verdict = RequireApproval,
            fi_target = ''overwrite:'' @ channel @ '':everyone'',
            fi_message = ''changes @everyone access''\<rparr>
      | _ \<Rightarrow> None)"

definition everyone_change_rule :: "operation_graph \<Rightarrow> finding list" where
  "everyone_change_rule g = List.map_filter everyone_finding (og_nodes g)"

section \<open>The engine\<close>

record policy_decision =
  pd_verdict :: verdict
  pd_findings :: "finding list"

type_synonym policy_rule = "operation_graph \<Rightarrow> finding list"

record policy_engine =
  pe_rules :: "policy_rule list"

definition with_default_rules :: policy_engine where
  "with_default_rules =
     \<lparr>pe_rules = [privileged_permission_rule, destructive_operation_rule, everyone_change_rule]\<rparr>"

definition max_verdict :: "verdict list \<Rightarrow> verdict" where
  "max_verdict vs = (case vs of [] \<Rightarrow> Allow | v # vs' \<Rightarrow> fold max vs' v)"

definition evaluate :: "policy_engine \<Rightarrow> operation_graph \<Rightarrow> policy_decision" where
  "evaluate engine g =
     (let findings = concat (map (\<lambda>rule. rule g) (pe_rules engine)) in
      \<lparr>pd_verdict = max_verdict (map fi_verdict findings), pd_findings = findings\<rparr>)"

section \<open>Properties\<close>

lemma map_filter_mem: "y \<in> set (List.map_filter f xs) \<longleftrightarrow> (\<exists>x \<in> set xs. f x = Some y)"
  by (force simp: List.map_filter_def image_iff)

lemma max_verdict_eq: "max_verdict vs = Max (insert Allow (set vs))"
proof (cases vs)
  case (Cons v vs')
  have "Allow \<le> w" for w :: verdict by (cases w) (simp_all add: less_eq_verdict_def)
  then have "Max (insert Allow (set (v # vs'))) = Max (set (v # vs'))"
    by (simp add: max_absorb2)
  then show ?thesis using Cons Max.set_eq_fold [of v vs'] by (simp add: max_verdict_def)
qed (simp add: max_verdict_def)

text \<open>Which operations the default rules look for, in terms of what the operation does.\<close>

definition grants_privileged :: "operation \<Rightarrow> bool" where
  "grants_privileged operation \<longleftrightarrow>
     (case operation of
        CreateRole k n (Some p) \<Rightarrow> p AND privileged_mask \<noteq> 0
      | UpdateRole k n (Some p) \<Rightarrow> p AND privileged_mask \<noteq> 0
      | CreateOverwrite k t allow deny \<Rightarrow> allow AND privileged_mask \<noteq> 0
      | UpdateOverwrite k t allow deny \<Rightarrow> allow AND privileged_mask \<noteq> 0
      | _ \<Rightarrow> False)"

definition is_deletion :: "operation \<Rightarrow> bool" where
  "is_deletion operation \<longleftrightarrow>
     (case operation of DeleteRole k \<Rightarrow> True | DeleteChannel k \<Rightarrow> True | _ \<Rightarrow> False)"

definition touches_everyone :: "operation \<Rightarrow> bool" where
  "touches_everyone operation \<longleftrightarrow>
     (case operation of
        CreateOverwrite k t allow deny \<Rightarrow> t = NT_Everyone
      | UpdateOverwrite k t allow deny \<Rightarrow> t = NT_Everyone
      | _ \<Rightarrow> False)"

lemma privileged_finding_iff:
  "(\<exists>f. privileged_finding n = Some f) \<longleftrightarrow> grants_privileged (on_operation n)"
  by (cases "on_operation n") (auto simp: privileged_finding_def grants_privileged_def split: option.splits)

lemma destructive_finding_iff: "(\<exists>f. destructive_finding_of p = Some f) \<longleftrightarrow> is_deletion p"
  by (cases p) (auto simp: is_deletion_def)

lemma everyone_finding_iff: "(\<exists>f. everyone_finding n = Some f) \<longleftrightarrow> touches_everyone (on_operation n)"
  by (cases "on_operation n") (auto simp: everyone_finding_def touches_everyone_def split: normalized_target.splits)

lemma finding_verdicts:
  "privileged_finding n = Some f \<Longrightarrow> fi_verdict f = Deny"
  "destructive_finding_of p = Some f \<Longrightarrow> fi_verdict f = RequireApproval"
  "everyone_finding n = Some f \<Longrightarrow> fi_verdict f = RequireApproval"
  by (auto simp: privileged_finding_def everyone_finding_def split: option.splits prod.splits if_splits normalized_target.splits,
      cases p) auto

lemma map_filter_verdicts:
  assumes "\<And>x f. x \<in> set xs \<Longrightarrow> g x = Some f \<Longrightarrow> fi_verdict f = v"
  shows "fi_verdict ` set (List.map_filter g xs) = (if \<exists>x \<in> set xs. \<exists>f. g x = Some f then {v} else {})"
proof (cases "\<exists>x \<in> set xs. \<exists>f. g x = Some f")
  case True
  then obtain x f where "x \<in> set xs" "g x = Some f" by blast
  then have "f \<in> set (List.map_filter g xs)" "fi_verdict f = v" using assms by (auto simp: map_filter_mem)
  moreover have "fi_verdict y = v" if "y \<in> set (List.map_filter g xs)" for y
    using that assms unfolding map_filter_mem by blast
  ultimately have "fi_verdict ` set (List.map_filter g xs) = {v}" by blast
  with True show ?thesis by (simp only: if_True)
next
  case False
  then have "set (List.map_filter g xs) = {}" unfolding map_filter_mem set_eq_iff by simp
  with False show ?thesis by simp
qed

lemma rule_verdicts:
  "fi_verdict ` set (privileged_permission_rule g) =
     (if \<exists>n \<in> set (og_nodes g). grants_privileged (on_operation n) then {Deny} else {})"
  "fi_verdict ` set (destructive_operation_rule g) =
     (if \<exists>n \<in> set (og_nodes g). is_deletion (on_operation n) then {RequireApproval} else {})"
  "fi_verdict ` set (everyone_change_rule g) =
     (if \<exists>n \<in> set (og_nodes g). touches_everyone (on_operation n) then {RequireApproval} else {})"
  unfolding privileged_permission_rule_def destructive_operation_rule_def everyone_change_rule_def
    privileged_finding_iff [symmetric] destructive_finding_iff [symmetric] everyone_finding_iff [symmetric]
  by (rule map_filter_verdicts, erule finding_verdicts)+

text \<open>C9: The default engine denies a graph exactly when some operation grants a privileged permission
  bit to a role or allows one in an overwrite; otherwise it requires approval exactly when some operation
  deletes a role or a channel or changes the access of everyone; otherwise it allows the graph.\<close>

theorem default_verdict_exact:
  "pd_verdict (evaluate with_default_rules g) =
     (if \<exists>n \<in> set (og_nodes g). grants_privileged (on_operation n) then Deny
      else if \<exists>n \<in> set (og_nodes g). is_deletion (on_operation n) \<or> touches_everyone (on_operation n)
      then RequireApproval
      else Allow)"
proof -
  have "pd_verdict (evaluate with_default_rules g) =
      Max (insert Allow (fi_verdict ` set (privileged_permission_rule g) \<union>
        fi_verdict ` set (destructive_operation_rule g) \<union> fi_verdict ` set (everyone_change_rule g)))"
    by (simp add: evaluate_def with_default_rules_def max_verdict_eq image_Un Un_assoc)
  also have "\<dots> = (if \<exists>n \<in> set (og_nodes g). grants_privileged (on_operation n) then Deny
      else if \<exists>n \<in> set (og_nodes g). is_deletion (on_operation n) \<or> touches_everyone (on_operation n)
      then RequireApproval else Allow)"
    unfolding rule_verdicts bex_disj_distrib
    by (cases "\<exists>n \<in> set (og_nodes g). grants_privileged (on_operation n)";
        cases "\<exists>n \<in> set (og_nodes g). is_deletion (on_operation n)";
        cases "\<exists>n \<in> set (og_nodes g). touches_everyone (on_operation n)")
      (simp_all add: max_def less_eq_verdict_def)
  finally show ?thesis .
qed

end
