(* ===== verification/Simulator.thy ===== *)
theory Simulator
  imports Discord_Model
begin

text \<open>
  The crate \<open>simulator\<close>: the permissions a set of roles has in a channel, computed the way Discord
  documents it, and the access matrix of a guild.
\<close>

section \<open>Effective permissions\<close>

definition role_permissions :: "guild_state \<Rightarrow> role_id \<Rightarrow> permissions" where
  "role_permissions g i =
     (case find (\<lambda>r. r_id r = i) (gs_roles g) of Some r \<Rightarrow> r_permissions r | None \<Rightarrow> 0)"

definition channel_overwrite :: "channel \<Rightarrow> role_id \<Rightarrow> permission_overwrite option" where
  "channel_overwrite c i = find (\<lambda>w. po_target w = OT_Role i) (c_overwrites c)"

definition apply_overwrite :: "permissions \<Rightarrow> permissions \<Rightarrow> permissions \<Rightarrow> permissions" where
  "apply_overwrite perms allow deny = (perms AND NOT deny) OR allow"

definition accumulate_overwrite :: "channel \<Rightarrow> role_id \<Rightarrow> permissions \<times> permissions \<Rightarrow> permissions \<times> permissions" where
  "accumulate_overwrite c i accum =
     (case channel_overwrite c i of
        None \<Rightarrow> accum
      | Some w \<Rightarrow> (fst accum OR po_allow w, snd accum OR po_deny w))"

definition effective_permissions :: "guild_state \<Rightarrow> role_id list \<Rightarrow> channel \<Rightarrow> permissions" where
  "effective_permissions g subject_roles c =
     (let everyone_id = RoleId (guild_u64 (g_id (gs_guild g)));
          base = fold (\<lambda>i b. b OR role_permissions g i) subject_roles (role_permissions g everyone_id)
      in if permissions_contains base ADMINISTRATOR then permissions_all
         else
           let perms = (case channel_overwrite c everyone_id of
                          None \<Rightarrow> base
                        | Some w \<Rightarrow> apply_overwrite base (po_allow w) (po_deny w));
               (allow_accum, deny_accum) = fold (accumulate_overwrite c) subject_roles (0, 0)
           in apply_overwrite perms allow_accum deny_accum)"

definition can_view :: "guild_state \<Rightarrow> role_id list \<Rightarrow> channel \<Rightarrow> bool" where
  "can_view g subject_roles c = permissions_contains (effective_permissions g subject_roles c) VIEW_CHANNEL"

definition can_send :: "guild_state \<Rightarrow> role_id list \<Rightarrow> channel \<Rightarrow> bool" where
  "can_send g subject_roles c =
     (let perms = effective_permissions g subject_roles c in
      permissions_contains perms VIEW_CHANNEL \<and> permissions_contains perms SEND_MESSAGES)"

section \<open>The access matrix\<close>

record subject_spec =
  ss_name :: string
  ss_roles :: "role_id list"

record access_cell =
  ac_subject :: string
  ac_channel :: string
  ac_can_view :: bool
  ac_can_send :: bool

record access_matrix_table =
  am_cells :: "access_cell list"

definition access_cell_of :: "guild_state \<Rightarrow> subject_spec \<Rightarrow> channel \<Rightarrow> access_cell" where
  "access_cell_of g s c =
     \<lparr>ac_subject = ss_name s, ac_channel = c_name c, ac_can_view = can_view g (ss_roles s) c,
      ac_can_send = can_send g (ss_roles s) c\<rparr>"

definition access_matrix :: "guild_state \<Rightarrow> subject_spec list \<Rightarrow> access_matrix_table" where
  "access_matrix g subjects =
     \<lparr>am_cells = concat (map (\<lambda>s. map (access_cell_of g s) (gs_channels g)) subjects)\<rparr>"

section \<open>Properties\<close>

text \<open>The documented rule for one permission bit, read off the sets of roles and overwrites.\<close>

definition everyone_role :: "guild_state \<Rightarrow> role_id" where
  "everyone_role g = RoleId (guild_u64 (g_id (gs_guild g)))"

definition base_bit :: "guild_state \<Rightarrow> role_id set \<Rightarrow> nat \<Rightarrow> bool" where
  "base_bit g roles b \<longleftrightarrow> (\<exists>i \<in> insert (everyone_role g) roles. bit (role_permissions g i) b)"

definition allowed_bit :: "channel \<Rightarrow> role_id set \<Rightarrow> nat \<Rightarrow> bool" where
  "allowed_bit c roles b \<longleftrightarrow> (\<exists>i \<in> roles. \<exists>w. channel_overwrite c i = Some w \<and> bit (po_allow w) b)"

definition denied_bit :: "channel \<Rightarrow> role_id set \<Rightarrow> nat \<Rightarrow> bool" where
  "denied_bit c roles b \<longleftrightarrow> (\<exists>i \<in> roles. \<exists>w. channel_overwrite c i = Some w \<and> bit (po_deny w) b)"

definition documented_bit :: "guild_state \<Rightarrow> role_id set \<Rightarrow> channel \<Rightarrow> nat \<Rightarrow> bool" where
  "documented_bit g roles c b \<longleftrightarrow>
     (if base_bit g roles 3 then bit permissions_all b
      else allowed_bit c roles b \<or>
        \<not> denied_bit c roles b \<and>
        (allowed_bit c {everyone_role g} b \<or> \<not> denied_bit c {everyone_role g} b \<and> base_bit g roles b))"

lemma bit_fold_or: "bit (fold (\<lambda>i b. b OR f i) is b0) n \<longleftrightarrow> bit b0 n \<or> (\<exists>i \<in> set is. bit (f i) n)"
  for b0 :: permissions
  by (induction "is" arbitrary: b0) (auto simp: bit_or_iff)

lemma bit_fold_accumulate:
  "bit (fst (fold (accumulate_overwrite c) is acc)) n \<longleftrightarrow> bit (fst acc) n \<or> allowed_bit c (set is) n"
  "bit (snd (fold (accumulate_overwrite c) is acc)) n \<longleftrightarrow> bit (snd acc) n \<or> denied_bit c (set is) n"
  by (induction "is" arbitrary: acc)
    (auto simp: accumulate_overwrite_def allowed_bit_def denied_bit_def bit_or_iff split: option.splits)

lemma bit_apply_overwrite:
  fixes perms :: permissions
  shows "bit (apply_overwrite perms allow deny) n \<longleftrightarrow> bit allow n \<or> \<not> bit deny n \<and> bit perms n"
  by (auto simp: apply_overwrite_def bit_or_iff bit_and_iff bit_not_iff dest: bit_imp_le_length)

lemma contains_administrator: "permissions_contains p ADMINISTRATOR \<longleftrightarrow> bit p 3"
proof -
  have "bit ADMINISTRATOR i \<longleftrightarrow> i = 3" for i
    unfolding ADMINISTRATOR_def bit_push_bit_iff by (auto simp: bit_1_iff)
  then show ?thesis by (auto simp: permissions_contains_iff)
qed

text \<open>C10: Each bit of \<open>effective_permissions\<close> follows the documented rule: a subject with the
  administrator bit has every declared permission; otherwise an allow of any of its roles' overwrites wins,
  then a deny of any of them, then the overwrite of everyone, then the union of the role permissions. The
  result depends only on the set of roles, not on their order or multiplicity.\<close>

theorem effective_permissions_documented:
  "bit (effective_permissions g roles c) b \<longleftrightarrow> documented_bit g (set roles) c b"
proof -
  let ?e = "everyone_role g"
  define base where "base = fold (\<lambda>i b. b OR role_permissions g i) roles (role_permissions g ?e)"
  define perms where "perms = (case channel_overwrite c ?e of None \<Rightarrow> base
      | Some w \<Rightarrow> apply_overwrite base (po_allow w) (po_deny w))"
  obtain al de where acc: "fold (accumulate_overwrite c) roles (0, 0) = (al, de)" by fastforce
  have b: "bit base n \<longleftrightarrow> base_bit g (set roles) n" for n
    by (simp add: base_def bit_fold_or base_bit_def)
  have p: "bit perms n \<longleftrightarrow> allowed_bit c {?e} n \<or> \<not> denied_bit c {?e} n \<and> base_bit g (set roles) n" for n
    by (auto simp: perms_def allowed_bit_def denied_bit_def bit_apply_overwrite b split: option.splits)
  have "bit al n \<longleftrightarrow> allowed_bit c (set roles) n" "bit de n \<longleftrightarrow> denied_bit c (set roles) n" for n
    using bit_fold_accumulate [of c roles "(0, 0)" n] acc by simp_all
  moreover have "effective_permissions g roles c =
      (if permissions_contains base ADMINISTRATOR then permissions_all else apply_overwrite perms al de)"
    unfolding effective_permissions_def Let_def perms_def base_def everyone_role_def acc by simp
  ultimately show ?thesis
    by (simp add: documented_bit_def contains_administrator b p bit_apply_overwrite)
qed

end
