(* ===== verification/Resource_Resolution.thy ===== *)
theory Resource_Resolution
  imports Diff_Engine
begin

text \<open>
  The crate \<open>resource-resolution\<close>, part one: the binding context the planner and the executor share. A
  key resolves to the id bound to it, otherwise to the id of the declared resource the resolver finds, which
  is then bound. A failed resolution leaves the context as it was, so the operations return the new
  context only on success.
\<close>

section \<open>Bindings\<close>

record resource_binding_map =
  role_bindings :: "(resource_key, role_id) bmap"
  channel_bindings :: "(resource_key, channel_id) bmap"

datatype resolution_error = UnresolvedKey string | MissingIdentity string

record resource_resolution_context =
  bindings :: resource_binding_map
  rc_normalized :: normalized_desired_state
  rc_resolver :: resource_resolver
  rc_guild_id :: guild_id

definition new_resolution_context :: "normalized_desired_state \<Rightarrow> resource_resolver \<Rightarrow> guild_id \<Rightarrow>
    resource_resolution_context" where
  "new_resolution_context normalized resolver guild =
     \<lparr>bindings = \<lparr>role_bindings = [], channel_bindings = []\<rparr>, rc_normalized = normalized,
      rc_resolver = resolver, rc_guild_id = guild\<rparr>"

definition bind_role :: "resource_key \<Rightarrow> role_id \<Rightarrow> resource_resolution_context \<Rightarrow> resource_resolution_context" where
  "bind_role key i ctx =
     ctx\<lparr>bindings := (bindings ctx)\<lparr>role_bindings := bm_insert key i (role_bindings (bindings ctx))\<rparr>\<rparr>"

definition bind_channel :: "resource_key \<Rightarrow> channel_id \<Rightarrow> resource_resolution_context \<Rightarrow> resource_resolution_context" where
  "bind_channel key i ctx =
     ctx\<lparr>bindings := (bindings ctx)\<lparr>channel_bindings := bm_insert key i (channel_bindings (bindings ctx))\<rparr>\<rparr>"

section \<open>Resolution\<close>

definition resolve_role_key :: "resource_key \<Rightarrow> resource_resolution_context \<Rightarrow>
    resolution_error + role_id \<times> resource_resolution_context" where
  "resolve_role_key key ctx =
     (case bm_get (role_bindings (bindings ctx)) key of
        Some i \<Rightarrow> Inr (i, ctx)
      | None \<Rightarrow>
          (case find (\<lambda>r. id_key (nr_identity r) = key) (nd_roles (rc_normalized ctx)) of
             None \<Rightarrow> Inl (MissingIdentity key)
           | Some nr \<Rightarrow>
               (case resolve_role (rc_resolver ctx) (nr_identity nr) (nr_name nr) of
                  Existing r \<Rightarrow> Inr (r_id r, bind_role key (r_id r) ctx)
                | _ \<Rightarrow> Inl (UnresolvedKey key))))"

definition resolve_channel_key :: "resource_key \<Rightarrow> resource_resolution_context \<Rightarrow>
    resolution_error + channel_id \<times> resource_resolution_context" where
  "resolve_channel_key key ctx =
     (case bm_get (channel_bindings (bindings ctx)) key of
        Some i \<Rightarrow> Inr (i, ctx)
      | None \<Rightarrow>
          (case find (\<lambda>c. id_key (nc_identity c) = key) (nd_channels (rc_normalized ctx)) of
             None \<Rightarrow> Inl (MissingIdentity key)
           | Some nc \<Rightarrow>
               (case resolve_channel (rc_resolver ctx) (nc_identity nc) (nc_name nc) of
                  Existing c \<Rightarrow> Inr (c_id c, bind_channel key (c_id c) ctx)
                | _ \<Rightarrow> Inl (UnresolvedKey key))))"

definition resolve_target :: "normalized_target \<Rightarrow> resource_resolution_context \<Rightarrow>
    resolution_error + overwrite_target \<times> resource_resolution_context" where
  "resolve_target target ctx =
     (case target of
        NT_Everyone \<Rightarrow> Inr (OT_Role (RoleId (guild_u64 (rc_guild_id ctx))), ctx)
      | NT_Role key \<Rightarrow>
          (case resolve_role_key key ctx of
             Inl e \<Rightarrow> Inl e
           | Inr (i, ctx') \<Rightarrow> Inr (OT_Role i, ctx'))
      | NT_Member s \<Rightarrow>
          (case parse_u64 s of
             None \<Rightarrow> Inl (UnresolvedKey s)
           | Some raw \<Rightarrow> Inr (OT_Member (UserId raw), ctx)))"

section \<open>Properties\<close>

text \<open>What a context means: the id each key stands for, independently of which lookups already ran.\<close>

definition role_meaning :: "resource_resolution_context \<Rightarrow> resource_key \<rightharpoonup> role_id" where
  "role_meaning ctx key =
     (case bm_get (role_bindings (bindings ctx)) key of
        Some i \<Rightarrow> Some i
      | None \<Rightarrow>
          (case find (\<lambda>r. id_key (nr_identity r) = key) (nd_roles (rc_normalized ctx)) of
             None \<Rightarrow> None
           | Some nr \<Rightarrow>
               (case resolve_role (rc_resolver ctx) (nr_identity nr) (nr_name nr) of
                  Existing r \<Rightarrow> Some (r_id r) | _ \<Rightarrow> None)))"

definition channel_meaning :: "resource_resolution_context \<Rightarrow> resource_key \<rightharpoonup> channel_id" where
  "channel_meaning ctx key =
     (case bm_get (channel_bindings (bindings ctx)) key of
        Some i \<Rightarrow> Some i
      | None \<Rightarrow>
          (case find (\<lambda>c. id_key (nc_identity c) = key) (nd_channels (rc_normalized ctx)) of
             None \<Rightarrow> None
           | Some nc \<Rightarrow>
               (case resolve_channel (rc_resolver ctx) (nc_identity nc) (nc_name nc) of
                  Existing c \<Rightarrow> Some (c_id c) | _ \<Rightarrow> None)))"

definition context_wf :: "resource_resolution_context \<Rightarrow> bool" where
  "context_wf ctx \<longleftrightarrow> bm_invar (role_bindings (bindings ctx)) \<and> bm_invar (channel_bindings (bindings ctx))"

text \<open>Two contexts agree when every key means the same in both.\<close>

definition same_meaning :: "resource_resolution_context \<Rightarrow> resource_resolution_context \<Rightarrow> bool" where
  "same_meaning a b \<longleftrightarrow> role_meaning a = role_meaning b \<and> channel_meaning a = channel_meaning b \<and>
     rc_guild_id a = rc_guild_id b"

lemma new_resolution_context_wf [simp]: "context_wf (new_resolution_context n r g)"
  by (simp add: context_wf_def new_resolution_context_def bm_invar_def)

lemma bind_wf [simp]:
  "context_wf ctx \<Longrightarrow> context_wf (bind_role k i ctx)"
  "context_wf ctx \<Longrightarrow> context_wf (bind_channel k j ctx)"
  by (simp_all add: context_wf_def bind_role_def bind_channel_def bm_simps)

lemma bind_meaning:
  "context_wf ctx \<Longrightarrow> role_meaning (bind_role k i ctx) = (role_meaning ctx)(k \<mapsto> i)"
  "context_wf ctx \<Longrightarrow> channel_meaning (bind_channel k j ctx) = (channel_meaning ctx)(k \<mapsto> j)"
  "channel_meaning (bind_role k i ctx) = channel_meaning ctx"
  "role_meaning (bind_channel k j ctx) = role_meaning ctx"
  "rc_guild_id (bind_role k i ctx) = rc_guild_id ctx"
  "rc_guild_id (bind_channel k j ctx) = rc_guild_id ctx"
  by (auto simp: fun_eq_iff role_meaning_def channel_meaning_def bind_role_def bind_channel_def
      context_wf_def bm_simps split: option.split)

text \<open>Resolving a key returns its meaning and only caches it.\<close>

lemma resolve_role_key_cases:
  "(\<exists>i. role_meaning ctx key = Some i \<and>
      (resolve_role_key key ctx = Inr (i, ctx) \<or> resolve_role_key key ctx = Inr (i, bind_role key i ctx))) \<or>
   role_meaning ctx key = None \<and> (\<exists>e. resolve_role_key key ctx = Inl e)"
  by (simp add: resolve_role_key_def role_meaning_def split: option.split resolve_result.split)

lemma resolve_channel_key_cases:
  "(\<exists>i. channel_meaning ctx key = Some i \<and>
      (resolve_channel_key key ctx = Inr (i, ctx) \<or> resolve_channel_key key ctx = Inr (i, bind_channel key i ctx))) \<or>
   channel_meaning ctx key = None \<and> (\<exists>e. resolve_channel_key key ctx = Inl e)"
  by (simp add: resolve_channel_key_def channel_meaning_def split: option.split resolve_result.split)

lemma bind_known_same:
  "context_wf ctx \<Longrightarrow> role_meaning ctx k = Some i \<Longrightarrow> same_meaning ctx (bind_role k i ctx)"
  "context_wf ctx \<Longrightarrow> channel_meaning ctx k = Some j \<Longrightarrow> same_meaning ctx (bind_channel k j ctx)"
  by (simp_all add: same_meaning_def bind_meaning fun_upd_idem)

lemma same_meaning_refl [simp]: "same_meaning ctx ctx"
  by (simp add: same_meaning_def)

lemma same_meaning_trans: "same_meaning a b \<Longrightarrow> same_meaning b c \<Longrightarrow> same_meaning a c"
  by (simp add: same_meaning_def)

lemma resolve_role_key_OkD:
  assumes "resolve_role_key key ctx = Inr (i, ctx')" "context_wf ctx"
  shows "role_meaning ctx key = Some i" "same_meaning ctx ctx'" "context_wf ctx'"
  using resolve_role_key_cases [of ctx key] assms by (auto intro: bind_known_same)

lemma resolve_channel_key_OkD:
  assumes "resolve_channel_key key ctx = Inr (i, ctx')" "context_wf ctx"
  shows "channel_meaning ctx key = Some i" "same_meaning ctx ctx'" "context_wf ctx'"
  using resolve_channel_key_cases [of ctx key] assms by (auto intro: bind_known_same)

definition target_meaning :: "resource_resolution_context \<Rightarrow> normalized_target \<Rightarrow> overwrite_target option" where
  "target_meaning ctx target =
     (case target of
        NT_Everyone \<Rightarrow> Some (OT_Role (RoleId (guild_u64 (rc_guild_id ctx))))
      | NT_Role key \<Rightarrow> map_option OT_Role (role_meaning ctx key)
      | NT_Member s \<Rightarrow> map_option (\<lambda>raw. OT_Member (UserId raw)) (parse_u64 s))"

lemma resolve_target_OkD:
  assumes "resolve_target t ctx = Inr (w, ctx')" "context_wf ctx"
  shows "target_meaning ctx t = Some w" "same_meaning ctx ctx'" "context_wf ctx'"
  using assms
  by (auto simp: resolve_target_def target_meaning_def
      dest: resolve_role_key_OkD split: normalized_target.splits option.splits sum.splits)

end
