(* ===== verification/Virtual_Apply.thy ===== *)
theory Virtual_Apply
  imports Operation_Graph Resource_Resolution
begin

text \<open>
  The crate \<open>virtual-apply\<close>: a plan is applied to an in-memory copy of the guild. Created resources get
  synthetic ids above every id of the guild; \<open>next_id\<close> is a \<open>u64\<close> whose overflow is a panic.
\<close>

section \<open>State\<close>

datatype virtual_apply_error = VA_UnresolvedKey string | VA_MissingIdentity string | VA_GraphCycle

fun virtual_apply_error_from :: "resolution_error \<Rightarrow> virtual_apply_error" where
  "virtual_apply_error_from (UnresolvedKey key) = VA_UnresolvedKey key"
| "virtual_apply_error_from (MissingIdentity key) = VA_MissingIdentity key"

record virtual_apply_result =
  va_after :: guild_state
  va_applied :: "op_id list"
  va_synthetic_roles :: "(resource_key, role_id) bmap"
  va_synthetic_channels :: "(resource_key, channel_id) bmap"
  va_warnings :: "string list"

record apply_context =
  after :: guild_state
  resources :: resource_resolution_context
  next_id :: u64
  synthetic_roles :: "(resource_key, role_id) bmap"
  synthetic_channels :: "(resource_key, channel_id) bmap"
  applied :: "op_id list"
  warnings :: "string list"

definition max_guild_id :: "guild_state \<Rightarrow> u64" where
  "max_guild_id current =
     fold (\<lambda>c m. max m (channel_u64 (c_id c))) (gs_channels current)
       (fold (\<lambda>r m. max m (role_u64 (r_id r))) (gs_roles current) (guild_u64 (g_id (gs_guild current))))"

definition new_apply_context :: "guild_state \<Rightarrow> normalized_desired_state \<Rightarrow> resource_resolver \<Rightarrow>
    (virtual_apply_error, apply_context) result" where
  "new_apply_context current normalized resolver =
     (case checked_add (max_guild_id current) 1 of
        None \<Rightarrow> Panic
      | Some n \<Rightarrow>
          Ok \<lparr>after = current,
              resources = new_resolution_context normalized resolver (g_id (gs_guild current)),
              next_id = n, synthetic_roles = [], synthetic_channels = [], applied = [], warnings = []\<rparr>)"

definition next_synthetic :: "apply_context \<Rightarrow> (virtual_apply_error, u64 \<times> apply_context) result" where
  "next_synthetic ctx =
     (case checked_add (next_id ctx) 1 of
        None \<Rightarrow> Panic
      | Some n \<Rightarrow> Ok (next_id ctx, ctx\<lparr>next_id := n\<rparr>))"

section \<open>Operations\<close>

definition lift_resolution :: "(resource_resolution_context \<Rightarrow> resolution_error + 'a \<times> resource_resolution_context) \<Rightarrow>
    apply_context \<Rightarrow> (virtual_apply_error, 'a \<times> apply_context) result" where
  "lift_resolution f ctx =
     (case f (resources ctx) of
        Inl e \<Rightarrow> Err (virtual_apply_error_from e)
      | Inr (x, res) \<Rightarrow> Ok (x, ctx\<lparr>resources := res\<rparr>))"

definition push_role :: "role \<Rightarrow> guild_state \<Rightarrow> guild_state" where
  "push_role r g = g\<lparr>gs_roles := gs_roles g @ [r]\<rparr>"

definition push_channel :: "channel \<Rightarrow> guild_state \<Rightarrow> guild_state" where
  "push_channel c g = g\<lparr>gs_channels := gs_channels g @ [c]\<rparr>"

definition edit_role :: "string option \<Rightarrow> permissions option \<Rightarrow> role \<Rightarrow> role" where
  "edit_role name permissions r =
     (let r1 = (case name of None \<Rightarrow> r | Some n \<Rightarrow> r\<lparr>r_name := n\<rparr>) in
      case permissions of None \<Rightarrow> r1 | Some p \<Rightarrow> r1\<lparr>r_permissions := p\<rparr>)"

definition edit_channel :: "string option \<Rightarrow> channel_type option \<Rightarrow> channel \<Rightarrow> channel" where
  "edit_channel name channel_type c =
     (let c1 = (case name of None \<Rightarrow> c | Some n \<Rightarrow> c\<lparr>c_name := n\<rparr>) in
      case channel_type of None \<Rightarrow> c1 | Some t \<Rightarrow> c1\<lparr>c_channel_type := t\<rparr>)"

definition put_overwrite :: "overwrite_target \<Rightarrow> permissions \<Rightarrow> permissions \<Rightarrow> channel \<Rightarrow> channel" where
  "put_overwrite target allow deny c =
     c\<lparr>c_overwrites := filter (\<lambda>w. po_target w \<noteq> target) (c_overwrites c) @
        [\<lparr>po_target = target, po_allow = allow, po_deny = deny\<rparr>]\<rparr>"

definition apply_overwrite_operation :: "resource_key \<Rightarrow> normalized_target \<Rightarrow> permissions \<Rightarrow> permissions \<Rightarrow>
    apply_context \<Rightarrow> (virtual_apply_error, apply_context) result" where
  "apply_overwrite_operation channel target allow deny ctx =
     and_then (lift_resolution (resolve_channel_key channel) ctx) (\<lambda>(channel_id, ctx1).
     and_then (lift_resolution (resolve_target target) ctx1) (\<lambda>(ow_target, ctx2).
       if find (\<lambda>c. c_id c = channel_id) (gs_channels (after ctx2)) \<noteq> None
       then Ok (ctx2\<lparr>after := (after ctx2)\<lparr>gs_channels :=
              update_first (\<lambda>c. c_id c = channel_id) (put_overwrite ow_target allow deny)
                (gs_channels (after ctx2))\<rparr>\<rparr>)
       else Ok (ctx2\<lparr>warnings := warnings ctx2 @ [''overwrite channel not found: '' @ channel]\<rparr>)))"

fun apply_operation :: "operation \<Rightarrow> apply_context \<Rightarrow> (virtual_apply_error, apply_context) result" where
  "apply_operation (CreateRole key name permissions) ctx =
     and_then (next_synthetic ctx) (\<lambda>(raw, ctx1).
       Ok (ctx1\<lparr>resources := bind_role key (RoleId raw) (resources ctx1),
               synthetic_roles := bm_insert key (RoleId raw) (synthetic_roles ctx1),
               after := push_role
                 \<lparr>r_id = RoleId raw, r_name = (case name of None \<Rightarrow> [] | Some n \<Rightarrow> n),
                  r_permissions = (case permissions of None \<Rightarrow> 0 | Some p \<Rightarrow> p),
                  r_position = 0, r_managed = False\<rparr> (after ctx1)\<rparr>))"
| "apply_operation (UpdateRole key name permissions) ctx =
     and_then (lift_resolution (resolve_role_key key) ctx) (\<lambda>(i, ctx1).
       Ok (ctx1\<lparr>after := (after ctx1)\<lparr>gs_roles :=
              update_first (\<lambda>r. r_id r = i) (edit_role name permissions) (gs_roles (after ctx1))\<rparr>\<rparr>))"
| "apply_operation (DeleteRole key) ctx =
     and_then (lift_resolution (resolve_role_key key) ctx) (\<lambda>(i, ctx1).
       Ok (ctx1\<lparr>after := (after ctx1)\<lparr>gs_roles := filter (\<lambda>r. r_id r \<noteq> i) (gs_roles (after ctx1))\<rparr>\<rparr>))"
| "apply_operation (CreateChannel key name channel_type parent) ctx =
     and_then (next_synthetic ctx) (\<lambda>(raw, ctx1).
       let ctx2 = ctx1\<lparr>resources := bind_channel key (ChannelId raw) (resources ctx1),
                      synthetic_channels := bm_insert key (ChannelId raw) (synthetic_channels ctx1)\<rparr> in
       and_then
         (case parent of
            Some pk \<Rightarrow>
              and_then (lift_resolution (resolve_channel_key pk) ctx2) (\<lambda>(i, ctx3). Ok (Some i, ctx3))
          | None \<Rightarrow> Ok (None, ctx2))
         (\<lambda>(parent_id, ctx3).
            Ok (ctx3\<lparr>after := push_channel
                  \<lparr>c_id = ChannelId raw, c_name = (case name of None \<Rightarrow> [] | Some n \<Rightarrow> n),
                   c_channel_type = (case channel_type of None \<Rightarrow> CT_Text | Some t \<Rightarrow> t),
                   c_parent_id = parent_id, c_position = 0, c_overwrites = []\<rparr> (after ctx3)\<rparr>)))"
| "apply_operation (UpdateChannel key name channel_type) ctx =
     and_then (lift_resolution (resolve_channel_key key) ctx) (\<lambda>(i, ctx1).
       Ok (ctx1\<lparr>after := (after ctx1)\<lparr>gs_channels :=
              update_first (\<lambda>c. c_id c = i) (edit_channel name channel_type) (gs_channels (after ctx1))\<rparr>\<rparr>))"
| "apply_operation (DeleteChannel key) ctx =
     and_then (lift_resolution (resolve_channel_key key) ctx) (\<lambda>(i, ctx1).
       Ok (ctx1\<lparr>after := (after ctx1)\<lparr>gs_channels :=
              filter (\<lambda>c. c_id c \<noteq> i) (gs_channels (after ctx1))\<rparr>\<rparr>))"
| "apply_operation (CreateOverwrite channel target allow deny) ctx =
     apply_overwrite_operation channel target allow deny ctx"
| "apply_operation (UpdateOverwrite channel target allow deny) ctx =
     apply_overwrite_operation channel target allow deny ctx"

section \<open>The plan\<close>

fun apply_order :: "operation_graph \<Rightarrow> op_id list \<Rightarrow> apply_context \<Rightarrow> (virtual_apply_error, apply_context) result" where
  "apply_order g [] ctx = Ok ctx"
| "apply_order g (i # is) ctx =
     (case find (\<lambda>n. on_id n = i) (og_nodes g) of
        None \<Rightarrow> apply_order g is ctx
      | Some node \<Rightarrow>
          and_then (apply_operation (on_operation node) ctx) (\<lambda>ctx1.
            apply_order g is (ctx1\<lparr>applied := applied ctx1 @ [i]\<rparr>)))"

definition into_result :: "apply_context \<Rightarrow> virtual_apply_result" where
  "into_result ctx =
     \<lparr>va_after = after ctx, va_applied = applied ctx, va_synthetic_roles = synthetic_roles ctx,
      va_synthetic_channels = synthetic_channels ctx, va_warnings = warnings ctx\<rparr>"

definition virtual_apply :: "guild_state \<Rightarrow> operation_graph \<Rightarrow> normalized_desired_state \<Rightarrow> resource_resolver \<Rightarrow>
    (virtual_apply_error, virtual_apply_result) result" where
  "virtual_apply current g normalized resolver =
     and_then (new_apply_context current normalized resolver) (\<lambda>ctx.
     and_then (map_err (\<lambda>_. VA_GraphCycle) (topological_order g)) (\<lambda>order.
     and_then (apply_order g order ctx) (\<lambda>ctx'. Ok (into_result ctx'))))"

section \<open>Well-formedness\<close>

definition ids_distinct :: "guild_state \<Rightarrow> bool" where
  "ids_distinct g \<longleftrightarrow> distinct (map r_id (gs_roles g)) \<and> distinct (map c_id (gs_channels g))"

text \<open>What every operation keeps: the guild record and the members are those of the start, ids stay
  distinct, and every id beyond those of the start is a synthetic one, above all ids of the start and
  below the next one to be given out.\<close>

definition apply_inv :: "guild_state \<Rightarrow> apply_context \<Rightarrow> bool" where
  "apply_inv current ctx \<longleftrightarrow>
     gs_guild (after ctx) = gs_guild current \<and> gs_members (after ctx) = gs_members current \<and>
     ids_distinct (after ctx) \<and> context_wf (resources ctx) \<and>
     (\<forall>r \<in> set (gs_roles (after ctx)). role_u64 (r_id r) < next_id ctx \<and>
        (r_id r \<in> r_id ` set (gs_roles current) \<or> max_guild_id current < role_u64 (r_id r))) \<and>
     (\<forall>c \<in> set (gs_channels (after ctx)). channel_u64 (c_id c) < next_id ctx \<and>
        (c_id c \<in> c_id ` set (gs_channels current) \<or> max_guild_id current < channel_u64 (c_id c))) \<and>
     max_guild_id current < next_id ctx"

lemma fold_max_start: "m \<le> fold (\<lambda>x m. max m (f x)) xs m" for m :: "'b :: linorder"
  by (induction xs arbitrary: m) (auto intro: order_trans [OF max.cobounded1])

lemma fold_max_ge: "x \<in> set xs \<Longrightarrow> f x \<le> fold (\<lambda>x m. max m (f x)) xs m" for m :: "'b :: linorder"
  by (induction xs arbitrary: m) (auto intro: order_trans [OF max.cobounded2 fold_max_start])

lemma max_guild_id_ge:
  "r \<in> set (gs_roles g) \<Longrightarrow> role_u64 (r_id r) \<le> max_guild_id g"
  "c \<in> set (gs_channels g) \<Longrightarrow> channel_u64 (c_id c) \<le> max_guild_id g"
proof -
  let ?role = "\<lambda>r :: role. role_u64 (r_id r)" and ?chan = "\<lambda>c :: channel. channel_u64 (c_id c)"
  let ?g0 = "guild_u64 (g_id (gs_guild g))"
  let ?m = "fold (\<lambda>r m. max m (?role r)) (gs_roles g) ?g0"
  have "?m \<le> max_guild_id g" unfolding max_guild_id_def by (rule fold_max_start)
  then show "r \<in> set (gs_roles g) \<Longrightarrow> ?role r \<le> max_guild_id g"
    using fold_max_ge [of r "gs_roles g" ?role ?g0] by simp
  show "c \<in> set (gs_channels g) \<Longrightarrow> ?chan c \<le> max_guild_id g"
    unfolding max_guild_id_def by (rule fold_max_ge)
qed

lemma new_apply_context_inv:
  assumes "new_apply_context current n R = Ok ctx" "ids_distinct current"
  shows "apply_inv current ctx" "applied ctx = []"
  using assms
  by (auto simp: new_apply_context_def apply_inv_def
      intro: order.strict_trans1 [OF max_guild_id_ge(1) checked_add_one_less]
        order.strict_trans1 [OF max_guild_id_ge(2) checked_add_one_less]
      dest: checked_add_one_less split: option.splits)

lemma next_synthetic_inv:
  assumes "next_synthetic ctx = Ok (raw, ctx1)" "apply_inv current ctx"
  shows "raw = next_id ctx" "ctx1 = ctx\<lparr>next_id := next_id ctx1\<rparr>" "raw < next_id ctx1"
    "apply_inv current ctx1"
    "\<forall>r \<in> set (gs_roles (after ctx1)). role_u64 (r_id r) < raw"
    "\<forall>c \<in> set (gs_channels (after ctx1)). channel_u64 (c_id c) < raw"
    "max_guild_id current < raw"
  using assms
  by (auto simp: next_synthetic_def apply_inv_def dest!: checked_add_one_less split: option.splits)
    (meson order.strict_trans)+

lemma lift_resolution_OkD:
  assumes "lift_resolution f ctx = Ok (x, ctx1)"
  obtains res where "f (resources ctx) = Inr (x, res)" "ctx1 = ctx\<lparr>resources := res\<rparr>"
  using assms by (auto simp: lift_resolution_def split: sum.splits)

lemma distinct_map_filter_ids:
  "ids_distinct g \<Longrightarrow> ids_distinct (g\<lparr>gs_roles := filter P (gs_roles g)\<rparr>)"
  "ids_distinct g \<Longrightarrow> ids_distinct (g\<lparr>gs_channels := filter Q (gs_channels g)\<rparr>)"
  by (simp_all add: ids_distinct_def distinct_map_filter)

lemma ids_of_update_first:
  assumes "\<And>x. key (f x) = key x" "y \<in> set (update_first P f xs)"
  shows "\<exists>x \<in> set xs. key y = key x"
proof -
  have "key y \<in> set (map key (update_first P f xs))" using assms(2) by simp
  then show ?thesis using assms(1) by (auto simp: map_update_first)
qed

lemma apply_inv_edit_roles:
  assumes "apply_inv current ctx" "\<And>r. r_id (f r) = r_id r"
  shows "apply_inv current (ctx\<lparr>after := (after ctx)\<lparr>gs_roles := update_first P f (gs_roles (after ctx))\<rparr>\<rparr>)"
  using assms ids_of_update_first [of r_id f _ P "gs_roles (after ctx)"]
  by (auto simp: apply_inv_def ids_distinct_def map_update_first) (metis image_eqI)+

lemma apply_inv_edit_channels:
  assumes "apply_inv current ctx" "\<And>c. c_id (f c) = c_id c"
  shows "apply_inv current (ctx\<lparr>after := (after ctx)\<lparr>gs_channels := update_first P f (gs_channels (after ctx))\<rparr>\<rparr>)"
  using assms ids_of_update_first [of c_id f _ P "gs_channels (after ctx)"]
  by (auto simp: apply_inv_def ids_distinct_def map_update_first) (metis image_eqI)+

lemma edit_ids [simp]:
  "r_id (edit_role n p r) = r_id r" "c_id (edit_channel n t c) = c_id c" "c_id (put_overwrite w a d c) = c_id c"
  by (simp_all add: edit_role_def edit_channel_def put_overwrite_def Let_def split: option.split)

text \<open>A lookup only touches the binding cache.\<close>

definition resolved :: "guild_state \<Rightarrow> apply_context \<Rightarrow> apply_context \<Rightarrow> bool" where
  "resolved current ctx ctx1 \<longleftrightarrow> apply_inv current ctx1 \<and>
     ctx1 = ctx\<lparr>resources := resources ctx1\<rparr> \<and> same_meaning (resources ctx) (resources ctx1)"

lemma lift_resolution_inv:
  assumes "apply_inv current ctx"
  shows "lift_resolution (resolve_role_key k) ctx = Ok (i, ctx1) \<Longrightarrow>
      resolved current ctx ctx1 \<and> role_meaning (resources ctx) k = Some i"
    and "lift_resolution (resolve_channel_key k) ctx = Ok (j, ctx1) \<Longrightarrow>
      resolved current ctx ctx1 \<and> channel_meaning (resources ctx) k = Some j"
    and "lift_resolution (resolve_target t) ctx = Ok (w, ctx1) \<Longrightarrow>
      resolved current ctx ctx1 \<and> target_meaning (resources ctx) t = Some w"
  using assms
  by (auto elim!: lift_resolution_OkD simp: apply_inv_def resolved_def
      dest: resolve_role_key_OkD resolve_channel_key_OkD resolve_target_OkD)

lemma resolvedD:
  assumes "resolved current ctx ctx1"
  shows "apply_inv current ctx1" "applied ctx1 = applied ctx" "after ctx1 = after ctx" "next_id ctx1 = next_id ctx"
    "synthetic_roles ctx1 = synthetic_roles ctx" "synthetic_channels ctx1 = synthetic_channels ctx"
    "warnings ctx1 = warnings ctx"
  using assms by (auto simp: resolved_def) (metis apply_context.select_convs apply_context.update_convs apply_context.surjective)+

lemma apply_overwrite_operation_inv:
  assumes "apply_overwrite_operation k t a d ctx = Ok ctx'" "apply_inv current ctx"
  shows "apply_inv current ctx' \<and> applied ctx' = applied ctx"
proof -
  obtain i ctx1 w ctx2 where r: "lift_resolution (resolve_channel_key k) ctx = Ok (i, ctx1)"
      "lift_resolution (resolve_target t) ctx1 = Ok (w, ctx2)"
    using assms(1) by (auto simp: apply_overwrite_operation_def outcome_simps split: if_splits)
  have r1: "resolved current ctx ctx1" using lift_resolution_inv(2) [OF assms(2) r(1)] by blast
  have r2: "resolved current ctx1 ctx2" using lift_resolution_inv(3) [OF resolvedD(1) [OF r1] r(2)] by blast
  have i2: "apply_inv current ctx2" "applied ctx2 = applied ctx"
    using resolvedD [OF r1] resolvedD [OF r2] by simp_all
  then have "apply_inv current (ctx2\<lparr>warnings := ws\<rparr>)" for ws by (simp add: apply_inv_def)
  with assms(1) r i2 show ?thesis
    by (auto simp: apply_overwrite_operation_def apply_inv_edit_channels split: if_splits)
qed

lemma create_role_inv:
  assumes "next_synthetic ctx = Ok (raw, ctx1)" "apply_inv current ctx" "r_id r = RoleId raw" "context_wf res"
  shows "apply_inv current (ctx1\<lparr>resources := res, synthetic_roles := syn, after := push_role r (after ctx1)\<rparr>)"
  using next_synthetic_inv [OF assms(1,2)] assms(3,4)
  by (auto simp: apply_inv_def ids_distinct_def push_role_def image_iff) (metis less_irrefl role_id.sel)

lemma create_channel_inv:
  assumes "next_synthetic ctx = Ok (raw, ctx1)" "apply_inv current ctx" "c_id c = ChannelId raw"
    and "apply_inv current ctx3" "after ctx3 = after ctx1" "next_id ctx3 = next_id ctx1"
  shows "apply_inv current (ctx3\<lparr>after := push_channel c (after ctx3)\<rparr>)"
  using next_synthetic_inv [OF assms(1,2)] assms(3-6)
  by (auto simp: apply_inv_def ids_distinct_def push_channel_def image_iff) (metis less_irrefl channel_id.sel)

lemma apply_operation_inv:
  assumes "apply_operation p ctx = Ok ctx'" "apply_inv current ctx"
  shows "apply_inv current ctx' \<and> applied ctx' = applied ctx"
proof (cases p)
  case (CreateRole key name perms)
  with assms obtain raw ctx1 where n: "next_synthetic ctx = Ok (raw, ctx1)" by (auto simp: outcome_simps)
  have "context_wf (bind_role key (RoleId raw) (resources ctx1))" "applied ctx1 = applied ctx"
    using next_synthetic_inv(4) [OF n assms(2)] n
    by (auto simp: apply_inv_def next_synthetic_def split: option.splits)
  with CreateRole assms n show ?thesis by (auto intro!: create_role_inv [OF n])
next
  case (CreateChannel key name ct parent)
  with assms obtain raw ctx1 where n: "next_synthetic ctx = Ok (raw, ctx1)" by (auto simp: outcome_simps)
  let ?ctx2 = "ctx1\<lparr>resources := bind_channel key (ChannelId raw) (resources ctx1),
      synthetic_channels := bm_insert key (ChannelId raw) (synthetic_channels ctx1)\<rparr>"
  have i2: "apply_inv current ?ctx2" "applied ctx1 = applied ctx"
    using next_synthetic_inv(4) [OF n assms(2)] n
    by (auto simp: apply_inv_def next_synthetic_def split: option.splits)
  show ?thesis
  proof (cases parent)
    case None
    with CreateChannel assms(1) n i2 create_channel_inv [OF n assms(2) _ i2(1)] show ?thesis by auto
  next
    case (Some pk)
    with CreateChannel assms(1) n obtain i ctx3 where
      l: "lift_resolution (resolve_channel_key pk) ?ctx2 = Ok (i, ctx3)" by (auto simp: outcome_simps)
    have r: "resolved current ?ctx2 ctx3" using lift_resolution_inv(2) [OF i2(1) l] by blast
    with Some CreateChannel assms(1) n l i2(2) resolvedD [OF r] create_channel_inv [OF n assms(2) _ resolvedD(1) [OF r]]
    show ?thesis by auto
  qed
next
  case (UpdateRole key name perms)
  with assms obtain i ctx1 where l: "lift_resolution (resolve_role_key key) ctx = Ok (i, ctx1)"
    by (auto simp: outcome_simps)
  then have r: "resolved current ctx ctx1" using lift_resolution_inv(1) [OF assms(2)] by blast
  with UpdateRole assms(1) l resolvedD(1,2) [OF r] show ?thesis by (auto intro!: apply_inv_edit_roles)
next
  case (UpdateChannel key name ct)
  with assms obtain i ctx1 where l: "lift_resolution (resolve_channel_key key) ctx = Ok (i, ctx1)"
    by (auto simp: outcome_simps)
  then have r: "resolved current ctx ctx1" using lift_resolution_inv(2) [OF assms(2)] by blast
  with UpdateChannel assms(1) l resolvedD(1,2) [OF r] show ?thesis by (auto intro!: apply_inv_edit_channels)
next
  case (DeleteRole key)
  with assms obtain i ctx1 where l: "lift_resolution (resolve_role_key key) ctx = Ok (i, ctx1)"
    by (auto simp: outcome_simps)
  then have r: "resolved current ctx ctx1" using lift_resolution_inv(1) [OF assms(2)] by blast
  with DeleteRole assms(1) l resolvedD(1,2) [OF r] show ?thesis
    by (auto simp: apply_inv_def distinct_map_filter_ids)
next
  case (DeleteChannel key)
  with assms obtain i ctx1 where l: "lift_resolution (resolve_channel_key key) ctx = Ok (i, ctx1)"
    by (auto simp: outcome_simps)
  then have r: "resolved current ctx ctx1" using lift_resolution_inv(2) [OF assms(2)] by blast
  with DeleteChannel assms(1) l resolvedD(1,2) [OF r] show ?thesis
    by (auto simp: apply_inv_def distinct_map_filter_ids)
qed (use assms apply_overwrite_operation_inv in auto)

lemma apply_order_inv:
  assumes "apply_order g is ctx = Ok ctx'" "apply_inv current ctx" "set is \<subseteq> set (node_ids (og_nodes g))"
  shows "apply_inv current ctx' \<and> applied ctx' = applied ctx @ is"
  using assms
proof (induction g "is" ctx rule: apply_order.induct)
  case (2 g i "is" ctx)
  have "find (\<lambda>n. on_id n = i) (og_nodes g) \<noteq> None"
    using "2.prems"(3) by (auto simp: find_None_iff node_ids_def)
  then obtain node where node: "find (\<lambda>n. on_id n = i) (og_nodes g) = Some node" by blast
  with "2.prems" obtain ctx1 where c1: "apply_operation (on_operation node) ctx = Ok ctx1"
      "apply_order g is (ctx1\<lparr>applied := applied ctx1 @ [i]\<rparr>) = Ok ctx'"
    by (auto simp: outcome_simps)
  have "apply_inv current (ctx1\<lparr>applied := applied ctx1 @ [i]\<rparr>)" "applied ctx1 = applied ctx"
    using apply_operation_inv [OF c1(1) "2.prems"(2)] by (auto simp: apply_inv_def)
  with "2.IH"(2) [OF node c1(2)] "2.prems"(3) show ?case by simp
qed simp

text \<open>C11: A successful virtual run applies exactly the operations of the plan, in its topological order.
  It leaves the guild record and the members alone, keeps role and channel ids distinct, and every
  resource it adds has an id above all ids of the guild, so a synthetic id never collides with a real one.\<close>

theorem virtual_apply_sound:
  assumes "ids_distinct current" "distinct (node_ids (og_nodes g))"
    and "virtual_apply current g normalized resolver = Ok res"
  shows "topological_order g = Ok (va_applied res) \<and>
         gs_guild (va_after res) = gs_guild current \<and> gs_members (va_after res) = gs_members current \<and>
         ids_distinct (va_after res) \<and>
         (\<forall>r \<in> set (gs_roles (va_after res)).
            r_id r \<in> r_id ` set (gs_roles current) \<or> max_guild_id current < role_u64 (r_id r)) \<and>
         (\<forall>c \<in> set (gs_channels (va_after res)).
            c_id c \<in> c_id ` set (gs_channels current) \<or> max_guild_id current < channel_u64 (c_id c))"
proof -
  obtain ctx order ctx' where run: "new_apply_context current normalized resolver = Ok ctx"
      "topological_order g = Ok order" "apply_order g order ctx = Ok ctx'" and res: "res = into_result ctx'"
    using assms(3) by (auto simp: virtual_apply_def outcome_simps)
  note start = new_apply_context_inv [OF run(1) assms(1)]
  have "apply_inv current ctx' \<and> applied ctx' = order"
    using apply_order_inv [OF run(3) start(1)] topological_order_OkD(3) [OF assms(2) run(2)] start(2) by simp
  then show ?thesis using run(2) by (auto simp: res into_result_def apply_inv_def)
qed

lemma next_synthetic_no_panic:
  "unat (next_id ctx) + 1 < 2 ^ 64 \<Longrightarrow> \<exists>n. next_synthetic ctx = Ok (next_id ctx, ctx\<lparr>next_id := n\<rparr>) \<and>
     unat n = unat (next_id ctx) + 1"
  using checked_add_None_iff [of "next_id ctx" 1] checked_add_Some_unat [of "next_id ctx" 1]
  by (auto simp: next_synthetic_def split: option.splits)

lemma lift_resolution_no_panic: "lift_resolution f ctx \<noteq> Panic"
  by (auto simp: lift_resolution_def split: sum.splits)

lemma lift_resolution_next_id:
  "lift_resolution f ctx = Ok (x, ctx1) \<Longrightarrow> next_id ctx1 = next_id ctx"
  by (auto elim: lift_resolution_OkD)

lemma apply_operation_progress:
  assumes "unat (next_id ctx) + 1 < 2 ^ 64"
  shows "case apply_operation p ctx of
           Ok ctx' \<Rightarrow> unat (next_id ctx') \<le> unat (next_id ctx) + 1 | Err e \<Rightarrow> True | Panic \<Rightarrow> False"
proof -
  obtain n where n: "next_synthetic ctx = Ok (next_id ctx, ctx\<lparr>next_id := n\<rparr>)" "unat n = unat (next_id ctx) + 1"
    using next_synthetic_no_panic [OF assms] by blast
  show ?thesis
    by (cases p)
      (auto simp: n apply_overwrite_operation_def outcome_simps Let_def lift_resolution_no_panic
        split: result.split option.splits dest!: lift_resolution_next_id)
qed

lemma apply_order_no_panic:
  "unat (next_id ctx) + length is < 2 ^ 64 \<Longrightarrow> apply_order g is ctx \<noteq> Panic"
proof (induction g "is" ctx rule: apply_order.induct)
  case (2 g i "is" ctx)
  show ?case
  proof (cases "find (\<lambda>n. on_id n = i) (og_nodes g)")
    case None
    with 2 show ?thesis by simp
  next
    case (Some node)
    with 2 apply_operation_progress [of ctx "on_operation node"] show ?thesis
      by (cases "apply_operation (on_operation node) ctx") auto
  qed
qed simp

section \<open>An example\<close>

definition example_after :: virtual_apply_result where
  "example_after =
     \<lparr>va_after = example_guild
        \<lparr>gs_roles := gs_roles example_guild @
           [\<lparr>r_id = RoleId 2, r_name = ''Member'', r_permissions = 0, r_position = 0, r_managed = False\<rparr>],
         gs_channels :=
           [\<lparr>c_id = ChannelId 3, c_name = ''chat'', c_channel_type = CT_Text, c_parent_id = None, c_position = 0,
             c_overwrites = [\<lparr>po_target = OT_Role (RoleId 1), po_allow = 0, po_deny = VIEW_CHANNEL\<rparr>,
               \<lparr>po_target = OT_Role (RoleId 2), po_allow = VIEW_CHANNEL, po_deny = 0\<rparr>]\<rparr>]\<rparr>,
      va_applied = [OpId 0, OpId 1, OpId 2, OpId 3],
      va_synthetic_roles = [(''m'', RoleId 2)], va_synthetic_channels = [(''c'', ChannelId 3)], va_warnings = []\<rparr>"

lemma virtual_apply_example:
  "virtual_apply example_guild example_plan example_normalized (in_memory_match_resolver example_guild) = Ok example_after"
  unfolding virtual_apply_def order_example
  by (simp add: new_apply_context_def max_guild_id_def example_guild_def example_plan_def checked_add_def
      next_synthetic_def bind_role_def bind_channel_def new_resolution_context_def push_role_def push_channel_def
      apply_overwrite_operation_def lift_resolution_def resolve_channel_key_def resolve_role_key_def resolve_target_def
      put_overwrite_def into_result_def example_after_def)

theorem virtual_apply_sound_witness:
  "virtual_apply example_guild example_plan example_normalized (in_memory_match_resolver example_guild) = Ok example_after \<and>
   topological_order example_plan = Ok (va_applied example_after) \<and> ids_distinct (va_after example_after)"
proof -
  have "ids_distinct example_guild" by (simp add: ids_distinct_def example_guild_def)
  from virtual_apply_sound [OF this example_plan_distinct virtual_apply_example] virtual_apply_example
  show ?thesis by blast
qed

end
