(* ===== verification/Preview.thy ===== *)
theory Preview
  imports Policy_Engine Simulator Virtual_Apply "HOL-Library.Product_Lexorder"
begin

text \<open>
  The crate \<open>preview\<close>: the model shown to a human before a plan runs. The two hash maps of
  \<open>access_changes\<close> are collected from cell lists, so a later cell with the same key wins; the
  \<open>BTreeSet\<close> of their keys is the sorted list of distinct keys.
\<close>

section \<open>The preview model\<close>

datatype preview_severity = Info | Notice | Warning

datatype preview_change_kind =
  RoleCreate | RoleUpdate | RoleDelete | ChannelCreate | ChannelUpdate | ChannelDelete |
  OverwriteCreate | OverwriteUpdate

record preview_change =
  pc_kind :: preview_change_kind
  pc_target :: string
  pc_severity :: preview_severity

record access_change =
  ax_subject :: string
  ax_channel :: string
  ax_before_can_view :: bool
  ax_after_can_view :: bool
  ax_before_can_send :: bool
  ax_after_can_send :: bool

record preview_model =
  pm_title :: string
  pm_verdict :: verdict
  pm_approval_required :: bool
  pm_blocked :: bool
  pm_changes :: "preview_change list"
  pm_access_changes :: "access_change list"
  pm_policy_findings :: "finding list"
  pm_warnings :: "string list"
  pm_deferred :: "string list"

section \<open>Changes\<close>

definition label :: "string option \<Rightarrow> resource_key \<Rightarrow> string" where
  "label name key = (case name of Some n \<Rightarrow> n | None \<Rightarrow> key)"

fun preview_target_label :: "normalized_target \<Rightarrow> string" where
  "preview_target_label NT_Everyone = ''@everyone''"
| "preview_target_label (NT_Role key) = ''role:'' @ key"
| "preview_target_label (NT_Member m) = ''member:'' @ m"

fun overwrite_severity :: "normalized_target \<Rightarrow> preview_severity" where
  "overwrite_severity NT_Everyone = Notice"
| "overwrite_severity _ = Info"

fun change_of :: "operation \<Rightarrow> preview_change" where
  "change_of (CreateRole key name permissions) =
     \<lparr>pc_kind = RoleCreate, pc_target = label name key, pc_severity = Info\<rparr>"
| "change_of (UpdateRole key name permissions) =
     \<lparr>pc_kind = RoleUpdate, pc_target = label name key, pc_severity = Info\<rparr>"
| "change_of (DeleteRole key) =
     \<lparr>pc_kind = RoleDelete, pc_target = key, pc_severity = Warning\<rparr>"
| "change_of (CreateChannel key name ct parent) =
     \<lparr>pc_kind = ChannelCreate, pc_target = label name key, pc_severity = Info\<rparr>"
| "change_of (UpdateChannel key name ct) =
     \<lparr>pc_kind = ChannelUpdate, pc_target = label name key, pc_severity = Info\<rparr>"
| "change_of (DeleteChannel key) =
     \<lparr>pc_kind = ChannelDelete, pc_target = key, pc_severity = Warning\<rparr>"
| "change_of (CreateOverwrite channel target allow deny) =
     \<lparr>pc_kind = OverwriteCreate, pc_target = channel @ '' / '' @ preview_target_label target,
      pc_severity = overwrite_severity target\<rparr>"
| "change_of (UpdateOverwrite channel target allow deny) =
     \<lparr>pc_kind = OverwriteUpdate, pc_target = channel @ '' / '' @ preview_target_label target,
      pc_severity = overwrite_severity target\<rparr>"

section \<open>Access changes\<close>

definition cell_key :: "access_cell \<Rightarrow> string \<times> string" where
  "cell_key c = (ac_subject c, ac_channel c)"

definition access_map :: "access_matrix_table \<Rightarrow> (string \<times> string) \<rightharpoonup> (bool \<times> bool)" where
  "access_map m = map_of (rev (map (\<lambda>c. (cell_key c, (ac_can_view c, ac_can_send c))) (am_cells m)))"

definition access_of :: "((string \<times> string) \<rightharpoonup> (bool \<times> bool)) \<Rightarrow> string \<times> string \<Rightarrow> bool \<times> bool" where
  "access_of m k = (case m k of None \<Rightarrow> (False, False) | Some v \<Rightarrow> v)"

definition access_keys :: "access_matrix_table \<Rightarrow> access_matrix_table \<Rightarrow> (string \<times> string) list" where
  "access_keys before after_m = sort (remdups (map cell_key (am_cells before) @ map cell_key (am_cells after_m)))"

definition access_change_at :: "string \<times> string \<Rightarrow> bool \<times> bool \<Rightarrow> bool \<times> bool \<Rightarrow> access_change" where
  "access_change_at k b a =
     \<lparr>ax_subject = fst k, ax_channel = snd k, ax_before_can_view = fst b, ax_after_can_view = fst a,
      ax_before_can_send = snd b, ax_after_can_send = snd a\<rparr>"

definition access_changes :: "access_matrix_table \<Rightarrow> access_matrix_table \<Rightarrow> access_change list" where
  "access_changes before after_m =
     (let before_map = access_map before; after_map = access_map after_m in
      List.map_filter (\<lambda>k.
        let b = access_of before_map k; a = access_of after_map k in
        if b \<noteq> a then Some (access_change_at k b a) else None) (access_keys before after_m))"

section \<open>The preview\<close>

definition build_preview :: "string \<Rightarrow> diff_result \<Rightarrow> operation_graph \<Rightarrow> policy_decision \<Rightarrow> virtual_apply_result \<Rightarrow>
    access_matrix_table \<Rightarrow> access_matrix_table \<Rightarrow> preview_model" where
  "build_preview title d g policy app before after_m =
     (let v = pd_verdict policy in
      \<lparr>pm_title = title, pm_verdict = v, pm_approval_required = (v = RequireApproval),
       pm_blocked = (v = Deny), pm_changes = map (\<lambda>n. change_of (on_operation n)) (og_nodes g),
       pm_access_changes = access_changes before after_m, pm_policy_findings = pd_findings policy,
       pm_warnings = va_warnings app,
       pm_deferred = map (\<lambda>i. di_kind i @ '':'' @ di_key i) (dr_deferred d)\<rparr>)"

section \<open>Properties\<close>

lemma access_map_None_iff:
  "access_map m k = None \<longleftrightarrow> k \<notin> cell_key ` set (am_cells m)"
  by (auto simp: access_map_def map_of_eq_None_iff image_iff)

lemma map_filter_if: "List.map_filter (\<lambda>x. if P x then Some (f x) else None) xs = map f (filter P xs)"
  by (induction xs) (simp_all add: List.map_filter_simps)

lemma access_changes_eq:
  "access_changes before after_m =
     map (\<lambda>k. access_change_at k (access_of (access_map before) k) (access_of (access_map after_m) k))
       (filter (\<lambda>k. access_of (access_map before) k \<noteq> access_of (access_map after_m) k)
         (access_keys before after_m))"
  by (simp add: access_changes_def Let_def map_filter_if)


end
