(* ===== verification/Approval_Manager.thy ===== *)
theory Approval_Manager
  imports Preview
begin

text \<open>
  The crate \<open>approval-manager\<close>: the approval request of a plan as a state machine. A method that takes
  \<open>&mut self\<close> returns its result together with the request after the call.
\<close>

section \<open>Requests\<close>

datatype approval_state = Blocked | ReadyToExecute | PendingApproval | Approved | Rejected

datatype approval_error = AE_Blocked | AlreadyRejected | AlreadyApproved | DuplicateApproval | NotRequired

record rejection =
  rj_by :: user_id
  rj_reason :: string

record approval_request =
  ar_verdict :: verdict
  ar_requester :: user_id
  ar_required_approvals :: nat
  ar_approvals :: "user_id list"
  ar_rejection :: "rejection option"

fun required_for :: "verdict \<Rightarrow> nat" where
  "required_for RequireApproval = 1"
| "required_for _ = 0"

definition new_approval_request :: "verdict \<Rightarrow> user_id \<Rightarrow> approval_request" where
  "new_approval_request v requester =
     \<lparr>ar_verdict = v, ar_requester = requester, ar_required_approvals = required_for v,
      ar_approvals = [], ar_rejection = None\<rparr>"

definition from_preview :: "preview_model \<Rightarrow> user_id \<Rightarrow> approval_request" where
  "from_preview p requester = new_approval_request (pm_verdict p) requester"

definition state :: "approval_request \<Rightarrow> approval_state" where
  "state r =
     (if ar_verdict r = Deny then Blocked
      else if ar_rejection r \<noteq> None then Rejected
      else if ar_required_approvals r = 0 then ReadyToExecute
      else if ar_required_approvals r \<le> length (ar_approvals r) then Approved
      else PendingApproval)"

definition can_execute :: "approval_request \<Rightarrow> bool" where
  "can_execute r \<longleftrightarrow> (case state r of ReadyToExecute \<Rightarrow> True | Approved \<Rightarrow> True | _ \<Rightarrow> False)"

definition gate :: "approval_request \<Rightarrow> (approval_error, unit) result" where
  "gate r =
     (case state r of
        Blocked \<Rightarrow> Err AE_Blocked
      | Rejected \<Rightarrow> Err AlreadyRejected
      | ReadyToExecute \<Rightarrow> Err NotRequired
      | Approved \<Rightarrow> Err AlreadyApproved
      | PendingApproval \<Rightarrow> Ok ())"

definition approve :: "user_id \<Rightarrow> approval_request \<Rightarrow> (approval_error, unit) result \<times> approval_request" where
  "approve user r =
     (case gate r of
        Ok u \<Rightarrow>
          if user \<in> set (ar_approvals r) then (Err DuplicateApproval, r)
          else (Ok (), r\<lparr>ar_approvals := ar_approvals r @ [user]\<rparr>)
      | e \<Rightarrow> (e, r))"

definition reject :: "user_id \<Rightarrow> string \<Rightarrow> approval_request \<Rightarrow> (approval_error, unit) result \<times> approval_request" where
  "reject user reason r =
     (case gate r of
        Ok u \<Rightarrow> (Ok (), r\<lparr>ar_rejection := Some \<lparr>rj_by = user, rj_reason = reason\<rparr>\<rparr>)
      | e \<Rightarrow> (e, r))"

section \<open>The life of a request\<close>

inductive approval_history :: "verdict \<Rightarrow> user_id \<Rightarrow> approval_request \<Rightarrow> bool"
  for v :: verdict and requester :: user_id
where
  opened: "approval_history v requester (new_approval_request v requester)"
| approved: "approval_history v requester r \<Longrightarrow> approval_history v requester (snd (approve user r))"
| rejected: "approval_history v requester r \<Longrightarrow> approval_history v requester (snd (reject user reason r))"

inductive_cases approval_historyE: "approval_history v requester r"

lemma gate_Ok_iff: "gate r = Ok u \<longleftrightarrow> state r = PendingApproval"
  by (simp add: gate_def split: approval_state.split)

lemma approve_cases:
  obtains "approve user r = (Ok (), r\<lparr>ar_approvals := ar_approvals r @ [user]\<rparr>)" "state r = PendingApproval"
      "user \<notin> set (ar_approvals r)"
  | e where "approve user r = (Err e, r)"
  by (cases "gate r"; cases "user \<in> set (ar_approvals r)")
    (auto simp: approve_def gate_Ok_iff gate_def split: approval_state.splits)

lemma reject_cases:
  obtains "reject user reason r = (Ok (), r\<lparr>ar_rejection := Some \<lparr>rj_by = user, rj_reason = reason\<rparr>\<rparr>)"
      "state r = PendingApproval"
  | e where "reject user reason r = (Err e, r)"
  by (cases "gate r") (auto simp: reject_def gate_Ok_iff gate_def split: approval_state.splits)

lemma approval_history_inv:
  assumes "approval_history v requester r"
  shows "ar_verdict r = v \<and> ar_requester r = requester \<and> ar_required_approvals r = required_for v \<and>
    distinct (ar_approvals r) \<and> length (ar_approvals r) \<le> required_for v \<and>
    (ar_rejection r \<noteq> None \<longrightarrow> v = RequireApproval \<and> ar_approvals r = [])"
  using assms
proof induction
  case opened
  then show ?case by (simp add: new_approval_request_def)
next
  case (approved r user)
  show ?case
    by (rule approve_cases [of user r]; cases v) (use approved.IH in \<open>auto simp: state_def le_Suc_eq split: if_splits\<close>)
next
  case (rejected r user reason)
  show ?case
    by (rule reject_cases [of user reason r]; cases v) (use rejected.IH in \<open>auto simp: state_def le_Suc_eq split: if_splits\<close>)
qed

text \<open>C13: Whatever sequence of approvals and rejections a request has seen, it may be executed exactly
  when its verdict is allow or warn, or its verdict requires approval and exactly one user approved it and
  nobody rejected it; a denied request can never be executed.\<close>

theorem can_execute_exact:
  assumes "approval_history v requester r"
  shows "can_execute r \<longleftrightarrow>
    (case v of
       Allow \<Rightarrow> True
     | Warn \<Rightarrow> True
     | RequireApproval \<Rightarrow> (\<exists>user. ar_approvals r = [user]) \<and> ar_rejection r = None
     | Deny \<Rightarrow> False)"
proof -
  have "length xs = 1 \<longleftrightarrow> (\<exists>u. xs = [u])" for xs :: "user_id list" by (cases xs) auto
  with approval_history_inv [OF assms] show ?thesis
    by (cases v) (auto simp: can_execute_def state_def le_Suc_eq Suc_le_eq)
qed

section \<open>An example\<close>

definition example_approval :: approval_request where
  "example_approval = snd (approve (UserId 7) (new_approval_request RequireApproval (UserId 7)))"

lemma example_approval_eq:
  "example_approval = \<lparr>ar_verdict = RequireApproval, ar_requester = UserId 7, ar_required_approvals = 1,
     ar_approvals = [UserId 7], ar_rejection = None\<rparr>"
  by (simp add: example_approval_def approve_def new_approval_request_def gate_def state_def)

lemma example_approval_history: "approval_history RequireApproval (UserId 7) example_approval"
  unfolding example_approval_def by (intro approval_history.intros)

theorem can_execute_exact_witness:
  "approval_history RequireApproval (UserId 7) example_approval \<and> can_execute example_approval"
  using can_execute_exact [OF example_approval_history] example_approval_history
  by (simp add: example_approval_eq)

lemma can_execute_example: "can_execute example_approval"
  by (simp add: example_approval_eq can_execute_def state_def)

end
