(* ===== verification/Executor_Core.thy ===== *)
theory Executor_Core
  imports Approval_Manager
begin

text \<open>
  The crate \<open>executor-core\<close>: an approved plan runs against a Discord adapter, step by step, and is rolled
  back when a step fails. The adapter is a trait over an external service, so it is a record of functions
  on a world state, an argument of every definition; the mock adapter of the crate is one such record.
\<close>

section \<open>The adapter interface\<close>

record role_spec =
  rs_name :: "string option"
  rs_permissions :: "permissions option"

record channel_spec =
  cs_name :: "string option"
  cs_channel_type :: "channel_type option"
  cs_parent_id :: "channel_id option"

datatype adapter_error_kind =
  RateLimited | Timeout | Network | ServerError | Forbidden | MissingPermissions | RoleHierarchy |
  NotFound | BadRequest | Unknown

record adapter_error =
  ae_kind :: adapter_error_kind
  ae_message :: string

definition is_retryable :: "adapter_error \<Rightarrow> bool" where
  "is_retryable e \<longleftrightarrow> ae_kind e \<in> {RateLimited, Timeout, Network, ServerError}"

record 's discord_adapter =
  create_role :: "guild_id \<Rightarrow> role_spec \<Rightarrow> 's \<Rightarrow> (adapter_error + role_id) \<times> 's"
  update_role :: "guild_id \<Rightarrow> role_id \<Rightarrow> role_spec \<Rightarrow> 's \<Rightarrow> (adapter_error + unit) \<times> 's"
  delete_role :: "guild_id \<Rightarrow> role_id \<Rightarrow> 's \<Rightarrow> (adapter_error + unit) \<times> 's"
  create_channel :: "guild_id \<Rightarrow> channel_spec \<Rightarrow> 's \<Rightarrow> (adapter_error + channel_id) \<times> 's"
  update_channel :: "guild_id \<Rightarrow> channel_id \<Rightarrow> channel_spec \<Rightarrow> 's \<Rightarrow> (adapter_error + unit) \<times> 's"
  delete_channel :: "guild_id \<Rightarrow> channel_id \<Rightarrow> 's \<Rightarrow> (adapter_error + unit) \<times> 's"
  upsert_overwrite :: "guild_id \<Rightarrow> channel_id \<Rightarrow> overwrite_target \<Rightarrow> permissions \<Rightarrow> permissions \<Rightarrow> 's \<Rightarrow>
    (adapter_error + unit) \<times> 's"

section \<open>Requests and results\<close>

record approved_execution_request =
  er_operation_graph :: operation_graph
  er_normalized :: normalized_desired_state
  er_approval :: approval_request
  er_snapshot :: guild_state
  er_guild_id :: guild_id
  er_requested_by :: user_id
  er_approved_by :: "user_id list"

datatype executor_error = NotApproved | EX_GraphCycle

datatype step_outcome = Success | FailedRetryable adapter_error | FailedFatal adapter_error | Skipped

datatype created_resource = CR_Role resource_key role_id | CR_Channel resource_key channel_id

datatype rollback_action =
  RB_DeleteRole role_id
| RB_RestoreRole role_id role
| RB_RecreateRole role
| RB_DeleteChannel channel_id
| RB_RestoreChannel channel_id channel
| RB_RecreateChannel channel
| RB_RestoreOverwrite channel_id overwrite_target "permission_overwrite option"

record step_result =
  sr_op_id :: op_id
  sr_outcome :: step_outcome
  sr_created :: "created_resource option"
  sr_rollback :: "rollback_action option"

datatype job_status = JS_Succeeded | JS_Failed

record job_result =
  jr_status :: job_status
  jr_steps :: "step_result list"

datatype rollback_status = RS_NotRequired | RS_Succeeded | RS_Partial | RS_Failed

datatype rollback_outcome = RO_Undone | RO_Failed adapter_error | RO_Skipped string

record rollback_step_result =
  rr_source_op_id :: op_id
  rr_action :: rollback_action
  rr_outcome :: rollback_outcome

record rollback_report =
  rp_status :: rollback_status
  rp_steps :: "rollback_step_result list"

record job_run =
  jn_job :: job_result
  jn_rollback :: rollback_report

section \<open>Running an operation\<close>

definition fail_outcome :: "adapter_error \<Rightarrow> step_outcome" where
  "fail_outcome e = (if is_retryable e then FailedRetryable e else FailedFatal e)"

fun show_resolution_error :: "resolution_error \<Rightarrow> string" where
  "show_resolution_error (UnresolvedKey key) = ''unresolved key: '' @ key"
| "show_resolution_error (MissingIdentity key) = ''missing identity for key: '' @ key"

definition resolution_step :: "op_id \<Rightarrow> resolution_error \<Rightarrow> step_result" where
  "resolution_step i e =
     \<lparr>sr_op_id = i,
      sr_outcome = FailedFatal \<lparr>ae_kind = Unknown, ae_message = ''unresolved: '' @ show_resolution_error e\<rparr>,
      sr_created = None, sr_rollback = None\<rparr>"

definition failed_step :: "op_id \<Rightarrow> adapter_error \<Rightarrow> step_result" where
  "failed_step i e = \<lparr>sr_op_id = i, sr_outcome = fail_outcome e, sr_created = None, sr_rollback = None\<rparr>"

definition success_step :: "op_id \<Rightarrow> created_resource option \<Rightarrow> rollback_action option \<Rightarrow> step_result" where
  "success_step i created rollback =
     \<lparr>sr_op_id = i, sr_outcome = Success, sr_created = created, sr_rollback = rollback\<rparr>"

text \<open>A key that does not resolve ends the operation before the adapter is called; the context and the
  world stay as they are.\<close>

definition with_resolved :: "op_id \<Rightarrow> (resource_resolution_context \<Rightarrow> resolution_error + 'a \<times> resource_resolution_context) \<Rightarrow>
    ('a \<Rightarrow> resource_resolution_context \<Rightarrow> 's \<Rightarrow> step_result \<times> resource_resolution_context \<times> 's) \<Rightarrow>
    resource_resolution_context \<Rightarrow> 's \<Rightarrow> step_result \<times> resource_resolution_context \<times> 's" where
  "with_resolved i resolve k ctx world =
     (case resolve ctx of
        Inr (x, ctx') \<Rightarrow> k x ctx' world
      | Inl e \<Rightarrow> (resolution_step i e, ctx, world))"

definition snapshot_overwrite :: "guild_state \<Rightarrow> channel_id \<Rightarrow> overwrite_target \<Rightarrow> permission_overwrite option" where
  "snapshot_overwrite snapshot ch target =
     (case find (\<lambda>c. c_id c = ch) (gs_channels snapshot) of
        None \<Rightarrow> None
      | Some c \<Rightarrow> find (\<lambda>w. po_target w = target) (c_overwrites c))"

definition finish_step :: "op_id \<Rightarrow> (adapter_error + 'a) \<times> 's \<Rightarrow> resource_resolution_context \<Rightarrow>
    ('a \<Rightarrow> created_resource option \<times> rollback_action option \<times> resource_resolution_context) \<Rightarrow>
    step_result \<times> resource_resolution_context \<times> 's" where
  "finish_step i answer ctx k =
     (case fst answer of
        Inl e \<Rightarrow> (failed_step i e, ctx, snd answer)
      | Inr x \<Rightarrow> (case k x of (created, rollback, ctx') \<Rightarrow> (success_step i created rollback, ctx', snd answer)))"

definition run_overwrite :: "'s discord_adapter \<Rightarrow> op_id \<Rightarrow> resource_key \<Rightarrow> normalized_target \<Rightarrow> permissions \<Rightarrow>
    permissions \<Rightarrow> guild_state \<Rightarrow> guild_id \<Rightarrow> resource_resolution_context \<Rightarrow> 's \<Rightarrow>
    step_result \<times> resource_resolution_context \<times> 's" where
  "run_overwrite adapter i channel target allow deny snapshot guild =
     with_resolved i (resolve_channel_key channel) (\<lambda>channel_id.
     with_resolved i (resolve_target target) (\<lambda>ow_target ctx world.
       finish_step i (upsert_overwrite adapter guild channel_id ow_target allow deny world) ctx (\<lambda>_.
         (None, Some (RB_RestoreOverwrite channel_id ow_target (snapshot_overwrite snapshot channel_id ow_target)), ctx))))"

fun run_op :: "'s discord_adapter \<Rightarrow> op_id \<Rightarrow> operation \<Rightarrow> guild_state \<Rightarrow> guild_id \<Rightarrow>
    resource_resolution_context \<Rightarrow> 's \<Rightarrow> step_result \<times> resource_resolution_context \<times> 's" where
  "run_op adapter i (CreateRole key name permissions) snapshot guild ctx world =
     finish_step i (create_role adapter guild \<lparr>rs_name = name, rs_permissions = permissions\<rparr> world) ctx (\<lambda>rid.
       (Some (CR_Role key rid), Some (RB_DeleteRole rid), bind_role key rid ctx))"
| "run_op adapter i (UpdateRole key name permissions) snapshot guild ctx world =
     with_resolved i (resolve_role_key key) (\<lambda>rid ctx world.
       finish_step i (update_role adapter guild rid \<lparr>rs_name = name, rs_permissions = permissions\<rparr> world) ctx (\<lambda>_.
         (None, map_option (RB_RestoreRole rid) (find (\<lambda>r. r_id r = rid) (gs_roles snapshot)), ctx))) ctx world"
| "run_op adapter i (DeleteRole key) snapshot guild ctx world =
     with_resolved i (resolve_role_key key) (\<lambda>rid ctx world.
       finish_step i (delete_role adapter guild rid world) ctx (\<lambda>_.
         (None, map_option RB_RecreateRole (find (\<lambda>r. r_id r = rid) (gs_roles snapshot)), ctx))) ctx world"
| "run_op adapter i (CreateChannel key name channel_type parent) snapshot guild ctx world =
     with_resolved i
       (\<lambda>ctx. case parent of
          None \<Rightarrow> Inr (None, ctx)
        | Some pk \<Rightarrow>
            (case resolve_channel_key pk ctx of
               Inl e \<Rightarrow> Inl e
             | Inr (pid, ctx') \<Rightarrow> Inr (Some pid, ctx')))
       (\<lambda>parent_id ctx world.
          finish_step i
            (create_channel adapter guild
              \<lparr>cs_name = name, cs_channel_type = channel_type, cs_parent_id = parent_id\<rparr> world) ctx (\<lambda>cid.
            (Some (CR_Channel key cid), Some (RB_DeleteChannel cid), bind_channel key cid ctx))) ctx world"
| "run_op adapter i (UpdateChannel key name channel_type) snapshot guild ctx world =
     with_resolved i (resolve_channel_key key) (\<lambda>cid ctx world.
       finish_step i
         (update_channel adapter guild cid
           \<lparr>cs_name = name, cs_channel_type = channel_type, cs_parent_id = None\<rparr> world) ctx (\<lambda>_.
         (None, map_option (RB_RestoreChannel cid) (find (\<lambda>c. c_id c = cid) (gs_channels snapshot)), ctx))) ctx world"
| "run_op adapter i (DeleteChannel key) snapshot guild ctx world =
     with_resolved i (resolve_channel_key key) (\<lambda>cid ctx world.
       finish_step i (delete_channel adapter guild cid world) ctx (\<lambda>_.
         (None, map_option RB_RecreateChannel (find (\<lambda>c. c_id c = cid) (gs_channels snapshot)), ctx))) ctx world"
| "run_op adapter i (CreateOverwrite channel target allow deny) snapshot guild ctx world =
     run_overwrite adapter i channel target allow deny snapshot guild ctx world"
| "run_op adapter i (UpdateOverwrite channel target allow deny) snapshot guild ctx world =
     run_overwrite adapter i channel target allow deny snapshot guild ctx world"

section \<open>Running a plan\<close>

definition skipped_step :: "op_id \<Rightarrow> step_result" where
  "skipped_step i = \<lparr>sr_op_id = i, sr_outcome = Skipped, sr_created = None, sr_rollback = None\<rparr>"

text \<open>The loop of \<open>execute\<close>, from a state of its mutable variables \<open>ctx\<close>, \<open>stopped\<close> and the steps so far.\<close>

fun execute_loop :: "'s discord_adapter \<Rightarrow> operation_graph \<Rightarrow> guild_state \<Rightarrow> guild_id \<Rightarrow> op_id list \<Rightarrow>
    resource_resolution_context \<Rightarrow> bool \<Rightarrow> step_result list \<Rightarrow> 's \<Rightarrow> step_result list \<times> bool \<times> 's" where
  "execute_loop adapter g snapshot guild [] ctx stopped steps world = (steps, stopped, world)"
| "execute_loop adapter g snapshot guild (i # is) ctx stopped steps world =
     (case find (\<lambda>n. on_id n = i) (og_nodes g) of
        None \<Rightarrow> execute_loop adapter g snapshot guild is ctx stopped steps world
      | Some node \<Rightarrow>
          if stopped then
            execute_loop adapter g snapshot guild is ctx stopped (steps @ [skipped_step i]) world
          else
            (case run_op adapter i (on_operation node) snapshot guild ctx world of
               (step, ctx', world') \<Rightarrow>
                 execute_loop adapter g snapshot guild is ctx' (sr_outcome step \<noteq> Success) (steps @ [step]) world'))"

definition execute :: "'s discord_adapter \<Rightarrow> approved_execution_request \<Rightarrow> 's \<Rightarrow>
    (executor_error, job_result) result \<times> 's" where
  "execute adapter request world =
     (if \<not> can_execute (er_approval request) then (Err NotApproved, world)
      else case topological_order (er_operation_graph request) of
        Panic \<Rightarrow> (Panic, world)
      | Err e \<Rightarrow> (Err EX_GraphCycle, world)
      | Ok order \<Rightarrow>
          (let resolver = in_memory_match_resolver (er_snapshot request);
               ctx = new_resolution_context (er_normalized request) resolver (er_guild_id request)
           in case execute_loop adapter (er_operation_graph request) (er_snapshot request) (er_guild_id request)
                     order ctx False [] world of
                (steps, stopped, world') \<Rightarrow>
                  (Ok \<lparr>jr_status = (if stopped then JS_Failed else JS_Succeeded), jr_steps = steps\<rparr>, world')))"

section \<open>Rolling back\<close>

definition rollback_outcome_of :: "(adapter_error + 'a) \<times> 's \<Rightarrow> rollback_outcome \<times> 's" where
  "rollback_outcome_of answer =
     (case fst answer of Inl e \<Rightarrow> RO_Failed e | Inr x \<Rightarrow> RO_Undone, snd answer)"

fun run_rollback :: "'s discord_adapter \<Rightarrow> guild_id \<Rightarrow> rollback_action \<Rightarrow> 's \<Rightarrow> rollback_outcome \<times> 's" where
  "run_rollback adapter guild (RB_DeleteRole rid) world = rollback_outcome_of (delete_role adapter guild rid world)"
| "run_rollback adapter guild (RB_RestoreRole rid before) world =
     rollback_outcome_of (update_role adapter guild rid
       \<lparr>rs_name = Some (r_name before), rs_permissions = Some (r_permissions before)\<rparr> world)"
| "run_rollback adapter guild (RB_RecreateRole before) world =
     rollback_outcome_of (create_role adapter guild
       \<lparr>rs_name = Some (r_name before), rs_permissions = Some (r_permissions before)\<rparr> world)"
| "run_rollback adapter guild (RB_DeleteChannel cid) world = rollback_outcome_of (delete_channel adapter guild cid world)"
| "run_rollback adapter guild (RB_RestoreChannel cid before) world =
     rollback_outcome_of (update_channel adapter guild cid
       \<lparr>cs_name = Some (c_name before), cs_channel_type = Some (c_channel_type before),
        cs_parent_id = c_parent_id before\<rparr> world)"
| "run_rollback adapter guild (RB_RecreateChannel before) world =
     rollback_outcome_of (create_channel adapter guild
       \<lparr>cs_name = Some (c_name before), cs_channel_type = Some (c_channel_type before),
        cs_parent_id = c_parent_id before\<rparr> world)"
| "run_rollback adapter guild (RB_RestoreOverwrite channel target before) world =
     (case before of
        Some w \<Rightarrow> rollback_outcome_of (upsert_overwrite adapter guild channel target (po_allow w) (po_deny w) world)
      | None \<Rightarrow> (RO_Skipped ''delete overwrite is not supported in Phase 15'', world))"

definition rollback_status_of :: "rollback_step_result list \<Rightarrow> rollback_status" where
  "rollback_status_of steps =
     (if steps = [] then RS_NotRequired
      else if list_all (\<lambda>s. case rr_outcome s of RO_Undone \<Rightarrow> True | _ \<Rightarrow> False) steps then RS_Succeeded
      else if list_all (\<lambda>s. case rr_outcome s of RO_Failed e \<Rightarrow> True | _ \<Rightarrow> False) steps then RS_Failed
      else RS_Partial)"

fun rollback_loop :: "'s discord_adapter \<Rightarrow> guild_id \<Rightarrow> step_result list \<Rightarrow> rollback_step_result list \<Rightarrow> 's \<Rightarrow>
    rollback_step_result list \<times> 's" where
  "rollback_loop adapter guild [] out world = (out, world)"
| "rollback_loop adapter guild (step # steps) out world =
     (if sr_outcome step \<noteq> Success then rollback_loop adapter guild steps out world
      else case sr_rollback step of
        None \<Rightarrow> rollback_loop adapter guild steps out world
      | Some action \<Rightarrow>
          (case run_rollback adapter guild action world of
             (outcome, world') \<Rightarrow>
               rollback_loop adapter guild steps
                 (out @ [\<lparr>rr_source_op_id = sr_op_id step, rr_action = action, rr_outcome = outcome\<rparr>]) world'))"

definition rollback :: "'s discord_adapter \<Rightarrow> job_result \<Rightarrow> guild_id \<Rightarrow> 's \<Rightarrow> rollback_report \<times> 's" where
  "rollback adapter job guild world =
     (case rollback_loop adapter guild (rev (jr_steps job)) [] world of
        (steps, world') \<Rightarrow> (\<lparr>rp_status = rollback_status_of steps, rp_steps = steps\<rparr>, world'))"

definition execute_with_rollback :: "'s discord_adapter \<Rightarrow> approved_execution_request \<Rightarrow> 's \<Rightarrow>
    (executor_error, job_run) result \<times> 's" where
  "execute_with_rollback adapter request world =
     (case execute adapter request world of
        (Ok job, world') \<Rightarrow>
          if jr_status job = JS_Succeeded
          then (Ok \<lparr>jn_job = job, jn_rollback = \<lparr>rp_status = RS_NotRequired, rp_steps = []\<rparr>\<rparr>, world')
          else (case rollback adapter job (er_guild_id request) world' of
                  (report, world'') \<Rightarrow> (Ok \<lparr>jn_job = job, jn_rollback = report\<rparr>, world''))
      | (Err e, world') \<Rightarrow> (Err e, world')
      | (Panic, world') \<Rightarrow> (Panic, world'))"

section \<open>The mock adapter\<close>

datatype adapter_call =
  AC_CreateRole guild_id role_spec
| AC_UpdateRole guild_id role_id role_spec
| AC_DeleteRole guild_id role_id
| AC_CreateChannel guild_id channel_spec
| AC_UpdateChannel guild_id channel_id channel_spec
| AC_DeleteChannel guild_id channel_id
| AC_UpsertOverwrite guild_id channel_id overwrite_target permissions permissions

record mock_state =
  mk_next_id :: u64
  mk_calls :: "adapter_call list"
  mk_fail_on :: "(nat \<times> adapter_error) list"

definition mock_with_failures :: "(nat \<times> adapter_error) list \<Rightarrow> mock_state" where
  "mock_with_failures failures = \<lparr>mk_next_id = 900000, mk_calls = [], mk_fail_on = failures\<rparr>"

definition mock_new :: mock_state where
  "mock_new = \<lparr>mk_next_id = 900000, mk_calls = [], mk_fail_on = []\<rparr>"

definition mock_with_failure :: "nat \<Rightarrow> adapter_error \<Rightarrow> mock_state" where
  "mock_with_failure n e = \<lparr>mk_next_id = 900000, mk_calls = [], mk_fail_on = [(n, e)]\<rparr>"

definition mock_record :: "adapter_call \<Rightarrow> mock_state \<Rightarrow> nat \<times> mock_state" where
  "mock_record call m =
     (let calls = mk_calls m @ [call] in (length calls, m\<lparr>mk_calls := calls\<rparr>))"

fun check_fail :: "(nat \<times> adapter_error) list \<Rightarrow> nat \<Rightarrow> adapter_error + unit" where
  "check_fail [] n = Inr ()"
| "check_fail ((k, e) # rest) n = (if k = n then Inl e else check_fail rest n)"

definition mock_call :: "adapter_call \<Rightarrow> mock_state \<Rightarrow> (adapter_error + unit) \<times> mock_state" where
  "mock_call call m = (case mock_record call m of (n, m') \<Rightarrow> (check_fail (mk_fail_on m') n, m'))"

text \<open>\<open>fetch_add\<close> wraps around, as addition on words does.\<close>

definition mock_create :: "(u64 \<Rightarrow> 'a) \<Rightarrow> adapter_call \<Rightarrow> mock_state \<Rightarrow> (adapter_error + 'a) \<times> mock_state" where
  "mock_create wrap call m =
     (case mock_call call m of
        (Inl e, m') \<Rightarrow> (Inl e, m')
      | (Inr u, m') \<Rightarrow> (Inr (wrap (mk_next_id m')), m'\<lparr>mk_next_id := mk_next_id m' + 1\<rparr>))"

definition mock_discord_adapter :: "mock_state discord_adapter" where
  "mock_discord_adapter =
     \<lparr>create_role = (\<lambda>guild spec. mock_create RoleId (AC_CreateRole guild spec)),
      update_role = (\<lambda>guild rid spec. mock_call (AC_UpdateRole guild rid spec)),
      delete_role = (\<lambda>guild rid. mock_call (AC_DeleteRole guild rid)),
      create_channel = (\<lambda>guild spec. mock_create ChannelId (AC_CreateChannel guild spec)),
      update_channel = (\<lambda>guild cid spec. mock_call (AC_UpdateChannel guild cid spec)),
      delete_channel = (\<lambda>guild cid. mock_call (AC_DeleteChannel guild cid)),
      upsert_overwrite = (\<lambda>guild cid target allow deny. mock_call (AC_UpsertOverwrite guild cid target allow deny))\<rparr>"

section \<open>The shape of a run\<close>

definition failed :: "step_outcome \<Rightarrow> bool" where
  "failed out \<longleftrightarrow> out \<noteq> Success \<and> out \<noteq> Skipped"

lemma fail_outcome_failed [simp]: "failed (fail_outcome e)"
  by (simp add: failed_def fail_outcome_def)

definition proper_step :: "op_id \<Rightarrow> step_result \<Rightarrow> bool" where
  "proper_step i step \<longleftrightarrow> sr_op_id step = i \<and> (sr_outcome step = Success \<or> failed (sr_outcome step))"

lemma finish_step_proper: "proper_step i (fst (finish_step i answer ctx k))"
  by (auto simp: proper_step_def finish_step_def failed_step_def success_step_def split: sum.split prod.split)

lemma with_resolved_proper:
  assumes "\<And>x ctx world. proper_step i (fst (k x ctx world))"
  shows "proper_step i (fst (with_resolved i f k ctx world))"
  using assms
  by (auto simp: with_resolved_def proper_step_def resolution_step_def failed_def split: sum.split prod.split)

lemma run_op_proper: "proper_step i (fst (run_op adapter i p snapshot guild ctx world))"
  by (cases p)
    (simp_all only: run_op.simps run_overwrite_def finish_step_proper with_resolved_proper)

text \<open>The steps of a run: successes, then possibly one failure followed only by skipped steps.\<close>

definition run_shape :: "step_result list \<Rightarrow> bool \<Rightarrow> bool" where
  "run_shape steps stopped \<longleftrightarrow>
     (if stopped then
        \<exists>oks s skipped. steps = oks @ s # skipped \<and> (\<forall>t \<in> set oks. sr_outcome t = Success) \<and>
          failed (sr_outcome s) \<and> (\<forall>t \<in> set skipped. t = skipped_step (sr_op_id t))
      else \<forall>t \<in> set steps. sr_outcome t = Success)"

lemma run_shape_Nil: "run_shape [] False"
  by (simp add: run_shape_def)

lemma run_shape_skip:
  assumes "run_shape steps True"
  shows "run_shape (steps @ [skipped_step i]) True"
proof -
  obtain oks s skipped where "steps = oks @ s # skipped" "\<forall>t \<in> set oks. sr_outcome t = Success"
      "failed (sr_outcome s)" "\<forall>t \<in> set skipped. t = skipped_step (sr_op_id t)"
    using assms by (auto simp: run_shape_def)
  then show ?thesis
    unfolding run_shape_def if_True
    by (intro exI [of _ oks] exI [of _ s] exI [of _ "skipped @ [skipped_step i]"]) (auto simp: skipped_step_def)
qed

lemma run_shape_step:
  assumes "run_shape steps False" "proper_step i step"
  shows "run_shape (steps @ [step]) (sr_outcome step \<noteq> Success)"
proof (cases "sr_outcome step = Success")
  case False
  with assms show ?thesis
    unfolding run_shape_def
    by (simp add: proper_step_def) (rule exI [of _ steps], rule exI [of _ step], rule exI [of _ "[]"], simp)
qed (use assms in \<open>simp add: run_shape_def\<close>)

lemma execute_loop_shape:
  assumes "set is \<subseteq> set (node_ids (og_nodes g))" "run_shape steps stopped"
    and "execute_loop adapter g snapshot guild is ctx stopped steps world = (steps', stopped', world')"
  shows "run_shape steps' stopped' \<and> map sr_op_id steps' = map sr_op_id steps @ is"
  using assms
proof (induction "is" arbitrary: ctx stopped steps world)
  case (Cons i "is")
  have "find (\<lambda>n. on_id n = i) (og_nodes g) \<noteq> None"
    using Cons.prems(1) by (auto simp: find_None_iff node_ids_def)
  then obtain node where node: "find (\<lambda>n. on_id n = i) (og_nodes g) = Some node" by blast
  show ?case
  proof (cases stopped)
    case True
    with Cons.prems node Cons.IH [OF _ run_shape_skip] show ?thesis by (auto simp: skipped_step_def)
  next
    case False
    obtain step ctx' w where r: "run_op adapter i (on_operation node) snapshot guild ctx world = (step, ctx', w)"
      by (cases "run_op adapter i (on_operation node) snapshot guild ctx world")
    have p: "proper_step i step"
      using run_op_proper [of i adapter "on_operation node" snapshot guild ctx world] r by simp
    with Cons.prems node r False Cons.IH [OF _ run_shape_step [OF _ p]] show ?thesis
      by (auto simp: proper_step_def)
  qed
qed simp

lemma execute_OkD:
  assumes "execute adapter request world = (Ok job, world')"
  obtains order stopped where "can_execute (er_approval request)"
    "topological_order (er_operation_graph request) = Ok order"
    "execute_loop adapter (er_operation_graph request) (er_snapshot request) (er_guild_id request) order
       (new_resolution_context (er_normalized request) (in_memory_match_resolver (er_snapshot request))
         (er_guild_id request)) False [] world = (jr_steps job, stopped, world')"
    "jr_status job = (if stopped then JS_Failed else JS_Succeeded)"
proof -
  obtain order where ord: "can_execute (er_approval request)" "topological_order (er_operation_graph request) = Ok order"
    using assms by (auto simp: execute_def split: result.splits if_splits)
  let ?loop = "execute_loop adapter (er_operation_graph request) (er_snapshot request) (er_guild_id request) order
       (new_resolution_context (er_normalized request) (in_memory_match_resolver (er_snapshot request))
         (er_guild_id request)) False [] world"
  obtain steps stopped w where "?loop = (steps, stopped, w)" by (cases ?loop)
  with assms ord that show thesis by (auto simp: execute_def Let_def)
qed

text \<open>C14: A job lists one step per operation of the plan, in its topological order. Its steps are
  successes, and then, exactly when the job failed, one failure followed only by skipped steps: nothing
  runs after a failure.\<close>

theorem execute_steps:
  assumes "distinct (node_ids (og_nodes (er_operation_graph request)))"
    and "execute adapter request world = (Ok job, world')"
  shows "topological_order (er_operation_graph request) = Ok (map sr_op_id (jr_steps job)) \<and>
         run_shape (jr_steps job) (jr_status job = JS_Failed)"
proof -
  obtain order stopped where run: "topological_order (er_operation_graph request) = Ok order"
    "execute_loop adapter (er_operation_graph request) (er_snapshot request) (er_guild_id request) order
       (new_resolution_context (er_normalized request) (in_memory_match_resolver (er_snapshot request))
         (er_guild_id request)) False [] world = (jr_steps job, stopped, world')"
    "jr_status job = (if stopped then JS_Failed else JS_Succeeded)"
    by (rule execute_OkD [OF assms(2)])
  from execute_loop_shape [OF _ run_shape_Nil run(2)] topological_order_OkD(3) [OF assms(1) run(1)] run(1,3)
  show ?thesis by (cases stopped) simp_all
qed

section \<open>What a rollback may touch\<close>

text \<open>A rollback action is justified by its step and the snapshot: it deletes only what the step
  created, and puts back only values the snapshot holds.\<close>

definition justified :: "guild_state \<Rightarrow> step_result \<Rightarrow> bool" where
  "justified snapshot step \<longleftrightarrow>
     (case sr_rollback step of
        None \<Rightarrow> True
      | Some (RB_DeleteRole rid) \<Rightarrow> \<exists>key. sr_created step = Some (CR_Role key rid)
      | Some (RB_RestoreRole rid before) \<Rightarrow> before \<in> set (gs_roles snapshot) \<and> r_id before = rid
      | Some (RB_RecreateRole before) \<Rightarrow> before \<in> set (gs_roles snapshot)
      | Some (RB_DeleteChannel cid) \<Rightarrow> \<exists>key. sr_created step = Some (CR_Channel key cid)
      | Some (RB_RestoreChannel cid before) \<Rightarrow> before \<in> set (gs_channels snapshot) \<and> c_id before = cid
      | Some (RB_RecreateChannel before) \<Rightarrow> before \<in> set (gs_channels snapshot)
      | Some (RB_RestoreOverwrite cid target before) \<Rightarrow> before = snapshot_overwrite snapshot cid target)"

lemma finish_step_justified:
  assumes "\<And>x created rollback ctx'. k x = (created, rollback, ctx') \<Longrightarrow> justified snapshot (success_step i created rollback)"
  shows "justified snapshot (fst (finish_step i answer ctx k))"
proof (cases "fst answer")
  case (Inl e)
  then show ?thesis by (simp add: finish_step_def failed_step_def justified_def)
next
  case (Inr x)
  obtain created rollback ctx' where "k x = (created, rollback, ctx')" by (cases "k x")
  with assms [of x] Inr show ?thesis by (simp add: finish_step_def)
qed

lemma with_resolved_justified:
  assumes "\<And>x ctx world. justified snapshot (fst (k x ctx world))"
  shows "justified snapshot (fst (with_resolved i f k ctx world))"
  using assms by (auto simp: with_resolved_def resolution_step_def justified_def split: sum.split prod.split)

lemma run_op_justified: "justified snapshot (fst (run_op adapter i p snapshot guild ctx world))"
  by (cases p; simp only: run_op.simps run_overwrite_def;
      intro with_resolved_justified finish_step_justified;
      auto simp: justified_def success_step_def map_option_case dest: find_SomeD split: option.splits)

lemma execute_loop_justified:
  assumes "\<forall>s \<in> set steps. justified snapshot s"
    and "execute_loop adapter g snapshot guild is ctx stopped steps world = (steps', stopped', world')"
  shows "\<forall>s \<in> set steps'. justified snapshot s"
  using assms
proof (induction "is" arbitrary: ctx stopped steps world)
  case (Cons i "is")
  show ?case
  proof (cases "find (\<lambda>n. on_id n = i) (og_nodes g)")
    case None
    with Cons show ?thesis by simp
  next
    case (Some node)
    obtain step ctx' w where r: "run_op adapter i (on_operation node) snapshot guild ctx world = (step, ctx', w)"
      by (cases "run_op adapter i (on_operation node) snapshot guild ctx world")
    have "justified snapshot step"
      using run_op_justified [of snapshot adapter i "on_operation node" guild ctx world] r by simp
    moreover have "justified snapshot (skipped_step i)" by (simp add: justified_def skipped_step_def)
    ultimately have j: "\<forall>s \<in> set (steps @ [step]). justified snapshot s"
      "\<forall>s \<in> set (steps @ [skipped_step i]). justified snapshot s"
      using Cons.prems(1) by simp_all
    show ?thesis
    proof (cases stopped)
      case True
      with Cons.prems(2) Some show ?thesis by (intro Cons.IH [OF j(2)]) simp
    next
      case False
      with Cons.prems(2) Some r show ?thesis by (intro Cons.IH [OF j(1)]) simp
    qed
  qed
qed simp

definition undo_list :: "step_result list \<Rightarrow> (op_id \<times> rollback_action) list" where
  "undo_list steps =
     List.map_filter (\<lambda>s. if sr_outcome s = Success then map_option (Pair (sr_op_id s)) (sr_rollback s) else None) steps"

lemma rollback_loop_actions:
  "rollback_loop adapter guild steps out world = (out', world') \<Longrightarrow>
     map (\<lambda>r. (rr_source_op_id r, rr_action r)) out' =
     map (\<lambda>r. (rr_source_op_id r, rr_action r)) out @ undo_list steps"
proof (induction steps arbitrary: out world)
  case (Cons step steps)
  show ?case
  proof (cases "sr_outcome step = Success \<and> sr_rollback step \<noteq> None")
    case True
    then obtain a where a: "sr_outcome step = Success" "sr_rollback step = Some a" by blast
    obtain outcome w where r: "run_rollback adapter guild a world = (outcome, w)"
      by (cases "run_rollback adapter guild a world")
    have "undo_list (step # steps) = (sr_op_id step, a) # undo_list steps"
      by (simp add: undo_list_def List.map_filter_simps a)
    with Cons.IH [of _ w] Cons.prems a r show ?thesis by simp
  next
    case False
    then have "undo_list (step # steps) = undo_list steps"
      "rollback_loop adapter guild (step # steps) out world = rollback_loop adapter guild steps out world"
      by (auto simp: undo_list_def List.map_filter_simps)
    with Cons show ?thesis by simp
  qed
qed (simp add: undo_list_def)

lemma undo_list_rev: "undo_list (rev steps) = rev (undo_list steps)"
  by (simp add: undo_list_def List.map_filter_def rev_map rev_filter)


section \<open>Adapters that keep a log\<close>

fun call_guild :: "adapter_call \<Rightarrow> guild_id" where
  "call_guild (AC_CreateRole g spec) = g"
| "call_guild (AC_UpdateRole g rid spec) = g"
| "call_guild (AC_DeleteRole g rid) = g"
| "call_guild (AC_CreateChannel g spec) = g"
| "call_guild (AC_UpdateChannel g cid spec) = g"
| "call_guild (AC_DeleteChannel g cid) = g"
| "call_guild (AC_UpsertOverwrite g cid t a d) = g"

definition extends_by :: "guild_id \<Rightarrow> nat \<Rightarrow> adapter_call list \<Rightarrow> adapter_call list \<Rightarrow> bool" where
  "extends_by guild n old new \<longleftrightarrow>
     (\<exists>calls. new = old @ calls \<and> length calls \<le> n \<and> (\<forall>c \<in> set calls. call_guild c = guild))"

lemma extends_by_refl [simp]: "extends_by guild n old old"
  by (simp add: extends_by_def)

lemma extends_by_one: "call_guild c = guild \<Longrightarrow> 0 < n \<Longrightarrow> extends_by guild n old (old @ [c])"
  by (simp add: extends_by_def)

lemma extends_by_trans:
  assumes "extends_by guild m a b" "extends_by guild n b c"
  shows "extends_by guild (m + n) a c"
proof -
  obtain xs ys where "b = a @ xs" "length xs \<le> m" "\<forall>c \<in> set xs. call_guild c = guild"
      "c = b @ ys" "length ys \<le> n" "\<forall>c \<in> set ys. call_guild c = guild"
    using assms by (auto simp: extends_by_def)
  then show ?thesis unfolding extends_by_def by (intro exI [of _ "xs @ ys"]) auto
qed

lemma extends_by_mono: "extends_by guild m a b \<Longrightarrow> m \<le> n \<Longrightarrow> extends_by guild n a b"
  by (force simp: extends_by_def)

lemma execute_loop_length:
  "length (fst (execute_loop adapter g snapshot guild is ctx stopped steps world)) \<le> length steps + length is"
proof (induction "is" arbitrary: ctx stopped steps world)
  case (Cons i "is")
  show ?case
    using Cons.IH [of ctx stopped "steps @ [skipped_step i]" world] Cons.IH [of ctx stopped steps world]
      Cons.IH [of _ _ "steps @ [step]" for step]
    by (auto split: option.split prod.split)
qed simp

lemma topological_order_length: "topological_order g = Ok order \<Longrightarrow> length order = length (og_nodes g)"
  by (auto simp: topological_order_def Let_def split: prod.splits option.splits if_splits)

lemma execute_steps_length:
  assumes "execute adapter request world = (Ok job, w)"
  shows "length (jr_steps job) \<le> length (og_nodes (er_operation_graph request))"
proof (rule execute_OkD [OF assms])
  fix order stopped
  assume "topological_order (er_operation_graph request) = Ok order"
    and "execute_loop adapter (er_operation_graph request) (er_snapshot request) (er_guild_id request) order
       (new_resolution_context (er_normalized request) (in_memory_match_resolver (er_snapshot request))
         (er_guild_id request)) False [] world = (jr_steps job, stopped, w)"
  then show ?thesis
    using execute_loop_length [of adapter "er_operation_graph request" "er_snapshot request" "er_guild_id request"
        order _ False "[]" world] topological_order_length
    by (metis add_0 fst_conv list.size(3))
qed

text \<open>The contract of an adapter whose world keeps a log: every method appends exactly its own call,
  whether it succeeds or not.\<close>

locale recording_adapter =
  fixes adapter :: "'s discord_adapter" and log :: "'s \<Rightarrow> adapter_call list"
  assumes log_create_role: "log (snd (create_role adapter g rspec w)) = log w @ [AC_CreateRole g rspec]"
    and log_update_role: "log (snd (update_role adapter g rid rspec w)) = log w @ [AC_UpdateRole g rid rspec]"
    and log_delete_role: "log (snd (delete_role adapter g rid w)) = log w @ [AC_DeleteRole g rid]"
    and log_create_channel: "log (snd (create_channel adapter g cspec w)) = log w @ [AC_CreateChannel g cspec]"
    and log_update_channel: "log (snd (update_channel adapter g cid cspec w)) = log w @ [AC_UpdateChannel g cid cspec]"
    and log_delete_channel: "log (snd (delete_channel adapter g cid w)) = log w @ [AC_DeleteChannel g cid]"
    and log_upsert_overwrite: "log (snd (upsert_overwrite adapter g cid t a d w)) =
      log w @ [AC_UpsertOverwrite g cid t a d]"
begin

lemmas log_simps = log_create_role log_update_role log_delete_role log_create_channel log_update_channel
  log_delete_channel log_upsert_overwrite

lemma finish_step_log:
  "log (snd (snd (finish_step i answer ctx k))) = log (snd answer)"
  by (simp add: finish_step_def split: sum.split prod.split)

lemma with_resolved_log:
  assumes "\<And>x ctx world. extends_by guild n (log world) (log (snd (snd (k x ctx world))))"
  shows "extends_by guild n (log world) (log (snd (snd (with_resolved i f k ctx world))))"
  using assms by (simp add: with_resolved_def split: sum.split prod.split)

lemma run_op_log:
  "extends_by guild 1 (log world) (log (snd (snd (run_op adapter i p snapshot guild ctx world))))"
  by (cases p)
    (simp_all add: run_overwrite_def with_resolved_log finish_step_log log_simps extends_by_one del: One_nat_def)

lemma execute_loop_log:
  "extends_by guild (length is) (log world)
     (log (snd (snd (execute_loop adapter g snapshot guild is ctx stopped steps world))))"
proof (induction "is" arbitrary: ctx stopped steps world)
  case (Cons i "is")
  show ?case
  proof (cases "find (\<lambda>n. on_id n = i) (og_nodes g) = None \<or> stopped")
    case True
    have "extends_by guild (Suc (length is)) (log world)
        (log (snd (snd (execute_loop adapter g snapshot guild is ctx stopped ss world))))" for ss
      by (rule extends_by_mono [OF Cons.IH]) simp
    with True show ?thesis by (auto split: option.split)
  next
    case False
    then obtain node where node: "find (\<lambda>n. on_id n = i) (og_nodes g) = Some node" "\<not> stopped" by auto
    obtain step ctx' w where r: "run_op adapter i (on_operation node) snapshot guild ctx world = (step, ctx', w)"
      by (cases "run_op adapter i (on_operation node) snapshot guild ctx world")
    have "extends_by guild 1 (log world) (log w)"
      using run_op_log [of guild world i "on_operation node" snapshot ctx] r by simp
    from extends_by_trans [OF this Cons.IH] node r show ?thesis by simp
  qed
qed simp

lemma run_rollback_log: "extends_by guild 1 (log world) (log (snd (run_rollback adapter guild a world)))"
  by (cases a) (simp_all add: rollback_outcome_of_def log_simps extends_by_one del: One_nat_def split: option.split)

lemma rollback_loop_log:
  "extends_by guild (length steps) (log world) (log (snd (rollback_loop adapter guild steps out world)))"
proof (induction steps arbitrary: out world)
  case (Cons step steps)
  show ?case
  proof (cases "sr_outcome step \<noteq> Success \<or> sr_rollback step = None")
    case True
    then have "rollback_loop adapter guild (step # steps) out world = rollback_loop adapter guild steps out world"
      by auto
    then show ?thesis using extends_by_mono [OF Cons.IH, of "length (step # steps)"] by simp
  next
    case False
    then obtain a where a: "sr_outcome step = Success" "sr_rollback step = Some a" by blast
    obtain r w where r: "run_rollback adapter guild a world = (r, w)"
      by (cases "run_rollback adapter guild a world")
    have "extends_by guild 1 (log world) (log w)" using run_rollback_log [of guild world a] r by simp
    from extends_by_trans [OF this Cons.IH] a r show ?thesis by simp
  qed
qed simp

lemma execute_log:
  assumes "execute adapter request world = (r, world')"
  shows "if can_execute (er_approval request)
         then extends_by (er_guild_id request) (length (og_nodes (er_operation_graph request))) (log world) (log world')
         else r = Err NotApproved \<and> world' = world"
proof (cases "can_execute (er_approval request)")
  case True
  show ?thesis
  proof (cases "topological_order (er_operation_graph request)")
    case (Ok order)
    let ?loop = "execute_loop adapter (er_operation_graph request) (er_snapshot request) (er_guild_id request) order
       (new_resolution_context (er_normalized request) (in_memory_match_resolver (er_snapshot request))
         (er_guild_id request)) False [] world"
    have "world' = snd (snd ?loop)"
      using assms True Ok by (cases ?loop) (simp add: execute_def Let_def)
    moreover have "length order = length (og_nodes (er_operation_graph request))"
      using Ok by (rule topological_order_length)
    ultimately show ?thesis using True execute_loop_log [of "er_guild_id request" order world] by simp
  qed (use assms True in \<open>auto simp: execute_def\<close>)
qed (use assms in \<open>auto simp: execute_def\<close>)

lemma execute_with_rollback_log:
  assumes "execute_with_rollback adapter request world = (r, world')"
  shows "if can_execute (er_approval request)
         then extends_by (er_guild_id request) (2 * length (og_nodes (er_operation_graph request)))
                (log world) (log world')
         else r = Err NotApproved \<and> world' = world"
proof (cases "can_execute (er_approval request)")
  case True
  let ?n = "length (og_nodes (er_operation_graph request))" and ?g = "er_guild_id request"
  obtain e w where e: "execute adapter request world = (e, w)" by (cases "execute adapter request world")
  with execute_log [OF e] True have one: "extends_by ?g ?n (log world) (log w)" by simp
  show ?thesis
  proof (cases "\<exists>job. e = Ok job \<and> jr_status job \<noteq> JS_Succeeded")
    case fails: True
    then obtain job where job: "e = Ok job" "jr_status job \<noteq> JS_Succeeded" by blast
    have "length (jr_steps job) \<le> ?n"
      using execute_steps_length [of adapter request world job w] e job(1) by simp
    moreover have "world' = snd (rollback_loop adapter ?g (rev (jr_steps job)) [] w)"
      using assms e job by (auto simp: execute_with_rollback_def rollback_def split: prod.splits)
    ultimately have "extends_by ?g ?n (log w) (log world')"
      using rollback_loop_log [of ?g "rev (jr_steps job)" w "[]"] by (auto intro: extends_by_mono)
    with extends_by_trans [OF one this] True show ?thesis by (simp add: mult_2)
  next
    case False
    then have "world' = w" using assms e by (cases e) (auto simp: execute_with_rollback_def)
    with one True show ?thesis by (auto intro: extends_by_mono)
  qed
qed (use assms in \<open>auto simp: execute_with_rollback_def execute_def\<close>)

end

lemma mock_create_calls: "mk_calls (snd (mock_create wrap call w)) = mk_calls w @ [call]"
  by (auto simp: mock_create_def mock_call_def mock_record_def Let_def split: prod.splits sum.splits)

interpretation mock: recording_adapter mock_discord_adapter mk_calls
  by unfold_locales
    (simp_all add: mock_discord_adapter_def mock_create_calls mock_call_def mock_record_def Let_def)

text \<open>C16: On the mock adapter a run with its rollback issues only calls to the guild of its request,
  at most two per operation of the plan (one to run it, one to undo it), and a request that may not be
  executed issues none.\<close>

theorem mock_calls_stay_in_guild:
  assumes "execute_with_rollback mock_discord_adapter request world = (r, world')"
  shows "if can_execute (er_approval request)
         then extends_by (er_guild_id request) (2 * length (og_nodes (er_operation_graph request)))
                (mk_calls world) (mk_calls world')
         else r = Err NotApproved \<and> world' = world"
  using assms by (rule mock.execute_with_rollback_log)

section \<open>An example\<close>

definition example_request :: approved_execution_request where
  "example_request =
     \<lparr>er_operation_graph = example_plan, er_normalized = example_normalized,
      er_approval = example_approval,
      er_snapshot = example_guild, er_guild_id = GuildId 1, er_requested_by = UserId 7, er_approved_by = [UserId 7]\<rparr>"

definition rate_limited :: adapter_error where
  "rate_limited = \<lparr>ae_kind = RateLimited, ae_message = ''slow down''\<rparr>"

lemmas executor_eval = new_resolution_context_def mock_discord_adapter_def mock_with_failure_def mock_create_def
  mock_call_def mock_record_def Let_def finish_step_def run_overwrite_def with_resolved_def resolve_channel_key_def
  bind_role_def bind_channel_def resolve_target_def failed_step_def success_step_def fail_outcome_def is_retryable_def
  rollback_def rollback_outcome_of_def rollback_status_of_def skipped_step_def

text \<open>The third call of the plan fails: the two creations before it are undone.\<close>

lemma execute_example:
  "\<exists>job world'. execute mock_discord_adapter example_request (mock_with_failure 3 rate_limited) = (Ok job, world') \<and>
     jr_status job = JS_Failed"
  by (simp add: execute_def example_request_def can_execute_example order_example)
    (simp add: example_plan_def rate_limited_def executor_eval)

lemma execute_with_rollback_example:
  "\<exists>run world'. execute_with_rollback mock_discord_adapter example_request (mock_with_failure 3 rate_limited) =
       (Ok run, world') \<and>
     jr_status (jn_job run) = JS_Failed \<and> rp_status (jn_rollback run) = RS_Succeeded \<and> length (mk_calls world') = 5"
  by (simp add: execute_with_rollback_def execute_def example_request_def can_execute_example order_example)
    (simp add: example_plan_def rate_limited_def executor_eval)

theorem execute_steps_witness:
  "\<exists>job :: job_result. topological_order example_plan = Ok (map sr_op_id (jr_steps job)) \<and> run_shape (jr_steps job) True"
proof -
  obtain job w where "execute mock_discord_adapter example_request (mock_with_failure 3 rate_limited) = (Ok job, w)"
      "jr_status job = JS_Failed"
    using execute_example by blast
  with execute_steps [of example_request mock_discord_adapter] example_plan_distinct show ?thesis
    by (fastforce simp: example_request_def)
qed


theorem mock_calls_stay_in_guild_witness:
  "\<exists>run w. execute_with_rollback mock_discord_adapter example_request (mock_with_failure 3 rate_limited) = (Ok run, w) \<and>
     extends_by (GuildId 1) 8 [] (mk_calls w)"
proof -
  obtain run w where r: "execute_with_rollback mock_discord_adapter example_request (mock_with_failure 3 rate_limited) = (Ok run, w)"
    using execute_with_rollback_example by blast
  with mock_calls_stay_in_guild [OF r] show ?thesis
    by (auto simp: example_request_def can_execute_example mock_with_failure_def example_plan_def)
qed

end
