(* ===== verification/Rust_Text.thy ===== *)
theory Rust_Text
  imports Prelude
begin

text \<open>
  The parts of Rust's \<open>str\<close> and \<open>u8\<close> that the automation crates use on text: the ASCII classes of a
  byte, \<open>char::is_whitespace\<close> on the UTF-8 encoding of a character, and \<open>str::trim\<close>. A string is its
  list of bytes, so a white space character is one, two or three elements of the list.
\<close>

definition is_ascii_lowercase :: "char \<Rightarrow> bool" where
  "is_ascii_lowercase c \<longleftrightarrow> CHR ''a'' \<le> c \<and> c \<le> CHR ''z''"

definition is_ascii_uppercase :: "char \<Rightarrow> bool" where
  "is_ascii_uppercase c \<longleftrightarrow> CHR ''A'' \<le> c \<and> c \<le> CHR ''Z''"

definition is_ascii_alphanumeric :: "char \<Rightarrow> bool" where
  "is_ascii_alphanumeric c \<longleftrightarrow> is_ascii_lowercase c \<or> is_ascii_uppercase c \<or> is_ascii_digit c"

definition is_lower_hex_digit :: "char \<Rightarrow> bool" where
  "is_lower_hex_digit c \<longleftrightarrow> is_ascii_digit c \<or> (CHR ''a'' \<le> c \<and> c \<le> CHR ''f'')"

lemmas ascii_defs =
  is_ascii_lowercase_def is_ascii_uppercase_def is_ascii_alphanumeric_def is_lower_hex_digit_def
  is_ascii_digit_def less_eq_char_def

text \<open>The UTF-8 encodings of the characters with the Unicode property \<open>White_Space\<close>.\<close>

definition is_whitespace :: "string \<Rightarrow> bool" where
  "is_whitespace s =
     (case map of_char s :: nat list of
        [b] \<Rightarrow> (9 \<le> b \<and> b \<le> 13) \<or> b = 32
      | [b1, b2] \<Rightarrow> b1 = 0xC2 \<and> (b2 = 0x85 \<or> b2 = 0xA0)
      | [b1, b2, b3] \<Rightarrow>
          (b1 = 0xE1 \<and> b2 = 0x9A \<and> b3 = 0x80)
          \<or> (b1 = 0xE2 \<and> b2 = 0x80
              \<and> ((0x80 \<le> b3 \<and> b3 \<le> 0x8A) \<or> b3 = 0xA8 \<or> b3 = 0xA9 \<or> b3 = 0xAF))
          \<or> (b1 = 0xE2 \<and> b2 = 0x81 \<and> b3 = 0x9F)
          \<or> (b1 = 0xE3 \<and> b2 = 0x80 \<and> b3 = 0x80)
      | _ \<Rightarrow> False)"

text \<open>The number of bytes of a white space character at the front of the string, and at its end.\<close>

definition leading_whitespace :: "string \<Rightarrow> nat" where
  "leading_whitespace s =
     (if is_whitespace (take 1 s) then 1
      else if is_whitespace (take 2 s) then 2
      else if is_whitespace (take 3 s) then 3 else 0)"

definition trailing_whitespace :: "string \<Rightarrow> nat" where
  "trailing_whitespace s =
     (if is_whitespace (rev (take 1 (rev s))) then 1
      else if is_whitespace (rev (take 2 (rev s))) then 2
      else if is_whitespace (rev (take 3 (rev s))) then 3 else 0)"

function trim_start :: "string \<Rightarrow> string" where
  "trim_start s =
     (if s = [] \<or> leading_whitespace s = 0 then s else trim_start (drop (leading_whitespace s) s))"
  by auto
termination
  by (relation "measure length") auto

function trim_end :: "string \<Rightarrow> string" where
  "trim_end s =
     (if s = [] \<or> trailing_whitespace s = 0 then s
      else trim_end (take (length s - trailing_whitespace s) s))"
  by auto
termination
  by (relation "measure length") auto

declare trim_start.simps [simp del] trim_end.simps [simp del]

definition trim :: "string \<Rightarrow> string" where
  "trim s = trim_end (trim_start s)"

lemma trim_end_prefix: "\<exists>ys. s = trim_end s @ ys"
proof (induction s rule: trim_end.induct)
  case (1 s)
  show ?case
  proof (cases "s = [] \<or> trailing_whitespace s = 0")
    case True
    then show ?thesis by (subst trim_end.simps) auto
  next
    case False
    obtain ys where "take (length s - trailing_whitespace s) s
        = trim_end (take (length s - trailing_whitespace s) s) @ ys"
      using 1 False by blast
    then have "s = trim_end (take (length s - trailing_whitespace s) s)
        @ ys @ drop (length s - trailing_whitespace s) s"
      by (metis append.assoc append_take_drop_id)
    then show ?thesis using False by (subst trim_end.simps) auto
  qed
qed

lemma trim_start_suffix: "\<exists>ys. s = ys @ trim_start s"
proof (induction s rule: trim_start.induct)
  case (1 s)
  show ?case
  proof (cases "s = [] \<or> leading_whitespace s = 0")
    case True
    then show ?thesis by (subst trim_start.simps) auto
  next
    case False
    from 1 [OF False]
    obtain ys where "drop (leading_whitespace s) s = ys @ trim_start (drop (leading_whitespace s) s)"
      by (elim exE)
    then have "s = (take (leading_whitespace s) s @ ys) @ trim_start (drop (leading_whitespace s) s)"
      by (metis append.assoc append_take_drop_id)
    moreover have "trim_start s = trim_start (drop (leading_whitespace s) s)"
      using False by (subst trim_start.simps) simp
    ultimately show ?thesis by metis
  qed
qed

lemma length_trim: "length (trim s) \<le> length s"
  using trim_end_prefix [of "trim_start s"] trim_start_suffix [of s]
  unfolding trim_def by (metis append_eq_conv_conj dual_order.trans length_append le_add1 le_add2)

section \<open>UTF-16 length\<close>

text \<open>\<open>encode_utf16().count()\<close>: a character outside the basic multilingual plane, which UTF-8 encodes
  in four bytes with a first byte from 0xF0 on, takes two code units, and every other character one.
  Continuation bytes are 0x80 to 0xBF.\<close>

fun utf16_len :: "string \<Rightarrow> nat" where
  "utf16_len [] = 0"
| "utf16_len (b1 # b2 # b3 # b4 # s) =
     (if of_char b1 \<ge> (0xF0 :: nat) then 2 + utf16_len s
      else if 0x80 \<le> (of_char b1 :: nat) \<and> of_char b1 < (0xC0 :: nat)
      then utf16_len (b2 # b3 # b4 # s)
      else 1 + utf16_len (b2 # b3 # b4 # s))"
| "utf16_len (b # s) =
     (if 0x80 \<le> (of_char b :: nat) \<and> of_char b < (0xC0 :: nat) then utf16_len s
      else 1 + utf16_len s)"

lemma utf16_len_le: "utf16_len s \<le> length s"
  by (induction s rule: utf16_len.induct) auto

definition contains_nul :: "string \<Rightarrow> bool" where
  "contains_nul s \<longleftrightarrow> CHR 0x00 \<in> set s"

text \<open>\<open>usize::saturating_add\<close>.\<close>

definition saturating_add :: "nat \<Rightarrow> nat \<Rightarrow> nat" where
  "saturating_add a b = min (2 ^ 64 - 1) (a + b)"

text \<open>The index in a path of a diagnostic, as \<open>format!\<close> prints a \<open>usize\<close>.\<close>

abbreviation show_index :: "nat \<Rightarrow> string" where
  "show_index \<equiv> show_nat"

end
