(* ===== verification/Convergence_Data.thy ===== *)
theory Convergence_Data
  imports Rust_Text Discord_Model
begin

text \<open>
  The data of the crate \<open>automation-runtime-convergence\<close>: its validated identifiers and revision
  numbers (\<open>id.rs\<close>), the identity and target of a deployment (\<open>identity.rs\<close>), the attestations
  (\<open>attestation.rs\<close>), the errors (\<open>error.rs\<close>) and the phases and requests (\<open>state.rs\<close>). Identifiers
  are their strings and revisions their \<open>u64\<close>; a \<open>DateTime<Utc>\<close> is an integer number of
  nanoseconds, since the crate only compares times.
\<close>

type_synonym date_time = int

section \<open>Identifiers and revisions\<close>

datatype opaque_runtime_id_error = OID_Empty | OID_TooLong | OID_InvalidCharacter

definition opaque_id_parse :: "string \<Rightarrow> opaque_runtime_id_error + string" where
  "opaque_id_parse s =
     (if s = [] then Inl OID_Empty
      else if 128 < length s then Inl OID_TooLong
      else if \<not> list_all (\<lambda>c. is_ascii_alphanumeric c \<or> c \<in> set ''_-:.'') s
      then Inl OID_InvalidCharacter
      else Inr s)"

datatype hex64_error = H64_Length | H64_LowerHex

text \<open>\<open>PanelReportDigestV1::parse\<close> and \<open>PromotionId::parse\<close> are the same text.\<close>

definition hex64_parse :: "string \<Rightarrow> hex64_error + string" where
  "hex64_parse s =
     (if length s \<noteq> 64 then Inl H64_Length
      else if \<not> list_all is_lower_hex_digit s then Inl H64_LowerHex
      else Inr s)"

datatype runtime_revision_error = REV_Zero | REV_Overflow

definition revision_FIRST :: u64 where
  "revision_FIRST = 1"

definition revision_new :: "u64 \<Rightarrow> runtime_revision_error + u64" where
  "revision_new v = (if v = 0 then Inl REV_Zero else Inr v)"

definition revision_next :: "u64 \<Rightarrow> runtime_revision_error + u64" where
  "revision_next r =
     (case checked_add r 1 of
        None \<Rightarrow> Inl REV_Overflow
      | Some v \<Rightarrow> (if v = 0 then Inl REV_Overflow else Inr v))"

type_synonym deployment_id = string
type_synonym tenant_id = string
type_synonym installation_id = string
type_synonym controller_id = string
type_synonym process_instance_id = string
type_synonym activation_request_id = string
type_synonym panel_certificate_id = string
type_synonym runtime_failure_id = string
type_synonym promotion_id = string
type_synonym panel_report_digest = string
type_synonym deployment_revision = u64
type_synonym runtime_generation = u64
type_synonym binding_revision = u64
type_synonym fencing_token = u64
type_synonym ruleset_key = string
type_synonym ruleset_version_id = u32
type_synonym ruleset_content_hash = "u8 list"
type_synonym resource_binding_fingerprint = string

section \<open>Identity and target\<close>

record deployment_identity =
  id_deployment_id :: deployment_id
  id_tenant_id :: tenant_id
  id_installation_id :: installation_id
  id_promotion_id :: promotion_id
  id_activation_request_id :: activation_request_id

definition same_product_scope :: "deployment_identity \<Rightarrow> deployment_identity \<Rightarrow> bool" where
  "same_product_scope a b \<longleftrightarrow>
     id_tenant_id a = id_tenant_id b \<and> id_installation_id a = id_installation_id b"

record deployment_target =
  tg_guild_id :: guild_id
  tg_ruleset_key :: ruleset_key
  tg_version :: ruleset_version_id
  tg_content_hash :: ruleset_content_hash
  tg_binding_revision :: binding_revision
  tg_binding_fingerprint :: resource_binding_fingerprint

definition same_slot :: "deployment_target \<Rightarrow> deployment_target \<Rightarrow> bool" where
  "same_slot a b \<longleftrightarrow> tg_guild_id a = tg_guild_id b \<and> tg_ruleset_key a = tg_ruleset_key b"

record process_identity =
  pi_target :: deployment_target
  pi_runtime_generation :: runtime_generation
  pi_process_instance_id :: process_instance_id

section \<open>Attestations\<close>

record preflight_attestation =
  pf_target :: deployment_target
  pf_runtime_generation :: runtime_generation
  pf_observed_runtime :: "process_identity option"
  pf_checked_at :: date_time

record drain_attestation =
  dn_previous_runtime :: "process_identity option"
  dn_target_runtime_generation :: runtime_generation
  dn_drained_at :: date_time

datatype activation_outcome_kind = AO_Activated | AO_AlreadyActive | AO_CrashRecovered

record activation_attestation =
  av_activation_request_id :: activation_request_id
  av_target :: deployment_target
  av_runtime_generation :: runtime_generation
  av_kind :: activation_outcome_kind
  av_activated_at :: date_time

record panel_certificate =
  pl_certificate_id :: panel_certificate_id
  pl_report_digest :: panel_report_digest
  pl_target :: deployment_target
  pl_runtime_generation :: runtime_generation
  pl_process_instance_id :: process_instance_id
  pl_declared_count :: u32
  pl_installed_count :: u32
  pl_unchanged_count :: u32
  pl_skipped_transient_count :: u32
  pl_skipped_unresolved_channel_count :: u32
  pl_failed_count :: u32
  pl_ambiguous_outcome_count :: u32
  pl_stale_message_cleanup_pending_count :: u32
  pl_orphan_message_cleanup_pending_count :: u32
  pl_reposted_old_message_cleanup_pending_count :: u32
  pl_reconciled_at :: date_time

datatype gateway_ready_kind = GW_DiscordReady | GW_DiscordResumed

record gateway_ready_attestation =
  gw_target :: deployment_target
  gw_runtime_generation :: runtime_generation
  gw_process_instance_id :: process_instance_id
  gw_kind :: gateway_ready_kind
  gw_ready_at :: date_time

record live_attestation =
  lv_target :: deployment_target
  lv_runtime_generation :: runtime_generation
  lv_process_instance_id :: process_instance_id
  lv_activation :: activation_attestation
  lv_panel_certificate :: panel_certificate
  lv_gateway_ready :: gateway_ready_attestation
  lv_certified_at :: date_time

datatype live_loss_kind = LL_ServingLeaseExpired | LL_ServingDisconnected

record live_recovery_attestation =
  lr_prior_live :: live_attestation
  lr_kind :: live_loss_kind
  lr_evidence_at :: date_time
  lr_recovered_at :: date_time

section \<open>Phases\<close>

datatype runtime_failure_kind =
  FK_EnvironmentUnavailable | FK_ActivationNotObservable | FK_PanelReconciliation
| FK_GatewayStart | FK_GatewayReadyTimeout | FK_InvariantViolation

record runtime_failure =
  rf_failure_id :: runtime_failure_id
  rf_kind :: runtime_failure_kind
  rf_code :: string
  rf_message :: string
  rf_recorded_at :: date_time

datatype runtime_failure_disposition =
  FD_Retryable runtime_failure u32 date_time
| FD_Blocked runtime_failure

datatype runtime_pending_condition =
  PC_Ready
| PC_Retryable runtime_failure u32 date_time
| PC_Blocked runtime_failure

fun disposition :: "runtime_pending_condition \<Rightarrow> runtime_failure_disposition option" where
  "disposition PC_Ready = None"
| "disposition (PC_Retryable failure attempt retry_not_before) =
     Some (FD_Retryable failure attempt retry_not_before)"
| "disposition (PC_Blocked failure) = Some (FD_Blocked failure)"

record superseding_deployment =
  sd_identity :: deployment_identity
  sd_target :: deployment_target
  sd_runtime_generation :: runtime_generation

datatype phase_kind =
  K_Requested | K_PreflightReady | K_DrainRequested | K_Drained | K_ActivationApplying
| K_RuntimePending | K_ReconcilingPanels | K_AwaitingGatewayReady | K_Live | K_Superseded
| K_Cancelled

datatype deployment_phase =
  Requested | PreflightReady | DrainRequested | Drained | ActivationApplying
| RuntimePending runtime_pending_condition
| ReconcilingPanels | AwaitingGatewayReady | Live
| Superseded superseding_deployment string date_time
| Cancelled string date_time

fun phase_kind_of :: "deployment_phase \<Rightarrow> phase_kind" where
  "phase_kind_of Requested = K_Requested"
| "phase_kind_of PreflightReady = K_PreflightReady"
| "phase_kind_of DrainRequested = K_DrainRequested"
| "phase_kind_of Drained = K_Drained"
| "phase_kind_of ActivationApplying = K_ActivationApplying"
| "phase_kind_of (RuntimePending condition) = K_RuntimePending"
| "phase_kind_of ReconcilingPanels = K_ReconcilingPanels"
| "phase_kind_of AwaitingGatewayReady = K_AwaitingGatewayReady"
| "phase_kind_of Live = K_Live"
| "phase_kind_of (Superseded by reason at) = K_Superseded"
| "phase_kind_of (Cancelled reason at) = K_Cancelled"

fun is_terminal :: "deployment_phase \<Rightarrow> bool" where
  "is_terminal Live = True"
| "is_terminal (Superseded _ _ _) = True"
| "is_terminal (Cancelled _ _) = True"
| "is_terminal _ = False"

section \<open>Leases, guards and requests\<close>

record controller_lease =
  cl_controller_id :: controller_id
  cl_fencing_token :: fencing_token
  cl_acquired_at :: date_time
  cl_expires_at :: date_time

record lease_request =
  lq_expected_revision :: deployment_revision
  lq_controller_id :: controller_id
  lq_fencing_token :: fencing_token
  lq_now :: date_time
  lq_expires_at :: date_time

record recover_blocked_request =
  rb_expected_revision :: deployment_revision
  rb_expected_failure_id :: runtime_failure_id
  rb_controller_id :: controller_id
  rb_fencing_token :: fencing_token
  rb_now :: date_time
  rb_expires_at :: date_time

record command_guard =
  cg_expected_revision :: deployment_revision
  cg_controller_id :: controller_id
  cg_fencing_token :: fencing_token
  cg_runtime_generation :: runtime_generation
  cg_now :: date_time

record recover_live_request =
  rl_expected_revision :: deployment_revision
  rl_expected_runtime_generation :: runtime_generation
  rl_expected_process_instance_id :: process_instance_id
  rl_kind :: live_loss_kind
  rl_evidence_at :: date_time
  rl_recovered_at :: date_time

section \<open>Errors\<close>

datatype panel_ineligibility =
  PI_CountOverflow | PI_TransientSkipped | PI_UnresolvedChannelSkipped | PI_Failed
| PI_AmbiguousOutcome | PI_StaleCleanupPending | PI_OrphanCleanupPending
| PI_RepostedOldMessageCleanupPending | PI_Incomplete

datatype runtime_deployment_error =
  RuntimeGenerationNotMonotonic
| PreviousRuntimeSlotMismatch
| SupersedingDeploymentIdentityConflict
| SupersedingDeploymentScopeMismatch
| RevisionConflict deployment_revision deployment_revision
| RuntimeGenerationConflict runtime_generation runtime_generation
| InvalidLeaseWindow
| LeaseHeld controller_id date_time
| LeaseRequired
| LeaseExpired date_time
| ControllerMismatch
| FencingTokenConflict fencing_token fencing_token
| FencingTokenNotMonotonic
| InvalidTransition phase_kind string
| TargetMismatch
| PreviousRuntimeMismatch
| ActivationRequestMismatch
| ProcessInstanceMismatch
| PanelIneligible panel_ineligibility
| AttestationTimeRegression
| InvalidFailure
| InvalidReason
| ProductDrainSupersessionSourceMismatch
| ProductDrainCancellationSourceMismatch
| RevisionOverflow
| InvalidSnapshot

section \<open>Revision arithmetic\<close>

lemma revision_next_unat: "revision_next r = Inr r' \<Longrightarrow> unat r' = unat r + 1"
  by (auto simp: revision_next_def dest!: checked_add_Some_unat split: option.splits if_splits)

lemma revision_next_less: "revision_next r = Inr r' \<Longrightarrow> r < r'"
  using revision_next_unat by (simp add: word_less_nat_alt)

lemma revision_next_overflow:
  "revision_next r = Inl e \<longleftrightarrow> e = REV_Overflow \<and> unat r = 2 ^ 64 - 1"
proof -
  have bound: "unat r < 2 ^ 64" using unsigned_less [of r] by simp
  show ?thesis
  proof (cases "checked_add r 1")
    case None
    then have "2 ^ 64 \<le> unat r + 1" by (simp add: checked_add_None_iff)
    with bound None show ?thesis by (auto simp: revision_next_def)
  next
    case (Some v)
    have "unat v < 2 ^ 64" using unsigned_less [of v] by simp
    then have "unat r + 1 < 2 ^ 64" using checked_add_Some_unat [OF Some] by simp
    moreover have "v \<noteq> 0" using checked_add_Some_unat [OF Some] by auto
    ultimately show ?thesis using Some by (auto simp: revision_next_def)
  qed
qed

end
