(* ===== verification/Runtime_Convergence.thy ===== *)
theory Runtime_Convergence
  imports Convergence_Data
begin

text \<open>
  The deployment state machine of \<open>automation-runtime-convergence\<close> (\<open>machine.rs\<close>,
  \<open>machine/validation.rs\<close> and \<open>machine/product_drain.rs\<close>). A method on \<open>&mut self\<close> returns its result
  together with the deployment it leaves behind; the early returns leave it as it was, and
  \<open>bump_revision\<close> is the last call of a transition, after the fields have been assigned, so a revision
  overflow leaves the assigned fields in place.
\<close>

section \<open>The deployment\<close>

record runtime_deployment =
  d_identity :: deployment_identity
  d_target :: deployment_target
  d_runtime_generation :: runtime_generation
  d_previous_runtime :: "process_identity option"
  d_requested_at :: date_time
  d_revision :: deployment_revision
  d_phase :: deployment_phase
  d_controller_lease :: "controller_lease option"
  d_last_fencing_token :: "fencing_token option"
  d_preflight :: "preflight_attestation option"
  d_drain :: "drain_attestation option"
  d_activation :: "activation_attestation option"
  d_panel_certificate :: "panel_certificate option"
  d_gateway_ready :: "gateway_ready_attestation option"
  d_live :: "live_attestation option"
  d_last_live_recovery :: "live_recovery_attestation option"
  d_last_runtime_failure :: "runtime_failure_disposition option"

record deployment_snapshot =
  s_identity :: deployment_identity
  s_target :: deployment_target
  s_runtime_generation :: runtime_generation
  s_previous_runtime :: "process_identity option"
  s_requested_at :: date_time
  s_revision :: deployment_revision
  s_phase :: deployment_phase
  s_controller_lease :: "controller_lease option"
  s_last_fencing_token :: "fencing_token option"
  s_preflight :: "preflight_attestation option"
  s_drain :: "drain_attestation option"
  s_activation :: "activation_attestation option"
  s_panel_certificate :: "panel_certificate option"
  s_gateway_ready :: "gateway_ready_attestation option"
  s_live :: "live_attestation option"
  s_last_live_recovery :: "live_recovery_attestation option"
  s_last_runtime_failure :: "runtime_failure_disposition option"

datatype transition_outcome = Applied deployment_revision | Replayed deployment_revision

fun outcome_revision :: "transition_outcome \<Rightarrow> deployment_revision" where
  "outcome_revision (Applied r) = r"
| "outcome_revision (Replayed r) = r"

type_synonym 'a checked = "(runtime_deployment_error, 'a) result"

text \<open>What a method on \<open>&mut self\<close> returns, and the deployment afterwards.\<close>

type_synonym transition = "transition_outcome checked \<times> runtime_deployment"

definition request ::
  "deployment_identity \<Rightarrow> deployment_target \<Rightarrow> runtime_generation \<Rightarrow> process_identity option \<Rightarrow>
   date_time \<Rightarrow> runtime_deployment checked" where
  "request ident target generation previous requested_at =
     and_then
       (case previous of
          None \<Rightarrow> Ok ()
        | Some p \<Rightarrow>
            and_then (ensure (same_slot target (pi_target p)) PreviousRuntimeSlotMismatch) (\<lambda>_.
            ensure (\<not> generation \<le> pi_runtime_generation p) RuntimeGenerationNotMonotonic))
       (\<lambda>_. Ok \<lparr> d_identity = ident, d_target = target, d_runtime_generation = generation,
          d_previous_runtime = previous, d_requested_at = requested_at,
          d_revision = revision_FIRST, d_phase = Requested, d_controller_lease = None,
          d_last_fencing_token = None, d_preflight = None, d_drain = None, d_activation = None,
          d_panel_certificate = None, d_gateway_ready = None, d_live = None,
          d_last_live_recovery = None, d_last_runtime_failure = None \<rparr>)"

definition snapshot :: "runtime_deployment \<Rightarrow> deployment_snapshot" where
  "snapshot d =
     \<lparr> s_identity = d_identity d, s_target = d_target d,
       s_runtime_generation = d_runtime_generation d, s_previous_runtime = d_previous_runtime d,
       s_requested_at = d_requested_at d, s_revision = d_revision d, s_phase = d_phase d,
       s_controller_lease = d_controller_lease d, s_last_fencing_token = d_last_fencing_token d,
       s_preflight = d_preflight d, s_drain = d_drain d, s_activation = d_activation d,
       s_panel_certificate = d_panel_certificate d, s_gateway_ready = d_gateway_ready d,
       s_live = d_live d, s_last_live_recovery = d_last_live_recovery d,
       s_last_runtime_failure = d_last_runtime_failure d \<rparr>"

section \<open>Guards\<close>

definition invalid_transition :: "runtime_deployment \<Rightarrow> string \<Rightarrow> runtime_deployment_error" where
  "invalid_transition d operation = InvalidTransition (phase_kind_of (d_phase d)) operation"

definition require_revision :: "deployment_revision \<Rightarrow> runtime_deployment \<Rightarrow> unit checked" where
  "require_revision expected d =
     ensure (expected = d_revision d) (RevisionConflict expected (d_revision d))"

definition require_guard :: "command_guard \<Rightarrow> runtime_deployment \<Rightarrow> unit checked" where
  "require_guard guard d =
     and_then (require_revision (cg_expected_revision guard) d) (\<lambda>_.
     and_then (ensure (cg_runtime_generation guard = d_runtime_generation d)
       (RuntimeGenerationConflict (d_runtime_generation d) (cg_runtime_generation guard))) (\<lambda>_.
     and_then (ok_or LeaseRequired (d_controller_lease d)) (\<lambda>lease.
     and_then (ensure (\<not> cl_expires_at lease \<le> cg_now guard) (LeaseExpired (cl_expires_at lease))) (\<lambda>_.
     and_then (ensure (cl_controller_id lease = cg_controller_id guard) ControllerMismatch) (\<lambda>_.
     ensure (cl_fencing_token lease = cg_fencing_token guard)
       (FencingTokenConflict (cl_fencing_token lease) (cg_fencing_token guard)))))))"

definition require_phase :: "phase_kind \<Rightarrow> string \<Rightarrow> runtime_deployment \<Rightarrow> unit checked" where
  "require_phase expected operation d =
     ensure (phase_kind_of (d_phase d) = expected) (invalid_transition d operation)"

definition require_runtime_failure_phase :: "string \<Rightarrow> runtime_deployment \<Rightarrow> unit checked" where
  "require_runtime_failure_phase operation d =
     (case d_phase d of
        RuntimePending PC_Ready \<Rightarrow> Ok ()
      | ReconcilingPanels \<Rightarrow> Ok ()
      | AwaitingGatewayReady \<Rightarrow> Ok ()
      | _ \<Rightarrow> Err (invalid_transition d operation))"

fun phase_rank :: "phase_kind \<Rightarrow> nat option" where
  "phase_rank K_Requested = Some 0"
| "phase_rank K_PreflightReady = Some 1"
| "phase_rank K_DrainRequested = Some 2"
| "phase_rank K_Drained = Some 3"
| "phase_rank K_ActivationApplying = Some 4"
| "phase_rank K_RuntimePending = Some 5"
| "phase_rank K_ReconcilingPanels = Some 6"
| "phase_rank K_AwaitingGatewayReady = Some 7"
| "phase_rank K_Live = Some 8"
| "phase_rank K_Superseded = None"
| "phase_rank K_Cancelled = None"

definition has_reached :: "phase_kind \<Rightarrow> runtime_deployment \<Rightarrow> bool" where
  "has_reached expected d =
     (case (phase_rank (phase_kind_of (d_phase d)), phase_rank expected) of
        (Some current, Some rank) \<Rightarrow> rank \<le> current
      | _ \<Rightarrow> False)"

definition clear_unaccepted_runtime_evidence :: "runtime_deployment \<Rightarrow> runtime_deployment" where
  "clear_unaccepted_runtime_evidence d =
     d\<lparr> d_panel_certificate := None, d_gateway_ready := None, d_live := None \<rparr>"

definition runtime_evidence_floor :: "runtime_deployment \<Rightarrow> date_time option" where
  "runtime_evidence_floor d =
     (case d_activation d of
        None \<Rightarrow> None
      | Some activation \<Rightarrow>
          Some (case d_last_live_recovery d of
              None \<Rightarrow> av_activated_at activation
            | Some recovery \<Rightarrow> max (av_activated_at activation) (lr_recovered_at recovery)))"

definition replayed :: "runtime_deployment \<Rightarrow> transition" where
  "replayed d = (Ok (Replayed (d_revision d)), d)"

definition bump_revision :: "runtime_deployment \<Rightarrow> transition" where
  "bump_revision d =
     (case revision_next (d_revision d) of
        Inl _ \<Rightarrow> (Err RevisionOverflow, d)
      | Inr r \<Rightarrow> (Ok (Applied r), d\<lparr> d_revision := r \<rparr>))"

text \<open>The question mark operator inside a method on \<open>&mut self\<close>: on an error the deployment is the one
  that the failing check saw.\<close>

definition guarded ::
  "'a checked \<Rightarrow> runtime_deployment \<Rightarrow> ('a \<Rightarrow> transition) \<Rightarrow> transition" where
  "guarded check d k =
     (case check of Ok x \<Rightarrow> k x | Err e \<Rightarrow> (Err e, d) | Panic \<Rightarrow> (Panic, d))"

section \<open>Validation\<close>

definition validate_generation :: "runtime_generation \<Rightarrow> runtime_deployment \<Rightarrow> unit checked" where
  "validate_generation generation d =
     ensure (generation = d_runtime_generation d)
       (RuntimeGenerationConflict (d_runtime_generation d) generation)"

definition validate_target_and_generation ::
  "deployment_target \<Rightarrow> runtime_generation \<Rightarrow> runtime_deployment \<Rightarrow> unit checked" where
  "validate_target_and_generation target generation d =
     and_then (ensure (target = d_target d) TargetMismatch) (\<lambda>_. validate_generation generation d)"

definition validate_preflight :: "preflight_attestation \<Rightarrow> runtime_deployment \<Rightarrow> unit checked" where
  "validate_preflight a d =
     and_then (validate_target_and_generation (pf_target a) (pf_runtime_generation a) d) (\<lambda>_.
     and_then (ensure (pf_observed_runtime a = d_previous_runtime d) PreviousRuntimeMismatch) (\<lambda>_.
     ensure (\<not> pf_checked_at a < d_requested_at d) AttestationTimeRegression))"

definition validate_drain :: "drain_attestation \<Rightarrow> runtime_deployment \<Rightarrow> unit checked" where
  "validate_drain a d =
     and_then (validate_generation (dn_target_runtime_generation a) d) (\<lambda>_.
     and_then (ensure (dn_previous_runtime a = d_previous_runtime d) PreviousRuntimeMismatch) (\<lambda>_.
     and_then (ok_or InvalidSnapshot (d_preflight d)) (\<lambda>preflight.
     ensure (\<not> dn_drained_at a < pf_checked_at preflight) AttestationTimeRegression)))"

definition validate_activation :: "activation_attestation \<Rightarrow> runtime_deployment \<Rightarrow> unit checked" where
  "validate_activation a d =
     and_then (validate_target_and_generation (av_target a) (av_runtime_generation a) d) (\<lambda>_.
     and_then (ensure (av_activation_request_id a = id_activation_request_id (d_identity d))
       ActivationRequestMismatch) (\<lambda>_.
     and_then (ok_or InvalidSnapshot (d_drain d)) (\<lambda>drain.
     ensure (\<not> av_activated_at a < dn_drained_at drain) AttestationTimeRegression)))"

definition validate_panel_eligibility :: "panel_certificate \<Rightarrow> unit checked" where
  "validate_panel_eligibility c =
     and_then (ensure (pl_skipped_transient_count c = 0) (PanelIneligible PI_TransientSkipped)) (\<lambda>_.
     and_then (ensure (pl_skipped_unresolved_channel_count c = 0)
       (PanelIneligible PI_UnresolvedChannelSkipped)) (\<lambda>_.
     and_then (ensure (pl_failed_count c = 0) (PanelIneligible PI_Failed)) (\<lambda>_.
     and_then (ensure (pl_ambiguous_outcome_count c = 0) (PanelIneligible PI_AmbiguousOutcome)) (\<lambda>_.
     and_then (ensure (pl_stale_message_cleanup_pending_count c = 0)
       (PanelIneligible PI_StaleCleanupPending)) (\<lambda>_.
     and_then (ensure (pl_orphan_message_cleanup_pending_count c = 0)
       (PanelIneligible PI_OrphanCleanupPending)) (\<lambda>_.
     and_then (ensure (pl_reposted_old_message_cleanup_pending_count c = 0)
       (PanelIneligible PI_RepostedOldMessageCleanupPending)) (\<lambda>_.
     and_then (ok_or (PanelIneligible PI_CountOverflow)
       (checked_add (pl_installed_count c) (pl_unchanged_count c))) (\<lambda>accounted.
     ensure (accounted = pl_declared_count c) (PanelIneligible PI_Incomplete)))))))))"

definition validate_panel_certificate :: "panel_certificate \<Rightarrow> runtime_deployment \<Rightarrow> unit checked" where
  "validate_panel_certificate c d =
     and_then (validate_target_and_generation (pl_target c) (pl_runtime_generation c) d) (\<lambda>_.
     and_then (ok_or InvalidSnapshot (d_activation d)) (\<lambda>activation.
     and_then (ensure (\<not> pl_reconciled_at c < av_activated_at activation)
       AttestationTimeRegression) (\<lambda>_.
     and_then
       (case d_last_live_recovery d of
          None \<Rightarrow> Ok ()
        | Some recovery \<Rightarrow>
            and_then (ensure (\<not> pl_reconciled_at c < lr_recovered_at recovery)
              AttestationTimeRegression) (\<lambda>_.
            ensure (pl_process_instance_id c \<noteq> lv_process_instance_id (lr_prior_live recovery))
              ProcessInstanceMismatch)) (\<lambda>_.
     validate_panel_eligibility c))))"

definition validate_gateway_ready :: "gateway_ready_attestation \<Rightarrow> runtime_deployment \<Rightarrow> unit checked" where
  "validate_gateway_ready a d =
     and_then (validate_target_and_generation (gw_target a) (gw_runtime_generation a) d) (\<lambda>_.
     and_then (ok_or InvalidSnapshot (d_panel_certificate d)) (\<lambda>panel.
     ensure (gw_process_instance_id a = pl_process_instance_id panel) ProcessInstanceMismatch))"

definition validate_failure :: "runtime_failure \<Rightarrow> unit checked" where
  "validate_failure f =
     (let code_valid = rf_code f \<noteq> [] \<and> length (rf_code f) \<le> 64
            \<and> list_all (\<lambda>c. is_ascii_lowercase c \<or> is_ascii_digit c \<or> c = CHR ''_'') (rf_code f);
          message_valid = trim (rf_message f) \<noteq> [] \<and> length (rf_message f) \<le> 1024
      in ensure (code_valid \<and> message_valid) InvalidFailure)"

definition validate_reason :: "string \<Rightarrow> unit checked" where
  "validate_reason reason = ensure (\<not> (trim reason = [] \<or> 1024 < length reason)) InvalidReason"

definition validate_supersession ::
  "superseding_deployment \<Rightarrow> string \<Rightarrow> date_time \<Rightarrow> runtime_deployment \<Rightarrow> unit checked" where
  "validate_supersession by reason superseded_at d =
     and_then (validate_reason reason) (\<lambda>_.
     and_then (ensure (\<not> sd_runtime_generation by \<le> d_runtime_generation d)
       RuntimeGenerationNotMonotonic) (\<lambda>_.
     and_then (ensure (id_deployment_id (sd_identity by) \<noteq> id_deployment_id (d_identity d))
       SupersedingDeploymentIdentityConflict) (\<lambda>_.
     and_then (ensure (same_product_scope (sd_identity by) (d_identity d))
       SupersedingDeploymentScopeMismatch) (\<lambda>_.
     and_then (ensure (same_slot (sd_target by) (d_target d)) PreviousRuntimeSlotMismatch) (\<lambda>_.
     ensure (\<not> superseded_at < d_requested_at d) AttestationTimeRegression)))))"

section \<open>Validation of a snapshot\<close>

text \<open>\<open>validate_snapshot\<close> is one sequence of checks; each definition below is one block of it, in the
  order of the source.\<close>

definition snapshot_previous_ok :: "runtime_deployment \<Rightarrow> bool" where
  "snapshot_previous_ok d =
     (case d_previous_runtime d of
        None \<Rightarrow> True
      | Some p \<Rightarrow> \<not> (\<not> same_slot (d_target d) (pi_target p)
                     \<or> d_runtime_generation d \<le> pi_runtime_generation p))"

definition snapshot_lease_ok :: "runtime_deployment \<Rightarrow> bool" where
  "snapshot_lease_ok d \<longleftrightarrow>
     (case (d_controller_lease d, d_last_fencing_token d) of
        (Some lease, Some token) \<Rightarrow>
          cl_fencing_token lease = token \<and> cl_expires_at lease > cl_acquired_at lease
      | (None, _) \<Rightarrow> True
      | _ \<Rightarrow> False)
     \<and> \<not> (is_terminal (d_phase d) \<and> d_controller_lease d \<noteq> None)
     \<and> (case d_controller_lease d of
          None \<Rightarrow> True
        | Some lease \<Rightarrow> \<not> cl_acquired_at lease < d_requested_at d)"

fun disposition_parts :: "runtime_failure_disposition \<Rightarrow> runtime_failure \<times> date_time option" where
  "disposition_parts (FD_Retryable failure attempt retry_not_before) = (failure, Some retry_not_before)"
| "disposition_parts (FD_Blocked failure) = (failure, None)"

definition failure_is_current :: "runtime_failure_disposition \<Rightarrow> runtime_deployment \<Rightarrow> bool" where
  "failure_is_current disp d =
     (case d_phase d of RuntimePending condition \<Rightarrow> disposition condition = Some disp | _ \<Rightarrow> False)"

definition snapshot_failure_ok :: "runtime_deployment \<Rightarrow> bool" where
  "snapshot_failure_ok d =
     (case d_last_runtime_failure d of
        None \<Rightarrow> True
      | Some disp \<Rightarrow>
          (case disposition_parts disp of (failure, retry_not_before) \<Rightarrow>
             let evidence_floor =
               (if failure_is_current disp d then runtime_evidence_floor d
                else map_option av_activated_at (d_activation d))
             in \<not> (\<not> is_ok (validate_failure failure)
                  \<or> rf_recorded_at failure < d_requested_at d
                  \<or> (case evidence_floor of None \<Rightarrow> True | Some floor \<Rightarrow> rf_recorded_at failure < floor)
                  \<or> (case retry_not_before of
                       None \<Rightarrow> False | Some retry_at \<Rightarrow> retry_at < rf_recorded_at failure))))"

definition snapshot_evidence_ok :: "runtime_deployment \<Rightarrow> bool" where
  "snapshot_evidence_ok d \<longleftrightarrow>
     (case d_preflight d of None \<Rightarrow> True | Some a \<Rightarrow> is_ok (validate_preflight a d))
     \<and> (case d_drain d of
          None \<Rightarrow> True | Some a \<Rightarrow> d_preflight d \<noteq> None \<and> is_ok (validate_drain a d))
     \<and> (case d_activation d of
          None \<Rightarrow> True | Some a \<Rightarrow> d_drain d \<noteq> None \<and> is_ok (validate_activation a d))
     \<and> (case d_panel_certificate d of
          None \<Rightarrow> True | Some c \<Rightarrow> d_activation d \<noteq> None \<and> is_ok (validate_panel_certificate c d))
     \<and> (case d_gateway_ready d of
          None \<Rightarrow> True | Some a \<Rightarrow> d_panel_certificate d \<noteq> None \<and> is_ok (validate_gateway_ready a d))"

definition snapshot_live_ok :: "runtime_deployment \<Rightarrow> bool" where
  "snapshot_live_ok d =
     (case d_live d of
        None \<Rightarrow> True
      | Some live \<Rightarrow>
          \<not> (d_gateway_ready d = None
             \<or> lv_target live \<noteq> d_target d
             \<or> lv_runtime_generation live \<noteq> d_runtime_generation d
             \<or> d_activation d \<noteq> Some (lv_activation live)
             \<or> d_panel_certificate d \<noteq> Some (lv_panel_certificate live)
             \<or> d_gateway_ready d \<noteq> Some (lv_gateway_ready live)
             \<or> lv_process_instance_id live \<noteq> gw_process_instance_id (lv_gateway_ready live)
             \<or> lv_certified_at live < gw_ready_at (lv_gateway_ready live)))"

fun recovery_phase_valid :: "deployment_phase \<Rightarrow> bool" where
  "recovery_phase_valid (RuntimePending _) = True"
| "recovery_phase_valid ReconcilingPanels = True"
| "recovery_phase_valid AwaitingGatewayReady = True"
| "recovery_phase_valid Live = True"
| "recovery_phase_valid (Superseded _ _ _) = True"
| "recovery_phase_valid _ = False"

definition snapshot_recovery_ok :: "runtime_deployment \<Rightarrow> bool" where
  "snapshot_recovery_ok d =
     (case d_last_live_recovery d of
        None \<Rightarrow> True
      | Some recovery \<Rightarrow>
          (let prior = lr_prior_live recovery in
           \<not> (\<not> recovery_phase_valid (d_phase d)
              \<or> lv_target prior \<noteq> d_target d
              \<or> lv_runtime_generation prior \<noteq> d_runtime_generation d
              \<or> d_activation d \<noteq> Some (lv_activation prior)
              \<or> pl_target (lv_panel_certificate prior) \<noteq> d_target d
              \<or> pl_runtime_generation (lv_panel_certificate prior) \<noteq> d_runtime_generation d
              \<or> gw_target (lv_gateway_ready prior) \<noteq> d_target d
              \<or> gw_runtime_generation (lv_gateway_ready prior) \<noteq> d_runtime_generation d
              \<or> lv_process_instance_id prior \<noteq> pl_process_instance_id (lv_panel_certificate prior)
              \<or> lv_process_instance_id prior \<noteq> gw_process_instance_id (lv_gateway_ready prior)
              \<or> pl_reconciled_at (lv_panel_certificate prior) < av_activated_at (lv_activation prior)
              \<or> gw_ready_at (lv_gateway_ready prior) < pl_reconciled_at (lv_panel_certificate prior)
              \<or> lv_certified_at prior < gw_ready_at (lv_gateway_ready prior)
              \<or> \<not> is_ok (validate_panel_eligibility (lv_panel_certificate prior))
              \<or> lr_evidence_at recovery < lv_certified_at prior
              \<or> lr_recovered_at recovery < lr_evidence_at recovery
              \<or> (case d_live d of
                   None \<Rightarrow> False | Some live \<Rightarrow> lv_certified_at live < lr_recovered_at recovery))))"

fun evidence_is_prefix :: "bool \<times> bool \<times> bool \<times> bool \<times> bool \<times> bool \<Rightarrow> bool" where
  "evidence_is_prefix (False, False, False, False, False, False) = True"
| "evidence_is_prefix (True, False, False, False, False, False) = True"
| "evidence_is_prefix (True, True, False, False, False, False) = True"
| "evidence_is_prefix (True, True, True, False, False, False) = True"
| "evidence_is_prefix (True, True, True, True, False, False) = True"
| "evidence_is_prefix _ = False"

definition phase_evidence :: "runtime_deployment \<Rightarrow> bool \<times> bool \<times> bool \<times> bool \<times> bool \<times> bool" where
  "phase_evidence d =
     (d_preflight d \<noteq> None, d_drain d \<noteq> None, d_activation d \<noteq> None,
      d_panel_certificate d \<noteq> None, d_gateway_ready d \<noteq> None, d_live d \<noteq> None)"

definition pending_condition_valid :: "runtime_pending_condition \<Rightarrow> runtime_deployment \<Rightarrow> bool" where
  "pending_condition_valid condition d =
     (case condition of
        PC_Ready \<Rightarrow> True
      | PC_Retryable failure attempt retry_not_before \<Rightarrow>
          is_ok (validate_failure failure) \<and> retry_not_before \<ge> rf_recorded_at failure
          \<and> disposition condition = d_last_runtime_failure d
      | PC_Blocked failure \<Rightarrow>
          is_ok (validate_failure failure) \<and> disposition condition = d_last_runtime_failure d)"

definition phase_evidence_valid :: "runtime_deployment \<Rightarrow> bool" where
  "phase_evidence_valid d =
     (case d_phase d of
        Requested \<Rightarrow> phase_evidence d = (False, False, False, False, False, False)
      | PreflightReady \<Rightarrow> phase_evidence d = (True, False, False, False, False, False)
      | DrainRequested \<Rightarrow> phase_evidence d = (True, False, False, False, False, False)
      | Drained \<Rightarrow> phase_evidence d = (True, True, False, False, False, False)
      | ActivationApplying \<Rightarrow> phase_evidence d = (True, True, False, False, False, False)
      | RuntimePending condition \<Rightarrow>
          phase_evidence d = (True, True, True, False, False, False)
          \<and> pending_condition_valid condition d
      | ReconcilingPanels \<Rightarrow> phase_evidence d = (True, True, True, False, False, False)
      | AwaitingGatewayReady \<Rightarrow> phase_evidence d = (True, True, True, True, False, False)
      | Live \<Rightarrow> phase_evidence d = (True, True, True, True, True, True)
      | Superseded by reason superseded_at \<Rightarrow>
          is_ok (validate_reason reason)
          \<and> sd_runtime_generation by > d_runtime_generation d
          \<and> id_deployment_id (sd_identity by) \<noteq> id_deployment_id (d_identity d)
          \<and> same_product_scope (sd_identity by) (d_identity d)
          \<and> same_slot (sd_target by) (d_target d)
          \<and> superseded_at \<ge> d_requested_at d
          \<and> evidence_is_prefix (phase_evidence d)
      | Cancelled reason cancelled_at \<Rightarrow>
          is_ok (validate_reason reason)
          \<and> cancelled_at \<ge> d_requested_at d
          \<and> evidence_is_prefix (phase_evidence d))"

definition validate_phase_evidence :: "runtime_deployment \<Rightarrow> unit checked" where
  "validate_phase_evidence d = ensure (phase_evidence_valid d) InvalidSnapshot"

definition validate_snapshot :: "runtime_deployment \<Rightarrow> unit checked" where
  "validate_snapshot d =
     and_then (ensure (snapshot_previous_ok d) InvalidSnapshot) (\<lambda>_.
     and_then (ensure (snapshot_lease_ok d) InvalidSnapshot) (\<lambda>_.
     and_then (ensure (snapshot_failure_ok d) InvalidSnapshot) (\<lambda>_.
     and_then (ensure (snapshot_evidence_ok d) InvalidSnapshot) (\<lambda>_.
     and_then (ensure (snapshot_live_ok d) InvalidSnapshot) (\<lambda>_.
     and_then (ensure (snapshot_recovery_ok d) InvalidSnapshot) (\<lambda>_.
     validate_phase_evidence d))))))"

definition restore :: "deployment_snapshot \<Rightarrow> runtime_deployment checked" where
  "restore s =
     (let d = \<lparr> d_identity = s_identity s, d_target = s_target s,
         d_runtime_generation = s_runtime_generation s, d_previous_runtime = s_previous_runtime s,
         d_requested_at = s_requested_at s, d_revision = s_revision s, d_phase = s_phase s,
         d_controller_lease = s_controller_lease s, d_last_fencing_token = s_last_fencing_token s,
         d_preflight = s_preflight s, d_drain = s_drain s, d_activation = s_activation s,
         d_panel_certificate = s_panel_certificate s, d_gateway_ready = s_gateway_ready s,
         d_live = s_live s, d_last_live_recovery = s_last_live_recovery s,
         d_last_runtime_failure = s_last_runtime_failure s \<rparr>
      in and_then (validate_snapshot d) (\<lambda>_. Ok d))"

section \<open>Leases\<close>

definition lease_matches ::
  "controller_lease option \<Rightarrow> controller_id \<Rightarrow> fencing_token \<Rightarrow> date_time \<Rightarrow> date_time \<Rightarrow> bool" where
  "lease_matches held controller token now expires_at =
     (case held of
        None \<Rightarrow> False
      | Some lease \<Rightarrow>
          cl_controller_id lease = controller \<and> cl_fencing_token lease = token
          \<and> cl_acquired_at lease = now \<and> cl_expires_at lease = expires_at)"

definition validate_lease_request :: "lease_request \<Rightarrow> runtime_deployment \<Rightarrow> unit checked" where
  "validate_lease_request r d =
     and_then (require_revision (lq_expected_revision r) d) (\<lambda>_.
     and_then (ensure (\<not> is_terminal (d_phase d)) (invalid_transition d ''acquire_lease'')) (\<lambda>_.
     and_then (ensure (\<not> lq_expires_at r \<le> lq_now r) InvalidLeaseWindow) (\<lambda>_.
     and_then (ensure (\<not> lq_now r < d_requested_at d) InvalidLeaseWindow) (\<lambda>_.
     and_then
       (case d_controller_lease d of
          None \<Rightarrow> Ok ()
        | Some lease \<Rightarrow>
            (if cl_expires_at lease > lq_now r then
               and_then (ensure (cl_controller_id lease = lq_controller_id r)
                 (LeaseHeld (cl_controller_id lease) (cl_expires_at lease))) (\<lambda>_.
               ensure (\<not> (lq_now r < cl_acquired_at lease \<or> lq_expires_at r \<le> cl_expires_at lease))
                 InvalidLeaseWindow)
             else Ok ())) (\<lambda>_.
     ensure (\<not> (case d_last_fencing_token d of
                   None \<Rightarrow> False | Some token \<Rightarrow> lq_fencing_token r \<le> token))
       FencingTokenNotMonotonic)))))"

definition install_lease :: "lease_request \<Rightarrow> runtime_deployment \<Rightarrow> runtime_deployment" where
  "install_lease r d =
     d\<lparr> d_controller_lease := Some \<lparr> cl_controller_id = lq_controller_id r,
          cl_fencing_token = lq_fencing_token r, cl_acquired_at = lq_now r,
          cl_expires_at = lq_expires_at r \<rparr>,
        d_last_fencing_token := Some (lq_fencing_token r) \<rparr>"

definition acquire_lease :: "lease_request \<Rightarrow> runtime_deployment \<Rightarrow> transition" where
  "acquire_lease r d =
     (if lease_matches (d_controller_lease d) (lq_controller_id r) (lq_fencing_token r) (lq_now r)
           (lq_expires_at r)
      then replayed d
      else guarded
        (case d_phase d of
           RuntimePending (PC_Blocked _) \<Rightarrow> Err (invalid_transition d ''acquire_lease'')
         | RuntimePending (PC_Retryable _ _ retry_not_before) \<Rightarrow>
             ensure (\<not> retry_not_before > lq_now r) (invalid_transition d ''acquire_lease'')
         | _ \<Rightarrow> Ok ()) d (\<lambda>_.
        guarded (validate_lease_request r d) d (\<lambda>_.
        bump_revision (install_lease r d))))"

definition recover_blocked :: "recover_blocked_request \<Rightarrow> runtime_deployment \<Rightarrow> transition" where
  "recover_blocked r d =
     (let exact_failure =
            (case d_last_runtime_failure d of
               Some (FD_Blocked failure) \<Rightarrow> rf_failure_id failure = rb_expected_failure_id r
             | _ \<Rightarrow> False)
      in if exact_failure \<and> d_phase d = RuntimePending PC_Ready
            \<and> lease_matches (d_controller_lease d) (rb_controller_id r) (rb_fencing_token r)
                (rb_now r) (rb_expires_at r)
         then replayed d
         else guarded (require_revision (rb_expected_revision r) d) d (\<lambda>_.
           guarded
             (case d_phase d of
                RuntimePending (PC_Blocked failure) \<Rightarrow>
                  ensure (rf_failure_id failure = rb_expected_failure_id r)
                    (invalid_transition d ''recover_blocked'')
              | _ \<Rightarrow> Err (invalid_transition d ''recover_blocked'')) d (\<lambda>_.
           guarded (ensure (\<not> (d_controller_lease d \<noteq> None \<or> \<not> exact_failure)) InvalidSnapshot) d (\<lambda>_.
           let lease = \<lparr> lq_expected_revision = rb_expected_revision r,
                 lq_controller_id = rb_controller_id r, lq_fencing_token = rb_fencing_token r,
                 lq_now = rb_now r, lq_expires_at = rb_expires_at r \<rparr>
           in guarded (validate_lease_request lease d) d (\<lambda>_.
             bump_revision ((install_lease lease d)\<lparr> d_phase := RuntimePending PC_Ready \<rparr>))))))"

section \<open>Transitions of the controller\<close>

definition accept_preflight ::
  "command_guard \<Rightarrow> preflight_attestation \<Rightarrow> runtime_deployment \<Rightarrow> transition" where
  "accept_preflight guard a d =
     (if d_preflight d = Some a \<and> has_reached K_PreflightReady d then replayed d
      else guarded (require_guard guard d) d (\<lambda>_.
        guarded (require_phase K_Requested ''accept_preflight'' d) d (\<lambda>_.
        guarded (validate_preflight a d) d (\<lambda>_.
        bump_revision (d\<lparr> d_preflight := Some a, d_phase := PreflightReady \<rparr>)))))"

definition request_drain :: "command_guard \<Rightarrow> runtime_deployment \<Rightarrow> transition" where
  "request_drain guard d =
     (if has_reached K_DrainRequested d then replayed d
      else guarded (require_guard guard d) d (\<lambda>_.
        guarded (require_phase K_PreflightReady ''request_drain'' d) d (\<lambda>_.
        bump_revision (d\<lparr> d_phase := DrainRequested \<rparr>))))"

definition accept_drain ::
  "command_guard \<Rightarrow> drain_attestation \<Rightarrow> runtime_deployment \<Rightarrow> transition" where
  "accept_drain guard a d =
     (if d_drain d = Some a \<and> has_reached K_Drained d then replayed d
      else guarded (require_guard guard d) d (\<lambda>_.
        guarded (require_phase K_DrainRequested ''accept_drain'' d) d (\<lambda>_.
        guarded (validate_drain a d) d (\<lambda>_.
        bump_revision (d\<lparr> d_drain := Some a, d_phase := Drained \<rparr>)))))"

definition begin_activation :: "command_guard \<Rightarrow> runtime_deployment \<Rightarrow> transition" where
  "begin_activation guard d =
     (if has_reached K_ActivationApplying d then replayed d
      else guarded (require_guard guard d) d (\<lambda>_.
        guarded (require_phase K_Drained ''begin_activation'' d) d (\<lambda>_.
        bump_revision (d\<lparr> d_phase := ActivationApplying \<rparr>))))"

definition accept_activation ::
  "command_guard \<Rightarrow> activation_attestation \<Rightarrow> runtime_deployment \<Rightarrow> transition" where
  "accept_activation guard a d =
     (if d_activation d = Some a \<and> has_reached K_RuntimePending d then replayed d
      else guarded (require_guard guard d) d (\<lambda>_.
        guarded (require_phase K_ActivationApplying ''accept_activation'' d) d (\<lambda>_.
        guarded (validate_activation a d) d (\<lambda>_.
        bump_revision (d\<lparr> d_activation := Some a, d_phase := RuntimePending PC_Ready \<rparr>)))))"

definition record_retryable_failure ::
  "command_guard \<Rightarrow> runtime_failure \<Rightarrow> u32 \<Rightarrow> date_time \<Rightarrow> runtime_deployment \<Rightarrow> transition" where
  "record_retryable_failure guard failure attempt retry_not_before d =
     (let condition = PC_Retryable failure attempt retry_not_before in
      if d_phase d = RuntimePending condition then replayed d
      else guarded (require_guard guard d) d (\<lambda>_.
        guarded (require_runtime_failure_phase ''record_retryable_failure'' d) d (\<lambda>_.
        guarded (validate_failure failure) d (\<lambda>_.
        guarded (ensure (\<not> (retry_not_before < rf_recorded_at failure
              \<or> (case runtime_evidence_floor d of
                   None \<Rightarrow> True | Some floor \<Rightarrow> rf_recorded_at failure < floor))) InvalidFailure) d (\<lambda>_.
        bump_revision
          ((clear_unaccepted_runtime_evidence
              (d\<lparr> d_last_runtime_failure := Some (FD_Retryable failure attempt retry_not_before) \<rparr>))
            \<lparr> d_controller_lease := None, d_phase := RuntimePending condition \<rparr>))))))"

definition record_blocked_failure ::
  "command_guard \<Rightarrow> runtime_failure \<Rightarrow> runtime_deployment \<Rightarrow> transition" where
  "record_blocked_failure guard failure d =
     (let condition = PC_Blocked failure in
      if d_phase d = RuntimePending condition then replayed d
      else guarded (require_guard guard d) d (\<lambda>_.
        guarded (require_runtime_failure_phase ''record_blocked_failure'' d) d (\<lambda>_.
        guarded (validate_failure failure) d (\<lambda>_.
        guarded (ensure (\<not> (case runtime_evidence_floor d of
              None \<Rightarrow> True | Some floor \<Rightarrow> rf_recorded_at failure < floor)) InvalidFailure) d (\<lambda>_.
        bump_revision
          ((clear_unaccepted_runtime_evidence
              (d\<lparr> d_last_runtime_failure := Some (FD_Blocked failure) \<rparr>))
            \<lparr> d_controller_lease := None, d_phase := RuntimePending condition \<rparr>))))))"

definition resume_runtime_pending :: "command_guard \<Rightarrow> runtime_deployment \<Rightarrow> transition" where
  "resume_runtime_pending guard d =
     (if d_phase d = RuntimePending PC_Ready then replayed d
      else guarded (require_guard guard d) d (\<lambda>_.
        guarded
          (case d_phase d of
             RuntimePending _ \<Rightarrow> Ok ()
           | _ \<Rightarrow> Err (invalid_transition d ''resume_runtime_pending'')) d (\<lambda>_.
        bump_revision (d\<lparr> d_phase := RuntimePending PC_Ready \<rparr>))))"

definition begin_panel_reconciliation :: "command_guard \<Rightarrow> runtime_deployment \<Rightarrow> transition" where
  "begin_panel_reconciliation guard d =
     (if has_reached K_ReconcilingPanels d then replayed d
      else guarded (require_guard guard d) d (\<lambda>_.
        (case d_phase d of
           RuntimePending PC_Ready \<Rightarrow> bump_revision (d\<lparr> d_phase := ReconcilingPanels \<rparr>)
         | _ \<Rightarrow> (Err (invalid_transition d ''begin_panel_reconciliation''), d))))"

definition accept_panel_certificate ::
  "command_guard \<Rightarrow> panel_certificate \<Rightarrow> runtime_deployment \<Rightarrow> transition" where
  "accept_panel_certificate guard c d =
     (if d_panel_certificate d = Some c \<and> has_reached K_AwaitingGatewayReady d then replayed d
      else guarded (require_guard guard d) d (\<lambda>_.
        guarded (require_phase K_ReconcilingPanels ''accept_panel_certificate'' d) d (\<lambda>_.
        guarded (validate_panel_certificate c d) d (\<lambda>_.
        bump_revision (d\<lparr> d_panel_certificate := Some c, d_phase := AwaitingGatewayReady \<rparr>)))))"

definition certify_live ::
  "command_guard \<Rightarrow> gateway_ready_attestation \<Rightarrow> date_time \<Rightarrow> runtime_deployment \<Rightarrow> transition" where
  "certify_live guard gateway_ready certified_at d =
     (if (case d_live d of
            None \<Rightarrow> False
          | Some live \<Rightarrow> lv_gateway_ready live = gateway_ready \<and> lv_certified_at live = certified_at)
      then replayed d
      else guarded (require_guard guard d) d (\<lambda>_.
        guarded (require_phase K_AwaitingGatewayReady ''certify_live'' d) d (\<lambda>_.
        guarded (validate_gateway_ready gateway_ready d) d (\<lambda>_.
        guarded (ok_or InvalidSnapshot (d_activation d)) d (\<lambda>activation.
        guarded (ok_or InvalidSnapshot (d_panel_certificate d)) d (\<lambda>panel.
        guarded (ensure (\<not> (gw_ready_at gateway_ready < pl_reconciled_at panel
              \<or> certified_at < gw_ready_at gateway_ready)) AttestationTimeRegression) d (\<lambda>_.
        let live = \<lparr> lv_target = d_target d, lv_runtime_generation = d_runtime_generation d,
              lv_process_instance_id = gw_process_instance_id gateway_ready,
              lv_activation = activation, lv_panel_certificate = panel,
              lv_gateway_ready = gateway_ready, lv_certified_at = certified_at \<rparr>
        in bump_revision (d\<lparr> d_gateway_ready := Some gateway_ready, d_live := Some live,
             d_controller_lease := None, d_phase := Live \<rparr>))))))))"

definition recover_live :: "recover_live_request \<Rightarrow> runtime_deployment \<Rightarrow> transition" where
  "recover_live r d =
     (if (case d_last_live_recovery d of
            None \<Rightarrow> False
          | Some recovery \<Rightarrow>
              lv_runtime_generation (lr_prior_live recovery) = rl_expected_runtime_generation r
              \<and> lv_process_instance_id (lr_prior_live recovery) = rl_expected_process_instance_id r
              \<and> lr_kind recovery = rl_kind r
              \<and> lr_evidence_at recovery = rl_evidence_at r
              \<and> lr_recovered_at recovery = rl_recovered_at r)
         \<and> d_phase d \<noteq> Live
      then replayed d
      else guarded (require_revision (rl_expected_revision r) d) d (\<lambda>_.
        guarded (require_phase K_Live ''recover_live'' d) d (\<lambda>_.
        guarded (ensure (rl_expected_runtime_generation r = d_runtime_generation d)
          (RuntimeGenerationConflict (d_runtime_generation d) (rl_expected_runtime_generation r))) d (\<lambda>_.
        guarded (ok_or InvalidSnapshot (d_live d)) d (\<lambda>prior_live.
        guarded (ensure (lv_process_instance_id prior_live = rl_expected_process_instance_id r)
          ProcessInstanceMismatch) d (\<lambda>_.
        guarded (ensure (\<not> (rl_evidence_at r < lv_certified_at prior_live
              \<or> rl_recovered_at r < rl_evidence_at r)) AttestationTimeRegression) d (\<lambda>_.
        bump_revision
          ((clear_unaccepted_runtime_evidence
              (d\<lparr> d_last_live_recovery := Some \<lparr> lr_prior_live = prior_live, lr_kind = rl_kind r,
                    lr_evidence_at = rl_evidence_at r, lr_recovered_at = rl_recovered_at r \<rparr> \<rparr>))
            \<lparr> d_phase := RuntimePending PC_Ready \<rparr>))))))))"

definition supersede ::
  "command_guard \<Rightarrow> superseding_deployment \<Rightarrow> string \<Rightarrow> date_time \<Rightarrow> runtime_deployment \<Rightarrow> transition" where
  "supersede guard by reason superseded_at d =
     (if d_phase d = Superseded by reason superseded_at then replayed d
      else guarded (require_guard guard d) d (\<lambda>_.
        guarded (ensure (\<not> is_terminal (d_phase d)) (invalid_transition d ''supersede'')) d (\<lambda>_.
        guarded (validate_supersession by reason superseded_at d) d (\<lambda>_.
        bump_revision (d\<lparr> d_phase := Superseded by reason superseded_at,
          d_controller_lease := None \<rparr>)))))"

definition cancel :: "command_guard \<Rightarrow> string \<Rightarrow> date_time \<Rightarrow> runtime_deployment \<Rightarrow> transition" where
  "cancel guard reason cancelled_at d =
     (if d_phase d = Cancelled reason cancelled_at then replayed d
      else guarded (require_guard guard d) d (\<lambda>_.
        guarded (ensure (phase_kind_of (d_phase d) \<in> {K_Requested, K_PreflightReady, K_DrainRequested})
          (invalid_transition d ''cancel'')) d (\<lambda>_.
        guarded (validate_reason reason) d (\<lambda>_.
        guarded (ensure (\<not> cancelled_at < d_requested_at d) AttestationTimeRegression) d (\<lambda>_.
        bump_revision (d\<lparr> d_phase := Cancelled reason cancelled_at, d_controller_lease := None \<rparr>))))))"

section \<open>Product drain\<close>

record product_drain_permit =
  pd_source :: deployment_snapshot
  pd_acknowledged_at :: date_time

definition validated_product_drain_source_acknowledgement ::
  "runtime_deployment \<Rightarrow> deployment_revision \<Rightarrow> date_time \<Rightarrow> string \<Rightarrow> deployment_snapshot checked" where
  "validated_product_drain_source_acknowledgement source expected_revision acknowledged_at operation =
     and_then (require_revision expected_revision source) (\<lambda>_.
     let s = snapshot source in
     and_then
       (case s_phase s of
          AwaitingGatewayReady \<Rightarrow>
            ok_or InvalidSnapshot (map_option pl_reconciled_at (s_panel_certificate s))
        | Live \<Rightarrow> ok_or InvalidSnapshot (map_option lv_certified_at (s_live s))
        | _ \<Rightarrow> Err (invalid_transition source operation)) (\<lambda>evidence_floor.
     and_then (ensure (\<not> acknowledged_at < evidence_floor) AttestationTimeRegression) (\<lambda>_.
     Ok s)))"

definition supersession_permit ::
  "runtime_deployment \<Rightarrow> deployment_revision \<Rightarrow> date_time \<Rightarrow> product_drain_permit checked" where
  "supersession_permit source expected_revision acknowledged_at =
     and_then (validated_product_drain_source_acknowledgement source expected_revision acknowledged_at
       ''prove_product_drain_route_absence_acknowledgement'') (\<lambda>s.
     Ok \<lparr> pd_source = s, pd_acknowledged_at = acknowledged_at \<rparr>)"

definition cancellation_permit ::
  "runtime_deployment \<Rightarrow> deployment_revision \<Rightarrow> date_time \<Rightarrow> product_drain_permit checked" where
  "cancellation_permit source expected_revision acknowledged_at =
     and_then (validated_product_drain_source_acknowledgement source expected_revision acknowledged_at
       ''prove_product_drain_route_absence_cancellation'') (\<lambda>s.
     Ok \<lparr> pd_source = s, pd_acknowledged_at = acknowledged_at \<rparr>)"

definition next_revision :: "deployment_revision \<Rightarrow> deployment_revision checked" where
  "next_revision r = (case revision_next r of Inl _ \<Rightarrow> Err RevisionOverflow | Inr v \<Rightarrow> Ok v)"

definition supersession_result ::
  "product_drain_permit \<Rightarrow> superseding_deployment \<Rightarrow> string \<Rightarrow> date_time \<Rightarrow> runtime_deployment checked" where
  "supersession_result permit by reason superseded_at =
     and_then (restore (pd_source permit)) (\<lambda>source.
     and_then (validate_supersession by reason superseded_at source) (\<lambda>_.
     and_then (ensure (\<not> superseded_at < pd_acknowledged_at permit) AttestationTimeRegression) (\<lambda>_.
     and_then (next_revision (s_revision (pd_source permit))) (\<lambda>revision.
     let s = (pd_source permit)\<lparr> s_revision := revision \<rparr> in
     and_then
       (if s_phase s = Live then
          and_then (ok_or InvalidSnapshot (s_live s)) (\<lambda>prior_live.
          Ok (s\<lparr> s_live := None,
                 s_last_live_recovery := Some \<lparr> lr_prior_live = prior_live,
                   lr_kind = LL_ServingDisconnected, lr_evidence_at = pd_acknowledged_at permit,
                   lr_recovered_at = superseded_at \<rparr>,
                 s_panel_certificate := None, s_gateway_ready := None \<rparr>))
        else Ok s) (\<lambda>s'.
     restore (s'\<lparr> s_controller_lease := None, s_phase := Superseded by reason superseded_at \<rparr>))))))"

definition cancellation_result ::
  "product_drain_permit \<Rightarrow> date_time \<Rightarrow> runtime_deployment checked" where
  "cancellation_result permit cancelled_at =
     and_then (restore (pd_source permit)) (\<lambda>_.
     and_then (ensure (\<not> cancelled_at < pd_acknowledged_at permit) AttestationTimeRegression) (\<lambda>_.
     and_then (next_revision (s_revision (pd_source permit))) (\<lambda>revision.
     restore ((pd_source permit)\<lparr> s_revision := revision \<rparr>))))"

definition supersede_product_drain_source ::
  "product_drain_permit \<Rightarrow> superseding_deployment \<Rightarrow> string \<Rightarrow> date_time \<Rightarrow> runtime_deployment \<Rightarrow> transition" where
  "supersede_product_drain_source permit by reason superseded_at d =
     guarded (supersession_result permit by reason superseded_at) d (\<lambda>result.
       if d = result then replayed d
       else if snapshot d \<noteq> pd_source permit
       then (Err ProductDrainSupersessionSourceMismatch, d)
       else (Ok (Applied (d_revision result)), result))"

definition cancel_product_drain_source ::
  "product_drain_permit \<Rightarrow> date_time \<Rightarrow> runtime_deployment \<Rightarrow> transition" where
  "cancel_product_drain_source permit cancelled_at d =
     (if snapshot d \<noteq> pd_source permit then (Err ProductDrainCancellationSourceMismatch, d)
      else guarded (cancellation_result permit cancelled_at) d (\<lambda>result.
        (Ok (Applied (d_revision result)), result)))"

section \<open>Histories\<close>

text \<open>One call on a deployment.\<close>

datatype deployment_command =
  AcquireLease lease_request
| RecoverBlocked recover_blocked_request
| AcceptPreflight command_guard preflight_attestation
| RequestDrain command_guard
| AcceptDrain command_guard drain_attestation
| BeginActivation command_guard
| AcceptActivation command_guard activation_attestation
| RecordRetryableFailure command_guard runtime_failure u32 date_time
| RecordBlockedFailure command_guard runtime_failure
| ResumeRuntimePending command_guard
| BeginPanelReconciliation command_guard
| AcceptPanelCertificate command_guard panel_certificate
| CertifyLive command_guard gateway_ready_attestation date_time
| RecoverLive recover_live_request
| Supersede command_guard superseding_deployment string date_time
| Cancel command_guard string date_time
| SupersedeProductDrainSource product_drain_permit superseding_deployment string date_time
| CancelProductDrainSource product_drain_permit date_time

fun perform :: "deployment_command \<Rightarrow> runtime_deployment \<Rightarrow> transition" where
  "perform (AcquireLease r) d = acquire_lease r d"
| "perform (RecoverBlocked r) d = recover_blocked r d"
| "perform (AcceptPreflight g a) d = accept_preflight g a d"
| "perform (RequestDrain g) d = request_drain g d"
| "perform (AcceptDrain g a) d = accept_drain g a d"
| "perform (BeginActivation g) d = begin_activation g d"
| "perform (AcceptActivation g a) d = accept_activation g a d"
| "perform (RecordRetryableFailure g f n t) d = record_retryable_failure g f n t d"
| "perform (RecordBlockedFailure g f) d = record_blocked_failure g f d"
| "perform (ResumeRuntimePending g) d = resume_runtime_pending g d"
| "perform (BeginPanelReconciliation g) d = begin_panel_reconciliation g d"
| "perform (AcceptPanelCertificate g c) d = accept_panel_certificate g c d"
| "perform (CertifyLive g a t) d = certify_live g a t d"
| "perform (RecoverLive r) d = recover_live r d"
| "perform (Supersede g b r t) d = supersede g b r t d"
| "perform (Cancel g r t) d = cancel g r t d"
| "perform (SupersedeProductDrainSource p b r t) d = supersede_product_drain_source p b r t d"
| "perform (CancelProductDrainSource p t) d = cancel_product_drain_source p t d"

fun perform_all :: "deployment_command list \<Rightarrow> runtime_deployment \<Rightarrow> runtime_deployment" where
  "perform_all [] d = d"
| "perform_all (c # cs) d = perform_all cs (snd (perform c d))"

end
