(* ===== verification/Convergence_Invariant.thy ===== *)
theory Convergence_Invariant
  imports Runtime_Convergence
begin

text \<open>
  The invariant of the deployment state machine of \<open>Runtime_Convergence\<close>: \<open>snapshot_valid\<close> is what
  \<open>validate_snapshot\<close> accepts, and \<open>deployment_inv\<close> adds that a live deployment became ready after its
  panels were reconciled, which \<open>certify_live\<close> checks and \<open>validate_snapshot\<close> does not. Every
  transition keeps the invariant, also when it ends in an error.

  The frame lemmas say which field updates each block of the snapshot validation does not see. With
  them a transition changes only the blocks that mention the fields it assigns.
\<close>

definition live_ordered :: "runtime_deployment \<Rightarrow> bool" where
  "live_ordered d =
     (case d_live d of
        None \<Rightarrow> True
      | Some live \<Rightarrow>
          \<not> gw_ready_at (lv_gateway_ready live) < pl_reconciled_at (lv_panel_certificate live))"

definition snapshot_valid :: "runtime_deployment \<Rightarrow> bool" where
  "snapshot_valid d \<longleftrightarrow>
     snapshot_previous_ok d \<and> snapshot_lease_ok d \<and> snapshot_failure_ok d \<and> snapshot_evidence_ok d
     \<and> snapshot_live_ok d \<and> snapshot_recovery_ok d \<and> phase_evidence_valid d"

definition deployment_inv :: "runtime_deployment \<Rightarrow> bool" where
  "deployment_inv d \<longleftrightarrow> snapshot_valid d \<and> live_ordered d"

lemmas snapshot_blocks =
  snapshot_previous_ok_def snapshot_lease_ok_def snapshot_failure_ok_def snapshot_evidence_ok_def
  snapshot_live_ok_def snapshot_recovery_ok_def phase_evidence_valid_def live_ordered_def

lemmas attestation_checks =
  validate_preflight_def validate_drain_def validate_activation_def validate_panel_certificate_def
  validate_gateway_ready_def validate_target_and_generation_def validate_generation_def

lemma validate_snapshot_iff: "validate_snapshot d = Ok () \<longleftrightarrow> snapshot_valid d"
  by (auto simp: validate_snapshot_def validate_phase_evidence_def snapshot_valid_def outcome_simps)

lemma restore_snapshot: "restore (snapshot d) = (if snapshot_valid d then Ok d else Err InvalidSnapshot)"
  by (cases d) (simp add: restore_def snapshot_def validate_snapshot_def validate_phase_evidence_def
      snapshot_valid_def Let_def ensure_def)

lemma guarded_rule:
  assumes "P d" and "\<And>x. check = Ok x \<Longrightarrow> P (snd (k x))"
  shows "P (snd (guarded check d k))"
  using assms by (cases check) (auto simp: guarded_def)

lemma snd_replayed [simp]: "snd (replayed d) = d"
  by (simp add: replayed_def)

lemmas case_congs =
  option.case_cong prod.case_cong deployment_phase.case_cong runtime_pending_condition.case_cong if_cong

lemma previous_frame [simp]:
  "snapshot_previous_ok (d\<lparr> d_revision := x_rev \<rparr>) = snapshot_previous_ok d"
  "snapshot_previous_ok (d\<lparr> d_phase := x_phase \<rparr>) = snapshot_previous_ok d"
  "snapshot_previous_ok (d\<lparr> d_controller_lease := x_lease \<rparr>) = snapshot_previous_ok d"
  "snapshot_previous_ok (d\<lparr> d_last_fencing_token := x_tok \<rparr>) = snapshot_previous_ok d"
  "snapshot_previous_ok (d\<lparr> d_preflight := x_pf \<rparr>) = snapshot_previous_ok d"
  "snapshot_previous_ok (d\<lparr> d_drain := x_dn \<rparr>) = snapshot_previous_ok d"
  "snapshot_previous_ok (d\<lparr> d_activation := x_av \<rparr>) = snapshot_previous_ok d"
  "snapshot_previous_ok (d\<lparr> d_panel_certificate := x_pl \<rparr>) = snapshot_previous_ok d"
  "snapshot_previous_ok (d\<lparr> d_gateway_ready := x_gw \<rparr>) = snapshot_previous_ok d"
  "snapshot_previous_ok (d\<lparr> d_live := x_lv \<rparr>) = snapshot_previous_ok d"
  "snapshot_previous_ok (d\<lparr> d_last_live_recovery := x_rec \<rparr>) = snapshot_previous_ok d"
  "snapshot_previous_ok (d\<lparr> d_last_runtime_failure := x_fl \<rparr>) = snapshot_previous_ok d"
  by (simp_all add: snapshot_previous_ok_def cong: case_congs)

lemma lease_frame [simp]:
  "snapshot_lease_ok (d\<lparr> d_revision := x_rev \<rparr>) = snapshot_lease_ok d"
  "snapshot_lease_ok (d\<lparr> d_preflight := x_pf \<rparr>) = snapshot_lease_ok d"
  "snapshot_lease_ok (d\<lparr> d_drain := x_dn \<rparr>) = snapshot_lease_ok d"
  "snapshot_lease_ok (d\<lparr> d_activation := x_av \<rparr>) = snapshot_lease_ok d"
  "snapshot_lease_ok (d\<lparr> d_panel_certificate := x_pl \<rparr>) = snapshot_lease_ok d"
  "snapshot_lease_ok (d\<lparr> d_gateway_ready := x_gw \<rparr>) = snapshot_lease_ok d"
  "snapshot_lease_ok (d\<lparr> d_live := x_lv \<rparr>) = snapshot_lease_ok d"
  "snapshot_lease_ok (d\<lparr> d_last_live_recovery := x_rec \<rparr>) = snapshot_lease_ok d"
  "snapshot_lease_ok (d\<lparr> d_last_runtime_failure := x_fl \<rparr>) = snapshot_lease_ok d"
  by (simp_all add: snapshot_lease_ok_def cong: case_congs)

lemma floor_frame [simp]:
  "runtime_evidence_floor (d\<lparr> d_revision := x_rev \<rparr>) = runtime_evidence_floor d"
  "runtime_evidence_floor (d\<lparr> d_phase := x_phase \<rparr>) = runtime_evidence_floor d"
  "runtime_evidence_floor (d\<lparr> d_controller_lease := x_lease \<rparr>) = runtime_evidence_floor d"
  "runtime_evidence_floor (d\<lparr> d_last_fencing_token := x_tok \<rparr>) = runtime_evidence_floor d"
  "runtime_evidence_floor (d\<lparr> d_preflight := x_pf \<rparr>) = runtime_evidence_floor d"
  "runtime_evidence_floor (d\<lparr> d_drain := x_dn \<rparr>) = runtime_evidence_floor d"
  "runtime_evidence_floor (d\<lparr> d_panel_certificate := x_pl \<rparr>) = runtime_evidence_floor d"
  "runtime_evidence_floor (d\<lparr> d_gateway_ready := x_gw \<rparr>) = runtime_evidence_floor d"
  "runtime_evidence_floor (d\<lparr> d_live := x_lv \<rparr>) = runtime_evidence_floor d"
  "runtime_evidence_floor (d\<lparr> d_last_runtime_failure := x_fl \<rparr>) = runtime_evidence_floor d"
  by (simp_all add: runtime_evidence_floor_def cong: case_congs)

lemma current_frame [simp]:
  "failure_is_current disp (d\<lparr> d_revision := x_rev \<rparr>) = failure_is_current disp d"
  "failure_is_current disp (d\<lparr> d_controller_lease := x_lease \<rparr>) = failure_is_current disp d"
  "failure_is_current disp (d\<lparr> d_last_fencing_token := x_tok \<rparr>) = failure_is_current disp d"
  "failure_is_current disp (d\<lparr> d_preflight := x_pf \<rparr>) = failure_is_current disp d"
  "failure_is_current disp (d\<lparr> d_drain := x_dn \<rparr>) = failure_is_current disp d"
  "failure_is_current disp (d\<lparr> d_activation := x_av \<rparr>) = failure_is_current disp d"
  "failure_is_current disp (d\<lparr> d_panel_certificate := x_pl \<rparr>) = failure_is_current disp d"
  "failure_is_current disp (d\<lparr> d_gateway_ready := x_gw \<rparr>) = failure_is_current disp d"
  "failure_is_current disp (d\<lparr> d_live := x_lv \<rparr>) = failure_is_current disp d"
  "failure_is_current disp (d\<lparr> d_last_live_recovery := x_rec \<rparr>) = failure_is_current disp d"
  "failure_is_current disp (d\<lparr> d_last_runtime_failure := x_fl \<rparr>) = failure_is_current disp d"
  by (simp_all add: failure_is_current_def cong: case_congs)

lemma failure_frame [simp]:
  "snapshot_failure_ok (d\<lparr> d_revision := x_rev \<rparr>) = snapshot_failure_ok d"
  "snapshot_failure_ok (d\<lparr> d_controller_lease := x_lease \<rparr>) = snapshot_failure_ok d"
  "snapshot_failure_ok (d\<lparr> d_last_fencing_token := x_tok \<rparr>) = snapshot_failure_ok d"
  "snapshot_failure_ok (d\<lparr> d_preflight := x_pf \<rparr>) = snapshot_failure_ok d"
  "snapshot_failure_ok (d\<lparr> d_drain := x_dn \<rparr>) = snapshot_failure_ok d"
  "snapshot_failure_ok (d\<lparr> d_panel_certificate := x_pl \<rparr>) = snapshot_failure_ok d"
  "snapshot_failure_ok (d\<lparr> d_gateway_ready := x_gw \<rparr>) = snapshot_failure_ok d"
  "snapshot_failure_ok (d\<lparr> d_live := x_lv \<rparr>) = snapshot_failure_ok d"
  by (simp_all add: snapshot_failure_ok_def cong: case_congs)

lemma preflight_frame [simp]:
  "validate_preflight a (d\<lparr> d_revision := x_rev \<rparr>) = validate_preflight a d"
  "validate_preflight a (d\<lparr> d_phase := x_phase \<rparr>) = validate_preflight a d"
  "validate_preflight a (d\<lparr> d_controller_lease := x_lease \<rparr>) = validate_preflight a d"
  "validate_preflight a (d\<lparr> d_last_fencing_token := x_tok \<rparr>) = validate_preflight a d"
  "validate_preflight a (d\<lparr> d_preflight := x_pf \<rparr>) = validate_preflight a d"
  "validate_preflight a (d\<lparr> d_drain := x_dn \<rparr>) = validate_preflight a d"
  "validate_preflight a (d\<lparr> d_activation := x_av \<rparr>) = validate_preflight a d"
  "validate_preflight a (d\<lparr> d_panel_certificate := x_pl \<rparr>) = validate_preflight a d"
  "validate_preflight a (d\<lparr> d_gateway_ready := x_gw \<rparr>) = validate_preflight a d"
  "validate_preflight a (d\<lparr> d_live := x_lv \<rparr>) = validate_preflight a d"
  "validate_preflight a (d\<lparr> d_last_live_recovery := x_rec \<rparr>) = validate_preflight a d"
  "validate_preflight a (d\<lparr> d_last_runtime_failure := x_fl \<rparr>) = validate_preflight a d"
  by (simp_all add: attestation_checks cong: case_congs)

lemma drain_frame [simp]:
  "validate_drain a (d\<lparr> d_revision := x_rev \<rparr>) = validate_drain a d"
  "validate_drain a (d\<lparr> d_phase := x_phase \<rparr>) = validate_drain a d"
  "validate_drain a (d\<lparr> d_controller_lease := x_lease \<rparr>) = validate_drain a d"
  "validate_drain a (d\<lparr> d_last_fencing_token := x_tok \<rparr>) = validate_drain a d"
  "validate_drain a (d\<lparr> d_drain := x_dn \<rparr>) = validate_drain a d"
  "validate_drain a (d\<lparr> d_activation := x_av \<rparr>) = validate_drain a d"
  "validate_drain a (d\<lparr> d_panel_certificate := x_pl \<rparr>) = validate_drain a d"
  "validate_drain a (d\<lparr> d_gateway_ready := x_gw \<rparr>) = validate_drain a d"
  "validate_drain a (d\<lparr> d_live := x_lv \<rparr>) = validate_drain a d"
  "validate_drain a (d\<lparr> d_last_live_recovery := x_rec \<rparr>) = validate_drain a d"
  "validate_drain a (d\<lparr> d_last_runtime_failure := x_fl \<rparr>) = validate_drain a d"
  by (simp_all add: attestation_checks cong: case_congs)

lemma activation_frame [simp]:
  "validate_activation a (d\<lparr> d_revision := x_rev \<rparr>) = validate_activation a d"
  "validate_activation a (d\<lparr> d_phase := x_phase \<rparr>) = validate_activation a d"
  "validate_activation a (d\<lparr> d_controller_lease := x_lease \<rparr>) = validate_activation a d"
  "validate_activation a (d\<lparr> d_last_fencing_token := x_tok \<rparr>) = validate_activation a d"
  "validate_activation a (d\<lparr> d_preflight := x_pf \<rparr>) = validate_activation a d"
  "validate_activation a (d\<lparr> d_activation := x_av \<rparr>) = validate_activation a d"
  "validate_activation a (d\<lparr> d_panel_certificate := x_pl \<rparr>) = validate_activation a d"
  "validate_activation a (d\<lparr> d_gateway_ready := x_gw \<rparr>) = validate_activation a d"
  "validate_activation a (d\<lparr> d_live := x_lv \<rparr>) = validate_activation a d"
  "validate_activation a (d\<lparr> d_last_live_recovery := x_rec \<rparr>) = validate_activation a d"
  "validate_activation a (d\<lparr> d_last_runtime_failure := x_fl \<rparr>) = validate_activation a d"
  by (simp_all add: attestation_checks cong: case_congs)

lemma panel_frame [simp]:
  "validate_panel_certificate c (d\<lparr> d_revision := x_rev \<rparr>) = validate_panel_certificate c d"
  "validate_panel_certificate c (d\<lparr> d_phase := x_phase \<rparr>) = validate_panel_certificate c d"
  "validate_panel_certificate c (d\<lparr> d_controller_lease := x_lease \<rparr>) = validate_panel_certificate c d"
  "validate_panel_certificate c (d\<lparr> d_last_fencing_token := x_tok \<rparr>) = validate_panel_certificate c d"
  "validate_panel_certificate c (d\<lparr> d_preflight := x_pf \<rparr>) = validate_panel_certificate c d"
  "validate_panel_certificate c (d\<lparr> d_drain := x_dn \<rparr>) = validate_panel_certificate c d"
  "validate_panel_certificate c (d\<lparr> d_panel_certificate := x_pl \<rparr>) = validate_panel_certificate c d"
  "validate_panel_certificate c (d\<lparr> d_gateway_ready := x_gw \<rparr>) = validate_panel_certificate c d"
  "validate_panel_certificate c (d\<lparr> d_live := x_lv \<rparr>) = validate_panel_certificate c d"
  "validate_panel_certificate c (d\<lparr> d_last_runtime_failure := x_fl \<rparr>) = validate_panel_certificate c d"
  by (simp_all add: attestation_checks cong: case_congs)

lemma gateway_frame [simp]:
  "validate_gateway_ready a (d\<lparr> d_revision := x_rev \<rparr>) = validate_gateway_ready a d"
  "validate_gateway_ready a (d\<lparr> d_phase := x_phase \<rparr>) = validate_gateway_ready a d"
  "validate_gateway_ready a (d\<lparr> d_controller_lease := x_lease \<rparr>) = validate_gateway_ready a d"
  "validate_gateway_ready a (d\<lparr> d_last_fencing_token := x_tok \<rparr>) = validate_gateway_ready a d"
  "validate_gateway_ready a (d\<lparr> d_preflight := x_pf \<rparr>) = validate_gateway_ready a d"
  "validate_gateway_ready a (d\<lparr> d_drain := x_dn \<rparr>) = validate_gateway_ready a d"
  "validate_gateway_ready a (d\<lparr> d_activation := x_av \<rparr>) = validate_gateway_ready a d"
  "validate_gateway_ready a (d\<lparr> d_gateway_ready := x_gw \<rparr>) = validate_gateway_ready a d"
  "validate_gateway_ready a (d\<lparr> d_live := x_lv \<rparr>) = validate_gateway_ready a d"
  "validate_gateway_ready a (d\<lparr> d_last_live_recovery := x_rec \<rparr>) = validate_gateway_ready a d"
  "validate_gateway_ready a (d\<lparr> d_last_runtime_failure := x_fl \<rparr>) = validate_gateway_ready a d"
  by (simp_all add: attestation_checks cong: case_congs)

lemma evidence_frame [simp]:
  "snapshot_evidence_ok (d\<lparr> d_revision := x_rev \<rparr>) = snapshot_evidence_ok d"
  "snapshot_evidence_ok (d\<lparr> d_phase := x_phase \<rparr>) = snapshot_evidence_ok d"
  "snapshot_evidence_ok (d\<lparr> d_controller_lease := x_lease \<rparr>) = snapshot_evidence_ok d"
  "snapshot_evidence_ok (d\<lparr> d_last_fencing_token := x_tok \<rparr>) = snapshot_evidence_ok d"
  "snapshot_evidence_ok (d\<lparr> d_live := x_lv \<rparr>) = snapshot_evidence_ok d"
  "snapshot_evidence_ok (d\<lparr> d_last_runtime_failure := x_fl \<rparr>) = snapshot_evidence_ok d"
  by (simp_all add: snapshot_evidence_ok_def cong: case_congs)

lemma live_frame [simp]:
  "snapshot_live_ok (d\<lparr> d_revision := x_rev \<rparr>) = snapshot_live_ok d"
  "snapshot_live_ok (d\<lparr> d_phase := x_phase \<rparr>) = snapshot_live_ok d"
  "snapshot_live_ok (d\<lparr> d_controller_lease := x_lease \<rparr>) = snapshot_live_ok d"
  "snapshot_live_ok (d\<lparr> d_last_fencing_token := x_tok \<rparr>) = snapshot_live_ok d"
  "snapshot_live_ok (d\<lparr> d_preflight := x_pf \<rparr>) = snapshot_live_ok d"
  "snapshot_live_ok (d\<lparr> d_drain := x_dn \<rparr>) = snapshot_live_ok d"
  "snapshot_live_ok (d\<lparr> d_last_live_recovery := x_rec \<rparr>) = snapshot_live_ok d"
  "snapshot_live_ok (d\<lparr> d_last_runtime_failure := x_fl \<rparr>) = snapshot_live_ok d"
  by (simp_all add: snapshot_live_ok_def cong: case_congs)

lemma recovery_frame [simp]:
  "snapshot_recovery_ok (d\<lparr> d_revision := x_rev \<rparr>) = snapshot_recovery_ok d"
  "snapshot_recovery_ok (d\<lparr> d_controller_lease := x_lease \<rparr>) = snapshot_recovery_ok d"
  "snapshot_recovery_ok (d\<lparr> d_last_fencing_token := x_tok \<rparr>) = snapshot_recovery_ok d"
  "snapshot_recovery_ok (d\<lparr> d_preflight := x_pf \<rparr>) = snapshot_recovery_ok d"
  "snapshot_recovery_ok (d\<lparr> d_drain := x_dn \<rparr>) = snapshot_recovery_ok d"
  "snapshot_recovery_ok (d\<lparr> d_panel_certificate := x_pl \<rparr>) = snapshot_recovery_ok d"
  "snapshot_recovery_ok (d\<lparr> d_gateway_ready := x_gw \<rparr>) = snapshot_recovery_ok d"
  "snapshot_recovery_ok (d\<lparr> d_last_runtime_failure := x_fl \<rparr>) = snapshot_recovery_ok d"
  by (simp_all add: snapshot_recovery_ok_def cong: case_congs)

lemma phase_evidence_frame [simp]:
  "phase_evidence (d\<lparr> d_revision := x_rev \<rparr>) = phase_evidence d"
  "phase_evidence (d\<lparr> d_phase := x_phase \<rparr>) = phase_evidence d"
  "phase_evidence (d\<lparr> d_controller_lease := x_lease \<rparr>) = phase_evidence d"
  "phase_evidence (d\<lparr> d_last_fencing_token := x_tok \<rparr>) = phase_evidence d"
  "phase_evidence (d\<lparr> d_last_live_recovery := x_rec \<rparr>) = phase_evidence d"
  "phase_evidence (d\<lparr> d_last_runtime_failure := x_fl \<rparr>) = phase_evidence d"
  by (simp_all add: phase_evidence_def cong: case_congs)

lemma pending_frame [simp]:
  "pending_condition_valid condition (d\<lparr> d_revision := x_rev \<rparr>) = pending_condition_valid condition d"
  "pending_condition_valid condition (d\<lparr> d_phase := x_phase \<rparr>) = pending_condition_valid condition d"
  "pending_condition_valid condition (d\<lparr> d_controller_lease := x_lease \<rparr>) = pending_condition_valid condition d"
  "pending_condition_valid condition (d\<lparr> d_last_fencing_token := x_tok \<rparr>) = pending_condition_valid condition d"
  "pending_condition_valid condition (d\<lparr> d_preflight := x_pf \<rparr>) = pending_condition_valid condition d"
  "pending_condition_valid condition (d\<lparr> d_drain := x_dn \<rparr>) = pending_condition_valid condition d"
  "pending_condition_valid condition (d\<lparr> d_activation := x_av \<rparr>) = pending_condition_valid condition d"
  "pending_condition_valid condition (d\<lparr> d_panel_certificate := x_pl \<rparr>) = pending_condition_valid condition d"
  "pending_condition_valid condition (d\<lparr> d_gateway_ready := x_gw \<rparr>) = pending_condition_valid condition d"
  "pending_condition_valid condition (d\<lparr> d_live := x_lv \<rparr>) = pending_condition_valid condition d"
  "pending_condition_valid condition (d\<lparr> d_last_live_recovery := x_rec \<rparr>) = pending_condition_valid condition d"
  by (simp_all add: pending_condition_valid_def cong: case_congs)

lemma phase_frame [simp]:
  "phase_evidence_valid (d\<lparr> d_revision := x_rev \<rparr>) = phase_evidence_valid d"
  "phase_evidence_valid (d\<lparr> d_controller_lease := x_lease \<rparr>) = phase_evidence_valid d"
  "phase_evidence_valid (d\<lparr> d_last_fencing_token := x_tok \<rparr>) = phase_evidence_valid d"
  "phase_evidence_valid (d\<lparr> d_last_live_recovery := x_rec \<rparr>) = phase_evidence_valid d"
  by (simp_all add: phase_evidence_valid_def cong: case_congs)

lemma ordered_frame [simp]:
  "live_ordered (d\<lparr> d_revision := x_rev \<rparr>) = live_ordered d"
  "live_ordered (d\<lparr> d_phase := x_phase \<rparr>) = live_ordered d"
  "live_ordered (d\<lparr> d_controller_lease := x_lease \<rparr>) = live_ordered d"
  "live_ordered (d\<lparr> d_last_fencing_token := x_tok \<rparr>) = live_ordered d"
  "live_ordered (d\<lparr> d_preflight := x_pf \<rparr>) = live_ordered d"
  "live_ordered (d\<lparr> d_drain := x_dn \<rparr>) = live_ordered d"
  "live_ordered (d\<lparr> d_activation := x_av \<rparr>) = live_ordered d"
  "live_ordered (d\<lparr> d_panel_certificate := x_pl \<rparr>) = live_ordered d"
  "live_ordered (d\<lparr> d_gateway_ready := x_gw \<rparr>) = live_ordered d"
  "live_ordered (d\<lparr> d_last_live_recovery := x_rec \<rparr>) = live_ordered d"
  "live_ordered (d\<lparr> d_last_runtime_failure := x_fl \<rparr>) = live_ordered d"
  by (simp_all add: live_ordered_def cong: case_congs)

lemmas invariant_defs = deployment_inv_def snapshot_valid_def

lemma inv_revision [simp]: "deployment_inv (d\<lparr> d_revision := r \<rparr>) = deployment_inv d"
  by (simp add: invariant_defs)

lemma inv_bump: "deployment_inv d \<Longrightarrow> deployment_inv (snd (bump_revision d))"
  by (simp add: bump_revision_def split: sum.split)

lemma phase_kind_of_eq:
  "phase_kind_of p = K_Requested \<longleftrightarrow> p = Requested"
  "phase_kind_of p = K_PreflightReady \<longleftrightarrow> p = PreflightReady"
  "phase_kind_of p = K_DrainRequested \<longleftrightarrow> p = DrainRequested"
  "phase_kind_of p = K_Drained \<longleftrightarrow> p = Drained"
  "phase_kind_of p = K_ActivationApplying \<longleftrightarrow> p = ActivationApplying"
  "phase_kind_of p = K_RuntimePending \<longleftrightarrow> (\<exists>c. p = RuntimePending c)"
  "phase_kind_of p = K_ReconcilingPanels \<longleftrightarrow> p = ReconcilingPanels"
  "phase_kind_of p = K_AwaitingGatewayReady \<longleftrightarrow> p = AwaitingGatewayReady"
  "phase_kind_of p = K_Live \<longleftrightarrow> p = Live"
  by (cases p; simp)+

lemma pending_ready [simp]: "pending_condition_valid PC_Ready d"
  by (simp add: pending_condition_valid_def)

lemma failure_phase:
  assumes "snapshot_failure_ok d" and "\<And>c. p = RuntimePending c \<Longrightarrow> disposition c = None"
  shows "snapshot_failure_ok (d\<lparr> d_phase := p \<rparr>)"
proof (cases "d_last_runtime_failure d")
  case None
  then show ?thesis by (simp add: snapshot_failure_ok_def)
next
  case (Some disp)
  obtain failure retry where parts: "disposition_parts disp = (failure, retry)" by fastforce
  have "\<not> failure_is_current disp (d\<lparr> d_phase := p \<rparr>)"
    using assms(2) by (auto simp: failure_is_current_def split: deployment_phase.split)
  with assms(1) Some parts show ?thesis
    by (auto simp: snapshot_failure_ok_def runtime_evidence_floor_def Let_def max_def
        split: option.splits if_splits)
qed

lemma failure_phases [simp]:
  assumes "snapshot_failure_ok d"
  shows "snapshot_failure_ok (d\<lparr> d_phase := PreflightReady \<rparr>)"
    "snapshot_failure_ok (d\<lparr> d_phase := DrainRequested \<rparr>)"
    "snapshot_failure_ok (d\<lparr> d_phase := Drained \<rparr>)"
    "snapshot_failure_ok (d\<lparr> d_phase := ActivationApplying \<rparr>)"
    "snapshot_failure_ok (d\<lparr> d_phase := RuntimePending PC_Ready \<rparr>)"
    "snapshot_failure_ok (d\<lparr> d_phase := ReconcilingPanels \<rparr>)"
    "snapshot_failure_ok (d\<lparr> d_phase := AwaitingGatewayReady \<rparr>)"
    "snapshot_failure_ok (d\<lparr> d_phase := Live \<rparr>)"
    "snapshot_failure_ok (d\<lparr> d_phase := Superseded by reason at \<rparr>)"
    "snapshot_failure_ok (d\<lparr> d_phase := Cancelled reason at \<rparr>)"
  using assms by (intro failure_phase; simp)+

lemma recovery_phase [simp]:
  "snapshot_recovery_ok d \<Longrightarrow> recovery_phase_valid (d_phase d) \<longrightarrow> recovery_phase_valid p \<Longrightarrow>
   snapshot_recovery_ok (d\<lparr> d_phase := p \<rparr>)"
  by (auto simp: snapshot_recovery_ok_def Let_def split: option.splits)

lemma lease_phase [simp]:
  "snapshot_lease_ok d \<Longrightarrow> \<not> is_terminal p \<Longrightarrow> snapshot_lease_ok (d\<lparr> d_phase := p \<rparr>)"
  by (simp add: snapshot_lease_ok_def cong: case_congs)

lemma lease_absent [simp]: "d_controller_lease d = None \<Longrightarrow> snapshot_lease_ok d"
  by (simp add: snapshot_lease_ok_def)

lemma failure_absent [simp]: "d_last_runtime_failure d = None \<Longrightarrow> snapshot_failure_ok d"
  by (simp add: snapshot_failure_ok_def)

lemma recovery_absent [simp]: "d_last_live_recovery d = None \<Longrightarrow> snapshot_recovery_ok d"
  by (simp add: snapshot_recovery_ok_def)

lemma failure_needs_activation:
  "snapshot_failure_ok d \<Longrightarrow> d_activation d = None \<Longrightarrow> d_last_runtime_failure d = None"
  by (auto simp: snapshot_failure_ok_def runtime_evidence_floor_def Let_def
      split: option.splits prod.splits if_splits)

lemma recovery_needs_activation:
  "snapshot_recovery_ok d \<Longrightarrow> d_activation d = None \<Longrightarrow> d_last_live_recovery d = None"
  by (auto simp: snapshot_recovery_ok_def Let_def split: option.splits)

lemma recovery_live:
  "snapshot_recovery_ok d \<Longrightarrow>
   (\<And>r. d_last_live_recovery d = Some r \<Longrightarrow> lr_recovered_at r \<le> lv_certified_at live) \<Longrightarrow>
   snapshot_recovery_ok (d\<lparr> d_live := Some live \<rparr>)"
  by (auto simp: snapshot_recovery_ok_def Let_def split: option.splits)

lemma recovery_live_None [simp]:
  "snapshot_recovery_ok d \<Longrightarrow> snapshot_recovery_ok (d\<lparr> d_live := None \<rparr>)"
  by (auto simp: snapshot_recovery_ok_def Let_def split: option.splits)

lemma panel_after_recovery:
  "validate_panel_certificate c d = Ok () \<Longrightarrow> d_last_live_recovery d = Some r \<Longrightarrow>
   lr_recovered_at r \<le> pl_reconciled_at c"
  by (auto simp: validate_panel_certificate_def outcome_simps)

lemma failure_recovery_live [simp]:
  "d_phase d = Live \<Longrightarrow> snapshot_failure_ok (d\<lparr> d_last_live_recovery := x \<rparr>) = snapshot_failure_ok d"
  by (simp add: snapshot_failure_ok_def failure_is_current_def cong: case_congs)

lemmas step_simps =
  snapshot_evidence_ok_def snapshot_live_ok_def phase_evidence_valid_def phase_evidence_def
  live_ordered_def

lemma inv_preflight:
  "deployment_inv d \<Longrightarrow> d_phase d = Requested \<Longrightarrow> validate_preflight a d = Ok () \<Longrightarrow> 
   deployment_inv (d\<lparr> d_preflight := Some a, d_phase := PreflightReady \<rparr>)"
  by (simp add: invariant_defs)
     (auto simp: step_simps split: option.splits)

lemma inv_request_drain:
  "deployment_inv d \<Longrightarrow> d_phase d = PreflightReady \<Longrightarrow> 
   deployment_inv (d\<lparr> d_phase := DrainRequested \<rparr>)"
  by (simp add: invariant_defs)
     (auto simp: step_simps split: option.splits)

lemma inv_drain:
  "deployment_inv d \<Longrightarrow> d_phase d = DrainRequested \<Longrightarrow> validate_drain a d = Ok () \<Longrightarrow> 
   deployment_inv (d\<lparr> d_drain := Some a, d_phase := Drained \<rparr>)"
  by (simp add: invariant_defs)
     (auto simp: step_simps split: option.splits)

lemma inv_begin_activation:
  "deployment_inv d \<Longrightarrow> d_phase d = Drained \<Longrightarrow> 
   deployment_inv (d\<lparr> d_phase := ActivationApplying \<rparr>)"
  by (simp add: invariant_defs)
     (auto simp: step_simps split: option.splits)

lemma inv_activation:
  "deployment_inv d \<Longrightarrow> d_phase d = ActivationApplying \<Longrightarrow> validate_activation a d = Ok () \<Longrightarrow> 
   deployment_inv (d\<lparr> d_activation := Some a, d_phase := RuntimePending PC_Ready \<rparr>)"
  by (simp add: invariant_defs)
     (auto simp: step_simps split: option.splits
        dest: failure_needs_activation recovery_needs_activation)

lemma inv_begin_panels:
  "deployment_inv d \<Longrightarrow> d_phase d = RuntimePending PC_Ready \<Longrightarrow> 
   deployment_inv (d\<lparr> d_phase := ReconcilingPanels \<rparr>)"
  by (simp add: invariant_defs)
     (auto simp: step_simps split: option.splits)

lemma inv_panel:
  "deployment_inv d \<Longrightarrow> d_phase d = ReconcilingPanels \<Longrightarrow> validate_panel_certificate c d = Ok () \<Longrightarrow> 
   deployment_inv (d\<lparr> d_panel_certificate := Some c, d_phase := AwaitingGatewayReady \<rparr>)"
  by (simp add: invariant_defs)
     (auto simp: step_simps split: option.splits)

lemma inv_resume:
  "deployment_inv d \<Longrightarrow> d_phase d = RuntimePending c \<Longrightarrow> 
   deployment_inv (d\<lparr> d_phase := RuntimePending PC_Ready \<rparr>)"
  by (simp add: invariant_defs)
     (auto simp: step_simps split: option.splits)

lemma inv_cancel:
  "deployment_inv d \<Longrightarrow> d_phase d \<in> {Requested, PreflightReady, DrainRequested} \<Longrightarrow> validate_reason reason = Ok () \<Longrightarrow> \<not> at < d_requested_at d \<Longrightarrow> 
   deployment_inv (d\<lparr> d_phase := Cancelled reason at, d_controller_lease := None \<rparr>)"
  by (simp add: invariant_defs)
     (auto simp: step_simps split: option.splits)

lemma active_evidence_prefix:
  "phase_evidence_valid d \<Longrightarrow> \<not> is_terminal (d_phase d) \<Longrightarrow> evidence_is_prefix (phase_evidence d)"
  by (cases "d_phase d") (auto simp: phase_evidence_valid_def)

lemma inv_supersede:
  "deployment_inv d \<Longrightarrow> \<not> is_terminal (d_phase d) \<Longrightarrow> validate_supersession by reason at d = Ok () \<Longrightarrow>
   deployment_inv (d\<lparr> d_phase := Superseded by reason at, d_controller_lease := None \<rparr>)"
  using active_evidence_prefix [of d]
  by (simp add: invariant_defs)
     (auto simp: phase_evidence_valid_def [of "_\<lparr>d_phase := _\<rparr>"] validate_supersession_def
        outcome_simps is_ok_iff)

lemma inv_install_lease:
  "deployment_inv d \<Longrightarrow> validate_lease_request r d = Ok () \<Longrightarrow> deployment_inv (install_lease r d)"
  by (simp add: invariant_defs install_lease_def)
     (auto simp: snapshot_lease_ok_def validate_lease_request_def outcome_simps split: option.splits)

lemma inv_certify_live:
  "deployment_inv d \<Longrightarrow> d_phase d = AwaitingGatewayReady \<Longrightarrow> validate_gateway_ready g d = Ok () \<Longrightarrow>
   d_activation d = Some activation \<Longrightarrow> d_panel_certificate d = Some panel \<Longrightarrow>
   \<not> gw_ready_at g < pl_reconciled_at panel \<Longrightarrow> \<not> at < gw_ready_at g \<Longrightarrow>
   deployment_inv (d\<lparr> d_gateway_ready := Some g,
     d_live := Some \<lparr> lv_target = d_target d, lv_runtime_generation = d_runtime_generation d,
       lv_process_instance_id = gw_process_instance_id g, lv_activation = activation,
       lv_panel_certificate = panel, lv_gateway_ready = g, lv_certified_at = at \<rparr>,
     d_controller_lease := None, d_phase := Live \<rparr>)"
proof -
  assume inv: "deployment_inv d" and phase: "d_phase d = AwaitingGatewayReady"
    and gateway: "validate_gateway_ready g d = Ok ()" and act: "d_activation d = Some activation"
    and panel: "d_panel_certificate d = Some panel"
    and ready: "\<not> gw_ready_at g < pl_reconciled_at panel" and certified: "\<not> at < gw_ready_at g"
  have "validate_panel_certificate panel d = Ok ()"
    using inv panel by (auto simp: invariant_defs snapshot_evidence_ok_def is_ok_iff)
  then have "lr_recovered_at r \<le> at" if "d_last_live_recovery d = Some r" for r
    using panel_after_recovery that ready certified by fastforce
  then have "snapshot_recovery_ok (d\<lparr> d_gateway_ready := Some g, d_live := Some
      \<lparr> lv_target = d_target d, lv_runtime_generation = d_runtime_generation d,
        lv_process_instance_id = gw_process_instance_id g, lv_activation = activation,
        lv_panel_certificate = panel, lv_gateway_ready = g, lv_certified_at = at \<rparr> \<rparr>)"
    using inv by (intro recovery_live) (simp_all add: invariant_defs)
  with inv phase gateway act panel ready certified show ?thesis
    by (simp add: invariant_defs) (auto simp: step_simps split: option.splits)
qed

lemma inv_recover_live:
  assumes "deployment_inv d" and "d_phase d = Live" and "d_live d = Some prior"
    and "lv_certified_at prior \<le> evidence_at" and "evidence_at \<le> recovered_at"
  shows "deployment_inv
    ((clear_unaccepted_runtime_evidence
        (d\<lparr> d_last_live_recovery := Some \<lparr> lr_prior_live = prior, lr_kind = kind,
              lr_evidence_at = evidence_at, lr_recovered_at = recovered_at \<rparr> \<rparr>))
      \<lparr> d_phase := RuntimePending PC_Ready \<rparr>)"
  using assms
  by (simp add: invariant_defs clear_unaccepted_runtime_evidence_def)
     (auto simp: step_simps snapshot_recovery_ok_def Let_def attestation_checks outcome_simps is_ok_iff
       split: option.splits)

lemma activation_after_request:
  "snapshot_evidence_ok d \<Longrightarrow> d_activation d = Some a \<Longrightarrow> d_requested_at d \<le> av_activated_at a"
  by (auto simp: snapshot_evidence_ok_def attestation_checks outcome_simps is_ok_iff split: option.splits)

definition failure_phase_ok :: "deployment_phase \<Rightarrow> bool" where
  "failure_phase_ok p \<longleftrightarrow> p \<in> {RuntimePending PC_Ready, ReconcilingPanels, AwaitingGatewayReady}"

lemma require_runtime_failure_phase_Ok:
  "require_runtime_failure_phase op d = Ok () \<longleftrightarrow> failure_phase_ok (d_phase d)"
  by (auto simp: require_runtime_failure_phase_def failure_phase_ok_def
      split: deployment_phase.split runtime_pending_condition.split)

lemma evidence_clear:
  "snapshot_evidence_ok d \<Longrightarrow>
   snapshot_evidence_ok (d\<lparr> d_panel_certificate := None, d_gateway_ready := None \<rparr>)"
  by (auto simp: snapshot_evidence_ok_def split: option.splits)

lemma failure_phase_evidence:
  "phase_evidence_valid d \<Longrightarrow> failure_phase_ok (d_phase d) \<Longrightarrow>
   d_preflight d \<noteq> None \<and> d_drain d \<noteq> None \<and> d_activation d \<noteq> None"
  by (auto simp: phase_evidence_valid_def failure_phase_ok_def phase_evidence_def)

lemma inv_failure:
  assumes inv: "deployment_inv d" and phase: "failure_phase_ok (d_phase d)"
    and disp: "disposition condition = Some disp"
    and parts: "disposition_parts disp = (failure, retry)"
    and valid: "validate_failure failure = Ok ()"
    and retry: "\<And>t. retry = Some t \<Longrightarrow> rf_recorded_at failure \<le> t"
    and floor: "runtime_evidence_floor d = Some floor" "floor \<le> rf_recorded_at failure"
  shows "deployment_inv
    ((clear_unaccepted_runtime_evidence (d\<lparr> d_last_runtime_failure := Some disp \<rparr>))
      \<lparr> d_controller_lease := None, d_phase := RuntimePending condition \<rparr>)"
proof -
  let ?e = "(clear_unaccepted_runtime_evidence (d\<lparr> d_last_runtime_failure := Some disp \<rparr>))
      \<lparr> d_controller_lease := None, d_phase := RuntimePending condition \<rparr>"
  have blocks: "snapshot_previous_ok d" "snapshot_evidence_ok d" "snapshot_recovery_ok d"
    "phase_evidence_valid d"
    using inv by (simp_all add: invariant_defs)
  obtain activation where act: "d_activation d = Some activation" "av_activated_at activation \<le> floor"
    using floor(1) by (auto simp: runtime_evidence_floor_def split: option.splits)
  then have "d_requested_at d \<le> rf_recorded_at failure"
    using activation_after_request [of d] blocks floor(2) by fastforce
  then have "snapshot_failure_ok ?e"
    using disp parts valid retry floor
    by (auto simp: snapshot_failure_ok_def failure_is_current_def clear_unaccepted_runtime_evidence_def
        is_ok_iff split: option.split)
  moreover have "phase_evidence_valid ?e"
    using failure_phase_evidence [OF blocks(4) phase] disp parts valid retry
    by (cases condition) (auto simp: phase_evidence_valid_def clear_unaccepted_runtime_evidence_def
        phase_evidence_def pending_condition_valid_def)
  moreover have "snapshot_evidence_ok ?e"
    using blocks(2) by (simp add: evidence_clear clear_unaccepted_runtime_evidence_def)
  moreover have "snapshot_recovery_ok ?e" "snapshot_previous_ok ?e"
    using blocks by (simp_all add: clear_unaccepted_runtime_evidence_def)
  moreover have "snapshot_live_ok ?e" "live_ordered ?e"
    by (simp_all add: clear_unaccepted_runtime_evidence_def snapshot_live_ok_def live_ordered_def)
  ultimately show ?thesis by (simp add: invariant_defs)
qed

lemma if_transition_rule:
  "(b \<Longrightarrow> P (snd t)) \<Longrightarrow> (\<not> b \<Longrightarrow> P (snd u)) \<Longrightarrow> P (snd (if b then t else u))"
  by simp

lemmas inv_rules = if_transition_rule [of _ deployment_inv] guarded_rule [of deployment_inv] inv_bump

lemma require_phase_Ok: "require_phase k op d = Ok u \<longleftrightarrow> phase_kind_of (d_phase d) = k"
  by (simp add: require_phase_def outcome_simps)

lemmas require_simps = require_phase_Ok phase_kind_of_eq outcome_simps

lemma request_Ok:
  "request ident target gen previous at = Ok d \<Longrightarrow>
     (\<forall>p. previous = Some p \<longrightarrow> same_slot target (pi_target p) \<and> \<not> gen \<le> pi_runtime_generation p)
     \<and> d = \<lparr> d_identity = ident, d_target = target, d_runtime_generation = gen,
          d_previous_runtime = previous, d_requested_at = at,
          d_revision = revision_FIRST, d_phase = Requested, d_controller_lease = None,
          d_last_fencing_token = None, d_preflight = None, d_drain = None, d_activation = None,
          d_panel_certificate = None, d_gateway_ready = None, d_live = None,
          d_last_live_recovery = None, d_last_runtime_failure = None \<rparr>"
  unfolding request_def and_then_eq_Ok by (cases previous) (auto simp: outcome_simps)

lemma request_inv: "request ident target gen previous at = Ok d \<Longrightarrow> deployment_inv d"
  by (drule request_Ok)
     (clarsimp simp: invariant_defs snapshot_previous_ok_def step_simps split: option.split)

lemma acquire_lease_inv:
  assumes "deployment_inv d" shows "deployment_inv (snd (acquire_lease r d))"
  unfolding acquire_lease_def using assms
  by (intro inv_rules) (simp_all add: inv_install_lease)

lemma blocked_check:
  "(case p of RuntimePending (PC_Blocked f) \<Rightarrow> ensure (Q f) e | _ \<Rightarrow> Err e) = Ok u \<longleftrightarrow>
     (\<exists>f. p = RuntimePending (PC_Blocked f) \<and> Q f)"
  by (auto simp: outcome_simps split: deployment_phase.splits runtime_pending_condition.splits)

lemma recover_blocked_inv:
  assumes "deployment_inv d" shows "deployment_inv (snd (recover_blocked r d))"
proof -
  have step: "deployment_inv ((install_lease l d)\<lparr> d_phase := RuntimePending PC_Ready \<rparr>)"
    if "d_phase d = RuntimePending (PC_Blocked f)" "validate_lease_request l d = Ok u" for l f u
    using inv_resume [of "install_lease l d" "PC_Blocked f"] inv_install_lease [OF assms, of l] that
    by (simp add: install_lease_def)
  show ?thesis
    unfolding recover_blocked_def Let_def using assms
    by (intro inv_rules) (auto simp: blocked_check intro: step)
qed

lemma accept_preflight_inv:
  assumes "deployment_inv d" shows "deployment_inv (snd (accept_preflight g a d))"
  unfolding accept_preflight_def using assms
  by (intro inv_rules inv_preflight) (simp_all add: require_simps)

lemma request_drain_inv:
  assumes "deployment_inv d" shows "deployment_inv (snd (request_drain g d))"
  unfolding request_drain_def using assms
  by (intro inv_rules inv_request_drain) (simp_all add: require_simps)

lemma accept_drain_inv:
  assumes "deployment_inv d" shows "deployment_inv (snd (accept_drain g a d))"
  unfolding accept_drain_def using assms
  by (intro inv_rules inv_drain) (simp_all add: require_simps)

lemma begin_activation_inv:
  assumes "deployment_inv d" shows "deployment_inv (snd (begin_activation g d))"
  unfolding begin_activation_def using assms
  by (intro inv_rules inv_begin_activation) (simp_all add: require_simps)

lemma accept_activation_inv:
  assumes "deployment_inv d" shows "deployment_inv (snd (accept_activation g a d))"
  unfolding accept_activation_def using assms
  by (intro inv_rules inv_activation) (simp_all add: require_simps)

lemma accept_panel_certificate_inv:
  assumes "deployment_inv d" shows "deployment_inv (snd (accept_panel_certificate g c d))"
  unfolding accept_panel_certificate_def using assms
  by (intro inv_rules inv_panel) (simp_all add: require_simps)

lemma ready_case:
  "(case p of RuntimePending PC_Ready \<Rightarrow> a | _ \<Rightarrow> b) = (if p = RuntimePending PC_Ready then a else b)"
  by (simp split: deployment_phase.split runtime_pending_condition.split)

lemma pending_check:
  "(case p of RuntimePending _ \<Rightarrow> Ok () | _ \<Rightarrow> Err e) = Ok u \<longleftrightarrow> (\<exists>c. p = RuntimePending c)"
  by (simp split: deployment_phase.split)

lemma begin_panel_reconciliation_inv:
  assumes "deployment_inv d" shows "deployment_inv (snd (begin_panel_reconciliation g d))"
  unfolding begin_panel_reconciliation_def ready_case using assms
  by (intro inv_rules inv_begin_panels) simp_all

lemma resume_runtime_pending_inv:
  assumes "deployment_inv d" shows "deployment_inv (snd (resume_runtime_pending g d))"
  unfolding resume_runtime_pending_def using assms
  by (intro inv_rules) (auto simp: pending_check intro: inv_resume)

lemma certify_live_inv:
  assumes "deployment_inv d" shows "deployment_inv (snd (certify_live g a t d))"
  unfolding certify_live_def Let_def using assms
  by (intro inv_rules inv_certify_live) (simp_all add: require_simps)

lemma recover_live_inv:
  assumes "deployment_inv d" shows "deployment_inv (snd (recover_live r d))"
  unfolding recover_live_def using assms
  by (intro inv_rules inv_recover_live) (simp_all add: require_simps)

lemma supersede_inv:
  assumes "deployment_inv d" shows "deployment_inv (snd (supersede g b r t d))"
  unfolding supersede_def using assms
  by (intro inv_rules inv_supersede) (simp_all add: require_simps)

lemma cancel_inv:
  assumes "deployment_inv d" shows "deployment_inv (snd (cancel g r t d))"
  unfolding cancel_def using assms
  by (intro inv_rules inv_cancel) (simp_all add: require_simps)

lemma floor_check:
  "\<not> (case fl of None \<Rightarrow> True | Some floor \<Rightarrow> t < floor) \<longleftrightarrow>
     (\<exists>floor. fl = Some floor \<and> floor \<le> t)" for t :: int
  by (auto split: option.splits)

lemma inv_retryable:
  assumes "deployment_inv d" "failure_phase_ok (d_phase d)" "validate_failure f = Ok ()"
    and "\<not> (t < rf_recorded_at f \<or> (case runtime_evidence_floor d of
                None \<Rightarrow> True | Some floor \<Rightarrow> rf_recorded_at f < floor))"
  shows "deployment_inv
    ((clear_unaccepted_runtime_evidence (d\<lparr> d_last_runtime_failure := Some (FD_Retryable f n t) \<rparr>))
      \<lparr> d_controller_lease := None, d_phase := RuntimePending (PC_Retryable f n t) \<rparr>)"
proof -
  obtain floor where "runtime_evidence_floor d = Some floor" "floor \<le> rf_recorded_at f"
    using assms(4) by (auto simp: floor_check)
  with assms show ?thesis
    by (intro inv_failure [of d "PC_Retryable f n t" _ f "Some t"]) auto
qed

lemma inv_blocked:
  assumes "deployment_inv d" "failure_phase_ok (d_phase d)" "validate_failure f = Ok ()"
    and "\<not> (case runtime_evidence_floor d of None \<Rightarrow> True | Some floor \<Rightarrow> rf_recorded_at f < floor)"
  shows "deployment_inv
    ((clear_unaccepted_runtime_evidence (d\<lparr> d_last_runtime_failure := Some (FD_Blocked f) \<rparr>))
      \<lparr> d_controller_lease := None, d_phase := RuntimePending (PC_Blocked f) \<rparr>)"
proof -
  obtain floor where "runtime_evidence_floor d = Some floor" "floor \<le> rf_recorded_at f"
    using assms(4) by (auto simp: floor_check)
  with assms show ?thesis
    by (intro inv_failure [of d "PC_Blocked f" _ f None]) auto
qed

lemma record_retryable_failure_inv:
  assumes "deployment_inv d" shows "deployment_inv (snd (record_retryable_failure g f n t d))"
  unfolding record_retryable_failure_def Let_def using assms
  by (intro inv_rules inv_retryable) (simp_all add: require_runtime_failure_phase_Ok outcome_simps)

lemma record_blocked_failure_inv:
  assumes "deployment_inv d" shows "deployment_inv (snd (record_blocked_failure g f d))"
  unfolding record_blocked_failure_def Let_def using assms
  by (intro inv_rules inv_blocked) (simp_all add: require_runtime_failure_phase_Ok outcome_simps)

lemma snapshot_fields [simp]:
  "s_phase (snapshot d) = d_phase d" "s_revision (snapshot d) = d_revision d"
  "s_panel_certificate (snapshot d) = d_panel_certificate d" "s_live (snapshot d) = d_live d"
  by (simp_all add: snapshot_def)

lemma snapshot_inj: "snapshot d = snapshot e \<longleftrightarrow> d = e"
  by (cases d; cases e) (simp add: snapshot_def)

lemma snapshot_surj: "\<exists>d. s = snapshot d"
proof -
  let ?d = "\<lparr> d_identity = s_identity s, d_target = s_target s,
    d_runtime_generation = s_runtime_generation s, d_previous_runtime = s_previous_runtime s,
    d_requested_at = s_requested_at s, d_revision = s_revision s, d_phase = s_phase s,
    d_controller_lease = s_controller_lease s, d_last_fencing_token = s_last_fencing_token s,
    d_preflight = s_preflight s, d_drain = s_drain s, d_activation = s_activation s,
    d_panel_certificate = s_panel_certificate s, d_gateway_ready = s_gateway_ready s,
    d_live = s_live s, d_last_live_recovery = s_last_live_recovery s,
    d_last_runtime_failure = s_last_runtime_failure s \<rparr>"
  have "s = snapshot ?d" by (simp add: snapshot_def)
  then show ?thesis by blast
qed

lemma restore_Ok: "restore s = Ok d \<longleftrightarrow> s = snapshot d \<and> snapshot_valid d"
  using snapshot_surj [of s] by (auto simp: restore_snapshot snapshot_inj split: if_splits)

lemma superseded_inv:
  "snapshot_valid d \<Longrightarrow> d_phase d = Superseded by reason at \<Longrightarrow> deployment_inv d"
  by (auto simp: deployment_inv_def snapshot_valid_def phase_evidence_valid_def phase_evidence_def
      live_ordered_def elim!: evidence_is_prefix.elims split: option.splits)

lemma supersede_product_drain_source_inv:
  assumes "deployment_inv d" shows "deployment_inv (snd (supersede_product_drain_source p b r t d))"
proof -
  have "deployment_inv e" if "supersession_result p b r t = Ok e" for e
  proof -
    from that obtain s where "restore (s\<lparr> s_controller_lease := None, s_phase := Superseded b r t \<rparr>) = Ok e"
      by (auto simp: supersession_result_def Let_def outcome_simps split: if_splits)
    then have "snapshot_valid e" "snapshot e = s\<lparr> s_controller_lease := None, s_phase := Superseded b r t \<rparr>"
      unfolding restore_Ok by simp_all
    from this(2) have "d_phase e = Superseded b r t"
      by (metis deployment_snapshot.select_convs(7) deployment_snapshot.surjective
          deployment_snapshot.update_convs(7) snapshot_fields(1))
    with \<open>snapshot_valid e\<close> show ?thesis by (rule superseded_inv)
  qed
  then show ?thesis unfolding supersede_product_drain_source_def using assms
    by (intro inv_rules) auto
qed

lemma cancellation_result_Ok:
  assumes "cancellation_result p t = Ok e" and "pd_source p = snapshot d"
  shows "\<exists>r. e = d\<lparr> d_revision := r \<rparr>"
proof -
  obtain r where "restore ((snapshot d)\<lparr> s_revision := r \<rparr>) = Ok e"
    using assms by (auto simp: cancellation_result_def outcome_simps)
  moreover have "(snapshot d)\<lparr> s_revision := r \<rparr> = snapshot (d\<lparr> d_revision := r \<rparr>)"
    by (simp add: snapshot_def)
  ultimately show ?thesis by (auto simp: restore_snapshot split: if_splits)
qed

lemma cancel_product_drain_source_inv:
  assumes "deployment_inv d" shows "deployment_inv (snd (cancel_product_drain_source p t d))"
proof (cases "snapshot d = pd_source p")
  case True
  then have "deployment_inv e" if "cancellation_result p t = Ok e" for e
    using cancellation_result_Ok [OF that True [symmetric]] assms by auto
  then show ?thesis unfolding cancel_product_drain_source_def using assms True
    by (intro inv_rules) simp_all
qed (simp add: cancel_product_drain_source_def assms)

lemmas transition_inv =
  acquire_lease_inv recover_blocked_inv accept_preflight_inv request_drain_inv accept_drain_inv
  begin_activation_inv accept_activation_inv record_retryable_failure_inv record_blocked_failure_inv
  resume_runtime_pending_inv begin_panel_reconciliation_inv accept_panel_certificate_inv
  certify_live_inv recover_live_inv supersede_inv cancel_inv supersede_product_drain_source_inv
  cancel_product_drain_source_inv

lemma perform_inv: "deployment_inv d \<Longrightarrow> deployment_inv (snd (perform c d))"
  by (cases c) (simp_all add: transition_inv)

lemma perform_all_inv: "deployment_inv d \<Longrightarrow> deployment_inv (perform_all cs d)"
  by (induction cs arbitrary: d) (simp_all add: perform_inv)

end
