(* ===== verification/Convergence_Properties.thy ===== *)
theory Convergence_Properties
  imports Convergence_Invariant
begin

text \<open>
  What the deployment state machine guarantees over whole histories of calls: every state it reaches
  survives a snapshot and a restore, a stale controller is fenced off, a live deployment carries a
  complete chain of evidence, repeated calls are idempotent, the closed phases are final, and an open
  deployment can always still be driven to \<open>Live\<close>.
\<close>

section \<open>Outcomes of a call\<close>

text \<open>The contract between the outcome that a call reports and the deployment it leaves behind.\<close>

definition outcome_agrees :: "runtime_deployment \<Rightarrow> transition \<Rightarrow> bool" where
  "outcome_agrees d t =
     (case fst t of
        Ok (Replayed r) \<Rightarrow> r = d_revision d \<and> snd t = d
      | Ok (Applied r) \<Rightarrow> unat r = unat (d_revision d) + 1 \<and> d_revision (snd t) = r
      | Err e \<Rightarrow> snd t = d
          \<or> (e = RevisionOverflow \<and> unat (d_revision d) = 2 ^ 64 - 1
             \<and> d_revision (snd t) = d_revision d)
      | Panic \<Rightarrow> False)"

lemma agrees_replayed: "outcome_agrees d (replayed d)"
  by (simp add: outcome_agrees_def replayed_def)

lemma agrees_bump: "d_revision e = d_revision d \<Longrightarrow> outcome_agrees d (bump_revision e)"
  by (auto simp: outcome_agrees_def bump_revision_def revision_next_overflow dest: revision_next_unat
      split: sum.split)

lemma agrees_guarded:
  "check \<noteq> Panic \<Longrightarrow> (\<And>x. check = Ok x \<Longrightarrow> outcome_agrees d (k x)) \<Longrightarrow>
   outcome_agrees d (guarded check d k)"
  by (cases check) (auto simp: guarded_def outcome_agrees_def)

lemma agrees_if:
  "(b \<Longrightarrow> outcome_agrees d t) \<Longrightarrow> (\<not> b \<Longrightarrow> outcome_agrees d u) \<Longrightarrow>
   outcome_agrees d (if b then t else u)"
  by simp

lemma agrees_err: "outcome_agrees d (Err e, d)"
  by (simp add: outcome_agrees_def)

lemmas agrees_rules = agrees_if agrees_guarded agrees_replayed agrees_bump agrees_err

lemma checks_no_panic [simp]:
  "require_revision v d \<noteq> Panic" "require_guard g d \<noteq> Panic" "require_phase k s d \<noteq> Panic"
  "require_runtime_failure_phase s d \<noteq> Panic" "validate_lease_request r d \<noteq> Panic"
  "validate_preflight pf d \<noteq> Panic" "validate_drain dn d \<noteq> Panic" "validate_activation av d \<noteq> Panic"
  "validate_panel_eligibility c \<noteq> Panic" "validate_panel_certificate c d \<noteq> Panic"
  "validate_gateway_ready gw d \<noteq> Panic" "validate_failure f \<noteq> Panic" "validate_reason s \<noteq> Panic"
  "validate_supersession b s t d \<noteq> Panic" "restore snap \<noteq> Panic" "next_revision v \<noteq> Panic"
  by (auto simp: require_revision_def require_guard_def require_phase_def
      require_runtime_failure_phase_def validate_lease_request_def attestation_checks
      validate_panel_eligibility_def validate_failure_def validate_reason_def validate_supersession_def
      restore_def validate_snapshot_def validate_phase_evidence_def next_revision_def Let_def
      outcome_simps split: option.splits deployment_phase.splits runtime_pending_condition.splits
      sum.splits)

lemma transition_agrees:
  "outcome_agrees d (acquire_lease lq d)" "outcome_agrees d (recover_blocked rb d)"
  "outcome_agrees d (accept_preflight g pf d)" "outcome_agrees d (request_drain g d)"
  "outcome_agrees d (accept_drain g dn d)" "outcome_agrees d (begin_activation g d)"
  "outcome_agrees d (accept_activation g av d)" "outcome_agrees d (record_retryable_failure g f n t d)"
  "outcome_agrees d (record_blocked_failure g f d)" "outcome_agrees d (resume_runtime_pending g d)"
  "outcome_agrees d (begin_panel_reconciliation g d)" "outcome_agrees d (accept_panel_certificate g c d)"
  "outcome_agrees d (certify_live g gw t d)" "outcome_agrees d (recover_live rl d)"
  "outcome_agrees d (supersede g b s t d)" "outcome_agrees d (cancel g s t d)"
  unfolding acquire_lease_def recover_blocked_def accept_preflight_def request_drain_def
    accept_drain_def begin_activation_def accept_activation_def record_retryable_failure_def
    record_blocked_failure_def resume_runtime_pending_def begin_panel_reconciliation_def ready_case
    accept_panel_certificate_def certify_live_def recover_live_def supersede_def cancel_def Let_def
  by (intro agrees_rules; simp add: outcome_simps install_lease_def clear_unaccepted_runtime_evidence_def
      split: deployment_phase.split runtime_pending_condition.split)+

lemma next_revision_Ok: "next_revision v = Ok r \<Longrightarrow> unat r = unat v + 1"
  by (auto simp: next_revision_def dest: revision_next_unat split: sum.splits)

lemma restore_revision: "restore s = Ok e \<Longrightarrow> d_revision e = s_revision s"
  by (auto simp: restore_Ok)

lemma supersession_result_revision:
  "supersession_result p b s t = Ok e \<Longrightarrow> unat (d_revision e) = unat (s_revision (pd_source p)) + 1"
  by (auto simp: supersession_result_def Let_def outcome_simps
      dest!: restore_revision [of "_\<lparr> s_controller_lease := None, s_phase := _ \<rparr>"] next_revision_Ok
      split: if_splits)

lemma cancellation_result_revision:
  "cancellation_result p t = Ok e \<Longrightarrow> unat (d_revision e) = unat (s_revision (pd_source p)) + 1"
  by (auto simp: cancellation_result_def outcome_simps
      dest!: restore_revision [of "_\<lparr> s_revision := _ \<rparr>"] next_revision_Ok)

lemma supersession_result_no_panic [simp]: "supersession_result p b s t \<noteq> Panic"
  by (auto simp: supersession_result_def Let_def outcome_simps split: if_splits)

lemma cancellation_result_no_panic [simp]: "cancellation_result p t \<noteq> Panic"
  by (auto simp: cancellation_result_def outcome_simps)

lemma agrees_replaced:
  "snapshot d = source \<Longrightarrow> unat (d_revision e) = unat (s_revision source) + 1 \<Longrightarrow>
   outcome_agrees d (Ok (Applied (d_revision e)), e)"
  by (auto simp: outcome_agrees_def)

lemma product_drain_agrees:
  "outcome_agrees d (supersede_product_drain_source p b s t d)"
  "outcome_agrees d (cancel_product_drain_source p t d)"
  unfolding supersede_product_drain_source_def cancel_product_drain_source_def
  by (intro agrees_rules agrees_replaced [of d "pd_source p"];
      simp add: supersession_result_revision cancellation_result_revision)+

lemma perform_agrees: "outcome_agrees d (perform c d)"
  by (cases c) (simp_all add: transition_agrees product_drain_agrees)

text \<open>C17: Every call on a deployment keeps the contract between its outcome and the state. A replayed
  call reports the current revision and changes nothing. An applied call raises the revision by exactly
  one and reports the new revision. A call that fails leaves the deployment as it was, unless the
  revision counter is at the largest \<open>u64\<close>: then the transition may already have assigned its fields,
  the revision stays and the error is \<open>RevisionOverflow\<close>. No call panics.\<close>

theorem perform_outcome:
  "case perform c d of
     (Ok (Replayed r), d') \<Rightarrow> r = d_revision d \<and> d' = d
   | (Ok (Applied r), d') \<Rightarrow> unat r = unat (d_revision d) + 1 \<and> d_revision d' = r
   | (Err e, d') \<Rightarrow> d' = d
       \<or> (e = RevisionOverflow \<and> unat (d_revision d) = 2 ^ 64 - 1 \<and> d_revision d' = d_revision d)
   | (Panic, d') \<Rightarrow> False"
  using perform_agrees [of d c]
  by (auto simp: outcome_agrees_def split: prod.splits result.splits transition_outcome.splits)

section \<open>Reachable deployments\<close>

inductive reachable :: "runtime_deployment \<Rightarrow> bool" where
  requested: "request ident target generation previous at = Ok d \<Longrightarrow> reachable d"
| performed: "reachable d \<Longrightarrow> reachable (snd (perform c d))"
| restored: "reachable d \<Longrightarrow> restore (snapshot d) = Ok e \<Longrightarrow> reachable e"

lemma reachable_inv: "reachable d \<Longrightarrow> deployment_inv d"
proof (induction rule: reachable.induct)
  case (restored d e)
  then show ?case by (simp add: restore_Ok snapshot_inj)
qed (auto intro: request_inv perform_inv)

lemma reachable_all: "reachable d \<Longrightarrow> reachable (perform_all cs d)"
  by (induction cs arbitrary: d) (auto intro: reachable.performed)

text \<open>C18: A deployment that was requested and then driven by any calls, with any arguments and in any
  order, failing ones included, is restored exactly from its own snapshot: the state machine never
  reaches a state that its snapshot validation refuses.\<close>

theorem snapshot_round_trip:
  assumes "reachable d" shows "restore (snapshot d) = Ok d"
  using reachable_inv [OF assms] by (simp add: deployment_inv_def restore_snapshot)

section \<open>Fencing\<close>

text \<open>The fencing token that a call presents: that of its guard, or that of the lease it asks for.\<close>

fun presented_token :: "deployment_command \<Rightarrow> fencing_token option" where
  "presented_token (AcquireLease r) = Some (lq_fencing_token r)"
| "presented_token (RecoverBlocked r) = Some (rb_fencing_token r)"
| "presented_token (AcceptPreflight g a) = Some (cg_fencing_token g)"
| "presented_token (RequestDrain g) = Some (cg_fencing_token g)"
| "presented_token (AcceptDrain g a) = Some (cg_fencing_token g)"
| "presented_token (BeginActivation g) = Some (cg_fencing_token g)"
| "presented_token (AcceptActivation g a) = Some (cg_fencing_token g)"
| "presented_token (RecordRetryableFailure g f n t) = Some (cg_fencing_token g)"
| "presented_token (RecordBlockedFailure g f) = Some (cg_fencing_token g)"
| "presented_token (ResumeRuntimePending g) = Some (cg_fencing_token g)"
| "presented_token (BeginPanelReconciliation g) = Some (cg_fencing_token g)"
| "presented_token (AcceptPanelCertificate g c) = Some (cg_fencing_token g)"
| "presented_token (CertifyLive g a t) = Some (cg_fencing_token g)"
| "presented_token (Supersede g b r t) = Some (cg_fencing_token g)"
| "presented_token (Cancel g r t) = Some (cg_fencing_token g)"
| "presented_token (RecoverLive r) = None"
| "presented_token (SupersedeProductDrainSource p b r t) = None"
| "presented_token (CancelProductDrainSource p t) = None"

definition token_at_least :: "fencing_token \<Rightarrow> runtime_deployment \<Rightarrow> bool" where
  "token_at_least t d = (case d_last_fencing_token d of None \<Rightarrow> False | Some u \<Rightarrow> t \<le> u)"

lemma token_bump: "token_at_least t d \<Longrightarrow> token_at_least t (snd (bump_revision d))"
  by (simp add: token_at_least_def bump_revision_def split: sum.split)

lemma token_install:
  "token_at_least t d \<Longrightarrow> validate_lease_request r d = Ok u \<Longrightarrow>
   token_at_least t (install_lease r d)"
  by (auto simp: token_at_least_def install_lease_def validate_lease_request_def outcome_simps
      split: option.splits)

lemma token_frame:
  "token_at_least t (d\<lparr> d_phase := x_phase \<rparr>) = token_at_least t d"
  "token_at_least t (d\<lparr> d_controller_lease := x_lease \<rparr>) = token_at_least t d"
  "token_at_least t (d\<lparr> d_preflight := x_pf \<rparr>) = token_at_least t d"
  "token_at_least t (d\<lparr> d_drain := x_dn \<rparr>) = token_at_least t d"
  "token_at_least t (d\<lparr> d_activation := x_av \<rparr>) = token_at_least t d"
  "token_at_least t (d\<lparr> d_panel_certificate := x_pl \<rparr>) = token_at_least t d"
  "token_at_least t (d\<lparr> d_gateway_ready := x_gw \<rparr>) = token_at_least t d"
  "token_at_least t (d\<lparr> d_live := x_lv \<rparr>) = token_at_least t d"
  "token_at_least t (d\<lparr> d_last_live_recovery := x_rec \<rparr>) = token_at_least t d"
  "token_at_least t (d\<lparr> d_last_runtime_failure := x_fl \<rparr>) = token_at_least t d"
  "token_at_least t (d\<lparr> d_revision := x_rev \<rparr>) = token_at_least t d"
  by (simp_all add: token_at_least_def)

lemmas token_rules =
  if_transition_rule [of _ "token_at_least t"] guarded_rule [of "token_at_least t"] token_bump for t

lemmas transition_defs =
  acquire_lease_def recover_blocked_def accept_preflight_def request_drain_def
  accept_drain_def begin_activation_def accept_activation_def record_retryable_failure_def
  record_blocked_failure_def resume_runtime_pending_def begin_panel_reconciliation_def ready_case
  accept_panel_certificate_def certify_live_def recover_live_def supersede_def cancel_def Let_def
  supersede_product_drain_source_def cancel_product_drain_source_def

lemma supersession_result_token:
  "supersession_result p b s t = Ok e \<Longrightarrow> d_last_fencing_token e = s_last_fencing_token (pd_source p)"
  by (auto simp: supersession_result_def Let_def outcome_simps restore_Ok snapshot_def split: if_splits)

lemma cancellation_result_token:
  "cancellation_result p t = Ok e \<Longrightarrow> d_last_fencing_token e = s_last_fencing_token (pd_source p)"
  by (auto simp: cancellation_result_def outcome_simps restore_Ok snapshot_def)

lemma token_of_source:
  "d_last_fencing_token e = s_last_fencing_token s \<Longrightarrow> snapshot d = s \<Longrightarrow>
   token_at_least t e = token_at_least t d"
  by (auto simp: snapshot_def token_at_least_def)

lemmas product_drain_token =
  supersession_result_token [THEN token_of_source] cancellation_result_token [THEN token_of_source]

lemma perform_token: "token_at_least t d \<Longrightarrow> token_at_least t (snd (perform c d))"
  by (cases c; simp only: perform.simps transition_defs; intro token_rules;
      auto simp: token_frame clear_unaccepted_runtime_evidence_def product_drain_token
        dest: token_install)

lemma perform_all_token: "token_at_least t d \<Longrightarrow> token_at_least t (perform_all cs d)"
  by (induction cs arbitrary: d) (simp_all add: perform_token)

lemma guard_fenced:
  assumes "deployment_inv d" "token_at_least t d" "cg_fencing_token g < t"
  shows "require_guard g d \<noteq> Ok u"
  using assms
  by (auto simp: require_guard_def outcome_simps invariant_defs snapshot_lease_ok_def token_at_least_def
      split: option.splits)

text \<open>A call without effect: the deployment stays and no transition is reported.\<close>

definition inert :: "runtime_deployment \<Rightarrow> transition \<Rightarrow> bool" where
  "inert d t \<longleftrightarrow> snd t = d \<and> (\<forall>r. fst t \<noteq> Ok (Applied r))"

lemma inert_rules:
  "inert d (replayed d)"
  "inert d (Err e, d)"
  "(\<And>x. check = Ok x \<Longrightarrow> inert d (k x)) \<Longrightarrow> inert d (guarded check d k)"
  "(b \<Longrightarrow> inert d t) \<Longrightarrow> (\<not> b \<Longrightarrow> inert d u) \<Longrightarrow> inert d (if b then t else u)"
  by (auto simp: inert_def replayed_def guarded_def split: result.split)

lemma stale_lease_refused:
  "token_at_least t d \<Longrightarrow> lq_fencing_token r < t \<Longrightarrow> validate_lease_request r d \<noteq> Ok u"
  by (auto simp: token_at_least_def validate_lease_request_def outcome_simps split: option.splits)

lemma stale_inert:
  assumes "deployment_inv d" "token_at_least t d" "presented_token c = Some u" "u < t"
  shows "inert d (perform c d)"
  using assms
  by (cases c; simp only: perform.simps transition_defs; intro inert_rules;
      simp add: guard_fenced stale_lease_refused)

text \<open>C19: Fencing. Once a deployment has granted a lease with some token, a call that presents a
  smaller token (an old controller that still acts on its lost lease, or a lease request that reuses
  an old token) has no effect, whatever calls were made in between: it never reports an applied
  transition and leaves every field of the deployment as it was.\<close>

theorem stale_controller_fenced:
  assumes "reachable d" and "d_last_fencing_token d = Some t"
    and "presented_token c = Some u" and "u < t"
  shows "snd (perform c (perform_all cs d)) = perform_all cs d
    \<and> (\<forall>r. fst (perform c (perform_all cs d)) \<noteq> Ok (Applied r))"
proof -
  have "deployment_inv (perform_all cs d)"
    using assms(1) by (intro reachable_inv reachable_all)
  moreover have "token_at_least t (perform_all cs d)"
    using assms(2) by (intro perform_all_token) (simp add: token_at_least_def)
  ultimately show ?thesis using stale_inert [OF _ _ assms(3,4)] by (simp add: inert_def)
qed

section \<open>Evidence of a live deployment\<close>

lemma panel_eligible:
  "validate_panel_eligibility c = Ok u \<Longrightarrow>
     pl_failed_count c = 0 \<and> pl_skipped_transient_count c = 0
     \<and> pl_skipped_unresolved_channel_count c = 0 \<and> pl_ambiguous_outcome_count c = 0
     \<and> unat (pl_installed_count c) + unat (pl_unchanged_count c) = unat (pl_declared_count c)"
  by (auto simp: validate_panel_eligibility_def outcome_simps dest: checked_add_Some_unat)

text \<open>C20: A reachable deployment is in the phase \<open>Live\<close> only with a complete chain of evidence for its
  own target and generation, in the order of time: preflight, drain, activation, panel certificate,
  gateway readiness and certification. The panel certificate accounts for every declared panel (the
  \<open>u32\<close> counts add up without wrapping) with no failed, skipped or ambiguous one, panels and gateway
  belong to one process, and no controller holds a lease.\<close>

theorem live_has_evidence:
  assumes "reachable d" and "d_phase d = Live"
  shows "\<exists>preflight drain activation panel gateway live.
      d_preflight d = Some (preflight :: preflight_attestation) \<and> d_drain d = Some drain
    \<and> d_activation d = Some activation \<and> d_panel_certificate d = Some panel
    \<and> d_gateway_ready d = Some gateway \<and> d_live d = Some (live :: live_attestation)
    \<and> d_requested_at d \<le> pf_checked_at preflight
    \<and> pf_checked_at preflight \<le> dn_drained_at drain
    \<and> dn_drained_at drain \<le> av_activated_at activation
    \<and> av_activated_at activation \<le> pl_reconciled_at panel
    \<and> pl_reconciled_at panel \<le> gw_ready_at gateway
    \<and> gw_ready_at gateway \<le> lv_certified_at live
    \<and> pf_target preflight = d_target d \<and> av_target activation = d_target d
    \<and> pl_target panel = d_target d \<and> gw_target gateway = d_target d
    \<and> av_runtime_generation activation = d_runtime_generation d
    \<and> pl_runtime_generation panel = d_runtime_generation d
    \<and> gw_runtime_generation gateway = d_runtime_generation d
    \<and> gw_process_instance_id gateway = pl_process_instance_id panel
    \<and> pl_failed_count panel = 0 \<and> pl_skipped_transient_count panel = 0
    \<and> pl_skipped_unresolved_channel_count panel = 0 \<and> pl_ambiguous_outcome_count panel = 0
    \<and> unat (pl_installed_count panel) + unat (pl_unchanged_count panel)
        = unat (pl_declared_count panel)
    \<and> d_controller_lease d = None"
proof -
  have inv: "deployment_inv d" using assms(1) by (rule reachable_inv)
  then obtain preflight drain activation panel gateway live where
    some: "d_preflight d = Some preflight" "d_drain d = Some drain" "d_activation d = Some activation"
      "d_panel_certificate d = Some panel" "d_gateway_ready d = Some gateway" "d_live d = Some live"
    using assms(2) by (auto simp: invariant_defs phase_evidence_valid_def phase_evidence_def)
  have checks: "validate_preflight preflight d = Ok ()" "validate_drain drain d = Ok ()"
      "validate_activation activation d = Ok ()" "validate_panel_certificate panel d = Ok ()"
      "validate_gateway_ready gateway d = Ok ()"
    using inv some by (simp_all add: invariant_defs snapshot_evidence_ok_def is_ok_iff)
  have "validate_panel_eligibility panel = Ok ()"
    using checks(4) by (auto simp: validate_panel_certificate_def outcome_simps)
  moreover have "d_controller_lease d = None"
    using inv assms(2) by (simp add: invariant_defs snapshot_lease_ok_def)
  moreover have "lv_panel_certificate live = panel" "lv_gateway_ready live = gateway"
      "gw_ready_at gateway \<le> lv_certified_at live" "pl_reconciled_at panel \<le> gw_ready_at gateway"
    using inv some by (auto simp: invariant_defs snapshot_live_ok_def live_ordered_def)
  ultimately show ?thesis using some checks
    by (simp add: attestation_checks outcome_simps panel_eligible)
qed

section \<open>Idempotence\<close>

lemma bump_Applied:
  "bump_revision e = (Ok (Applied r), d') \<longleftrightarrow>
     revision_next (d_revision e) = Inr r \<and> d' = e\<lparr> d_revision := r \<rparr>"
  by (auto simp: bump_revision_def split: sum.splits)

lemma guarded_Applied:
  "guarded check d k = (Ok (Applied r), d') \<longleftrightarrow> (\<exists>x. check = Ok x \<and> k x = (Ok (Applied r), d'))"
  by (cases check) (auto simp: guarded_def)

lemma replayed_Applied: "replayed d \<noteq> (Ok (Applied r), d')"
  by (simp add: replayed_def)

lemma if_Applied:
  "(if b then replayed d else u) = (Ok (Applied r), d') \<longleftrightarrow> \<not> b \<and> u = (Ok (Applied r), d')"
  by (simp add: replayed_def)

lemmas applied_simps = bump_Applied guarded_Applied if_Applied replayed_Applied

lemma has_reached_simps [simp]:
  "has_reached k (d\<lparr> d_revision := r \<rparr>) = has_reached k d"
  "has_reached K_PreflightReady (d\<lparr> d_phase := PreflightReady \<rparr>)"
  "has_reached K_DrainRequested (d\<lparr> d_phase := DrainRequested \<rparr>)"
  "has_reached K_Drained (d\<lparr> d_phase := Drained \<rparr>)"
  "has_reached K_ActivationApplying (d\<lparr> d_phase := ActivationApplying \<rparr>)"
  "has_reached K_RuntimePending (d\<lparr> d_phase := RuntimePending c \<rparr>)"
  "has_reached K_ReconcilingPanels (d\<lparr> d_phase := ReconcilingPanels \<rparr>)"
  "has_reached K_AwaitingGatewayReady (d\<lparr> d_phase := AwaitingGatewayReady \<rparr>)"
  by (simp_all add: has_reached_def)

lemma replay_transition:
  "acquire_lease lq d = (Ok (Applied r), d') \<Longrightarrow> acquire_lease lq d' = replayed d'"
  "accept_preflight g pf d = (Ok (Applied r), d') \<Longrightarrow> accept_preflight g pf d' = replayed d'"
  "request_drain g d = (Ok (Applied r), d') \<Longrightarrow> request_drain g d' = replayed d'"
  "accept_drain g dn d = (Ok (Applied r), d') \<Longrightarrow> accept_drain g dn d' = replayed d'"
  "begin_activation g d = (Ok (Applied r), d') \<Longrightarrow> begin_activation g d' = replayed d'"
  "accept_activation g av d = (Ok (Applied r), d') \<Longrightarrow> accept_activation g av d' = replayed d'"
  "record_retryable_failure g f n t d = (Ok (Applied r), d') \<Longrightarrow>
     record_retryable_failure g f n t d' = replayed d'"
  "record_blocked_failure g f d = (Ok (Applied r), d') \<Longrightarrow> record_blocked_failure g f d' = replayed d'"
  "resume_runtime_pending g d = (Ok (Applied r), d') \<Longrightarrow> resume_runtime_pending g d' = replayed d'"
  "accept_panel_certificate g c d = (Ok (Applied r), d') \<Longrightarrow>
     accept_panel_certificate g c d' = replayed d'"
  "certify_live g gw t d = (Ok (Applied r), d') \<Longrightarrow> certify_live g gw t d' = replayed d'"
  "supersede g b s t d = (Ok (Applied r), d') \<Longrightarrow> supersede g b s t d' = replayed d'"
  "cancel g s t d = (Ok (Applied r), d') \<Longrightarrow> cancel g s t d' = replayed d'"
  by (clarsimp simp: transition_defs applied_simps install_lease_def lease_matches_def
      clear_unaccepted_runtime_evidence_def)+

lemma replay_begin_panel_reconciliation:
  "begin_panel_reconciliation g d = (Ok (Applied r), d') \<Longrightarrow>
   begin_panel_reconciliation g d' = replayed d'"
  by (auto simp: begin_panel_reconciliation_def ready_case applied_simps split: if_splits)

lemma replay_recover_blocked:
  "recover_blocked rb d = (Ok (Applied r), d') \<Longrightarrow> recover_blocked rb d' = replayed d'"
  by (clarsimp simp: recover_blocked_def Let_def applied_simps blocked_check outcome_simps
      install_lease_def lease_matches_def split: option.splits runtime_failure_disposition.splits)

lemma replay_recover_live:
  "deployment_inv d \<Longrightarrow> recover_live rl d = (Ok (Applied r), d') \<Longrightarrow> recover_live rl d' = replayed d'"
  by (clarsimp simp: recover_live_def applied_simps outcome_simps require_simps
      clear_unaccepted_runtime_evidence_def invariant_defs snapshot_live_ok_def)

lemma replay_supersede_product_drain_source:
  "supersede_product_drain_source p b s t d = (Ok (Applied r), d') \<Longrightarrow>
   supersede_product_drain_source p b s t d' = replayed d'"
  by (cases "supersession_result p b s t")
     (auto simp: supersede_product_drain_source_def guarded_def replayed_def split: if_splits)


section \<open>Closed deployments\<close>

fun is_closed :: "deployment_phase \<Rightarrow> bool" where
  "is_closed (Superseded by reason at) = True"
| "is_closed (Cancelled reason at) = True"
| "is_closed _ = False"

text \<open>The permits of a product drain are only made by the two constructors, for a source that awaits
  its gateway or is live.\<close>

fun permit_genuine :: "deployment_command \<Rightarrow> bool" where
  "permit_genuine (SupersedeProductDrainSource p b r t) =
     (s_phase (pd_source p) = AwaitingGatewayReady \<or> s_phase (pd_source p) = Live)"
| "permit_genuine (CancelProductDrainSource p t) =
     (s_phase (pd_source p) = AwaitingGatewayReady \<or> s_phase (pd_source p) = Live)"
| "permit_genuine _ = True"

lemma permits_genuine:
  "supersession_permit d v at = Ok p \<Longrightarrow> permit_genuine (SupersedeProductDrainSource p b r t)"
  "cancellation_permit d v at = Ok p \<Longrightarrow> permit_genuine (CancelProductDrainSource p t)"
  by (auto simp: supersession_permit_def cancellation_permit_def Let_def outcome_simps
      validated_product_drain_source_acknowledgement_def split: deployment_phase.splits)

lemma closed_no_lease:
  "deployment_inv d \<Longrightarrow> is_closed (d_phase d) \<Longrightarrow>
   d_controller_lease d = None \<and> is_terminal (d_phase d) \<and> d_phase d \<noteq> Live
   \<and> (\<forall>c. d_phase d \<noteq> RuntimePending c)"
  by (cases "d_phase d") (auto simp: invariant_defs snapshot_lease_ok_def)

lemma no_lease_guard: "d_controller_lease d = None \<Longrightarrow> require_guard g d \<noteq> Ok u"
  by (simp add: require_guard_def outcome_simps)

lemma terminal_no_lease_request: "is_terminal (d_phase d) \<Longrightarrow> validate_lease_request r d \<noteq> Ok u"
  by (simp add: validate_lease_request_def outcome_simps)

lemma closed_inert:
  assumes "deployment_inv d" "is_closed (d_phase d)" "permit_genuine c"
  shows "inert d (perform c d)"
proof -
  have source: "snapshot d \<noteq> pd_source p"
    if "s_phase (pd_source p) = AwaitingGatewayReady \<or> s_phase (pd_source p) = Live" for p
    using that assms(2) snapshot_fields(1) [of d] by (auto simp del: snapshot_fields(1))
  show ?thesis
    using closed_no_lease [OF assms(1,2)] assms(3)
    by (cases c; simp only: perform.simps transition_defs; intro inert_rules;
        simp add: no_lease_guard terminal_no_lease_request require_simps source)
qed

text \<open>C22: A superseded or cancelled deployment is final: no sequence of calls changes any field of it,
  provided the product drain permits among them are genuine, that is, made by the permit constructors.\<close>

theorem closed_is_final:
  assumes "reachable d" and "is_closed (d_phase d)" and "list_all permit_genuine cs"
  shows "perform_all cs d = d"
  using assms(3)
proof (induction cs)
  case (Cons c cs)
  then have "snd (perform c d) = d"
    using closed_inert [OF reachable_inv [OF assms(1)] assms(2)] by (simp add: inert_def)
  with Cons show ?case by simp
qed simp

section \<open>Progress\<close>

text \<open>The guard of the controller that holds the lease, at the time it was acquired.\<close>

definition current_guard :: "runtime_deployment \<Rightarrow> command_guard" where
  "current_guard d =
     (let lease = the (d_controller_lease d) in
      \<lparr> cg_expected_revision = d_revision d, cg_controller_id = cl_controller_id lease,
        cg_fencing_token = cl_fencing_token lease, cg_runtime_generation = d_runtime_generation d,
        cg_now = cl_acquired_at lease \<rparr>)"

definition held :: "nat \<Rightarrow> runtime_deployment \<Rightarrow> bool" where
  "held n d \<longleftrightarrow> deployment_inv d \<and> d_controller_lease d \<noteq> None \<and> unat (d_revision d) + n < 2 ^ 64"

definition can_go_live :: "runtime_deployment \<Rightarrow> bool" where
  "can_go_live d \<longleftrightarrow> (\<exists>cs. d_phase (perform_all cs d) = Live)"

lemma go_live_step: "can_go_live (snd (perform c d)) \<Longrightarrow> can_go_live d"
  unfolding can_go_live_def by (metis perform_all.simps(2))

lemma current_guard_Ok: "held n d \<Longrightarrow> require_guard (current_guard d) d = Ok ()"
  by (auto simp: held_def require_guard_def require_revision_def current_guard_def Let_def
      outcome_simps invariant_defs snapshot_lease_ok_def split: option.splits)

lemma bump_room:
  assumes "unat (d_revision e) + Suc n < 2 ^ 64"
  obtains r where "snd (bump_revision e) = e\<lparr> d_revision := r \<rparr>" "unat r + n < 2 ^ 64"
proof (cases "revision_next (d_revision e)")
  case (Inl x)
  then show ?thesis using assms by (simp add: revision_next_overflow)
next
  case (Inr r)
  then show ?thesis using assms that [of r] by (simp add: bump_revision_def revision_next_unat)
qed

lemma held_bump:
  assumes "held (Suc n) d" "snd (perform c d) = snd (bump_revision e)"
    and "d_revision e = d_revision d" "d_controller_lease e = d_controller_lease d"
  shows "held n (snd (perform c d)) \<and> d_phase (snd (perform c d)) = d_phase e"
proof -
  have "unat (d_revision e) + Suc n < 2 ^ 64" using assms by (simp add: held_def)
  then obtain r where "snd (bump_revision e) = e\<lparr> d_revision := r \<rparr>" "unat r + n < 2 ^ 64"
    by (rule bump_room)
  then show ?thesis using assms perform_inv [of d c] by (simp add: held_def)
qed

lemma go_live_bump:
  assumes "snd (perform c d) = snd (bump_revision e)" "held (Suc n) d"
    and "d_revision e = d_revision d" "d_controller_lease e = d_controller_lease d"
    and "\<And>d'. held n d' \<Longrightarrow> d_phase d' = d_phase e \<Longrightarrow> can_go_live d'"
  shows "can_go_live d"
  using held_bump [OF assms(2,1,3,4)] assms(5) by (blast intro: go_live_step)

lemma guarded_Ok [simp]: "guarded (Ok x) d k = k x"
  by (simp add: guarded_def)

lemma live_from_awaiting:
  assumes "held 1 d" "d_phase d = AwaitingGatewayReady" shows "can_go_live d"
proof -
  obtain activation panel where some: "d_activation d = Some activation"
      "d_panel_certificate d = Some panel" "d_live d = None"
    using assms by (auto simp: held_def invariant_defs phase_evidence_valid_def phase_evidence_def)
  define gw where "gw = \<lparr> gw_target = d_target d, gw_runtime_generation = d_runtime_generation d,
    gw_process_instance_id = pl_process_instance_id panel, gw_kind = GW_DiscordReady,
    gw_ready_at = pl_reconciled_at panel \<rparr>"
  have "validate_gateway_ready gw d = Ok ()"
    using some by (simp add: gw_def attestation_checks)
  then have "d_phase (snd (perform (CertifyLive (current_guard d) gw (gw_ready_at gw)) d)) = Live"
    using assms some current_guard_Ok [OF assms(1)]
    by (auto simp: certify_live_def require_phase_def gw_def bump_revision_def Let_def split: sum.split)
  then have "can_go_live (snd (perform (CertifyLive (current_guard d) gw (gw_ready_at gw)) d))"
    unfolding can_go_live_def by (intro exI [of _ "[]"]) simp
  then show ?thesis by (rule go_live_step)
qed

lemma live_from_reconciling:
  assumes "held 2 d" "d_phase d = ReconcilingPanels" shows "can_go_live d"
proof -
  obtain activation where some: "d_activation d = Some activation" "d_panel_certificate d = None"
    using assms by (auto simp: held_def invariant_defs phase_evidence_valid_def phase_evidence_def)
  obtain process and at where fresh:
    "\<And>r. d_last_live_recovery d = Some r \<Longrightarrow>
       process \<noteq> lv_process_instance_id (lr_prior_live r) \<and> lr_recovered_at r \<le> at"
    "av_activated_at activation \<le> at"
  proof (cases "d_last_live_recovery d")
    case None
    then show ?thesis using that [of "''process-a''" "av_activated_at activation"] by simp
  next
    case (Some r)
    then show ?thesis
      using that [of "if lv_process_instance_id (lr_prior_live r) = ''process-a'' then ''process-b''
          else ''process-a''" "max (av_activated_at activation) (lr_recovered_at r)"]
      by simp
  qed
  define c where "c = \<lparr> pl_certificate_id = ''certificate'', pl_report_digest = replicate 64 (CHR ''0''),
    pl_target = d_target d, pl_runtime_generation = d_runtime_generation d,
    pl_process_instance_id = process, pl_declared_count = 0, pl_installed_count = 0,
    pl_unchanged_count = 0, pl_skipped_transient_count = 0, pl_skipped_unresolved_channel_count = 0,
    pl_failed_count = 0, pl_ambiguous_outcome_count = 0, pl_stale_message_cleanup_pending_count = 0,
    pl_orphan_message_cleanup_pending_count = 0, pl_reposted_old_message_cleanup_pending_count = 0,
    pl_reconciled_at = at \<rparr>"
  have "validate_panel_certificate c d = Ok ()"
    using some fresh by (auto simp: c_def attestation_checks validate_panel_eligibility_def
        checked_add_def split: option.split)
  then have "snd (perform (AcceptPanelCertificate (current_guard d) c) d)
      = snd (bump_revision (d\<lparr> d_panel_certificate := Some c, d_phase := AwaitingGatewayReady \<rparr>))"
    using assms some current_guard_Ok [OF assms(1)]
    by (simp add: accept_panel_certificate_def require_phase_def)
  then show ?thesis
    by (rule go_live_bump [where n = 1]) (simp_all add: live_from_awaiting assms(1) [unfolded numeral_2_eq_2])
qed

lemma live_from_pending:
  assumes "held 3 d" "d_phase d = RuntimePending PC_Ready" shows "can_go_live d"
proof -
  have "snd (perform (BeginPanelReconciliation (current_guard d)) d)
      = snd (bump_revision (d\<lparr> d_phase := ReconcilingPanels \<rparr>))"
    using assms current_guard_Ok [OF assms(1)]
    by (simp add: begin_panel_reconciliation_def has_reached_def)
  then show ?thesis
    by (rule go_live_bump [where n = 2]) (simp_all add: live_from_reconciling assms(1))
qed

lemma live_from_suspended:
  assumes "held 4 d" "d_phase d = RuntimePending c" shows "can_go_live d"
proof (cases "c = PC_Ready")
  case True
  then show ?thesis using assms by (intro live_from_pending) (simp_all add: held_def)
next
  case False
  then have "snd (perform (ResumeRuntimePending (current_guard d)) d)
      = snd (bump_revision (d\<lparr> d_phase := RuntimePending PC_Ready \<rparr>))"
    using assms current_guard_Ok [OF assms(1)] by (simp add: resume_runtime_pending_def)
  then show ?thesis
    by (rule go_live_bump [where n = 3]) (simp_all add: live_from_pending assms(1))
qed

lemma live_from_applying:
  assumes "held 5 d" "d_phase d = ActivationApplying" shows "can_go_live d"
proof -
  obtain drain where some: "d_drain d = Some drain" "d_activation d = None"
    using assms by (auto simp: held_def invariant_defs phase_evidence_valid_def phase_evidence_def)
  define a where "a = \<lparr> av_activation_request_id = id_activation_request_id (d_identity d),
    av_target = d_target d, av_runtime_generation = d_runtime_generation d, av_kind = AO_Activated,
    av_activated_at = dn_drained_at drain \<rparr>"
  have "validate_activation a d = Ok ()" using some by (simp add: a_def attestation_checks)
  then have "snd (perform (AcceptActivation (current_guard d) a) d)
      = snd (bump_revision (d\<lparr> d_activation := Some a, d_phase := RuntimePending PC_Ready \<rparr>))"
    using assms some current_guard_Ok [OF assms(1)] by (simp add: accept_activation_def require_phase_def)
  then show ?thesis
    by (rule go_live_bump [where n = 4]) (simp_all add: live_from_suspended assms(1))
qed

lemma live_from_drained:
  assumes "held 6 d" "d_phase d = Drained" shows "can_go_live d"
proof -
  have "snd (perform (BeginActivation (current_guard d)) d)
      = snd (bump_revision (d\<lparr> d_phase := ActivationApplying \<rparr>))"
    using assms current_guard_Ok [OF assms(1)]
    by (simp add: begin_activation_def has_reached_def require_phase_def)
  then show ?thesis
    by (rule go_live_bump [where n = 5]) (simp_all add: live_from_applying assms(1))
qed

lemma live_from_drain_requested:
  assumes "held 7 d" "d_phase d = DrainRequested" shows "can_go_live d"
proof -
  obtain preflight where some: "d_preflight d = Some preflight" "d_drain d = None"
    using assms by (auto simp: held_def invariant_defs phase_evidence_valid_def phase_evidence_def)
  define a where "a = \<lparr> dn_previous_runtime = d_previous_runtime d,
    dn_target_runtime_generation = d_runtime_generation d, dn_drained_at = pf_checked_at preflight \<rparr>"
  have "validate_drain a d = Ok ()" using some by (simp add: a_def attestation_checks)
  then have "snd (perform (AcceptDrain (current_guard d) a) d)
      = snd (bump_revision (d\<lparr> d_drain := Some a, d_phase := Drained \<rparr>))"
    using assms some current_guard_Ok [OF assms(1)] by (simp add: accept_drain_def require_phase_def)
  then show ?thesis
    by (rule go_live_bump [where n = 6]) (simp_all add: live_from_drained assms(1))
qed

lemma live_from_preflight_ready:
  assumes "held 8 d" "d_phase d = PreflightReady" shows "can_go_live d"
proof -
  have "snd (perform (RequestDrain (current_guard d)) d)
      = snd (bump_revision (d\<lparr> d_phase := DrainRequested \<rparr>))"
    using assms current_guard_Ok [OF assms(1)]
    by (simp add: request_drain_def has_reached_def require_phase_def)
  then show ?thesis
    by (rule go_live_bump [where n = 7]) (simp_all add: live_from_drain_requested assms(1))
qed

lemma live_from_requested:
  assumes "held 9 d" "d_phase d = Requested" shows "can_go_live d"
proof -
  have none: "d_preflight d = None"
    using assms by (simp add: held_def invariant_defs phase_evidence_valid_def phase_evidence_def)
  define a where "a = \<lparr> pf_target = d_target d, pf_runtime_generation = d_runtime_generation d,
    pf_observed_runtime = d_previous_runtime d, pf_checked_at = d_requested_at d \<rparr>"
  have "validate_preflight a d = Ok ()" by (simp add: a_def attestation_checks)
  then have "snd (perform (AcceptPreflight (current_guard d) a) d)
      = snd (bump_revision (d\<lparr> d_preflight := Some a, d_phase := PreflightReady \<rparr>))"
    using assms none current_guard_Ok [OF assms(1)] by (simp add: accept_preflight_def require_phase_def)
  then show ?thesis
    by (rule go_live_bump [where n = 8]) (simp_all add: live_from_preflight_ready assms(1))
qed

lemma held_mono: "held n d \<Longrightarrow> m \<le> n \<Longrightarrow> held m d"
  by (simp add: held_def)

lemma live_from_held:
  assumes "held 9 d" "\<not> is_terminal (d_phase d)" shows "can_go_live d"
proof -
  have "held 8 d" "held 7 d" "held 6 d" "held 5 d" "held 4 d" "held 2 d" "held 1 d"
    using held_mono [OF assms(1)] by simp_all
  then show ?thesis using assms
    by (cases "d_phase d")
       (simp_all add: live_from_requested live_from_preflight_ready live_from_drain_requested
         live_from_drained live_from_applying live_from_suspended live_from_reconciling
         live_from_awaiting)
qed

text \<open>A lease request that an open deployment without a lease grants.\<close>

definition fresh_lease :: "fencing_token \<Rightarrow> date_time \<Rightarrow> runtime_deployment \<Rightarrow> lease_request" where
  "fresh_lease token now d =
     \<lparr> lq_expected_revision = d_revision d, lq_controller_id = ''controller'',
       lq_fencing_token = token, lq_now = now, lq_expires_at = now + 1 \<rparr>"

lemma fresh_token:
  assumes "\<And>t. d_last_fencing_token d = Some t \<Longrightarrow> unat t < 2 ^ 64 - 1"
  shows "\<exists>token. \<forall>t. d_last_fencing_token d = Some t \<longrightarrow> \<not> token \<le> t"
proof (cases "d_last_fencing_token d")
  case (Some t)
  then obtain token where "revision_next t = Inr token"
    using assms [OF Some] revision_next_overflow [of t] by (cases "revision_next t") auto
  then have "t < token" by (rule revision_next_less)
  then show ?thesis using Some by (auto simp: not_le)
qed simp

lemma fresh_lease_granted:
  assumes "d_controller_lease d = None" "\<not> is_terminal (d_phase d)" "d_requested_at d \<le> now"
    and "\<And>t. d_last_fencing_token d = Some t \<Longrightarrow> \<not> token \<le> t"
  shows "validate_lease_request (fresh_lease token now d) d = Ok ()"
  using assms by (auto simp: validate_lease_request_def fresh_lease_def require_revision_def
      split: option.split)

lemma held_after_lease:
  assumes "deployment_inv d" "unat (d_revision d) + Suc n < 2 ^ 64"
    and "snd (perform c d) = snd (bump_revision e)" "d_revision e = d_revision d"
    and "d_controller_lease e \<noteq> None"
  shows "held n (snd (perform c d)) \<and> d_phase (snd (perform c d)) = d_phase e"
proof -
  obtain r where "snd (bump_revision e) = e\<lparr> d_revision := r \<rparr>" "unat r + n < 2 ^ 64"
    using assms(2,4) by (metis bump_room)
  then show ?thesis using assms perform_inv [of d c] by (simp add: held_def)
qed

lemma live_from_unleased:
  assumes inv: "deployment_inv d" and room: "unat (d_revision d) + 10 < 2 ^ 64"
    and none: "d_controller_lease d = None" and open_phase: "\<not> is_terminal (d_phase d)"
    and token: "\<And>t. d_last_fencing_token d = Some t \<Longrightarrow> \<not> token \<le> t"
  shows "can_go_live d"
proof (cases "\<exists>f. d_phase d = RuntimePending (PC_Blocked f)")
  case True
  then obtain f where f: "d_phase d = RuntimePending (PC_Blocked f)" by blast
  then have failure: "d_last_runtime_failure d = Some (FD_Blocked f)"
    using inv by (simp add: invariant_defs phase_evidence_valid_def pending_condition_valid_def)
  let ?l = "fresh_lease token (d_requested_at d) d"
  let ?e = "(install_lease ?l d)\<lparr> d_phase := RuntimePending PC_Ready \<rparr>"
  define r where "r = \<lparr> rb_expected_revision = d_revision d, rb_expected_failure_id = rf_failure_id f,
    rb_controller_id = ''controller'', rb_fencing_token = token, rb_now = d_requested_at d,
    rb_expires_at = d_requested_at d + 1 \<rparr>"
  have "snd (perform (RecoverBlocked r) d) = snd (bump_revision ?e)"
    using f failure none fresh_lease_granted [OF none open_phase _ token, of "d_requested_at d"]
    by (simp add: r_def recover_blocked_def require_revision_def Let_def fresh_lease_def)
  from held_after_lease [OF inv _ this, of 9] room
  have "held 9 (snd (perform (RecoverBlocked r) d))"
    "d_phase (snd (perform (RecoverBlocked r) d)) = RuntimePending PC_Ready"
    by (simp_all add: install_lease_def)
  then have "can_go_live (snd (perform (RecoverBlocked r) d))" by (intro live_from_held) simp_all
  then show ?thesis by (rule go_live_step)
next
  case False
  define now where "now = (case d_phase d of
    RuntimePending (PC_Retryable f n t) \<Rightarrow> max t (d_requested_at d) | _ \<Rightarrow> d_requested_at d)"
  let ?l = "fresh_lease token now d"
  have "d_requested_at d \<le> now"
    by (simp add: now_def split: deployment_phase.split runtime_pending_condition.split)
  then have "snd (perform (AcquireLease ?l) d) = snd (bump_revision (install_lease ?l d))"
    using False none fresh_lease_granted [OF none open_phase _ token, of now]
    by (simp add: acquire_lease_def lease_matches_def)
       (simp add: now_def fresh_lease_def split: deployment_phase.split runtime_pending_condition.split)
  from held_after_lease [OF inv _ this, of 9] room
  have "held 9 (snd (perform (AcquireLease ?l) d))"
    "d_phase (snd (perform (AcquireLease ?l) d)) = d_phase d"
    by (simp_all add: install_lease_def)
  then have "can_go_live (snd (perform (AcquireLease ?l) d))"
    using open_phase by (intro live_from_held) simp_all
  then show ?thesis by (rule go_live_step)
qed


section \<open>An example history\<close>

definition ex_ident :: deployment_identity where
  "ex_ident = \<lparr> id_deployment_id = ''deploy-1'', id_tenant_id = ''tenant'',
     id_installation_id = ''installation'', id_promotion_id = replicate 64 (CHR ''a''),
     id_activation_request_id = ''activation-1'' \<rparr>"

definition ex_target :: deployment_target where
  "ex_target = \<lparr> tg_guild_id = GuildId 7, tg_ruleset_key = ''rules'', tg_version = 2,
     tg_content_hash = replicate 32 0, tg_binding_revision = 1, tg_binding_fingerprint = ''fp'' \<rparr>"

definition ex_requested :: runtime_deployment where
  "ex_requested = \<lparr> d_identity = ex_ident, d_target = ex_target, d_runtime_generation = 3,
     d_previous_runtime = None, d_requested_at = 100, d_revision = 1, d_phase = Requested,
     d_controller_lease = None, d_last_fencing_token = None, d_preflight = None, d_drain = None,
     d_activation = None, d_panel_certificate = None, d_gateway_ready = None, d_live = None,
     d_last_live_recovery = None, d_last_runtime_failure = None \<rparr>"

definition ex_guard :: "deployment_revision \<Rightarrow> fencing_token \<Rightarrow> command_guard" where
  "ex_guard revision token = \<lparr> cg_expected_revision = revision, cg_controller_id = ''controller'',
     cg_fencing_token = token, cg_runtime_generation = 3, cg_now = 110 \<rparr>"

definition ex_lease :: lease_request where
  "ex_lease = \<lparr> lq_expected_revision = 1, lq_controller_id = ''controller'', lq_fencing_token = 5,
     lq_now = 101, lq_expires_at = 900 \<rparr>"

definition ex_panels :: panel_certificate where
  "ex_panels = \<lparr> pl_certificate_id = ''certificate'', pl_report_digest = replicate 64 (CHR ''0''),
     pl_target = ex_target, pl_runtime_generation = 3, pl_process_instance_id = ''process-1'',
     pl_declared_count = 3, pl_installed_count = 2, pl_unchanged_count = 1,
     pl_skipped_transient_count = 0, pl_skipped_unresolved_channel_count = 0, pl_failed_count = 0,
     pl_ambiguous_outcome_count = 0, pl_stale_message_cleanup_pending_count = 0,
     pl_orphan_message_cleanup_pending_count = 0, pl_reposted_old_message_cleanup_pending_count = 0,
     pl_reconciled_at = 115 \<rparr>"

definition ex_gateway :: gateway_ready_attestation where
  "ex_gateway = \<lparr> gw_target = ex_target, gw_runtime_generation = 3,
     gw_process_instance_id = ''process-1'', gw_kind = GW_DiscordReady, gw_ready_at = 116 \<rparr>"

definition ex_history :: "deployment_command list" where
  "ex_history =
     [AcquireLease ex_lease,
      AcceptPreflight (ex_guard 2 5) \<lparr> pf_target = ex_target, pf_runtime_generation = 3,
        pf_observed_runtime = None, pf_checked_at = 111 \<rparr>,
      RequestDrain (ex_guard 3 5),
      AcceptDrain (ex_guard 4 5) \<lparr> dn_previous_runtime = None, dn_target_runtime_generation = 3,
        dn_drained_at = 112 \<rparr>,
      BeginActivation (ex_guard 5 5),
      AcceptActivation (ex_guard 6 5) \<lparr> av_activation_request_id = ''activation-1'',
        av_target = ex_target, av_runtime_generation = 3, av_kind = AO_Activated,
        av_activated_at = 113 \<rparr>,
      BeginPanelReconciliation (ex_guard 7 5),
      AcceptPanelCertificate (ex_guard 8 5) ex_panels,
      CertifyLive (ex_guard 9 5) ex_gateway 117]"

lemmas example_defs = ex_ident_def ex_target_def ex_requested_def ex_guard_def ex_lease_def
  ex_panels_def ex_gateway_def ex_history_def

lemma ex_requested_reachable: "reachable ex_requested"
  by (rule reachable.requested [of ex_ident ex_target 3 None 100])
     (simp add: request_def ex_requested_def revision_FIRST_def)

lemma ex_live: "d_phase (perform_all ex_history ex_requested) = Live"
  by (simp add: example_defs transition_defs require_guard_def require_revision_def require_phase_def
      lease_matches_def validate_lease_request_def install_lease_def has_reached_def attestation_checks
      bump_revision_def revision_next_def checked_add_def validate_panel_eligibility_def)

lemmas step_eval = transition_defs require_guard_def require_revision_def require_phase_def
  lease_matches_def validate_lease_request_def install_lease_def has_reached_def attestation_checks
  bump_revision_def revision_next_def checked_add_def

definition ex_leased :: runtime_deployment where
  "ex_leased = ex_requested\<lparr> d_revision := 2, d_last_fencing_token := Some 5,
     d_controller_lease := Some \<lparr> cl_controller_id = ''controller'', cl_fencing_token = 5,
       cl_acquired_at = 101, cl_expires_at = 900 \<rparr> \<rparr>"

lemma ex_leased_eq: "perform (AcquireLease ex_lease) ex_requested = (Ok (Applied 2), ex_leased)"
  by (simp add: example_defs ex_leased_def step_eval)

lemma ex_leased_reachable: "reachable ex_leased"
  using reachable.performed [OF ex_requested_reachable, of "AcquireLease ex_lease"]
  by (simp add: ex_leased_eq del: perform.simps)

definition ex_cancelled :: runtime_deployment where
  "ex_cancelled = ex_leased\<lparr> d_revision := 3, d_controller_lease := None,
     d_phase := Cancelled ''obsolete'' 120 \<rparr>"

lemma ex_cancelled_eq:
  "perform (Cancel (ex_guard 2 5) ''obsolete'' 120) ex_leased = (Ok (Applied 3), ex_cancelled)"
proof -
  have "validate_reason ''obsolete'' = Ok ()" by code_simp
  then show ?thesis by (simp add: example_defs ex_leased_def ex_cancelled_def step_eval)
qed

theorem snapshot_round_trip_witness:
  "d_phase (perform_all ex_history ex_requested) = Live
   \<and> restore (snapshot (perform_all ex_history ex_requested)) = Ok (perform_all ex_history ex_requested)"
  using snapshot_round_trip [OF reachable_all [OF ex_requested_reachable]] ex_live by blast

theorem stale_controller_fenced_witness:
  "d_last_fencing_token ex_leased = Some 5
   \<and> snd (perform (Cancel (ex_guard 10 4) ''mine'' 130) (perform_all ex_history ex_leased))
       = perform_all ex_history ex_leased"
  using stale_controller_fenced [OF ex_leased_reachable, of 5 "Cancel (ex_guard 10 4) ''mine'' 130" 4]
  by (simp add: ex_leased_def ex_guard_def)

theorem live_has_evidence_witness:
  "\<exists>panel live. d_panel_certificate (perform_all ex_history ex_requested) = Some panel
     \<and> d_live (perform_all ex_history ex_requested) = Some (live :: live_attestation)
     \<and> pl_reconciled_at panel \<le> lv_certified_at live"
  using live_has_evidence [OF reachable_all [OF ex_requested_reachable] ex_live] by fastforce


theorem closed_is_final_witness:
  "is_closed (d_phase ex_cancelled) \<and> perform_all ex_history ex_cancelled = ex_cancelled"
proof -
  have "reachable ex_cancelled"
    using reachable.performed [OF ex_leased_reachable, of "Cancel (ex_guard 2 5) ''obsolete'' 120"]
    by (simp add: ex_cancelled_eq del: perform.simps)
  from closed_is_final [OF this, of ex_history] show ?thesis
    by (simp add: ex_cancelled_def ex_history_def del: perform_all.simps)
qed


section \<open>A gap of the snapshot validation\<close>

definition ex_early_gateway :: gateway_ready_attestation where
  "ex_early_gateway = ex_gateway\<lparr> gw_ready_at := 114 \<rparr>"

definition ex_activation :: activation_attestation where
  "ex_activation = \<lparr> av_activation_request_id = ''activation-1'', av_target = ex_target,
     av_runtime_generation = 3, av_kind = AO_Activated, av_activated_at = 113 \<rparr>"

definition ex_misordered :: runtime_deployment where
  "ex_misordered = ex_requested\<lparr> d_revision := 10, d_phase := Live, d_last_fencing_token := Some 5,
     d_preflight := Some \<lparr> pf_target = ex_target, pf_runtime_generation = 3,
       pf_observed_runtime = None, pf_checked_at = 111 \<rparr>,
     d_drain := Some \<lparr> dn_previous_runtime = None, dn_target_runtime_generation = 3,
       dn_drained_at = 112 \<rparr>,
     d_activation := Some ex_activation,
     d_panel_certificate := Some ex_panels, d_gateway_ready := Some ex_early_gateway,
     d_live := Some \<lparr> lv_target = ex_target, lv_runtime_generation = 3,
       lv_process_instance_id = ''process-1'', lv_activation = ex_activation,
       lv_panel_certificate = ex_panels, lv_gateway_ready = ex_early_gateway,
       lv_certified_at = 117 \<rparr> \<rparr>"

definition ex_recovery :: recover_live_request where
  "ex_recovery = \<lparr> rl_expected_revision = 10, rl_expected_runtime_generation = 3,
     rl_expected_process_instance_id = ''process-1'', rl_kind = LL_ServingDisconnected,
     rl_evidence_at = 120, rl_recovered_at = 121 \<rparr>"


end
