(* ===== verification/Automation_State.thy ===== *)
theory Automation_State
  imports Rust_Text Ordered_Map Desired_State
begin

text \<open>
  The interaction rule sets of the crate \<open>automation-state\<close> (\<open>rule.rs\<close>, \<open>panel.rs\<close>, \<open>modal.rs\<close>) and the
  normalisation of modal inputs in \<open>automation-core/src/modal_input.rs\<close>.
\<close>

section \<open>Rule sets\<close>

type_synonym created_ref = string
type_synonym instance_kind = string

datatype instance_ref = IR_Event | IR_Created created_ref

datatype role_ref =
  RR_Existing resource_key
| RR_Created created_ref
| RR_Instance instance_ref string

datatype channel_ref = CR_Existing resource_key | CR_Created created_ref

datatype overwrite_target_spec = OTS_Everyone | OTS_Role role_ref

datatype action_target = AT_Actor

record instance_resource_refs =
  irr_roles :: "(string, created_ref) bmap"
  irr_channels :: "(string, created_ref) bmap"
  irr_messages :: "(string, created_ref) bmap"

datatype button_route = BR_Static string | BR_InstanceAction instance_ref string

record button_spec =
  bs_label :: string
  bs_route :: button_route

record panel_spec =
  ps_key :: string
  ps_channel :: resource_key
  ps_content :: string
  ps_buttons :: "button_spec list"

datatype trigger_spec =
  TS_ButtonClick string
| TS_ModalSubmit string
| TS_InstanceAction string

datatype action_spec =
  AS_GrantRole role_ref action_target
| AS_RespondEphemeral string
| AS_OpenModal string
| AS_CreateChannel string string
| AS_CreateRole string string
| AS_UpsertOverwrite channel_ref overwrite_target_spec permissions permissions
| AS_PostPanel string channel_ref string "button_spec list"
| AS_DeferEphemeral
| AS_EditResponse string
| AS_RegisterInstance string instance_kind instance_resource_refs
| AS_TeardownInstance instance_ref

record interaction_rule =
  ir_key :: string
  ir_trigger :: trigger_spec
  ir_actions :: "action_spec list"

section \<open>Modals\<close>

datatype modal_field_style = MFS_Short | MFS_Paragraph

datatype modal_input_policy = MIP_Preserve | MIP_TrimUnicodeWhitespace

fun normalize_policy :: "modal_input_policy \<Rightarrow> string \<Rightarrow> string" where
  "normalize_policy MIP_Preserve value = value"
| "normalize_policy MIP_TrimUnicodeWhitespace value = trim value"

type_synonym u16 = "16 word"

record modal_field_spec =
  mf_key :: string
  mf_label :: string
  mf_style :: modal_field_style
  mf_required :: bool
  mf_min_length :: "u16 option"
  mf_max_length :: "u16 option"
  mf_input_policy :: modal_input_policy

record modal_spec =
  ms_key :: string
  ms_title :: string
  ms_fields :: "modal_field_spec list"

record interaction_rule_set =
  irs_version :: u32
  irs_panels :: "panel_spec list"
  irs_modals :: "modal_spec list"
  irs_rules :: "interaction_rule list"

definition DISCORD_MODAL_INPUT_MAX_LENGTH :: u16 where
  "DISCORD_MODAL_INPUT_MAX_LENGTH = 4000"

definition modal_input_utf16_len :: "string \<Rightarrow> nat" where
  "modal_input_utf16_len value = utf16_len value"

section \<open>Normalisation of modal inputs\<close>

datatype modal_input_error =
  MI_ModalDefinitionMissing string
| MI_RequiredMissing string string
| MI_Unexpected string string
| MI_TooShort string string u16 nat
| MI_TooLong string string u16 nat

fun modal_input_error_code :: "modal_input_error \<Rightarrow> string" where
  "modal_input_error_code (MI_ModalDefinitionMissing _) = ''MODAL_INPUT_DEFINITION_MISSING''"
| "modal_input_error_code (MI_RequiredMissing _ _) = ''MODAL_INPUT_MISSING''"
| "modal_input_error_code (MI_Unexpected _ _) = ''MODAL_INPUT_UNEXPECTED''"
| "modal_input_error_code (MI_TooShort _ _ _ _) = ''MODAL_INPUT_TOO_SHORT''"
| "modal_input_error_code (MI_TooLong _ _ _ _) = ''MODAL_INPUT_TOO_LONG''"

type_synonym input_map = "(string, string) bmap"

text \<open>One iteration of the loop over the fields: the value that is inserted for the field.\<close>

definition normalize_field ::
  "string \<Rightarrow> modal_field_spec \<Rightarrow> input_map \<Rightarrow> modal_input_error + string" where
  "normalize_field modal field inputs =
     (case bm_get inputs (mf_key field) of
        None \<Rightarrow>
          (if mf_required field then Inl (MI_RequiredMissing modal (mf_key field)) else Inr [])
      | Some raw \<Rightarrow>
          (let value = normalize_policy (mf_input_policy field) raw in
           if value = [] then
             (if mf_required field then Inl (MI_RequiredMissing modal (mf_key field)) else Inr value)
           else
             let actual_length = modal_input_utf16_len value;
                 max_length = (case mf_max_length field of
                   None \<Rightarrow> DISCORD_MODAL_INPUT_MAX_LENGTH | Some m \<Rightarrow> m)
             in (case mf_min_length field of
                   Some min_length \<Rightarrow>
                     (if actual_length < unat min_length
                      then Inl (MI_TooShort modal (mf_key field) min_length actual_length)
                      else if actual_length > unat max_length
                      then Inl (MI_TooLong modal (mf_key field) max_length actual_length)
                      else Inr value)
                 | None \<Rightarrow>
                     (if actual_length > unat max_length
                      then Inl (MI_TooLong modal (mf_key field) max_length actual_length)
                      else Inr value))))"

fun normalize_fields ::
  "string \<Rightarrow> modal_field_spec list \<Rightarrow> input_map \<Rightarrow> input_map \<Rightarrow> modal_input_error + input_map" where
  "normalize_fields modal [] inputs normalized = Inr normalized"
| "normalize_fields modal (field # fs) inputs normalized =
     (case normalize_field modal field inputs of
        Inl e \<Rightarrow> Inl e
      | Inr value \<Rightarrow>
          normalize_fields modal fs inputs (bm_insert (mf_key field) value normalized))"

definition normalize_inputs :: "modal_spec \<Rightarrow> input_map \<Rightarrow> modal_input_error + input_map" where
  "normalize_inputs modal inputs =
     (case find (\<lambda>k. k \<notin> mf_key ` set (ms_fields modal)) (map fst inputs) of
        Some field \<Rightarrow> Inl (MI_Unexpected (ms_key modal) field)
      | None \<Rightarrow> normalize_fields (ms_key modal) (ms_fields modal) inputs [])"

type_synonym instance_id = string

datatype event_kind =
  EK_ButtonClick string
| EK_ModalSubmit string input_map
| EK_InstanceAction instance_id string

record runtime_event =
  re_guild_id :: guild_id
  re_actor :: user_id
  re_kind :: event_kind

definition normalize_modal_submit_inputs ::
  "runtime_event \<Rightarrow> interaction_rule_set \<Rightarrow> modal_input_error + input_map option" where
  "normalize_modal_submit_inputs event ruleset =
     (case re_kind event of
        EK_ModalSubmit modal inputs \<Rightarrow>
          (if \<not> list_ex (\<lambda>rule. ir_trigger rule = TS_ModalSubmit modal) (irs_rules ruleset)
           then Inr None
           else
             (case find (\<lambda>candidate. ms_key candidate = modal) (irs_modals ruleset) of
                None \<Rightarrow> Inl (MI_ModalDefinitionMissing modal)
              | Some specification \<Rightarrow>
                  (case normalize_inputs specification inputs of
                     Inl e \<Rightarrow> Inl e
                   | Inr normalized \<Rightarrow> Inr (Some normalized))))
      | _ \<Rightarrow> Inr None)"

section \<open>Properties of the normalisation\<close>

text \<open>What a modal field requires: the value it ends up with and whether that value is acceptable.\<close>

definition field_value :: "modal_field_spec \<Rightarrow> input_map \<Rightarrow> string" where
  "field_value field inputs =
     (case bm_get inputs (mf_key field) of
        None \<Rightarrow> [] | Some raw \<Rightarrow> normalize_policy (mf_input_policy field) raw)"

definition field_accepts :: "modal_field_spec \<Rightarrow> string \<Rightarrow> bool" where
  "field_accepts field value \<longleftrightarrow>
     (if value = [] then \<not> mf_required field
      else (\<forall>m. mf_min_length field = Some m \<longrightarrow> unat m \<le> utf16_len value)
        \<and> utf16_len value \<le> (case mf_max_length field of None \<Rightarrow> 4000 | Some m \<Rightarrow> unat m))"

lemma normalize_field_Inr:
  "normalize_field modal field inputs = Inr v \<longleftrightarrow>
     v = field_value field inputs \<and> field_accepts field v"
  by (auto simp: normalize_field_def field_value_def field_accepts_def modal_input_utf16_len_def
      DISCORD_MODAL_INPUT_MAX_LENGTH_def Let_def split: option.splits if_splits)

lemma normalize_field_sum:
  "(\<exists>v. normalize_field modal field inputs = Inr v) \<longleftrightarrow> field_accepts field (field_value field inputs)"
  by (auto simp: normalize_field_Inr)

lemma normalize_fields_Inr:
  assumes "bm_invar acc"
  shows "normalize_fields modal fs inputs acc = Inr n \<longleftrightarrow>
     (\<forall>f \<in> set fs. field_accepts f (field_value f inputs))
     \<and> n = fold (\<lambda>f. bm_insert (mf_key f) (field_value f inputs)) fs acc"
  using assms
proof (induction fs arbitrary: acc)
  case (Cons f fs)
  show ?case
  proof (cases "normalize_field modal f inputs")
    case (Inl e)
    then have "\<not> field_accepts f (field_value f inputs)" using normalize_field_sum by (metis Inl_Inr_False)
    with Inl show ?thesis by simp
  next
    case (Inr v)
    then have "v = field_value f inputs" "field_accepts f (field_value f inputs)"
      by (auto simp: normalize_field_Inr)
    with Inr Cons show ?thesis by (simp add: bm.invar_insert)
  qed
qed auto

lemma fold_insert_invar:
  "bm_invar acc \<Longrightarrow> bm_invar (fold (\<lambda>f. bm_insert (key f) (g f)) fs acc)"
  by (induction fs arbitrary: acc) (simp_all add: bm.invar_insert)

lemma fold_insert_get:
  "distinct (map key fs) \<Longrightarrow>
   bm_get (fold (\<lambda>f. bm_insert (key f) (g f)) fs acc) k =
     (case find (\<lambda>f. key f = k) fs of Some f \<Rightarrow> Some (g f) | None \<Rightarrow> bm_get acc k)"
proof (induction fs arbitrary: acc)
  case (Cons f fs)
  have "find (\<lambda>x. key x = key f) fs = None"
    using Cons.prems by (auto simp: find_None_iff image_iff)
  with Cons show ?case by (auto simp: bm_get_insert split: option.split)
qed simp

text \<open>A modal with one required field of two to four code units, trimmed before it is measured.\<close>

definition example_field :: modal_field_spec where
  "example_field = \<lparr> mf_key = ''name'', mf_label = ''Name'', mf_style = MFS_Short, mf_required = True,
     mf_min_length = Some 2, mf_max_length = Some 4, mf_input_policy = MIP_TrimUnicodeWhitespace \<rparr>"

definition example_modal :: modal_spec where
  "example_modal = \<lparr> ms_key = ''room'', ms_title = ''Room'', ms_fields = [example_field] \<rparr>"

lemma example_modal_fields: "ms_fields example_modal = [example_field]" "mf_key example_field = ''name''"
  by (simp_all add: example_modal_def example_field_def)

lemma trim_example: "trim '' abc '' = ''abc''"
proof -
  have "trim_start '' abc '' = trim_start ''abc ''"
    by (subst trim_start.simps, simp add: leading_whitespace_def is_whitespace_def)
  moreover have "trim_start ''abc '' = ''abc ''"
    by (subst trim_start.simps, simp add: leading_whitespace_def is_whitespace_def)
  moreover have "trim_end ''abc '' = trim_end ''abc''"
    by (subst trim_end.simps, simp add: trailing_whitespace_def is_whitespace_def)
  moreover have "trim_end ''abc'' = ''abc''"
    by (subst trim_end.simps, simp add: trailing_whitespace_def is_whitespace_def)
  ultimately show ?thesis by (simp add: trim_def)
qed

lemma example_value: "field_value example_field [(''name'', '' abc '')] = ''abc''"
  by (simp add: field_value_def example_field_def trim_example)

lemma example_accepts: "field_accepts example_field ''abc''"
  by (simp add: field_accepts_def example_field_def)

text \<open>C25: The normalisation of a submitted modal succeeds exactly when every submitted input is a
  declared field and every field accepts its value: an absent or, after the field's trimming policy,
  empty value only if the field is optional, and otherwise a value whose UTF-16 length lies within the
  declared bounds (at most 4000 by default). The result then maps every declared field, and nothing
  else, to that value.\<close>

theorem normalize_inputs_exact:
  assumes "distinct (map mf_key (ms_fields modal))"
  shows "((\<exists>n. normalize_inputs modal inputs = Inr n) \<longleftrightarrow>
        (\<forall>k \<in> fst ` set inputs. k \<in> mf_key ` set (ms_fields modal))
        \<and> (\<forall>f \<in> set (ms_fields modal). field_accepts f (field_value f inputs)))
    \<and> (\<forall>n. normalize_inputs modal inputs = Inr n \<longrightarrow>
        bm_invar n
        \<and> (\<forall>f \<in> set (ms_fields modal). bm_get n (mf_key f) = Some (field_value f inputs))
        \<and> (\<forall>k. k \<notin> mf_key ` set (ms_fields modal) \<longrightarrow> bm_get n k = None))"
proof -
  let ?r = "fold (\<lambda>f. bm_insert (mf_key f) (field_value f inputs)) (ms_fields modal) []"
  have eq: "normalize_inputs modal inputs = Inr n \<longleftrightarrow>
      (\<forall>k \<in> fst ` set inputs. k \<in> mf_key ` set (ms_fields modal))
      \<and> (\<forall>f \<in> set (ms_fields modal). field_accepts f (field_value f inputs)) \<and> n = ?r" for n
    using normalize_fields_Inr [OF bm.invar_empty]
    by (auto simp: normalize_inputs_def find_None_iff find_Some_iff split: option.split)
  have "bm_invar ?r" by (rule fold_insert_invar [OF bm.invar_empty])
  moreover have "bm_get ?r (mf_key f) = Some (field_value f inputs)" if "f \<in> set (ms_fields modal)" for f
    using find_distinct_key [OF assms that] by (simp add: fold_insert_get [OF assms])
  moreover have "bm_get ?r k = None" if "k \<notin> mf_key ` set (ms_fields modal)" for k
  proof -
    have "find (\<lambda>f. mf_key f = k) (ms_fields modal) = None" using that by (auto simp: find_None_iff)
    then show ?thesis by (simp add: fold_insert_get [OF assms])
  qed
  ultimately show ?thesis by (simp add: eq)
qed

theorem normalize_inputs_exact_witness:
  "\<exists>n. normalize_inputs example_modal [(''name'', '' abc '')] = Inr n \<and> bm_get n ''name'' = Some ''abc''"
  using normalize_inputs_exact [of example_modal "[(''name'', '' abc '')]"] example_value example_accepts
  unfolding example_modal_fields by (auto simp: example_modal_fields)

end
