(* ===== verification/Rust_Str.thy ===== *)
theory Rust_Str
  imports Rust_Text "HOL-Library.Sublist"
begin

text \<open>
  More of Rust's \<open>str\<close>, as \<open>automation-core/src/template.rs\<close> and the specification validators use it:
  searching, replacing, splitting into characters, counting characters, and the class of control
  characters. All patterns are ASCII, so that searching the bytes of a string is searching the string.
\<close>

definition starts_with :: "string \<Rightarrow> string \<Rightarrow> bool" where
  "starts_with s pat \<longleftrightarrow> prefix pat s"

definition strip_prefix :: "string \<Rightarrow> string \<Rightarrow> string option" where
  "strip_prefix s pat = (if starts_with s pat then Some (drop (length pat) s) else None)"

fun find_str :: "string \<Rightarrow> string \<Rightarrow> nat option" where
  "find_str [] pat = (if pat = [] then Some 0 else None)"
| "find_str (c # s) pat =
     (if starts_with (c # s) pat then Some 0 else map_option Suc (find_str s pat))"

text \<open>\<open>str::replace\<close> with a non-empty pattern: from left to right, without overlaps.\<close>

function replace_str :: "string \<Rightarrow> string \<Rightarrow> string \<Rightarrow> string" where
  "replace_str [] pat to = []"
| "replace_str (c # s) pat to =
     (if pat \<noteq> [] \<and> starts_with (c # s) pat
      then to @ replace_str (drop (length pat) (c # s)) pat to
      else c # replace_str s pat to)"
  by pat_completeness auto
termination
  by (relation "measure (\<lambda>(s, pat, to). length s)") auto

declare replace_str.simps(2) [simp del]

definition is_continuation :: "char \<Rightarrow> bool" where
  "is_continuation b \<longleftrightarrow> 0x80 \<le> (of_char b :: nat) \<and> (of_char b :: nat) < 0xC0"

text \<open>\<open>str::chars\<close>, each character as its UTF-8 encoding: a first byte and its continuation bytes.\<close>

function utf8_chars :: "string \<Rightarrow> string list" where
  "utf8_chars [] = []"
| "utf8_chars (b # s) =
     (b # takeWhile is_continuation s) # utf8_chars (dropWhile is_continuation s)"
  by pat_completeness auto
termination
  by (relation "measure length") (auto simp: le_imp_less_Suc length_dropWhile_le)

definition chars_count :: "string \<Rightarrow> nat" where
  "chars_count s = length (utf8_chars s)"

text \<open>\<open>char::is_control\<close>: U+0000 to U+001F and U+007F to U+009F.\<close>

definition is_control :: "string \<Rightarrow> bool" where
  "is_control ch =
     (case map of_char ch :: nat list of
        [b] \<Rightarrow> b < 32 \<or> b = 127
      | [b1, b2] \<Rightarrow> b1 = 0xC2 \<and> 0x80 \<le> b2 \<and> b2 \<le> 0x9F
      | _ \<Rightarrow> False)"

text \<open>\<open>split_whitespace\<close> followed by \<open>join\<close>: the words of a list of characters.\<close>

fun split_whitespace :: "string list \<Rightarrow> string \<Rightarrow> string list" where
  "split_whitespace [] word = (if word = [] then [] else [word])"
| "split_whitespace (ch # chs) word =
     (if is_whitespace ch
      then (if word = [] then [] else [word]) @ split_whitespace chs []
      else split_whitespace chs (word @ ch))"

fun join :: "string \<Rightarrow> string list \<Rightarrow> string" where
  "join sep [] = []"
| "join sep [w] = w"
| "join sep (w # ws) = w @ sep @ join sep ws"

section \<open>Occurrences\<close>

abbreviation contains :: "string \<Rightarrow> string \<Rightarrow> bool" where
  "contains s pat \<equiv> sublist pat s"

lemma contains_appendI: "contains s x \<Longrightarrow> contains (us @ s) x"
  by (meson sublist_append_leftI sublist_order.order_trans)

lemma contains_append:
  "contains (us @ s) x \<Longrightarrow> contains s x \<or> (\<exists>i < length us. prefix x (drop i us @ s))"
proof (induction us)
  case (Cons u us)
  then have "prefix x (u # us @ s) \<or> contains (us @ s) x" by (simp add: sublist_Cons_right)
  then show ?case
  proof
    assume "prefix x (u # us @ s)"
    then have "\<exists>i < length (u # us). prefix x (drop i (u # us) @ s)" by (intro exI [of _ 0]) simp
    then show ?thesis ..
  next
    assume "contains (us @ s) x"
    with Cons.IH consider "contains s x" | i where "i < length us" "prefix x (drop i us @ s)" by blast
    then show ?thesis
    proof cases
      case 2
      then have "\<exists>i < length (u # us). prefix x (drop i (u # us) @ s)" by (intro exI [of _ "Suc i"]) simp
      then show ?thesis ..
    qed simp
  qed
qed simp

text \<open>Inserting bytes \<open>z\<close> after the first character of every match keeps what a text contains as long as
  the inserted bytes cannot be part of it, and leaves no match.\<close>

lemma replace_match:
  assumes "prefix (c # q) (b # s)"
  shows "replace_str (b # s) (c # q) to = to @ replace_str (drop (length q) s) (c # q) to"
  using assms unfolding starts_with_def [symmetric] by (subst replace_str.simps) simp

lemma match_split: "prefix (c # q) (b # s) \<Longrightarrow> c # q @ drop (length q) s = b # s"
  by (auto elim!: prefixE)

lemma replace_no_match:
  "\<not> prefix pat (b # s) \<Longrightarrow> replace_str (b # s) pat to = b # replace_str s pat to"
  by (subst replace_str.simps) (simp add: starts_with_def)

lemma prefix_replace:
  assumes "z \<noteq> []" "hd z \<notin> set x" "prefix x (u @ replace_str s (c # q) (c # z @ q))"
  shows "prefix x (u @ s)"
  using assms(2,3)
proof (induction u arbitrary: x)
  case Nil
  then show ?case
  proof (induction s arbitrary: x)
    case (Cons b s)
    show ?case
    proof (cases "prefix (c # q) (b # s)")
      case True
      with Cons.prems assms(1) show ?thesis
        by (cases x; cases "tl x"; cases z) (auto simp: replace_match)
    next
      case False
      with Cons.prems Cons.IH show ?thesis by (cases x) (auto simp: replace_no_match)
    qed
  qed simp
next
  case (Cons b u)
  then show ?case by (cases x) auto
qed

lemma contains_inserted:
  assumes "contains (c # z @ u) x" "z \<noteq> []" "hd z \<notin> set x" "x \<noteq> []" "hd x \<notin> set z"
  shows "x = [c] \<or> contains u x"
proof -
  from assms(1) have "prefix x (c # z @ u) \<or> contains (z @ u) x" by (simp add: sublist_Cons_right)
  then show ?thesis
  proof
    assume "prefix x (c # z @ u)"
    with assms show ?thesis by (cases x; cases "tl x"; cases z) auto
  next
    assume "contains (z @ u) x"
    then consider "contains u x" | i where "i < length z" "prefix x (drop i z @ u)"
      using contains_append by blast
    then show ?thesis
    proof cases
      case 2
      then have "hd x = z ! i" using assms(4) by (cases x) (auto simp: Cons_nth_drop_Suc [symmetric])
      with 2 assms(5) show ?thesis by auto
    qed simp
  qed
qed

lemma contains_replace:
  assumes "z \<noteq> []" "hd z \<notin> set x" "x \<noteq> []" "hd x \<notin> set z"
    and "contains (replace_str s (c # q) (c # z @ q)) x"
  shows "contains s x"
  using assms(5)
proof (induction s "c # q" "c # z @ q" rule: replace_str.induct)
  case (2 b s)
  show ?case
  proof (cases "prefix (c # q) (b # s)")
    case True
    let ?rest = "replace_str (drop (length q) s) (c # q) (c # z @ q)"
    from 2 True have "contains (c # z @ q @ ?rest) x" by (simp add: replace_match)
    then consider "x = [c]" | "contains (q @ ?rest) x"
      using contains_inserted [OF _ assms(1-4)] by blast
    then show ?thesis
    proof cases
      case 1
      with True show ?thesis by (auto simp: sublist_Cons_right)
    next
      case 2: 2
      then consider "contains ?rest x" | i where "prefix x (drop i q @ ?rest)" using contains_append by blast
      then have "contains (q @ drop (length q) s) x"
      proof cases
        case 1
        with "2.hyps"(1) True have "contains (drop (length q) s) x" by (simp add: starts_with_def)
        then show ?thesis by (rule contains_appendI)
      next
        case 2
        then have "prefix x (drop i q @ drop (length q) s)"
          by (rule prefix_replace [OF assms(1,2)])
        then have "contains (take i q @ drop i q @ drop (length q) s) x"
          by (intro contains_appendI prefix_imp_sublist)
        then show ?thesis by (simp only: append.assoc [symmetric] append_take_drop_id)
      qed
      then show ?thesis unfolding match_split [OF True, symmetric] by (simp add: sublist_Cons_right)
    qed
  next
    case False
    with 2 have "contains (b # replace_str s (c # q) (c # z @ q)) x" by (simp add: replace_no_match)
    then consider "prefix x (b # replace_str s (c # q) (c # z @ q))"
      | "contains (replace_str s (c # q) (c # z @ q)) x" by (auto simp: sublist_Cons_right)
    then show ?thesis
    proof cases
      case 1
      then have "prefix x (b # s)" using prefix_replace [OF assms(1,2), of "[b]" s c q] by simp
      then show ?thesis by (simp add: sublist_Cons_right)
    next
      case 2: 2
      with "2.hyps"(2) False show ?thesis by (simp add: starts_with_def sublist_Cons_right)
    qed
  qed
qed simp

lemma replace_removes:
  assumes "z \<noteq> []" "hd z \<notin> set (c # q)" "c \<notin> set z" "c \<notin> set q" "q \<noteq> []"
  shows "\<not> contains (replace_str s (c # q) (c # z @ q)) (c # q)"
proof (induction s "c # q" "c # z @ q" rule: replace_str.induct)
  case (2 b s)
  show ?case
  proof (cases "prefix (c # q) (b # s)")
    case True
    let ?rest = "replace_str (drop (length q) s) (c # q) (c # z @ q)"
    have rest: "\<not> contains ?rest (c # q)" using 2 True by (simp add: starts_with_def)
    have "\<not> contains (q @ ?rest) (c # q)"
    proof
      assume "contains (q @ ?rest) (c # q)"
      with rest obtain i where "i < length q" "prefix (c # q) (drop i q @ ?rest)"
        using contains_append by blast
      with assms(4) show False by (auto simp: Cons_nth_drop_Suc [symmetric])
    qed
    with contains_inserted [of "c # q" c z "q @ ?rest"] assms True show ?thesis
      by (auto simp: replace_match)
  next
    case False
    then show ?thesis
      using 2 prefix_replace [of z "c # q" "[b]" s c q] assms
      by (auto simp: replace_no_match starts_with_def sublist_Cons_right)
  qed
qed simp

end
