(* ===== verification/Template.thy ===== *)
theory Template
  imports Rust_Str Ordered_Map
begin

text \<open>
  The message and name templates of \<open>automation-core/src/template.rs\<close>: parsing of \<open>${input.key}\<close>,
  rendering, and the sanitisation of the rendered text for each place it is used in.
\<close>

definition EPHEMERAL_MAX_LEN :: nat where
  "EPHEMERAL_MAX_LEN = 2000"

definition NAME_MAX_LEN :: nat where
  "NAME_MAX_LEN = 100"

datatype sanitize_context = SC_EphemeralMessageContent | SC_ChannelName | SC_RoleName

datatype template_error =
  TE_BadSyntax string
| TE_UnsupportedVariable string
| TE_MissingInput string
| TE_TooLong nat nat
| TE_EmptyAfterSanitize

datatype segment = Seg_Literal string | Seg_Input string

record template_string =
  tpl_segments :: "segment list"

section \<open>Parsing\<close>

lemma find_str_less: "find_str s pat = Some i \<Longrightarrow> pat \<noteq> [] \<Longrightarrow> i < length s"
  by (induction s arbitrary: i) (auto split: if_splits)

function parse_loop :: "string \<Rightarrow> string \<Rightarrow> segment list \<Rightarrow> template_error + segment list" where
  "parse_loop source rest segments =
     (case find_str rest ''${'' of
        None \<Rightarrow> Inr (if rest = [] then segments else segments @ [Seg_Literal rest])
      | Some start \<Rightarrow>
          (let literal = take start rest;
               segments' = (if literal = [] then segments else segments @ [Seg_Literal literal]);
               after = drop (start + 2) rest
           in case find_str after ''}'' of
                None \<Rightarrow> Inl (TE_BadSyntax source)
              | Some stop \<Rightarrow>
                  (let expr = take stop after in
                   case strip_prefix expr ''input.'' of
                     None \<Rightarrow> Inl (TE_UnsupportedVariable expr)
                   | Some key \<Rightarrow>
                       (if key = [] then Inl (TE_BadSyntax source)
                        else parse_loop source (drop (stop + 1) after)
                               (segments' @ [Seg_Input key])))))"
  by pat_completeness auto
termination
  by (relation "measure (\<lambda>(source, rest, segments). length rest)") (auto dest: find_str_less)

declare parse_loop.simps [simp del]

definition parse :: "string \<Rightarrow> template_error + template_string" where
  "parse source =
     (case parse_loop source source [] of
        Inl e \<Rightarrow> Inl e
      | Inr segments \<Rightarrow> Inr \<lparr> tpl_segments = segments \<rparr>)"

definition input_keys :: "template_string \<Rightarrow> string list" where
  "input_keys template =
     List.map_filter (\<lambda>segment. case segment of Seg_Input key \<Rightarrow> Some key | Seg_Literal _ \<Rightarrow> None)
       (tpl_segments template)"

section \<open>Sanitisation\<close>

definition ZERO_WIDTH_SPACE :: string where
  "ZERO_WIDTH_SPACE = [CHR 0xE2, CHR 0x80, CHR 0x8B]"

definition neutralize :: "string \<Rightarrow> string" where
  "neutralize input =
     replace_str
       (replace_str
         (replace_str
           (replace_str input ''@everyone'' (CHR ''@'' # ZERO_WIDTH_SPACE @ ''everyone''))
           ''@here'' (CHR ''@'' # ZERO_WIDTH_SPACE @ ''here''))
         ''<@'' (CHR ''<'' # ZERO_WIDTH_SPACE @ ''@''))
       ''<#'' (CHR ''<'' # ZERO_WIDTH_SPACE @ ''#'')"

definition sanitize_message :: "string \<Rightarrow> string" where
  "sanitize_message input =
     concat (filter (\<lambda>character. character = [CHR 0x0A] \<or> \<not> is_control character)
       (utf8_chars (neutralize input)))"

text \<open>\<open>char::to_lowercase\<close> as far as the loop below can see it: the two characters outside ASCII whose
  lower case contains an ASCII letter are U+0130, which becomes \<open>i\<close> and U+0307, and U+212A, which becomes
  \<open>k\<close>. Every other character outside ASCII stays outside ASCII, and the loop does not distinguish
  such characters, so it stands for its own lower case.\<close>

definition to_lowercase :: "string \<Rightarrow> string list" where
  "to_lowercase ch =
     (case ch of
        [b] \<Rightarrow> (if is_ascii_uppercase b then [[char_of (of_char b + 32 :: nat)]] else [[b]])
      | _ \<Rightarrow>
          (if ch = [CHR 0xC4, CHR 0xB0] then [''i'', [CHR 0xCC, CHR 0x87]]
           else if ch = [CHR 0xE2, CHR 0x84, CHR 0xAA] then [''k'']
           else [ch]))"

fun is_slug_char :: "string \<Rightarrow> bool" where
  "is_slug_char [b] = (is_ascii_lowercase b \<or> is_ascii_digit b)"
| "is_slug_char _ = False"

definition push_slug_char :: "string \<Rightarrow> string \<Rightarrow> string" where
  "push_slug_char character result =
     (if is_slug_char character then result @ character
      else if result \<noteq> [] \<and> last result = CHR ''-'' then result
      else result @ ''-'')"

definition trim_matches :: "char \<Rightarrow> string \<Rightarrow> string" where
  "trim_matches c s = rev (dropWhile (\<lambda>x. x = c) (rev (dropWhile (\<lambda>x. x = c) s)))"

definition sanitize_channel_name :: "string \<Rightarrow> string" where
  "sanitize_channel_name input =
     trim_matches (CHR ''-'') (fold push_slug_char (concat (map to_lowercase (utf8_chars input))) [])"

definition sanitize_role_name :: "string \<Rightarrow> string" where
  "sanitize_role_name input =
     (let cleaned = filter (\<lambda>character. \<not> is_control character) (utf8_chars (neutralize input))
      in join '' '' (split_whitespace (utf8_chars (concat cleaned)) []))"

definition sanitize :: "string \<Rightarrow> sanitize_context \<Rightarrow> template_error + string" where
  "sanitize input context =
     (let result = (case context of
            SC_EphemeralMessageContent \<Rightarrow> sanitize_message input
          | SC_ChannelName \<Rightarrow> sanitize_channel_name input
          | SC_RoleName \<Rightarrow> sanitize_role_name input)
      in if result = [] then Inl TE_EmptyAfterSanitize else Inr result)"

section \<open>Rendering\<close>

definition max_len :: "sanitize_context \<Rightarrow> nat" where
  "max_len context =
     (case context of
        SC_EphemeralMessageContent \<Rightarrow> EPHEMERAL_MAX_LEN
      | SC_ChannelName \<Rightarrow> NAME_MAX_LEN
      | SC_RoleName \<Rightarrow> NAME_MAX_LEN)"

fun render_segments :: "segment list \<Rightarrow> (string, string) bmap \<Rightarrow> string \<Rightarrow> template_error + string" where
  "render_segments [] inputs out = Inr out"
| "render_segments (Seg_Literal body # segments) inputs out = render_segments segments inputs (out @ body)"
| "render_segments (Seg_Input key # segments) inputs out =
     (case bm_get inputs key of
        None \<Rightarrow> Inl (TE_MissingInput key)
      | Some v \<Rightarrow> render_segments segments inputs (out @ v))"

definition render :: "template_string \<Rightarrow> (string, string) bmap \<Rightarrow> sanitize_context \<Rightarrow> template_error + string" where
  "render template inputs context =
     (case render_segments (tpl_segments template) inputs [] of
        Inl e \<Rightarrow> Inl e
      | Inr out \<Rightarrow>
          (case sanitize out context of
             Inl e \<Rightarrow> Inl e
           | Inr sanitized \<Rightarrow>
               (let limit = max_len context; actual = chars_count sanitized
                in if actual > limit then Inl (TE_TooLong limit actual) else Inr sanitized)))"

section \<open>Characters of a text\<close>

lemma concat_utf8_chars [simp]: "concat (utf8_chars s) = s"
  by (induction s rule: utf8_chars.induct) auto

text \<open>A list of chunks that are characters: each is a first byte followed by continuation bytes, and
  the first bytes, with the possible exception of the very first, are not continuation bytes.\<close>

definition chunk :: "string \<Rightarrow> bool" where
  "chunk ch \<longleftrightarrow> ch \<noteq> [] \<and> list_all is_continuation (tl ch)"

definition led :: "string \<Rightarrow> bool" where
  "led ch \<longleftrightarrow> chunk ch \<and> \<not> is_continuation (hd ch)"

lemma takeWhile_led:
  assumes "list_all is_continuation ys" "list_all led chs"
  shows "takeWhile is_continuation (ys @ concat chs) = ys"
    "dropWhile is_continuation (ys @ concat chs) = concat chs"
proof -
  have *: "takeWhile is_continuation (concat chs) = [] \<and> dropWhile is_continuation (concat chs) = concat chs"
    using assms(2) by (cases chs) (auto simp: led_def chunk_def neq_Nil_conv)
  from assms(1) * show "takeWhile is_continuation (ys @ concat chs) = ys"
      "dropWhile is_continuation (ys @ concat chs) = concat chs"
    by (auto simp: list_all_iff takeWhile_append2 dropWhile_append2)
qed

lemma utf8_chars_concat:
  assumes "list_all led chs"
  shows "utf8_chars (concat chs) = chs" "chunk ch \<Longrightarrow> utf8_chars (ch @ concat chs) = ch # chs"
proof -
  have *: "chunk ch \<Longrightarrow> utf8_chars (ch @ concat chs) = ch # utf8_chars (concat chs)" if "list_all led chs" for ch chs
    using takeWhile_led [OF _ that, of "tl ch"] by (cases ch) (auto simp: chunk_def)
  from assms show "utf8_chars (concat chs) = chs"
    by (induction chs) (use * in \<open>auto simp: led_def\<close>)
  with * [OF assms] show "chunk ch \<Longrightarrow> utf8_chars (ch @ concat chs) = ch # chs" by simp
qed

lemma utf8_chars_led:
  "utf8_chars s = [] \<or> (\<exists>ch chs. utf8_chars s = ch # chs \<and> chunk ch \<and> list_all led chs)"
proof (induction s rule: utf8_chars.induct)
  case (2 b s)
  let ?rest = "dropWhile is_continuation s"
  have "list_all led (utf8_chars ?rest)"
  proof (cases "utf8_chars ?rest")
    case (Cons ch chs)
    then have "?rest \<noteq> []" by (metis list.distinct(1) utf8_chars.simps(1))
    then have "\<not> is_continuation (hd ?rest)" by (rule hd_dropWhile)
    moreover have "hd ?rest = hd ch" using Cons by (cases ?rest) auto
    moreover have "chunk ch" "list_all led chs" using 2 Cons by auto
    ultimately show ?thesis by (simp add: Cons led_def [of ch])
  qed simp
  moreover have "list_all is_continuation (takeWhile is_continuation s)"
    by (auto simp: list_all_iff dest: set_takeWhileD)
  ultimately show ?case by (simp add: chunk_def)
qed simp

lemma utf8_chars_filter: "utf8_chars (concat (filter P (utf8_chars s))) = filter P (utf8_chars s)"
proof -
  have led: "list_all led (filter P chs)" if "list_all led chs" for chs
    using that by (auto simp: list_all_iff)
  consider "utf8_chars s = []" | ch chs where "utf8_chars s = ch # chs" "chunk ch" "list_all led chs"
    using utf8_chars_led by blast
  then show ?thesis
    by cases (auto simp: utf8_chars_concat led)
qed

definition control_free :: "string \<Rightarrow> bool" where
  "control_free s \<longleftrightarrow> list_all (\<lambda>ch. ch = [CHR 0x0A] \<or> \<not> is_control ch) (utf8_chars s)"

lemma sanitize_control_free: "control_free (sanitize_message s)"
  by (simp add: control_free_def sanitize_message_def utf8_chars_filter list_all_iff)

lemma sanitize_identity:
  assumes "control_free (neutralize s)"
  shows "sanitize_message s = neutralize s"
proof -
  have "filter (\<lambda>ch. ch = [CHR 0x0A] \<or> \<not> is_control ch) (utf8_chars (neutralize s)) = utf8_chars (neutralize s)"
    using assms unfolding control_free_def by (simp add: list_all_iff filter_id_conv)
  then show ?thesis by (simp add: sanitize_message_def)
qed

text \<open>Inserting a zero width space between ASCII characters adds that character and no other.\<close>

definition ascii :: "char \<Rightarrow> bool" where
  "ascii c \<longleftrightarrow> \<not> is_continuation c"

lemma utf8_chars_ascii:
  "list_all ascii q \<Longrightarrow> q \<noteq> [] \<Longrightarrow> utf8_chars (q @ r) = map (\<lambda>c. [c]) (butlast q) @ utf8_chars (last q # r)"
proof (induction q)
  case (Cons c q)
  then show ?case by (cases q) (auto simp: ascii_def)
qed simp

lemma zero_width_space_chars:
  assumes "ascii (hd (q @ [CHR 0x00]))" "q \<noteq> []"
  shows "utf8_chars (ZERO_WIDTH_SPACE @ q @ r) = ZERO_WIDTH_SPACE # utf8_chars (q @ r)"
  using assms
  by (cases q) (simp_all add: ZERO_WIDTH_SPACE_def is_continuation_def ascii_def)

lemma utf8_chars_insert:
  assumes "ascii c" "list_all ascii q" "q \<noteq> []" "list_all is_continuation ys"
  shows "set (utf8_chars (x # ys @ replace_str s (c # q) (c # ZERO_WIDTH_SPACE @ q)))
    \<subseteq> insert ZERO_WIDTH_SPACE (set (utf8_chars (x # ys @ s)))"
  using assms(4)
proof (induction s "c # q" "c # ZERO_WIDTH_SPACE @ q" arbitrary: x ys rule: replace_str.induct)
  case (2 b s)
  let ?f = "\<lambda>s. replace_str s (c # q) (c # ZERO_WIDTH_SPACE @ q)"
  let ?rest = "drop (length q) s"
  have q: "utf8_chars (q @ r) = map (\<lambda>c. [c]) (butlast q) @ utf8_chars (last q # r)" for r
    using assms by (intro utf8_chars_ascii)
  show ?case
  proof (cases "prefix (c # q) (b # s)")
    case True
    have z: "utf8_chars (c # ZERO_WIDTH_SPACE @ q @ r) = [c] # ZERO_WIDTH_SPACE # utf8_chars (q @ r)" for r
      using zero_width_space_chars [of q r] assms
      by (cases q) (simp_all add: ZERO_WIDTH_SPACE_def is_continuation_def ascii_def)
    have c: "utf8_chars (x # ys @ c # r) = (x # ys) # utf8_chars (c # r)" for r
      using assms(1) 2(3) by (auto simp: ascii_def list_all_iff takeWhile_append2 dropWhile_append2)
    have c': "utf8_chars (c # q @ r) = [c] # utf8_chars (q @ r)" for r
      using assms(2,3) by (cases q) (auto simp: ascii_def)
    have "set (utf8_chars (last q # ?f ?rest)) \<subseteq> insert ZERO_WIDTH_SPACE (set (utf8_chars (last q # ?rest)))"
      using 2(1) [of "[]" "last q"] True by (simp add: starts_with_def)
    moreover have r: "?f (b # s) = c # ZERO_WIDTH_SPACE @ q @ ?f ?rest" using replace_match [OF True] by simp
    ultimately show ?thesis
      unfolding r unfolding match_split [OF True, symmetric] c z c' q by (auto simp del: utf8_chars.simps)
  next
    case False
    show ?thesis
    proof (cases "is_continuation b")
      case True
      then show ?thesis using 2(2) [of "ys @ [b]" x] 2(3) False
        by (simp add: replace_no_match starts_with_def)
    next
      case nb: False
      then have "utf8_chars (x # ys @ b # r) = (x # ys) # utf8_chars (b # r)" for r
        using 2(3) by (auto simp: list_all_iff takeWhile_append2 dropWhile_append2)
      moreover have "set (utf8_chars (b # ?f s)) \<subseteq> insert ZERO_WIDTH_SPACE (set (utf8_chars (b # s)))"
        using 2(2) [of "[]" b] False by (simp add: starts_with_def)
      ultimately show ?thesis using False by (auto simp: replace_no_match)
    qed
  qed
qed auto

lemma control_free_iff:
  "control_free s \<longleftrightarrow> (\<forall>ch \<in> set (utf8_chars s). ch = [CHR 0x0A] \<or> \<not> is_control ch)"
  by (simp add: control_free_def list_all_iff)

lemma visible_chars: "\<not> is_control ZERO_WIDTH_SPACE" "\<not> is_control ''a''"
  by (simp_all add: ZERO_WIDTH_SPACE_def is_control_def)

lemma control_free_replace:
  assumes "ascii c" "list_all ascii q" "q \<noteq> []" "control_free s"
  shows "control_free (replace_str s (c # q) (c # ZERO_WIDTH_SPACE @ q))"
proof (cases s)
  case (Cons b s')
  let ?f = "\<lambda>s. replace_str s (c # q) (c # ZERO_WIDTH_SPACE @ q)"
  have sub: "set (utf8_chars (x # ?f r)) \<subseteq> insert ZERO_WIDTH_SPACE (set (utf8_chars (x # r)))" for x r
    using utf8_chars_insert [OF assms(1-3), of "[]"] by simp
  show ?thesis
  proof (cases "prefix (c # q) (b # s')")
    case False
    then have "?f s = b # ?f s'" by (simp add: Cons replace_no_match)
    with sub [of b s'] assms(4) visible_chars Cons show ?thesis
      unfolding control_free_iff by (metis insertE subsetD)
  next
    case True
    have single: "utf8_chars (CHR ''a'' # c # r) = ''a'' # utf8_chars (c # r)" for r
      using assms(1) by (simp add: ascii_def)
    have "?f s = c # ZERO_WIDTH_SPACE @ q @ ?f (drop (length q) s')"
      unfolding Cons replace_match [OF True] by simp
    moreover have "s = c # q @ drop (length q) s'" using match_split [OF True] Cons by simp
    ultimately have "set (utf8_chars (?f s)) \<subseteq> {ZERO_WIDTH_SPACE, ''a''} \<union> set (utf8_chars s)"
      using sub [of "CHR ''a''" s] by (metis Un_insert_left insert_subset list.simps(15) single sup_bot_left)
    with assms(4) visible_chars show ?thesis unfolding control_free_iff by blast
  qed
qed (simp add: control_free_def)

definition mentions :: "string list" where
  "mentions = [''@everyone'', ''@here'', ''<@'', ''<#'']"

definition mention_free :: "string \<Rightarrow> bool" where
  "mention_free s \<longleftrightarrow> list_all (\<lambda>m. \<not> contains s m) mentions"

lemma space_bytes:
  "ZERO_WIDTH_SPACE \<noteq> []" "hd ZERO_WIDTH_SPACE = CHR 0xE2" "set ZERO_WIDTH_SPACE = {CHR 0xE2, CHR 0x80, CHR 0x8B}"
  by (simp_all add: ZERO_WIDTH_SPACE_def)

lemma neutralize_mention_free: "mention_free (neutralize s)"
proof -
  let ?z = ZERO_WIDTH_SPACE
  let ?a = "replace_str s ''@everyone'' (CHR ''@'' # ?z @ ''everyone'')"
  let ?b = "replace_str ?a ''@here'' (CHR ''@'' # ?z @ ''here'')"
  let ?c = "replace_str ?b ''<@'' (CHR ''<'' # ?z @ ''@'')"
  have a: "\<not> contains ?a ''@everyone''" and b: "\<not> contains ?b ''@here''" and c: "\<not> contains ?c ''<@''"
    and d: "\<not> contains (neutralize s) ''<#''"
    unfolding neutralize_def by (rule replace_removes; simp add: space_bytes)+
  have keep: "\<not> contains (replace_str r (k # q) (k # ?z @ q)) m"
    if "\<not> contains r m" "m \<in> set mentions" for r k q m
    using contains_replace [of ?z m r k q] that by (auto simp: space_bytes mentions_def)
  show ?thesis
    unfolding mention_free_def list_all_iff
  proof
    fix m assume m: "m \<in> set mentions"
    then consider "m = ''@everyone''" | "m = ''@here''" | "m = ''<@''" | "m = ''<#''"
      by (auto simp: mentions_def)
    then show "\<not> contains (neutralize s) m"
      using a b c d m unfolding neutralize_def by cases (simp_all add: keep)
  qed
qed

lemma neutralize_control_free: "control_free s \<Longrightarrow> control_free (neutralize s)"
  unfolding neutralize_def
  by (intro control_free_replace) (simp_all add: ascii_def is_continuation_def)

lemma sanitize_mention_free: "control_free s \<Longrightarrow> mention_free (sanitize_message s)"
  by (simp add: sanitize_identity neutralize_control_free neutralize_mention_free)

lemma sanitize_fixpoint_mention_free: "sanitize_message s = s \<Longrightarrow> mention_free s"
  using sanitize_control_free [of s] sanitize_mention_free [of s] by simp

section \<open>Channel names\<close>

definition slug_byte :: "char \<Rightarrow> bool" where
  "slug_byte c \<longleftrightarrow> is_ascii_lowercase c \<or> is_ascii_digit c \<or> c = CHR ''-''"

definition slug_text :: "string \<Rightarrow> bool" where
  "slug_text s \<longleftrightarrow> list_all slug_byte s \<and> \<not> contains s ''--''"

lemma contains_snoc_pair: "contains (s @ [c]) [a, b] \<longleftrightarrow> contains s [a, b] \<or> (c = b \<and> s \<noteq> [] \<and> last s = a)"
proof (induction s)
  case (Cons x s)
  then show ?case by (cases s) (auto simp: sublist_Cons_right)
qed (auto simp: sublist_Cons_right)

lemma push_slug_char_text:
  assumes "slug_text s"
  shows "slug_text (push_slug_char ch s)"
proof (cases "is_slug_char ch")
  case True
  then obtain c where "ch = [c]" and c: "is_ascii_lowercase c \<or> is_ascii_digit c"
    by (cases ch rule: is_slug_char.cases) auto
  moreover from c have "c \<noteq> CHR ''-''" by (auto simp: ascii_defs)
  ultimately show ?thesis
    using assms True by (auto simp: push_slug_char_def slug_text_def contains_snoc_pair slug_byte_def)
next
  case False
  with assms show ?thesis
    by (auto simp: push_slug_char_def slug_text_def contains_snoc_pair slug_byte_def)
qed

lemma fold_slug_text: "slug_text s \<Longrightarrow> slug_text (fold push_slug_char chs s)"
  by (induction chs arbitrary: s) (auto intro: push_slug_char_text)

lemma trim_matches_sublist: "sublist (trim_matches c s) s"
proof -
  let ?d = "dropWhile (\<lambda>x. x = c) s"
  have "prefix (trim_matches c s) ?d"
    unfolding trim_matches_def by (metis rev_rev_ident suffix_dropWhile suffix_to_prefix)
  moreover have "suffix ?d s" by (rule suffix_dropWhile)
  ultimately show ?thesis by (meson prefix_imp_sublist suffix_imp_sublist sublist_order.order_trans)
qed

lemma trim_matches_ends:
  assumes "trim_matches c s \<noteq> []"
  shows "hd (trim_matches c s) \<noteq> c" "last (trim_matches c s) \<noteq> c"
proof -
  let ?d = "dropWhile (\<lambda>x. x = c) s"
  from assms have "dropWhile (\<lambda>x. x = c) (rev ?d) \<noteq> []" by (simp add: trim_matches_def)
  from hd_dropWhile [OF this] show "last (trim_matches c s) \<noteq> c"
    by (simp add: trim_matches_def last_rev)
  have "?d \<noteq> []" using assms unfolding trim_matches_def by (metis dropWhile.simps(1) rev.simps(1))
  from hd_dropWhile [OF this] have "hd ?d \<noteq> c" .
  moreover have "prefix (trim_matches c s) ?d"
    unfolding trim_matches_def by (metis rev_rev_ident suffix_dropWhile suffix_to_prefix)
  ultimately show "hd (trim_matches c s) \<noteq> c" using assms by (auto elim!: prefixE)
qed

lemma slug_text_sublist:
  assumes "sublist s s'" "slug_text s'"
  shows "slug_text s"
  using assms(2) set_mono_sublist [OF assms(1)] sublist_order.order_trans [OF _ assms(1)]
  unfolding slug_text_def list_all_iff by blast

lemma sanitize_channel_name_slug:
  assumes "sanitize_channel_name s \<noteq> []"
  shows "slug_text (sanitize_channel_name s)" "hd (sanitize_channel_name s) \<noteq> CHR ''-''"
    "last (sanitize_channel_name s) \<noteq> CHR ''-''"
proof -
  have "slug_text []" by (simp add: slug_text_def)
  then show "slug_text (sanitize_channel_name s)"
    unfolding sanitize_channel_name_def by (intro slug_text_sublist [OF trim_matches_sublist] fold_slug_text)
  show "hd (sanitize_channel_name s) \<noteq> CHR ''-''" "last (sanitize_channel_name s) \<noteq> CHR ''-''"
    using assms trim_matches_ends unfolding sanitize_channel_name_def by blast+
qed

lemma slug_byte_ascii: "slug_byte c \<Longrightarrow> \<not> is_continuation c"
  by (auto simp: slug_byte_def ascii_defs is_continuation_def)

lemma chars_count_ascii: "list_all (\<lambda>c. \<not> is_continuation c) s \<Longrightarrow> chars_count s = length s"
proof (induction s)
  case (Cons c s)
  then have "takeWhile is_continuation s = []" "dropWhile is_continuation s = s" by (cases s; simp)+
  with Cons show ?case by (simp add: chars_count_def)
qed (simp add: chars_count_def)

lemma render_OkD:
  assumes "render template inputs context = Inr out"
  shows "\<exists>body. render_segments (tpl_segments template) inputs [] = Inr body \<and> sanitize body context = Inr out"
    and "out \<noteq> []" "chars_count out \<le> max_len context"
  using assms by (auto simp: render_def sanitize_def Let_def split: sum.splits if_splits)

section \<open>Properties\<close>

text \<open>C27: A rendered channel name is never empty, has at most a hundred characters, consists of lower
  case ASCII letters, digits and single hyphens, and neither starts nor ends with a hyphen, whatever the
  template and the inputs are.\<close>

theorem rendered_channel_name:
  assumes "render template inputs SC_ChannelName = Inr name"
  shows "name \<noteq> [] \<and> length name \<le> 100 \<and> hd name \<noteq> CHR ''-'' \<and> last name \<noteq> CHR ''-''
    \<and> list_all (\<lambda>c. is_ascii_lowercase c \<or> is_ascii_digit c \<or> c = CHR ''-'') name
    \<and> \<not> contains name ''--''"
proof -
  from render_OkD(1) [OF assms] obtain body where name: "name = sanitize_channel_name body" "name \<noteq> []"
    by (auto simp: sanitize_def Let_def split: if_splits)
  note slug = sanitize_channel_name_slug [of body, folded name(1), OF name(2)]
  then have "chars_count name = length name"
    by (intro chars_count_ascii) (auto simp: slug_text_def list_all_iff dest: slug_byte_ascii)
  moreover have "chars_count name \<le> 100"
    using render_OkD(3) [OF assms] by (simp add: max_len_def NAME_MAX_LEN_def)
  moreover have "list_all slug_byte name \<and> \<not> contains name ''--''" using slug(1) by (simp add: slug_text_def)
  ultimately show ?thesis using slug(2,3) name(2) by (auto simp: slug_byte_def list_all_iff)
qed

lemma channel_name_example:
  "render \<lparr> tpl_segments = [Seg_Input ''name''] \<rparr> [(''name'', ''My  Room!'')] SC_ChannelName = Inr ''my-room''"
  by code_simp

theorem rendered_channel_name_witness:
  "render \<lparr> tpl_segments = [Seg_Input ''name''] \<rparr> [(''name'', ''My  Room!'')] SC_ChannelName = Inr ''my-room''
    \<and> hd ''my-room'' \<noteq> CHR ''-''"
  using rendered_channel_name [OF channel_name_example] channel_name_example by blast

text \<open>C28: A rendered message whose text contains no control character other than a line feed mentions
  nobody: it contains none of \<open>@everyone\<close>, \<open>@here\<close>, \<open><@\<close> and \<open><#\<close>. It is not empty and has at most two
  thousand characters.\<close>

theorem rendered_message_neutral:
  assumes "render template inputs SC_EphemeralMessageContent = Inr msg"
    and "\<And>body. render_segments (tpl_segments template) inputs [] = Inr body \<Longrightarrow> control_free body"
  shows "mention_free msg \<and> control_free msg \<and> msg \<noteq> [] \<and> chars_count msg \<le> 2000"
proof -
  from render_OkD(1) [OF assms(1)] obtain body where body: "control_free body" "msg = sanitize_message body"
    using assms(2) by (auto simp: sanitize_def Let_def split: if_splits)
  then have "mention_free msg" "control_free msg" by (simp_all add: sanitize_mention_free sanitize_control_free)
  with render_OkD(2,3) [OF assms(1)] show ?thesis by (simp add: max_len_def EPHEMERAL_MAX_LEN_def)
qed

definition greeting :: template_string where
  "greeting = \<lparr> tpl_segments = [Seg_Literal ''hi '', Seg_Input ''name''] \<rparr>"

lemma greeting_text: "render_segments (tpl_segments greeting) [(''name'', ''@here'')] [] = Inr ''hi @here''"
  by (simp add: greeting_def)

lemma greeting_control_free: "control_free ''hi @here''"
  by code_simp

lemma greeting_rendered:
  "render greeting [(''name'', ''@here'')] SC_EphemeralMessageContent = Inr (''hi @'' @ ZERO_WIDTH_SPACE @ ''here'')"
  by code_simp

theorem rendered_message_neutral_witness:
  "mention_free (''hi @'' @ ZERO_WIDTH_SPACE @ ''here'')"
  using rendered_message_neutral [OF greeting_rendered] greeting_text greeting_control_free by simp


end
