(* ===== verification/Diagnostics.thy ===== *)
theory Diagnostics
  imports Prelude
begin

text \<open>
  The shape of the validators: loops that append to a list of errors or diagnostics while they update
  some state, here as functions that return what is appended together with the new state.
\<close>

section \<open>Loops\<close>

fun collect :: "('a \<Rightarrow> 's \<Rightarrow> 'e list \<times> 's) \<Rightarrow> 'a list \<Rightarrow> 's \<Rightarrow> 'e list \<times> 's" where
  "collect f [] s = ([], s)"
| "collect f (x # xs) s =
     (let (es, s') = f x s; (es', s'') = collect f xs s' in (es @ es', s''))"

text \<open>\<open>if !seen.insert(key) { errors.push(error) }\<close>\<close>

definition register :: "'k \<Rightarrow> 'e \<Rightarrow> 'k set \<Rightarrow> 'e list \<times> 'k set" where
  "register key error seen = (if key \<in> seen then [error] else [], insert key seen)"

definition push_if :: "bool \<Rightarrow> 'e \<Rightarrow> 'e list" where
  "push_if b error = (if b then [error] else [])"

lemma push_if_Nil [simp]: "push_if b error = [] \<longleftrightarrow> \<not> b"
  by (simp add: push_if_def)

lemma register_simps [simp]:
  "fst (register key error seen) = [] \<longleftrightarrow> key \<notin> seen"
  "snd (register key error seen) = insert key seen"
  by (simp_all add: register_def)

lemma collect_Cons:
  "fst (collect f (x # xs) s) = fst (f x s) @ fst (collect f xs (snd (f x s)))"
  "snd (collect f (x # xs) s) = snd (collect f xs (snd (f x s)))"
  by (simp_all add: case_prod_beta Let_def)

lemma collect_append:
  "fst (collect f (xs @ ys) s) = fst (collect f xs s) @ fst (collect f ys (snd (collect f xs s)))"
  "snd (collect f (xs @ ys) s) = snd (collect f ys (snd (collect f xs s)))"
proof (induction xs arbitrary: s)
  case (Cons x xs)
  { case 1 show ?case by (simp only: append_Cons collect_Cons Cons append.assoc) }
  { case 2 show ?case by (simp only: append_Cons collect_Cons Cons) }
qed simp_all

lemma collect_snd_fold: "snd (collect f xs s) = fold (\<lambda>x s. snd (f x s)) xs s"
  by (induction xs arbitrary: s) (simp_all add: collect_Cons del: collect.simps(2))

text \<open>A loop without errors has none in any iteration, whatever the state before it.\<close>

lemma collect_Nil_at:
  "fst (collect f (us @ x # vs) s) = [] \<Longrightarrow> fst (f x (snd (collect f us s))) = []"
  by (simp only: collect_append collect_Cons append_is_Nil_conv)

lemma collect_NilD:
  assumes "fst (collect f xs s) = []" "x \<in> set xs"
  obtains us vs where "xs = us @ x # vs" "fst (f x (snd (collect f us s))) = []"
proof -
  from split_list [OF assms(2)] obtain us vs where "xs = us @ x # vs" by blast
  with collect_Nil_at assms(1) that show ?thesis by metis
qed

lemma collect_const_Nil:
  "fst (collect (\<lambda>x s. (g x, h x s)) xs s) = [] \<longleftrightarrow> (\<forall>x \<in> set xs. g x = [])"
  by (induction xs arbitrary: s) (simp_all add: collect_Cons del: collect.simps(2))

lemma collect_register_Nil:
  "fst (collect (\<lambda>x. register (key x) (error x)) xs seen) = [] \<longleftrightarrow>
     distinct (map key xs) \<and> set (map key xs) \<inter> seen = {}"
proof (induction xs arbitrary: seen)
  case (Cons x xs)
  show ?case by (simp only: collect_Cons append_is_Nil_conv Cons register_simps) auto
qed simp

lemma collect_register_snd:
  "snd (collect (\<lambda>x. register (key x) (error x)) xs seen) = set (map key xs) \<union> seen"
  by (induction xs arbitrary: seen) (simp_all add: collect_Cons del: collect.simps(2))

text \<open>The loop of one component of the state is that of the whole when an iteration treats it
  independently of the rest.\<close>

lemma collect_project:
  assumes "\<And>x s. p (snd (f x s)) = h x (p s)"
  shows "p (snd (collect f xs s)) = fold h xs (p s)"
  by (induction xs arbitrary: s) (simp_all add: collect_Cons assms del: collect.simps(2))

lemma collect_register_project:
  assumes "\<And>x s. p (snd (f x s)) = insert (key x) (p s)"
    and "\<And>x s. fst (f x s) = [] \<Longrightarrow> key x \<notin> p s"
    and "fst (collect f xs s) = []"
  shows "distinct (map key xs)" "set (map key xs) \<inter> p s = {}"
proof -
  have "distinct (map key xs) \<and> set (map key xs) \<inter> p s = {}"
    using assms(3)
  proof (induction xs arbitrary: s)
    case (Cons x xs)
    then have "fst (f x s) = []" "fst (collect f xs (snd (f x s))) = []"
      by (simp_all add: collect_Cons del: collect.simps(2))
    with Cons.IH [of "snd (f x s)"] assms(1,2) show ?case by auto
  qed simp
  then show "distinct (map key xs)" "set (map key xs) \<inter> p s = {}" by auto
qed

declare collect.simps(2) [simp del]

end
