(* ===== verification/Rule_Validation.thy ===== *)
theory Rule_Validation
  imports Automation_State Template Diagnostics Resource_Resolution
begin

text \<open>
  The validation of interaction rule sets in \<open>automation-core/src/validate.rs\<close>. Every loop that pushes
  errors is a \<open>collect\<close>; a helper that pushes errors is a function that returns them.
\<close>

datatype created_kind = CK_Role | CK_Channel | CK_Message | CK_Instance

datatype (plugins only: code) rule_validation_error =
  DuplicatePanelKey string
| DuplicateButtonKey string
| DuplicateRuleKey string
| UnknownButtonRef string string
| UnknownRoleRef string resource_key
| ConflictingTrigger string
| EmptyResponseContent string
| DuplicateModalKey string
| DuplicateModalFieldKey string string
| InvalidModalFieldMinLength string string u16
| InvalidModalFieldMaxLength string string u16
| InvalidModalFieldLengthRange string string u16 u16
| UnknownModalRef string string
| ConflictingModalTrigger string
| BadTemplate string
| InputTemplateInButtonRule string string
| UnknownTemplateInput string string string
| DuplicateActionKey string string
| UnknownCreatedRoleRef string string
| CreatedRoleRefTypeMismatch string string
| UnknownChannelRef string resource_key
| UnknownCreatedChannelRef string string
| CreatedChannelRefTypeMismatch string string
| UnknownCreatedMessageRef string string
| CreatedMessageRefTypeMismatch string string
| InstanceResourceMissingFromManifest string created_kind
| InstanceResourceDeclaredMultipleTimes string
| InstanceResourceProducedAfterRegister string created_kind
| MultipleRegisterInstance string
| EmptyInstanceResources string
| InvalidResourceAlias string string
| OverlappingOverwrite string
| EmptyOverwrite string
| EmptyButtonLabel string string
| TooManyPanelButtons string nat
| DeferNotFirst string
| ConflictingInitialResponse string
| EditResponseWithoutDefer string
| DeferredMissingEditResponse string
| MultipleEditResponse string
| EditResponseNotLast string
| InstanceRoleOutsideInstanceRule string
| InstanceRoleMustUseEvent string
| InstanceActionRuleMustDefer string
| TeardownInstanceOutsideInstanceRule string
| UnknownCreatedInstanceRef string string
| CreatedInstanceRefTypeMismatch string string
| TeardownRegisterConflict string

type_synonym created_map = "(string, created_kind) bmap"
type_synonym field_map = "(string, string set) bmap"

definition MAX_PANEL_BUTTONS :: nat where
  "MAX_PANEL_BUTTONS = 5"

section \<open>Panels and buttons\<close>

definition register_button :: "button_spec \<Rightarrow> string set \<Rightarrow> rule_validation_error list \<times> string set" where
  "register_button button button_keys =
     (case bs_route button of
        BR_Static key \<Rightarrow> register key (DuplicateButtonKey key) button_keys
      | BR_InstanceAction _ _ \<Rightarrow> ([], button_keys))"

definition check_panel ::
  "panel_spec \<Rightarrow> string set \<times> string set \<Rightarrow> rule_validation_error list \<times> string set \<times> string set" where
  "check_panel panel keys =
     (let (panel_keys, button_keys) = keys;
          (es, panel_keys') = register (ps_key panel) (DuplicatePanelKey (ps_key panel)) panel_keys;
          (es', button_keys') = collect register_button (ps_buttons panel) button_keys
      in (es @ es', panel_keys', button_keys'))"

definition check_runtime_button ::
  "interaction_rule \<Rightarrow> button_spec \<Rightarrow> string set \<Rightarrow> rule_validation_error list \<times> string set" where
  "check_runtime_button rule button button_keys =
     (let button_name = (case bs_route button of BR_Static key \<Rightarrow> key | BR_InstanceAction _ action \<Rightarrow> action);
          es = push_if (trim (bs_label button) = []) (EmptyButtonLabel (ir_key rule) button_name);
          (es', button_keys') = register_button button button_keys
      in (es @ es', button_keys'))"

definition check_runtime_panel ::
  "interaction_rule \<Rightarrow> action_spec \<Rightarrow> string set \<Rightarrow> rule_validation_error list \<times> string set" where
  "check_runtime_panel rule action button_keys =
     (case action of
        AS_PostPanel _ _ _ buttons \<Rightarrow>
          (let es = push_if (length buttons > MAX_PANEL_BUTTONS)
                 (TooManyPanelButtons (ir_key rule) (length buttons));
               (es', button_keys') = collect (check_runtime_button rule) buttons button_keys
           in (es @ es', button_keys'))
      | _ \<Rightarrow> ([], button_keys))"

section \<open>Modals\<close>

definition check_modal_field ::
  "string \<Rightarrow> modal_field_spec \<Rightarrow> string set \<Rightarrow> rule_validation_error list \<times> string set" where
  "check_modal_field modal field field_keys =
     (let (es, field_keys') =
            register (mf_key field) (DuplicateModalFieldKey modal (mf_key field)) field_keys;
          es_min = (case mf_min_length field of
              None \<Rightarrow> []
            | Some min_length \<Rightarrow>
                push_if (min_length > DISCORD_MODAL_INPUT_MAX_LENGTH)
                  (InvalidModalFieldMinLength modal (mf_key field) min_length));
          es_max = (case mf_max_length field of
              None \<Rightarrow> []
            | Some max_length \<Rightarrow>
                push_if (max_length = 0 \<or> max_length > DISCORD_MODAL_INPUT_MAX_LENGTH)
                  (InvalidModalFieldMaxLength modal (mf_key field) max_length));
          es_range = (case (mf_min_length field, mf_max_length field) of
              (Some min_length, Some max_length) \<Rightarrow>
                push_if (min_length > max_length)
                  (InvalidModalFieldLengthRange modal (mf_key field) min_length max_length)
            | _ \<Rightarrow> [])
      in (es @ es_min @ es_max @ es_range, field_keys'))"

definition check_modal ::
  "modal_spec \<Rightarrow> string set \<times> field_map \<Rightarrow> rule_validation_error list \<times> string set \<times> field_map" where
  "check_modal modal state =
     (let (modal_keys, modal_fields) = state;
          (es, modal_keys') = register (ms_key modal) (DuplicateModalKey (ms_key modal)) modal_keys;
          (es', field_keys) = collect (check_modal_field (ms_key modal)) (ms_fields modal) {}
      in (es @ es', modal_keys', bm_insert (ms_key modal) field_keys modal_fields))"

section \<open>References of an action\<close>

definition check_template ::
  "interaction_rule \<Rightarrow> field_map \<Rightarrow> string \<Rightarrow> rule_validation_error list" where
  "check_template rule modal_fields content =
     (case parse content of
        Inl _ \<Rightarrow> [BadTemplate (ir_key rule)]
      | Inr template \<Rightarrow>
          concat (map (\<lambda>key.
            case ir_trigger rule of
              TS_ButtonClick _ \<Rightarrow> [InputTemplateInButtonRule (ir_key rule) key]
            | TS_InstanceAction _ \<Rightarrow> [InputTemplateInButtonRule (ir_key rule) key]
            | TS_ModalSubmit modal \<Rightarrow>
                push_if (\<not> (case bm_get modal_fields modal of None \<Rightarrow> False | Some keys \<Rightarrow> key \<in> keys))
                  (UnknownTemplateInput (ir_key rule) modal key)) (input_keys template)))"

definition is_resource_alias :: "string \<Rightarrow> bool" where
  "is_resource_alias alias \<longleftrightarrow>
     alias \<noteq> [] \<and> length alias \<le> 32
     \<and> list_all (\<lambda>c. is_ascii_alphanumeric c \<or> c = CHR ''_'' \<or> c = CHR ''-'') alias"

definition check_resource_alias :: "interaction_rule \<Rightarrow> string \<Rightarrow> rule_validation_error list" where
  "check_resource_alias rule alias =
     push_if (\<not> is_resource_alias alias) (InvalidResourceAlias (ir_key rule) alias)"

definition is_instance_action :: "trigger_spec \<Rightarrow> bool" where
  "is_instance_action trigger = (case trigger of TS_InstanceAction _ \<Rightarrow> True | _ \<Rightarrow> False)"

definition check_created ::
  "created_kind \<Rightarrow> (string \<Rightarrow> string \<Rightarrow> rule_validation_error) \<Rightarrow> (string \<Rightarrow> string \<Rightarrow> rule_validation_error) \<Rightarrow>
   interaction_rule \<Rightarrow> created_map \<Rightarrow> created_ref \<Rightarrow> rule_validation_error list" where
  "check_created kind unknown mismatch rule created reference =
     (case bm_get created reference of
        None \<Rightarrow> [unknown (ir_key rule) reference]
      | Some found \<Rightarrow> push_if (found \<noteq> kind) (mismatch (ir_key rule) reference))"

definition check_role_ref ::
  "interaction_rule \<Rightarrow> created_map \<Rightarrow> role_ref \<Rightarrow> rule_validation_error list" where
  "check_role_ref rule created role =
     (case role of
        RR_Existing _ \<Rightarrow> []
      | RR_Created inner \<Rightarrow>
          check_created CK_Role UnknownCreatedRoleRef CreatedRoleRefTypeMismatch rule created inner
      | RR_Instance inst alias \<Rightarrow>
          push_if (\<not> is_instance_action (ir_trigger rule)) (InstanceRoleOutsideInstanceRule (ir_key rule))
          @ push_if (inst \<noteq> IR_Event) (InstanceRoleMustUseEvent (ir_key rule))
          @ check_resource_alias rule alias)"

definition check_channel_ref ::
  "interaction_rule \<Rightarrow> created_map \<Rightarrow> channel_ref \<Rightarrow> rule_validation_error list" where
  "check_channel_ref rule created channel =
     (case channel of
        CR_Existing _ \<Rightarrow> []
      | CR_Created inner \<Rightarrow>
          check_created CK_Channel UnknownCreatedChannelRef CreatedChannelRefTypeMismatch rule created inner)"

definition check_teardown_instance_ref ::
  "interaction_rule \<Rightarrow> created_map \<Rightarrow> instance_ref \<Rightarrow> rule_validation_error list" where
  "check_teardown_instance_ref rule created inst =
     (case inst of
        IR_Event \<Rightarrow>
          push_if (\<not> is_instance_action (ir_trigger rule)) (TeardownInstanceOutsideInstanceRule (ir_key rule))
      | IR_Created reference \<Rightarrow>
          check_created CK_Instance UnknownCreatedInstanceRef CreatedInstanceRefTypeMismatch rule created
            reference)"

definition check_manifest ::
  "interaction_rule \<Rightarrow> created_map \<Rightarrow> instance_resource_refs \<Rightarrow> rule_validation_error list" where
  "check_manifest rule created resources =
     push_if (irr_roles resources = [] \<and> irr_channels resources = [] \<and> irr_messages resources = [])
       (EmptyInstanceResources (ir_key rule))
     @ concat (map (\<lambda>(alias, reference). check_resource_alias rule alias
         @ check_created CK_Role UnknownCreatedRoleRef CreatedRoleRefTypeMismatch rule created reference)
         (irr_roles resources))
     @ concat (map (\<lambda>(alias, reference). check_resource_alias rule alias
         @ check_created CK_Channel UnknownCreatedChannelRef CreatedChannelRefTypeMismatch rule created
             reference) (irr_channels resources))
     @ concat (map (\<lambda>(alias, reference). check_resource_alias rule alias
         @ check_created CK_Message UnknownCreatedMessageRef CreatedMessageRefTypeMismatch rule created
             reference) (irr_messages resources))"

section \<open>One action\<close>

definition create :: "interaction_rule \<Rightarrow> string \<Rightarrow> created_kind \<Rightarrow> created_map \<Rightarrow>
    rule_validation_error list \<times> created_map" where
  "create rule key kind created =
     (push_if (bm_get created key \<noteq> None) (DuplicateActionKey (ir_key rule) key), bm_insert key kind created)"

definition check_action ::
  "string set \<Rightarrow> field_map \<Rightarrow> interaction_rule \<Rightarrow> action_spec \<Rightarrow> created_map \<Rightarrow>
   rule_validation_error list \<times> created_map" where
  "check_action modal_keys modal_fields rule action created =
     (case action of
        AS_GrantRole role _ \<Rightarrow> (check_role_ref rule created role, created)
      | AS_RespondEphemeral content \<Rightarrow>
          (push_if (trim content = []) (EmptyResponseContent (ir_key rule))
           @ check_template rule modal_fields content, created)
      | AS_OpenModal modal \<Rightarrow>
          (push_if (modal \<notin> modal_keys) (UnknownModalRef (ir_key rule) modal), created)
      | AS_CreateChannel key name \<Rightarrow>
          (let (es, created') = create rule key CK_Channel created
           in (es @ check_template rule modal_fields name, created'))
      | AS_CreateRole key name \<Rightarrow>
          (let (es, created') = create rule key CK_Role created
           in (es @ check_template rule modal_fields name, created'))
      | AS_UpsertOverwrite channel target allow deny \<Rightarrow>
          (check_channel_ref rule created channel
           @ (case target of OTS_Role role \<Rightarrow> check_role_ref rule created role | OTS_Everyone \<Rightarrow> [])
           @ push_if (allow AND deny \<noteq> 0) (OverlappingOverwrite (ir_key rule))
           @ push_if (allow = 0 \<and> deny = 0) (EmptyOverwrite (ir_key rule)), created)
      | AS_PostPanel key channel content _ \<Rightarrow>
          (let (es, created') = create rule key CK_Message created
           in (es @ check_channel_ref rule created' channel @ check_template rule modal_fields content,
               created'))
      | AS_DeferEphemeral \<Rightarrow> ([], created)
      | AS_EditResponse content \<Rightarrow> (check_template rule modal_fields content, created)
      | AS_RegisterInstance key _ resources \<Rightarrow>
          (let (es, created') = create rule key CK_Instance created
           in (es @ check_manifest rule created' resources, created'))
      | AS_TeardownInstance inst \<Rightarrow> (check_teardown_instance_ref rule created inst, created))"

section \<open>Instances and responses of a rule\<close>

definition is_register :: "action_spec \<Rightarrow> bool" where
  "is_register action = (case action of AS_RegisterInstance _ _ _ \<Rightarrow> True | _ \<Rightarrow> False)"

definition is_teardown :: "action_spec \<Rightarrow> bool" where
  "is_teardown action = (case action of AS_TeardownInstance _ \<Rightarrow> True | _ \<Rightarrow> False)"

definition is_edit_response :: "action_spec \<Rightarrow> bool" where
  "is_edit_response action = (case action of AS_EditResponse _ \<Rightarrow> True | _ \<Rightarrow> False)"

definition is_other_initial :: "action_spec \<Rightarrow> bool" where
  "is_other_initial action =
     (case action of AS_RespondEphemeral _ \<Rightarrow> True | AS_OpenModal _ \<Rightarrow> True | _ \<Rightarrow> False)"

definition produced :: "action_spec \<Rightarrow> (string \<times> created_kind) option" where
  "produced action =
     (case action of
        AS_CreateRole key _ \<Rightarrow> Some (key, CK_Role)
      | AS_CreateChannel key _ \<Rightarrow> Some (key, CK_Channel)
      | AS_PostPanel key _ _ _ \<Rightarrow> Some (key, CK_Message)
      | _ \<Rightarrow> None)"

definition manifest_references :: "action_spec \<Rightarrow> created_ref list" where
  "manifest_references action =
     (case action of
        AS_RegisterInstance _ _ resources \<Rightarrow>
          map snd (irr_roles resources) @ map snd (irr_channels resources) @ map snd (irr_messages resources)
      | _ \<Rightarrow> [])"

definition footprint_step ::
  "nat \<Rightarrow> nat \<times> action_spec \<Rightarrow> created_map \<times> (string, nat) bmap \<Rightarrow>
   rule_validation_error list \<times> created_map \<times> (string, nat) bmap" where
  "footprint_step first_register indexed state =
     (let (index, action) = indexed;
          (ownable, manifest_counts) = state;
          (es, ownable') =
            (case produced action of
               None \<Rightarrow> ([], ownable)
             | Some (key, kind) \<Rightarrow>
                 (push_if (index > first_register) (InstanceResourceProducedAfterRegister key kind),
                  bm_insert key kind ownable));
          manifest_counts' = fold (\<lambda>reference. bm_modify 0 Suc reference) (manifest_references action) manifest_counts
      in (es, ownable', manifest_counts'))"

definition position :: "('a \<Rightarrow> bool) \<Rightarrow> 'a list \<Rightarrow> nat option" where
  "position P xs = map_option fst (find (\<lambda>(_, x). P x) (enumerate 0 xs))"

definition check_instance_footprint :: "interaction_rule \<Rightarrow> rule_validation_error list" where
  "check_instance_footprint rule =
     (let register_count = length (filter is_register (ir_actions rule)) in
      if register_count = 0 then []
      else
        push_if (register_count > 1) (MultipleRegisterInstance (ir_key rule))
        @ (case position is_register (ir_actions rule) of
             None \<Rightarrow> []
           | Some first_register \<Rightarrow>
               (let (es, ownable, manifest_counts) =
                      collect (footprint_step first_register) (enumerate 0 (ir_actions rule)) ([], [])
                in es
                   @ concat (map (\<lambda>(key, kind).
                       push_if (bm_get manifest_counts key = None)
                         (InstanceResourceMissingFromManifest key kind)) ownable)
                   @ concat (map (\<lambda>(key, count).
                       push_if (count > 1) (InstanceResourceDeclaredMultipleTimes key)) manifest_counts))))"

definition positions :: "('a \<Rightarrow> bool) \<Rightarrow> 'a list \<Rightarrow> nat list" where
  "positions P xs = map fst (filter (\<lambda>(_, x). P x) (enumerate 0 xs))"

definition check_responses :: "interaction_rule \<Rightarrow> rule_validation_error list" where
  "check_responses rule =
     (let defer_positions = positions (\<lambda>action. action = AS_DeferEphemeral) (ir_actions rule);
          edit_positions = positions is_edit_response (ir_actions rule);
          has_other_initial = list_ex is_other_initial (ir_actions rule);
          last_index = length (ir_actions rule) - 1
      in push_if (list_ex (\<lambda>index. index \<noteq> 0) defer_positions) (DeferNotFirst (ir_key rule))
         @ (if defer_positions \<noteq> []
            then push_if has_other_initial (ConflictingInitialResponse (ir_key rule))
              @ push_if (edit_positions = []) (DeferredMissingEditResponse (ir_key rule))
            else [])
         @ push_if (edit_positions \<noteq> [] \<and> defer_positions = []) (EditResponseWithoutDefer (ir_key rule))
         @ push_if (length edit_positions > 1) (MultipleEditResponse (ir_key rule))
         @ push_if (list_ex (\<lambda>index. index \<noteq> last_index) edit_positions) (EditResponseNotLast (ir_key rule)))"

section \<open>The validation of a rule set\<close>

definition check_trigger ::
  "string set \<Rightarrow> string set \<Rightarrow> interaction_rule \<Rightarrow> string set \<times> string set \<Rightarrow>
   rule_validation_error list \<times> string set \<times> string set" where
  "check_trigger button_keys modal_keys rule triggers =
     (let (trigger_components, modal_triggers) = triggers in
      case ir_trigger rule of
        TS_ButtonClick component \<Rightarrow>
          (let es = push_if (component \<notin> button_keys) (UnknownButtonRef (ir_key rule) component);
               (es', trigger_components') = register component (ConflictingTrigger component) trigger_components
           in (es @ es', trigger_components', modal_triggers))
      | TS_ModalSubmit modal \<Rightarrow>
          (let es = push_if (modal \<notin> modal_keys) (UnknownModalRef (ir_key rule) modal);
               (es', modal_triggers') = register modal (ConflictingModalTrigger modal) modal_triggers
           in (es @ es', trigger_components, modal_triggers'))
      | TS_InstanceAction _ \<Rightarrow>
          (push_if (\<not> (ir_actions rule \<noteq> [] \<and> hd (ir_actions rule) = AS_DeferEphemeral))
             (InstanceActionRuleMustDefer (ir_key rule)), trigger_components, modal_triggers))"

definition check_rule ::
  "string set \<Rightarrow> string set \<Rightarrow> field_map \<Rightarrow> interaction_rule \<Rightarrow> string set \<times> string set \<times> string set \<Rightarrow>
   rule_validation_error list \<times> string set \<times> string set \<times> string set" where
  "check_rule button_keys modal_keys modal_fields rule state =
     (let (rule_keys, triggers) = state;
          (es1, rule_keys') = register (ir_key rule) (DuplicateRuleKey (ir_key rule)) rule_keys;
          (es2, triggers') = check_trigger button_keys modal_keys rule triggers;
          has_register = list_ex is_register (ir_actions rule);
          has_teardown = list_ex is_teardown (ir_actions rule);
          es3 = push_if (has_register \<and> has_teardown) (TeardownRegisterConflict (ir_key rule));
          (es4, _) = collect (check_action modal_keys modal_fields rule) (ir_actions rule) []
      in (es1 @ es2 @ es3 @ es4 @ check_instance_footprint rule @ check_responses rule, rule_keys', triggers'))"

definition validate_structural :: "interaction_rule_set \<Rightarrow> rule_validation_error list + unit" where
  "validate_structural ruleset =
     (let (es1, _, button_keys) = collect check_panel (irs_panels ruleset) ({}, {});
          (es2, button_keys') =
            collect (\<lambda>rule. collect (check_runtime_panel rule) (ir_actions rule)) (irs_rules ruleset) button_keys;
          (es3, modal_keys, modal_fields) = collect check_modal (irs_modals ruleset) ({}, []);
          (es4, _) = collect (check_rule button_keys' modal_keys modal_fields) (irs_rules ruleset) ({}, {}, {});
          errors = es1 @ es2 @ es3 @ es4
      in if errors = [] then Inr () else Inl errors)"

definition check_role_binding ::
  "interaction_rule \<Rightarrow> resource_binding_map \<Rightarrow> role_ref \<Rightarrow> rule_validation_error list" where
  "check_role_binding rule b role =
     (case role of
        RR_Existing key \<Rightarrow> push_if (bm_get (role_bindings b) key = None) (UnknownRoleRef (ir_key rule) key)
      | _ \<Rightarrow> [])"

definition check_channel_binding ::
  "interaction_rule \<Rightarrow> resource_binding_map \<Rightarrow> channel_ref \<Rightarrow> rule_validation_error list" where
  "check_channel_binding rule b channel =
     (case channel of
        CR_Existing key \<Rightarrow> push_if (bm_get (channel_bindings b) key = None) (UnknownChannelRef (ir_key rule) key)
      | _ \<Rightarrow> [])"

definition check_action_bindings ::
  "interaction_rule \<Rightarrow> resource_binding_map \<Rightarrow> action_spec \<Rightarrow> rule_validation_error list" where
  "check_action_bindings rule b action =
     (case action of
        AS_GrantRole role _ \<Rightarrow> check_role_binding rule b role
      | AS_UpsertOverwrite channel target _ _ \<Rightarrow>
          check_channel_binding rule b channel
          @ (case target of OTS_Role role \<Rightarrow> check_role_binding rule b role | OTS_Everyone \<Rightarrow> [])
      | AS_PostPanel _ channel _ _ \<Rightarrow> check_channel_binding rule b channel
      | _ \<Rightarrow> [])"

definition validate_bindings ::
  "interaction_rule_set \<Rightarrow> resource_binding_map \<Rightarrow> rule_validation_error list + unit" where
  "validate_bindings ruleset b =
     (let errors = concat (map (\<lambda>rule. concat (map (check_action_bindings rule b) (ir_actions rule)))
            (irs_rules ruleset))
      in if errors = [] then Inr () else Inl errors)"

definition validate_ruleset ::
  "interaction_rule_set \<Rightarrow> resource_binding_map \<Rightarrow> rule_validation_error list + unit" where
  "validate_ruleset ruleset b =
     (let errors =
            (case validate_structural ruleset of Inl structural \<Rightarrow> structural | Inr _ \<Rightarrow> [])
            @ (case validate_bindings ruleset b of Inl binding \<Rightarrow> binding | Inr _ \<Rightarrow> [])
      in if errors = [] then Inr () else Inl errors)"

end
