(* ===== verification/Instance_Store.thy ===== *)
theory Instance_Store
  imports Automation_State Discord_Model
begin

text \<open>
  The crate \<open>automation-instance\<close>: instance ids and their generators, the instances with the resources
  they own, and the in-memory store with its status transitions and the paginated scan for instances
  whose deletion has to be retried. The mutex of the store is held for a whole operation, so an operation
  is one step on the map.
\<close>

section \<open>Ids and versions\<close>

definition INSTANCE_ID_MAX_LEN :: nat where
  "INSTANCE_ID_MAX_LEN = 32"

datatype instance_id_error = II_Empty | II_TooLong | II_InvalidChar

definition instance_id_parse :: "string \<Rightarrow> instance_id_error + instance_id" where
  "instance_id_parse value =
     (if value = [] then Inl II_Empty
      else if length value > INSTANCE_ID_MAX_LEN then Inl II_TooLong
      else if \<not> list_all (\<lambda>c. is_ascii_alphanumeric c \<or> c = CHR ''_'' \<or> c = CHR ''-'') value
      then Inl II_InvalidChar
      else Inr value)"

type_synonym instance_ruleset_version = u32

definition instance_ruleset_version_new :: "u32 \<Rightarrow> instance_ruleset_version option" where
  "instance_ruleset_version_new value = (if value = 0 then None else Some value)"

section \<open>Generators\<close>

datatype instance_id_generation_error = IG_Invalid instance_id_error | IG_Entropy

definition SECURE_INSTANCE_ID_ALPHABET :: string where
  "SECURE_INSTANCE_ID_ALPHABET = ''0123456789abcdefghjkmnpqrstvwxyz''"

text \<open>The inner loop: while at least five bits are buffered, the highest five are emitted.\<close>

function emit_bits :: "u16 \<Rightarrow> nat \<Rightarrow> string \<Rightarrow> u16 \<times> nat \<times> string" where
  "emit_bits buffer buffered_bits encoded =
     (if buffered_bits \<ge> 5 then
        (let bits = buffered_bits - 5;
             index = unat (drop_bit bits buffer AND 0x1f)
         in emit_bits (buffer AND (push_bit bits 1 - 1)) bits
              (encoded @ [SECURE_INSTANCE_ID_ALPHABET ! index]))
      else (buffer, buffered_bits, encoded))"
  by pat_completeness auto
termination
  by (relation "measure (\<lambda>(buffer, bits, encoded). bits)") auto

declare emit_bits.simps [simp del]

definition encode_byte :: "u8 \<Rightarrow> u16 \<times> nat \<times> string \<Rightarrow> u16 \<times> nat \<times> string" where
  "encode_byte byte state =
     (case state of (buffer, buffered_bits, encoded) \<Rightarrow>
        emit_bits (push_bit 8 buffer OR ucast byte) (buffered_bits + 8) encoded)"

definition encode_secure_instance_id :: "u8 list \<Rightarrow> string" where
  "encode_secure_instance_id entropy =
     (case fold encode_byte entropy (0, 0, []) of (_, _, encoded) \<Rightarrow> encoded)"

text \<open>The secure generator draws fifteen bytes of entropy from the operating system, or none.\<close>

definition secure_generate :: "u8 list option \<Rightarrow> instance_id_generation_error + instance_id" where
  "secure_generate entropy =
     (case entropy of
        None \<Rightarrow> Inl IG_Entropy
      | Some bytes \<Rightarrow>
          (case instance_id_parse (''i_'' @ encode_secure_instance_id bytes) of
             Inl e \<Rightarrow> Inl (IG_Invalid e)
           | Inr v \<Rightarrow> Inr v))"

text \<open>\<open>{:03}\<close> pads with zeros to three digits. The counter wraps around as \<open>fetch_add\<close> does.\<close>

definition sequence_generate :: "string \<Rightarrow> u64 \<Rightarrow> (instance_id_generation_error + instance_id) \<times> u64" where
  "sequence_generate prefix counter =
     (let digits = show_u64 counter;
          padded = replicate (3 - length digits) (CHR ''0'') @ digits
      in (case instance_id_parse (prefix @ ''_'' @ padded) of
            Inl e \<Rightarrow> Inl (IG_Invalid e)
          | Inr v \<Rightarrow> Inr v, counter + 1))"

section \<open>Instances\<close>

record instance_message_ref =
  im_channel :: channel_id
  im_id :: message_id

record instance_resources =
  in_roles :: "(string, role_id) bmap"
  in_channels :: "(string, channel_id) bmap"
  in_messages :: "(string, instance_message_ref) bmap"

datatype instance_status = IS_Active | IS_Deleting | IS_Disabled | IS_Deleted

record automation_instance =
  ai_id :: instance_id
  ai_guild_id :: guild_id
  ai_ruleset_key :: string
  ai_ruleset_version :: instance_ruleset_version
  ai_kind :: instance_kind
  ai_created_by :: user_id
  ai_resources :: instance_resources
  ai_status :: instance_status

datatype instance_store_error =
  DuplicateInstance | InstanceStoreNotFound | InstanceStoreTimedOut | InstanceStoreBackend string

section \<open>The in-memory store\<close>

instantiation guild_id :: linorder
begin

definition less_eq_guild_id :: "guild_id \<Rightarrow> guild_id \<Rightarrow> bool" where
  "less_eq_guild_id a b \<longleftrightarrow> guild_u64 a \<le> guild_u64 b"

definition less_guild_id :: "guild_id \<Rightarrow> guild_id \<Rightarrow> bool" where
  "less_guild_id a b \<longleftrightarrow> guild_u64 a < guild_u64 b"

instance
  by standard (auto simp: less_eq_guild_id_def less_guild_id_def guild_id.expand)

end

type_synonym instance_store = "(guild_id, (instance_id, automation_instance) bmap) bmap"

definition entries_of :: "guild_id \<Rightarrow> instance_store \<Rightarrow> (instance_id, automation_instance) bmap" where
  "entries_of guild store = (case bm_get store guild of None \<Rightarrow> [] | Some entries \<Rightarrow> entries)"

definition store_register :: "automation_instance \<Rightarrow> instance_store \<Rightarrow> (instance_store_error + unit) \<times> instance_store" where
  "store_register inst store =
     (let entries = entries_of (ai_guild_id inst) store;
          guilds = bm_insert (ai_guild_id inst) entries store
      in if bm_get entries (ai_id inst) \<noteq> None then (Inl DuplicateInstance, guilds)
         else (Inr (), bm_insert (ai_guild_id inst) (bm_insert (ai_id inst) inst entries) guilds))"

definition store_get :: "guild_id \<Rightarrow> instance_id \<Rightarrow> instance_store \<Rightarrow> automation_instance option" where
  "store_get guild i store =
     (case bm_get store guild of None \<Rightarrow> None | Some entries \<Rightarrow> bm_get entries i)"

definition list_by_guild :: "guild_id \<Rightarrow> instance_store \<Rightarrow> automation_instance list" where
  "list_by_guild guild store = map snd (entries_of guild store)"

text \<open>\<open>get_mut\<close> of an entry followed by an assignment to its status.\<close>

definition set_status :: "guild_id \<Rightarrow> instance_id \<Rightarrow> instance_status \<Rightarrow> instance_store \<Rightarrow> instance_store" where
  "set_status guild i status store =
     map (\<lambda>(g, entries). (g, if g = guild
       then map (\<lambda>(k, inst). (k, if k = i then inst\<lparr>ai_status := status\<rparr> else inst)) entries
       else entries)) store"

definition update_status ::
  "guild_id \<Rightarrow> instance_id \<Rightarrow> instance_status \<Rightarrow> instance_store \<Rightarrow> (instance_store_error + unit) \<times> instance_store" where
  "update_status guild i status store =
     (case store_get guild i store of
        None \<Rightarrow> (Inl InstanceStoreNotFound, store)
      | Some _ \<Rightarrow> (Inr (), set_status guild i status store))"

definition transition_to_deleting ::
  "guild_id \<Rightarrow> instance_id \<Rightarrow> instance_store \<Rightarrow> (instance_store_error + unit) \<times> instance_store" where
  "transition_to_deleting guild i store =
     (case store_get guild i store of
        None \<Rightarrow> (Inl InstanceStoreNotFound, store)
      | Some inst \<Rightarrow>
          (if ai_status inst = IS_Active then (Inr (), set_status guild i IS_Deleting store)
           else (Inl InstanceStoreNotFound, store)))"

definition mark_deleted ::
  "guild_id \<Rightarrow> instance_id \<Rightarrow> instance_store \<Rightarrow> (instance_store_error + unit) \<times> instance_store" where
  "mark_deleted guild i store =
     (case store_get guild i store of
        None \<Rightarrow> (Inl InstanceStoreNotFound, store)
      | Some inst \<Rightarrow>
          (if ai_status inst = IS_Deleting then (Inr (), set_status guild i IS_Deleted store)
           else (Inl InstanceStoreNotFound, store)))"

definition list_deleting :: "guild_id \<Rightarrow> instance_store \<Rightarrow> automation_instance list" where
  "list_deleting guild store = filter (\<lambda>inst. ai_status inst = IS_Deleting) (list_by_guild guild store)"

datatype teardown_claim_outcome = TC_Claimed | TC_AlreadyDeleting | TC_AlreadyDeleted

datatype teardown_mark_outcome = TM_MarkedDeleted | TM_AlreadyDeleted

definition claim_deleting_v1 ::
  "guild_id \<Rightarrow> instance_id \<Rightarrow> instance_store \<Rightarrow> (instance_store_error + teardown_claim_outcome) \<times> instance_store" where
  "claim_deleting_v1 guild i store =
     (case store_get guild i store of
        None \<Rightarrow> (Inl InstanceStoreNotFound, store)
      | Some inst \<Rightarrow>
          (case ai_status inst of
             IS_Active \<Rightarrow> (Inr TC_Claimed, set_status guild i IS_Deleting store)
           | IS_Disabled \<Rightarrow> (Inr TC_Claimed, set_status guild i IS_Deleting store)
           | IS_Deleting \<Rightarrow> (Inr TC_AlreadyDeleting, store)
           | IS_Deleted \<Rightarrow> (Inr TC_AlreadyDeleted, store)))"

definition mark_deleted_v1 ::
  "guild_id \<Rightarrow> instance_id \<Rightarrow> instance_store \<Rightarrow> (instance_store_error + teardown_mark_outcome) \<times> instance_store" where
  "mark_deleted_v1 guild i store =
     (case store_get guild i store of
        None \<Rightarrow> (Inl InstanceStoreNotFound, store)
      | Some inst \<Rightarrow>
          (case ai_status inst of
             IS_Deleting \<Rightarrow> (Inr TM_MarkedDeleted, set_status guild i IS_Deleted store)
           | IS_Deleted \<Rightarrow> (Inr TM_AlreadyDeleted, store)
           | IS_Active \<Rightarrow> (Inl InstanceStoreNotFound, store)
           | IS_Disabled \<Rightarrow> (Inl InstanceStoreNotFound, store)))"

definition MAX_INSTANCE_TEARDOWN_RETRY_BATCH_V1 :: nat where
  "MAX_INSTANCE_TEARDOWN_RETRY_BATCH_V1 = 256"

definition list_retryable_v1 ::
  "guild_id \<Rightarrow> nat \<Rightarrow> instance_store \<Rightarrow> instance_store_error + automation_instance list" where
  "list_retryable_v1 guild limit store =
     (if limit > MAX_INSTANCE_TEARDOWN_RETRY_BATCH_V1
      then Inl (InstanceStoreBackend ''instance_teardown_retry_batch_invalid'')
      else Inr (take limit (list_deleting guild store)))"

end
