(* ===== verification/Rule_Execution.thy ===== *)
theory Rule_Execution
  imports Rule_Validation Instance_Store
begin

text \<open>
  The execution of interaction rules in the crate \<open>automation-core\<close>: \<open>interpret.rs\<close> plans the actions of
  the rule an event triggers, \<open>prepare.rs\<close> normalises the inputs, and \<open>execution/\<close> resolves and performs
  one action after the other. The traits behind \<open>AutomationServices\<close> are a record of functions on the
  state of the outside world. An error message that embeds the \<open>Debug\<close> form of a value keeps the value.
\<close>

section \<open>Errors and services\<close>

datatype runtime_error_kind =
  EK_Forbidden | EK_NotFound | EK_RateLimited | EK_Network | EK_Unsupported | EK_BadRequest
| EK_InvalidEventRoute | EK_Unknown

datatype instance_resource =
  IRes_Role string role_id | IRes_Channel string channel_id | IRes_Message string channel_id message_id

datatype delete_outcome = DO_Deleted | DO_AlreadyGone

datatype deleter_error_kind = DE_Forbidden | DE_RateLimited | DE_Network | DE_Unknown

record deleter_error =
  de_kind :: deleter_error_kind
  de_message :: string

datatype teardown_outcome = TO_Completed | TO_ResumedAndCompleted | TO_AlreadyDeleted | TO_InProgress

datatype teardown_error =
  TE_Lookup instance_store_error
| TE_InstanceNotFound
| TE_ManifestDrift
| TE_DeleteFailed instance_resource deleter_error
| TE_Store instance_store_error

datatype error_message =
  Msg string
| Msg_Template template_error
| Msg_InstanceRegister instance_store_error
| Msg_InstanceTeardown teardown_error
| Msg_InstanceId instance_id_generation_error

record runtime_adapter_error =
  rae_kind :: runtime_error_kind
  rae_message :: error_message

definition bad_request :: "error_message \<Rightarrow> runtime_adapter_error" where
  "bad_request message = \<lparr> rae_kind = EK_BadRequest, rae_message = message \<rparr>"

datatype resolved_button_route =
  RBR_Static string
| RBR_InstanceAction instance_id string

record post_panel_button_spec =
  pb_label :: string
  pb_route :: resolved_button_route

record post_panel_spec =
  pp_content :: string
  pp_buttons :: "post_panel_button_spec list"

record modal_presentation =
  mp_key :: string
  mp_title :: string
  mp_fields :: "modal_field_spec list"

record 'w automation_services =
  sv_grant_role :: "guild_id \<Rightarrow> user_id \<Rightarrow> role_id \<Rightarrow> 'w \<Rightarrow> (runtime_adapter_error + unit) \<times> 'w"
  sv_create_channel :: "guild_id \<Rightarrow> string \<Rightarrow> 'w \<Rightarrow> (runtime_adapter_error + channel_id) \<times> 'w"
  sv_create_role :: "guild_id \<Rightarrow> string \<Rightarrow> 'w \<Rightarrow> (runtime_adapter_error + role_id) \<times> 'w"
  sv_upsert_overwrite :: "guild_id \<Rightarrow> channel_id \<Rightarrow> overwrite_target \<Rightarrow> permissions \<Rightarrow> permissions \<Rightarrow> 'w \<Rightarrow>
    (runtime_adapter_error + unit) \<times> 'w"
  sv_post_panel :: "guild_id \<Rightarrow> channel_id \<Rightarrow> post_panel_spec \<Rightarrow> 'w \<Rightarrow> (runtime_adapter_error + message_id) \<times> 'w"
  sv_respond_ephemeral :: "string \<Rightarrow> 'w \<Rightarrow> (runtime_adapter_error + unit) \<times> 'w"
  sv_open_modal :: "modal_presentation \<Rightarrow> 'w \<Rightarrow> (runtime_adapter_error + unit) \<times> 'w"
  sv_defer_ephemeral :: "'w \<Rightarrow> (runtime_adapter_error + unit) \<times> 'w"
  sv_edit_response :: "string \<Rightarrow> 'w \<Rightarrow> (runtime_adapter_error + unit) \<times> 'w"
  sv_register_instance :: "automation_instance \<Rightarrow> 'w \<Rightarrow> (instance_store_error + unit) \<times> 'w"
  sv_generate :: "'w \<Rightarrow> (instance_id_generation_error + instance_id) \<times> 'w"
  sv_teardown :: "guild_id \<Rightarrow> instance_id \<Rightarrow> 'w \<Rightarrow> (teardown_error + teardown_outcome) \<times> 'w"

section \<open>Contexts and plans\<close>

record resolved_instance_context =
  ric_instance :: automation_instance
  ric_action :: string

record running_ruleset_identity =
  rri_key :: string
  rri_version :: instance_ruleset_version

record runtime_context =
  rx_guild_id :: guild_id
  rx_actor :: user_id
  rx_ruleset_key :: string
  rx_ruleset_version :: instance_ruleset_version
  rx_inputs :: input_map
  rx_instance :: "resolved_instance_context option"

definition context_from_event :: "runtime_event \<Rightarrow> running_ruleset_identity \<Rightarrow> runtime_context" where
  "context_from_event event identity =
     \<lparr> rx_guild_id = re_guild_id event, rx_actor = re_actor event, rx_ruleset_key = rri_key identity,
       rx_ruleset_version = rri_version identity,
       rx_inputs = (case re_kind event of EK_ModalSubmit _ inputs \<Rightarrow> inputs | _ \<Rightarrow> []),
       rx_instance = None \<rparr>"

datatype planned_role = PR_Resolved role_id | PR_Created string | PR_Instance string

datatype planned_channel = PC_Resolved channel_id | PC_Created string

datatype planned_overwrite_target = PT_Everyone | PT_Role planned_role

datatype planned_action =
  PA_GrantRole planned_role user_id
| PA_RespondEphemeral string
| PA_OpenModal modal_presentation
| PA_CreateChannel string string
| PA_CreateRole string string
| PA_UpsertOverwrite planned_channel planned_overwrite_target permissions permissions
| PA_PostPanel string planned_channel string "button_spec list"
| PA_DeferEphemeral
| PA_EditResponse string
| PA_RegisterInstance string instance_kind instance_resource_refs
| PA_TeardownInstance instance_ref

record action_plan =
  pl_steps :: "planned_action list"

datatype response_delivery_outcome = RD_Sent | RD_Failed

record teardown_action_result =
  ta_action_index :: nat
  ta_instance_id :: instance_id
  ta_teardown :: teardown_outcome
  ta_response :: response_delivery_outcome

datatype runtime_created_resource =
  RC_Channel nat string string channel_id
| RC_Role nat string string role_id
| RC_Message nat string channel_id message_id
| RC_Instance nat string instance_id

record run_result =
  rs_created :: "runtime_created_resource list"
  rs_teardowns :: "teardown_action_result list"

section \<open>Interpretation\<close>

definition plan_role :: "role_ref \<Rightarrow> resource_binding_map \<Rightarrow> planned_role option" where
  "plan_role role b =
     (case role of
        RR_Existing key \<Rightarrow> map_option PR_Resolved (bm_get (role_bindings b) key)
      | RR_Created inner \<Rightarrow> Some (PR_Created inner)
      | RR_Instance IR_Event alias \<Rightarrow> Some (PR_Instance alias)
      | RR_Instance (IR_Created _) _ \<Rightarrow> None)"

definition plan_channel :: "channel_ref \<Rightarrow> resource_binding_map \<Rightarrow> planned_channel option" where
  "plan_channel channel b =
     (case channel of
        CR_Existing key \<Rightarrow> map_option PC_Resolved (bm_get (channel_bindings b) key)
      | CR_Created inner \<Rightarrow> Some (PC_Created inner))"

definition trigger_matches :: "trigger_spec \<Rightarrow> event_kind \<Rightarrow> bool" where
  "trigger_matches trigger kind =
     (case (trigger, kind) of
        (TS_ButtonClick component, EK_ButtonClick clicked) \<Rightarrow> component = clicked
      | (TS_ModalSubmit modal, EK_ModalSubmit submitted _) \<Rightarrow> modal = submitted
      | (TS_InstanceAction action, EK_InstanceAction _ received) \<Rightarrow> action = received
      | _ \<Rightarrow> False)"

definition interpret_action ::
  "runtime_event \<Rightarrow> interaction_rule_set \<Rightarrow> resource_binding_map \<Rightarrow> action_spec \<Rightarrow> planned_action option" where
  "interpret_action event ruleset b action =
     (case action of
        AS_GrantRole role AT_Actor \<Rightarrow>
          map_option (\<lambda>planned. PA_GrantRole planned (re_actor event)) (plan_role role b)
      | AS_RespondEphemeral content \<Rightarrow> Some (PA_RespondEphemeral content)
      | AS_OpenModal modal \<Rightarrow>
          map_option (\<lambda>spec. PA_OpenModal \<lparr> mp_key = ms_key spec, mp_title = ms_title spec, mp_fields = ms_fields spec \<rparr>)
            (find (\<lambda>candidate. ms_key candidate = modal) (irs_modals ruleset))
      | AS_CreateChannel key name \<Rightarrow> Some (PA_CreateChannel key name)
      | AS_CreateRole key name \<Rightarrow> Some (PA_CreateRole key name)
      | AS_UpsertOverwrite channel target allow deny \<Rightarrow>
          (case plan_channel channel b of
             None \<Rightarrow> None
           | Some planned_channel \<Rightarrow>
               (case target of
                  OTS_Everyone \<Rightarrow> Some (PA_UpsertOverwrite planned_channel PT_Everyone allow deny)
                | OTS_Role role \<Rightarrow>
                    map_option (\<lambda>planned. PA_UpsertOverwrite planned_channel (PT_Role planned) allow deny)
                      (plan_role role b)))
      | AS_PostPanel key channel content buttons \<Rightarrow>
          map_option (\<lambda>planned. PA_PostPanel key planned content buttons) (plan_channel channel b)
      | AS_DeferEphemeral \<Rightarrow> Some PA_DeferEphemeral
      | AS_EditResponse content \<Rightarrow> Some (PA_EditResponse content)
      | AS_RegisterInstance key kind resources \<Rightarrow> Some (PA_RegisterInstance key kind resources)
      | AS_TeardownInstance inst \<Rightarrow> Some (PA_TeardownInstance inst))"

fun interpret_actions ::
  "runtime_event \<Rightarrow> interaction_rule_set \<Rightarrow> resource_binding_map \<Rightarrow> action_spec list \<Rightarrow>
   planned_action list \<Rightarrow> planned_action list option" where
  "interpret_actions event ruleset b [] steps = Some steps"
| "interpret_actions event ruleset b (action # actions) steps =
     (case interpret_action event ruleset b action of
        None \<Rightarrow> None
      | Some step \<Rightarrow> interpret_actions event ruleset b actions (steps @ [step]))"

definition interpret_event :: "runtime_event \<Rightarrow> interaction_rule_set \<Rightarrow> resource_binding_map \<Rightarrow> action_plan option" where
  "interpret_event event ruleset b =
     (case find (\<lambda>rule. trigger_matches (ir_trigger rule) (re_kind event)) (irs_rules ruleset) of
        None \<Rightarrow> None
      | Some rule \<Rightarrow>
          map_option (\<lambda>steps. \<lparr> pl_steps = steps \<rparr>)
            (interpret_actions event ruleset b (ir_actions rule) []))"

end
