(* ===== verification/Rule_Run.thy ===== *)
theory Rule_Run
  imports Rule_Execution
begin

text \<open>
  The run of a plan: \<open>prepare.rs\<close>, \<open>run.rs\<close> and the modules \<open>prepare\<close>, \<open>state\<close> and \<open>effect\<close> of
  \<open>automation-core/src/execution\<close>.
\<close>

section \<open>Preparation of an event\<close>

fun modal_input_error_display :: "modal_input_error \<Rightarrow> string" where
  "modal_input_error_display (MI_ModalDefinitionMissing modal) =
     modal_input_error_code (MI_ModalDefinitionMissing modal) @ '': modal='' @ modal"
| "modal_input_error_display (MI_RequiredMissing modal field) =
     modal_input_error_code (MI_RequiredMissing modal field) @ '': modal='' @ modal @ '', field='' @ field"
| "modal_input_error_display (MI_Unexpected modal field) =
     modal_input_error_code (MI_Unexpected modal field) @ '': modal='' @ modal @ '', field='' @ field"
| "modal_input_error_display (MI_TooShort modal field min_length actual_length) =
     modal_input_error_code (MI_TooShort modal field min_length actual_length) @ '': modal='' @ modal
     @ '', field='' @ field @ '', min_length='' @ show_nat (unat min_length)
     @ '', actual_length='' @ show_nat actual_length"
| "modal_input_error_display (MI_TooLong modal field max_length actual_length) =
     modal_input_error_code (MI_TooLong modal field max_length actual_length) @ '': modal='' @ modal
     @ '', field='' @ field @ '', max_length='' @ show_nat (unat max_length)
     @ '', actual_length='' @ show_nat actual_length"

record prepared_event_execution =
  pe_context :: runtime_context
  pe_plan :: action_plan
  pe_leading_defer_ephemeral :: bool

definition prepare_event_execution ::
  "runtime_event \<Rightarrow> interaction_rule_set \<Rightarrow> resource_binding_map \<Rightarrow> running_ruleset_identity \<Rightarrow>
   runtime_adapter_error + prepared_event_execution option" where
  "prepare_event_execution event ruleset b identity =
     (case re_kind event of
        EK_InstanceAction _ _ \<Rightarrow>
          Inl \<lparr> rae_kind = EK_InvalidEventRoute,
            rae_message = Msg ''InstanceAction must be dispatched via automation-ruleset-dispatch'' \<rparr>
      | _ \<Rightarrow>
          (case normalize_modal_submit_inputs event ruleset of
             Inl e \<Rightarrow> Inl (bad_request (Msg (modal_input_error_display e)))
           | Inr normalized_inputs \<Rightarrow>
               (let context = context_from_event event identity;
                    context' = (case normalized_inputs of
                      None \<Rightarrow> context | Some inputs \<Rightarrow> context\<lparr> rx_inputs := inputs \<rparr>)
                in case interpret_event event ruleset b of
                     None \<Rightarrow> Inr None
                   | Some plan \<Rightarrow>
                       (case pl_steps plan of
                          PA_DeferEphemeral # steps \<Rightarrow>
                            Inr (Some \<lparr> pe_context = context', pe_plan = \<lparr> pl_steps = steps \<rparr>,
                              pe_leading_defer_ephemeral = True \<rparr>)
                        | steps \<Rightarrow>
                            Inr (Some \<lparr> pe_context = context', pe_plan = \<lparr> pl_steps = steps \<rparr>,
                              pe_leading_defer_ephemeral = False \<rparr>)))))"

section \<open>The state of a run\<close>

record execution_state =
  ex_created_roles :: "(string, role_id) bmap"
  ex_created_channels :: "(string, channel_id) bmap"
  ex_created_messages :: "(string, instance_message_ref) bmap"
  ex_planned_instances :: "(string, instance_id) bmap"
  ex_created_instances :: "(string, instance_id) bmap"

fun plan_instances ::
  "'w automation_services \<Rightarrow> planned_action list \<Rightarrow> (string, instance_id) bmap \<Rightarrow> 'w \<Rightarrow>
   (runtime_adapter_error + (string, instance_id) bmap) \<times> 'w" where
  "plan_instances sv [] reserved world = (Inr reserved, world)"
| "plan_instances sv (PA_RegisterInstance key kind resources # steps) reserved world =
     (if bm_get reserved key = None then
        (case sv_generate sv world of
           (Inl e, world') \<Rightarrow> (Inl (bad_request (Msg_InstanceId e)), world')
         | (Inr i, world') \<Rightarrow> plan_instances sv steps (bm_insert key i reserved) world')
      else plan_instances sv steps reserved world)"
| "plan_instances sv (_ # steps) reserved world = plan_instances sv steps reserved world"

definition execution_state_prepare ::
  "'w automation_services \<Rightarrow> action_plan \<Rightarrow> 'w \<Rightarrow> (runtime_adapter_error + execution_state) \<times> 'w" where
  "execution_state_prepare sv plan world =
     (case plan_instances sv (pl_steps plan) [] world of
        (Inl e, world') \<Rightarrow> (Inl e, world')
      | (Inr reserved, world') \<Rightarrow>
          (Inr \<lparr> ex_created_roles = [], ex_created_channels = [], ex_created_messages = [],
             ex_planned_instances = reserved, ex_created_instances = [] \<rparr>, world'))"

definition unresolved_planned_instance :: "string \<Rightarrow> runtime_adapter_error" where
  "unresolved_planned_instance key = bad_request (Msg (''unresolved planned instance: '' @ key))"

definition unresolved_manifest :: "string \<Rightarrow> runtime_adapter_error" where
  "unresolved_manifest key = bad_request (Msg (''unresolved manifest ref: '' @ key))"

definition unresolved_created_role :: "string \<Rightarrow> runtime_adapter_error" where
  "unresolved_created_role key = bad_request (Msg (''unresolved created role: '' @ key))"

definition unresolved_created_channel :: "string \<Rightarrow> runtime_adapter_error" where
  "unresolved_created_channel key = bad_request (Msg (''unresolved created channel: '' @ key))"

definition event_instance_missing :: runtime_adapter_error where
  "event_instance_missing = bad_request (Msg ''InstanceContextMissing: button route'')"

definition instance_context_missing :: "string \<Rightarrow> runtime_adapter_error" where
  "instance_context_missing alias = bad_request (Msg (''InstanceContextMissing: role alias='' @ alias))"

definition instance_resource_not_found :: "instance_id \<Rightarrow> string \<Rightarrow> runtime_adapter_error" where
  "instance_resource_not_found i alias =
     bad_request (Msg (''InstanceResourceNotFound: instance='' @ i @ '', resource=role, alias='' @ alias))"

definition ok_or_else :: "'e \<Rightarrow> 'a option \<Rightarrow> 'e + 'a" where
  "ok_or_else e x = (case x of None \<Rightarrow> Inl e | Some v \<Rightarrow> Inr v)"

definition state_resolve_role ::
  "execution_state \<Rightarrow> planned_role \<Rightarrow> runtime_context \<Rightarrow> runtime_adapter_error + role_id" where
  "state_resolve_role state role context =
     (case role of
        PR_Resolved i \<Rightarrow> Inr i
      | PR_Created key \<Rightarrow> ok_or_else (unresolved_created_role key) (bm_get (ex_created_roles state) key)
      | PR_Instance alias \<Rightarrow>
          (case rx_instance context of
             None \<Rightarrow> Inl (instance_context_missing alias)
           | Some resolved \<Rightarrow>
               ok_or_else (instance_resource_not_found (ai_id (ric_instance resolved)) alias)
                 (bm_get (in_roles (ai_resources (ric_instance resolved))) alias)))"

definition state_resolve_channel ::
  "execution_state \<Rightarrow> planned_channel \<Rightarrow> runtime_adapter_error + channel_id" where
  "state_resolve_channel state channel =
     (case channel of
        PC_Resolved i \<Rightarrow> Inr i
      | PC_Created key \<Rightarrow> ok_or_else (unresolved_created_channel key) (bm_get (ex_created_channels state) key))"

definition resolve_button_instance ::
  "execution_state \<Rightarrow> instance_ref \<Rightarrow> runtime_context \<Rightarrow> runtime_adapter_error + instance_id" where
  "resolve_button_instance state inst context =
     (case inst of
        IR_Created created \<Rightarrow>
          ok_or_else (unresolved_planned_instance created) (bm_get (ex_planned_instances state) created)
      | IR_Event \<Rightarrow>
          ok_or_else event_instance_missing
            (map_option (\<lambda>resolved. ai_id (ric_instance resolved)) (rx_instance context)))"

fun resolve_panel_buttons ::
  "execution_state \<Rightarrow> button_spec list \<Rightarrow> runtime_context \<Rightarrow>
   runtime_adapter_error + post_panel_button_spec list" where
  "resolve_panel_buttons state [] context = Inr []"
| "resolve_panel_buttons state (button # buttons) context =
     (case (case bs_route button of
              BR_Static key \<Rightarrow> Inr (RBR_Static key)
            | BR_InstanceAction inst action \<Rightarrow>
                (case resolve_button_instance state inst context of
                   Inl e \<Rightarrow> Inl e
                 | Inr i \<Rightarrow> Inr (RBR_InstanceAction i action))) of
        Inl e \<Rightarrow> Inl e
      | Inr route \<Rightarrow>
          (case resolve_panel_buttons state buttons context of
             Inl e \<Rightarrow> Inl e
           | Inr specs \<Rightarrow> Inr (\<lparr> pb_label = bs_label button, pb_route = route \<rparr> # specs)))"

definition resolve_instance_ref ::
  "execution_state \<Rightarrow> instance_ref \<Rightarrow> runtime_context \<Rightarrow> runtime_adapter_error + instance_id" where
  "resolve_instance_ref state inst context =
     (case inst of
        IR_Event \<Rightarrow>
          ok_or_else event_instance_missing
            (map_option (\<lambda>resolved. ai_id (ric_instance resolved)) (rx_instance context))
      | IR_Created created \<Rightarrow>
          ok_or_else (unresolved_planned_instance created)
            (case bm_get (ex_created_instances state) created of
               Some i \<Rightarrow> Some i
             | None \<Rightarrow> bm_get (ex_planned_instances state) created))"

fun resolve_refs ::
  "(string, 'v) bmap \<Rightarrow> (string \<times> created_ref) list \<Rightarrow> (string, 'v) bmap \<Rightarrow>
   runtime_adapter_error + (string, 'v) bmap" where
  "resolve_refs created [] resolved = Inr resolved"
| "resolve_refs created ((alias, reference) # refs) resolved =
     (case bm_get created reference of
        None \<Rightarrow> Inl (unresolved_manifest reference)
      | Some v \<Rightarrow> resolve_refs created refs (bm_insert alias v resolved))"

definition resolve_manifest ::
  "execution_state \<Rightarrow> instance_resource_refs \<Rightarrow> runtime_adapter_error + instance_resources" where
  "resolve_manifest state refs =
     (case resolve_refs (ex_created_roles state) (irr_roles refs) [] of
        Inl e \<Rightarrow> Inl e
      | Inr roles \<Rightarrow>
          (case resolve_refs (ex_created_channels state) (irr_channels refs) [] of
             Inl e \<Rightarrow> Inl e
           | Inr channels \<Rightarrow>
               (case resolve_refs (ex_created_messages state) (irr_messages refs) [] of
                  Inl e \<Rightarrow> Inl e
                | Inr messages \<Rightarrow>
                    Inr \<lparr> in_roles = roles, in_channels = channels, in_messages = messages \<rparr>)))"

section \<open>Preparation of an action\<close>

datatype prepared_action =
  PP_GrantRole role_id user_id
| PP_RespondEphemeral string
| PP_OpenModal modal_presentation
| PP_CreateChannel nat string string
| PP_CreateRole nat string string
| PP_UpsertOverwrite channel_id overwrite_target permissions permissions
| PP_PostPanel nat string channel_id post_panel_spec
| PP_DeferEphemeral
| PP_EditResponse string
| PP_RegisterInstance nat string instance_id automation_instance
| PP_TeardownInstance nat instance_id

definition render_source ::
  "string \<Rightarrow> runtime_context \<Rightarrow> sanitize_context \<Rightarrow> runtime_adapter_error + string" where
  "render_source source context sc =
     (case parse source of
        Inl e \<Rightarrow> Inl (bad_request (Msg_Template e))
      | Inr template \<Rightarrow>
          (case render template (rx_inputs context) sc of
             Inl e \<Rightarrow> Inl (bad_request (Msg_Template e))
           | Inr s \<Rightarrow> Inr s))"

definition map_ok :: "('a \<Rightarrow> 'b) \<Rightarrow> 'e + 'a \<Rightarrow> 'e + 'b" where
  "map_ok f r = (case r of Inl e \<Rightarrow> Inl e | Inr x \<Rightarrow> Inr (f x))"

definition bind_ok :: "'e + 'a \<Rightarrow> ('a \<Rightarrow> 'e + 'b) \<Rightarrow> 'e + 'b" where
  "bind_ok r f = (case r of Inl e \<Rightarrow> Inl e | Inr x \<Rightarrow> f x)"

definition prepare_action ::
  "nat \<Rightarrow> planned_action \<Rightarrow> runtime_context \<Rightarrow> execution_state \<Rightarrow> runtime_adapter_error + prepared_action" where
  "prepare_action index step context state =
     (case step of
        PA_GrantRole role target \<Rightarrow>
          map_ok (\<lambda>i. PP_GrantRole i target) (state_resolve_role state role context)
      | PA_RespondEphemeral content \<Rightarrow>
          map_ok PP_RespondEphemeral (render_source content context SC_EphemeralMessageContent)
      | PA_OpenModal modal \<Rightarrow> Inr (PP_OpenModal modal)
      | PA_CreateChannel key name \<Rightarrow>
          map_ok (PP_CreateChannel index key) (render_source name context SC_ChannelName)
      | PA_CreateRole key name \<Rightarrow>
          map_ok (PP_CreateRole index key) (render_source name context SC_RoleName)
      | PA_UpsertOverwrite channel target allow deny \<Rightarrow>
          bind_ok (state_resolve_channel state channel) (\<lambda>channel_id.
          bind_ok (case target of
                     PT_Everyone \<Rightarrow> Inr (OT_Role (RoleId (guild_u64 (rx_guild_id context))))
                   | PT_Role role \<Rightarrow> map_ok OT_Role (state_resolve_role state role context)) (\<lambda>target_id.
          Inr (PP_UpsertOverwrite channel_id target_id allow deny)))
      | PA_PostPanel key channel content buttons \<Rightarrow>
          bind_ok (state_resolve_channel state channel) (\<lambda>channel_id.
          bind_ok (render_source content context SC_EphemeralMessageContent) (\<lambda>body.
          bind_ok (resolve_panel_buttons state buttons context) (\<lambda>specs.
          Inr (PP_PostPanel index key channel_id \<lparr> pp_content = body, pp_buttons = specs \<rparr>))))
      | PA_DeferEphemeral \<Rightarrow> Inr PP_DeferEphemeral
      | PA_EditResponse content \<Rightarrow>
          map_ok PP_EditResponse (render_source content context SC_EphemeralMessageContent)
      | PA_RegisterInstance key kind resources \<Rightarrow>
          bind_ok (ok_or_else (unresolved_planned_instance key) (bm_get (ex_planned_instances state) key)) (\<lambda>i.
          bind_ok (resolve_manifest state resources) (\<lambda>resolved.
          Inr (PP_RegisterInstance index key i
            \<lparr> ai_id = i, ai_guild_id = rx_guild_id context, ai_ruleset_key = rx_ruleset_key context,
              ai_ruleset_version = rx_ruleset_version context, ai_kind = kind, ai_created_by = rx_actor context,
              ai_resources = resolved, ai_status = IS_Active \<rparr>)))
      | PA_TeardownInstance inst \<Rightarrow>
          map_ok (PP_TeardownInstance index) (resolve_instance_ref state inst context))"

section \<open>Execution\<close>

record execution_output =
  eo_created :: "runtime_created_resource list"
  eo_teardowns :: "teardown_action_result list"

definition push_created :: "runtime_created_resource \<Rightarrow> execution_output \<Rightarrow> execution_output" where
  "push_created resource output = output\<lparr> eo_created := eo_created output @ [resource] \<rparr>"

definition execute_action ::
  "guild_id \<Rightarrow> prepared_action \<Rightarrow> 'w automation_services \<Rightarrow> execution_state \<Rightarrow> execution_output \<Rightarrow> 'w \<Rightarrow>
   (runtime_adapter_error + execution_state \<times> execution_output) \<times> 'w" where
  "execute_action guild action sv state output world =
     (case action of
        PP_GrantRole role target \<Rightarrow>
          map_prod (map_ok (\<lambda>_. (state, output))) id (sv_grant_role sv guild target role world)
      | PP_RespondEphemeral content \<Rightarrow>
          map_prod (map_ok (\<lambda>_. (state, output))) id (sv_respond_ephemeral sv content world)
      | PP_OpenModal modal \<Rightarrow>
          map_prod (map_ok (\<lambda>_. (state, output))) id (sv_open_modal sv modal world)
      | PP_CreateChannel index key name \<Rightarrow>
          map_prod (map_ok (\<lambda>i. (state\<lparr> ex_created_channels := bm_insert key i (ex_created_channels state) \<rparr>,
            push_created (RC_Channel index key name i) output))) id (sv_create_channel sv guild name world)
      | PP_CreateRole index key name \<Rightarrow>
          map_prod (map_ok (\<lambda>i. (state\<lparr> ex_created_roles := bm_insert key i (ex_created_roles state) \<rparr>,
            push_created (RC_Role index key name i) output))) id (sv_create_role sv guild name world)
      | PP_UpsertOverwrite channel target allow deny \<Rightarrow>
          map_prod (map_ok (\<lambda>_. (state, output))) id (sv_upsert_overwrite sv guild channel target allow deny world)
      | PP_PostPanel index key channel spec \<Rightarrow>
          map_prod (map_ok (\<lambda>i. (state\<lparr> ex_created_messages :=
              bm_insert key \<lparr> im_channel = channel, im_id = i \<rparr> (ex_created_messages state) \<rparr>,
            push_created (RC_Message index key channel i) output))) id (sv_post_panel sv guild channel spec world)
      | PP_DeferEphemeral \<Rightarrow>
          map_prod (map_ok (\<lambda>_. (state, output))) id (sv_defer_ephemeral sv world)
      | PP_EditResponse content \<Rightarrow>
          (case sv_edit_response sv content world of
             (Inr _, world') \<Rightarrow> (Inr (state, output), world')
           | (Inl e, world') \<Rightarrow>
               (if eo_teardowns output = [] then (Inl e, world')
                else (Inr (state, output\<lparr> eo_teardowns :=
                  map (\<lambda>t. t\<lparr> ta_response := RD_Failed \<rparr>) (eo_teardowns output) \<rparr>), world')))
      | PP_RegisterInstance index key i inst \<Rightarrow>
          (case sv_register_instance sv inst world of
             (Inl e, world') \<Rightarrow> (Inl (bad_request (Msg_InstanceRegister e)), world')
           | (Inr _, world') \<Rightarrow>
               (Inr (state\<lparr> ex_created_instances := bm_insert key i (ex_created_instances state) \<rparr>,
                 push_created (RC_Instance index key i) output), world'))
      | PP_TeardownInstance index i \<Rightarrow>
          (case sv_teardown sv guild i world of
             (Inl e, world') \<Rightarrow> (Inl (bad_request (Msg_InstanceTeardown e)), world')
           | (Inr outcome, world') \<Rightarrow>
               (Inr (state, output\<lparr> eo_teardowns := eo_teardowns output @
                 [\<lparr> ta_action_index = index, ta_instance_id = i, ta_teardown = outcome, ta_response = RD_Sent \<rparr>] \<rparr>),
                world')))"

fun execute_steps ::
  "'w automation_services \<Rightarrow> runtime_context \<Rightarrow> nat \<Rightarrow> planned_action list \<Rightarrow> execution_state \<Rightarrow>
   execution_output \<Rightarrow> 'w \<Rightarrow> (runtime_adapter_error + execution_output) \<times> 'w" where
  "execute_steps sv context index [] state output world = (Inr output, world)"
| "execute_steps sv context index (step # steps) state output world =
     (case prepare_action index step context state of
        Inl e \<Rightarrow> (Inl e, world)
      | Inr action \<Rightarrow>
          (case execute_action (rx_guild_id context) action sv state output world of
             (Inl e, world') \<Rightarrow> (Inl e, world')
           | (Inr (state', output'), world') \<Rightarrow>
               execute_steps sv context (Suc index) steps state' output' world'))"

definition execute_plan ::
  "runtime_context \<Rightarrow> action_plan \<Rightarrow> 'w automation_services \<Rightarrow> 'w \<Rightarrow> (runtime_adapter_error + run_result) \<times> 'w" where
  "execute_plan context plan sv world =
     (case execution_state_prepare sv plan world of
        (Inl e, world') \<Rightarrow> (Inl e, world')
      | (Inr state, world') \<Rightarrow>
          (case execute_steps sv context 0 (pl_steps plan) state \<lparr> eo_created = [], eo_teardowns = [] \<rparr> world' of
             (Inl e, world'') \<Rightarrow> (Inl e, world'')
           | (Inr output, world'') \<Rightarrow>
               (Inr \<lparr> rs_created = eo_created output, rs_teardowns = eo_teardowns output \<rparr>, world'')))"

definition execute_prepared_event ::
  "prepared_event_execution \<Rightarrow> 'w automation_services \<Rightarrow> string \<Rightarrow> 'w \<Rightarrow> (runtime_adapter_error + unit) \<times> 'w" where
  "execute_prepared_event prepared sv failure_message world =
     (case (if pe_leading_defer_ephemeral prepared then sv_defer_ephemeral sv world else (Inr (), world)) of
        (Inl e, world') \<Rightarrow> (Inl e, world')
      | (Inr _, world') \<Rightarrow>
          (case execute_plan (pe_context prepared) (pe_plan prepared) sv world' of
             (Inr _, world'') \<Rightarrow> (Inr (), world'')
           | (Inl e, world'') \<Rightarrow>
               (Inl e,
                if pe_leading_defer_ephemeral prepared then
                  (case render_source failure_message (pe_context prepared) SC_EphemeralMessageContent of
                     Inr rendered \<Rightarrow> snd (sv_edit_response sv rendered world'')
                   | Inl _ \<Rightarrow> world'')
                else world'')))"

datatype handle_outcome = HO_Executed | HO_NoOp

definition handle_event ::
  "runtime_event \<Rightarrow> interaction_rule_set \<Rightarrow> resource_binding_map \<Rightarrow> 'w automation_services \<Rightarrow> string \<Rightarrow>
   running_ruleset_identity \<Rightarrow> 'w \<Rightarrow> (runtime_adapter_error + handle_outcome) \<times> 'w" where
  "handle_event event ruleset b sv failure_message identity world =
     (case prepare_event_execution event ruleset b identity of
        Inl e \<Rightarrow> (Inl e, world)
      | Inr None \<Rightarrow> (Inr HO_NoOp, world)
      | Inr (Some prepared) \<Rightarrow>
          map_prod (map_ok (\<lambda>_. HO_Executed)) id (execute_prepared_event prepared sv failure_message world))"

end
