(* ===== verification/Rule_Soundness.thy ===== *)
theory Rule_Soundness
  imports Rule_Run
begin

text \<open>
  What the validation of a rule set guarantees about its execution: every reference of a planned action
  resolves when the action is reached.
\<close>

section \<open>What validation establishes\<close>

definition modal_tables :: "interaction_rule_set \<Rightarrow> string set \<times> field_map" where
  "modal_tables ruleset = snd (collect check_modal (irs_modals ruleset) ({}, []))"

abbreviation rule_modal_keys :: "interaction_rule_set \<Rightarrow> string set" where
  "rule_modal_keys ruleset \<equiv> fst (modal_tables ruleset)"

abbreviation rule_modal_fields :: "interaction_rule_set \<Rightarrow> field_map" where
  "rule_modal_fields ruleset \<equiv> snd (modal_tables ruleset)"

definition rule_checked :: "interaction_rule_set \<Rightarrow> interaction_rule \<Rightarrow> bool" where
  "rule_checked ruleset rule \<longleftrightarrow>
     fst (collect (check_action (rule_modal_keys ruleset) (rule_modal_fields ruleset) rule) (ir_actions rule) []) = []"

lemma validate_structural_OkD:
  assumes "validate_structural ruleset = Inr ()"
  shows "fst (collect check_modal (irs_modals ruleset) ({}, [])) = []"
    and "\<exists>button_keys. fst (collect (check_rule button_keys (rule_modal_keys ruleset) (rule_modal_fields ruleset))
      (irs_rules ruleset) ({}, {}, {})) = []"
  using assms
  by (auto simp: validate_structural_def modal_tables_def Let_def case_prod_beta split: if_splits)

lemma check_rule_Nil:
  assumes "fst (check_rule button_keys (rule_modal_keys ruleset) (rule_modal_fields ruleset) rule state) = []"
  shows "rule_checked ruleset rule" "check_instance_footprint rule = []" "check_responses rule = []"
    "fst (check_trigger button_keys (rule_modal_keys ruleset) rule (snd state)) = []"
  using assms by (auto simp: check_rule_def rule_checked_def Let_def case_prod_beta)

lemma validated_rule:
  assumes "validate_structural ruleset = Inr ()" "rule \<in> set (irs_rules ruleset)"
  shows "rule_checked ruleset rule"
    and "ir_trigger rule = TS_ModalSubmit modal \<Longrightarrow> modal \<in> rule_modal_keys ruleset"
proof -
  from validate_structural_OkD(2) [OF assms(1)] obtain button_keys where
    "fst (collect (check_rule button_keys (rule_modal_keys ruleset) (rule_modal_fields ruleset))
      (irs_rules ruleset) ({}, {}, {})) = []" ..
  then obtain st where st: "fst (check_rule button_keys (rule_modal_keys ruleset) (rule_modal_fields ruleset) rule st) = []"
    using assms(2) by (rule collect_NilD) blast
  then show "rule_checked ruleset rule" by (rule check_rule_Nil)
  from check_rule_Nil(4) [OF st] show "ir_trigger rule = TS_ModalSubmit modal \<Longrightarrow> modal \<in> rule_modal_keys ruleset"
    by (auto simp: check_trigger_def Let_def case_prod_beta)
qed

text \<open>The table of modals: its keys are those of the modals, and it holds the fields of each.\<close>

lemma check_modal_field_keys:
  "snd (collect (check_modal_field modal) fs seen) = set (map mf_key fs) \<union> seen"
  by (induction fs arbitrary: seen) (simp_all add: collect_Cons check_modal_field_def Let_def case_prod_beta)

lemma check_modal_field_distinct:
  assumes "fst (collect (check_modal_field modal) fs seen) = []"
  shows "distinct (map mf_key fs)"
  by (rule collect_register_project(1) [where p = id, OF _ _ assms])
    (simp_all add: check_modal_field_def Let_def case_prod_beta)

lemma modal_keys_collect:
  "fst (snd (collect check_modal ms state)) = set (map ms_key ms) \<union> fst state"
  by (induction ms arbitrary: state) (auto simp: collect_Cons check_modal_def Let_def case_prod_beta)

lemma modal_fields_collect:
  "bm_get (snd (snd (collect check_modal ms state))) key =
     (case find (\<lambda>m. ms_key m = key) (rev ms) of
        Some m \<Rightarrow> Some (set (map mf_key (ms_fields m))) | None \<Rightarrow> bm_get (snd state) key)"
proof (induction ms arbitrary: state)
  case (Cons m ms)
  have "snd (snd (check_modal m state)) = bm_insert (ms_key m) (set (map mf_key (ms_fields m))) (snd state)"
    by (simp add: check_modal_def Let_def case_prod_beta check_modal_field_keys)
  then show ?case
    by (simp add: collect_Cons Cons find_append bm_get_insert split: option.split)
qed simp

lemma validated_modal:
  assumes "fst (collect check_modal (irs_modals ruleset) ({}, [])) = []" "modal \<in> rule_modal_keys ruleset"
  obtains spec where "find (\<lambda>m. ms_key m = modal) (irs_modals ruleset) = Some spec"
    "distinct (map mf_key (ms_fields spec))"
    "bm_get (rule_modal_fields ruleset) modal = Some (set (map mf_key (ms_fields spec)))"
proof -
  let ?ms = "irs_modals ruleset"
  have distinct: "distinct (map ms_key ?ms)"
    by (rule collect_register_project(1) [where p = fst, OF _ _ assms(1)])
      (simp_all add: check_modal_def Let_def case_prod_beta)
  from assms(2) obtain spec where spec: "spec \<in> set ?ms" "ms_key spec = modal"
    by (auto simp: modal_tables_def modal_keys_collect)
  from find_distinct_key [OF distinct spec(1)] spec(2)
  have "find (\<lambda>m. ms_key m = modal) ?ms = Some spec" by simp
  moreover have "find (\<lambda>m. ms_key m = modal) (rev ?ms) = Some spec"
    using find_distinct_key [of ms_key "rev ?ms" spec] distinct spec by (simp add: rev_map [symmetric])
  moreover from collect_NilD [OF assms(1) spec(1)] have "distinct (map mf_key (ms_fields spec))"
    by (rule check_modal_field_distinct [of "ms_key spec" _ "{}"])
      (auto simp: check_modal_def Let_def case_prod_beta)
  ultimately show thesis
    using that by (simp add: modal_tables_def modal_fields_collect)
qed

section \<open>Interpretation\<close>

lemma interpret_actions_iff:
  "interpret_actions event ruleset b actions steps = Some ps \<longleftrightarrow>
     (\<exists>qs. ps = steps @ qs \<and> list_all2 (\<lambda>a q. interpret_action event ruleset b a = Some q) actions qs)"
proof (induction actions arbitrary: steps)
  case (Cons a actions)
  show ?case
  proof (cases "interpret_action event ruleset b a")
    case (Some q)
    then show ?thesis by (auto simp: Cons list_all2_Cons1)
  qed (auto simp: list_all2_Cons1)
qed auto

lemma validate_bindings_OkD:
  assumes "validate_bindings ruleset b = Inr ()" "rule \<in> set (irs_rules ruleset)" "action \<in> set (ir_actions rule)"
  shows "check_action_bindings rule b action = []"
  using assms by (auto simp: validate_bindings_def Let_def split: if_splits)

lemma validate_ruleset_OkD:
  assumes "validate_ruleset ruleset b = Inr ()"
  shows "validate_structural ruleset = Inr ()" "validate_bindings ruleset b = Inr ()"
  using assms
  by (auto simp: validate_ruleset_def validate_structural_def validate_bindings_def Let_def case_prod_beta
      split: if_splits)

lemma plan_role_total:
  assumes "check_role_ref rule created role = []" "check_role_binding rule b role = []"
  shows "\<exists>p. plan_role role b = Some p"
  using assms
  by (auto simp: plan_role_def check_role_ref_def check_role_binding_def split: role_ref.splits instance_ref.splits)

lemma plan_channel_total:
  assumes "check_channel_binding rule b channel = []"
  shows "\<exists>p. plan_channel channel b = Some p"
  using assms by (auto simp: plan_channel_def check_channel_binding_def split: channel_ref.splits)

lemma interpret_action_total:
  assumes "fst (collect check_modal (irs_modals ruleset) ({}, [])) = []"
    and "fst (check_action (rule_modal_keys ruleset) mf rule action created) = []"
    and "check_action_bindings rule b action = []"
  shows "\<exists>p. interpret_action event ruleset b action = Some p"
proof (cases action)
  case (AS_GrantRole role target)
  moreover obtain p where "plan_role role b = Some p"
    using plan_role_total [of rule created role b] assms(2,3) AS_GrantRole
    by (auto simp: check_action_def check_action_bindings_def)
  ultimately show ?thesis by (cases target) (simp add: interpret_action_def)
next
  case (AS_OpenModal modal)
  then have "modal \<in> rule_modal_keys ruleset" using assms(2) by (simp add: check_action_def)
  with assms(1) obtain spec where "find (\<lambda>m. ms_key m = modal) (irs_modals ruleset) = Some spec"
    by (rule validated_modal)
  with AS_OpenModal show ?thesis by (simp add: interpret_action_def)
next
  case (AS_UpsertOverwrite channel target allow deny)
  obtain c where "plan_channel channel b = Some c"
    using plan_channel_total [of rule b channel] assms(3) AS_UpsertOverwrite
    by (auto simp: check_action_bindings_def)
  moreover have "\<exists>p. plan_role role b = Some p" if "target = OTS_Role role" for role
    using plan_role_total [of rule created role b] assms(2,3) AS_UpsertOverwrite that
    by (auto simp: check_action_def check_action_bindings_def)
  ultimately show ?thesis using AS_UpsertOverwrite
    by (cases target) (auto simp: interpret_action_def)
next
  case (AS_PostPanel key channel content buttons)
  then show ?thesis using plan_channel_total [of rule b channel] assms(3)
    by (auto simp: check_action_bindings_def interpret_action_def)
qed (simp_all add: interpret_action_def)

lemma rule_interprets:
  assumes "validate_ruleset ruleset b = Inr ()" "rule \<in> set (irs_rules ruleset)"
  obtains ps where "interpret_actions event ruleset b (ir_actions rule) [] = Some ps"
    "list_all2 (\<lambda>a p. interpret_action event ruleset b a = Some p) (ir_actions rule) ps"
proof -
  note valid = validate_ruleset_OkD [OF assms(1)]
  have "\<exists>p. interpret_action event ruleset b action = Some p" if "action \<in> set (ir_actions rule)" for action
  proof -
    from validated_rule(1) [OF valid(1) assms(2)] that obtain created where
      "fst (check_action (rule_modal_keys ruleset) (rule_modal_fields ruleset) rule action created) = []"
      unfolding rule_checked_def by (rule collect_NilD) blast
    with validate_structural_OkD(1) [OF valid(1)] validate_bindings_OkD [OF valid(2) assms(2) that]
    show ?thesis by (intro interpret_action_total)
  qed
  then have "list_all2 (\<lambda>a p. interpret_action event ruleset b a = Some p) (ir_actions rule)
      (map (\<lambda>a. the (interpret_action event ruleset b a)) (ir_actions rule))"
    by (auto simp: list_all2_conv_all_nth dest!: nth_mem)
  with that interpret_actions_iff show thesis by (metis append_Nil)
qed

lemma interpret_event_total:
  assumes "validate_ruleset ruleset b = Inr ()"
  shows "interpret_event event ruleset b = None \<longleftrightarrow>
    (\<forall>rule \<in> set (irs_rules ruleset). \<not> trigger_matches (ir_trigger rule) (re_kind event))"
proof (cases "find (\<lambda>rule. trigger_matches (ir_trigger rule) (re_kind event)) (irs_rules ruleset)")
  case None
  then have "\<forall>rule \<in> set (irs_rules ruleset). \<not> trigger_matches (ir_trigger rule) (re_kind event)"
    by (auto simp: find_None_iff)
  with None show ?thesis by (simp add: interpret_event_def)
next
  case (Some rule)
  then have rule: "rule \<in> set (irs_rules ruleset)" "trigger_matches (ir_trigger rule) (re_kind event)"
    by (auto simp: find_Some_iff)
  from assms rule(1) obtain ps where "interpret_actions event ruleset b (ir_actions rule) [] = Some ps"
    by (rule rule_interprets)
  with Some rule show ?thesis by (auto simp: interpret_event_def)
qed

section \<open>Faults\<close>

text \<open>The faults that validation cannot exclude: those of the services themselves, and a rendered text that
  is empty or too long.\<close>

inductive service_fault :: "'w automation_services \<Rightarrow> runtime_adapter_error \<Rightarrow> bool" for sv where
  grant_role: "fst (sv_grant_role sv g u r w) = Inl e \<Longrightarrow> service_fault sv e"
| create_channel: "fst (sv_create_channel sv g n w) = Inl e \<Longrightarrow> service_fault sv e"
| create_role: "fst (sv_create_role sv g n w) = Inl e \<Longrightarrow> service_fault sv e"
| upsert_overwrite: "fst (sv_upsert_overwrite sv g c t a d w) = Inl e \<Longrightarrow> service_fault sv e"
| post_panel: "fst (sv_post_panel sv g c s w) = Inl e \<Longrightarrow> service_fault sv e"
| respond_ephemeral: "fst (sv_respond_ephemeral sv n w) = Inl e \<Longrightarrow> service_fault sv e"
| open_modal: "fst (sv_open_modal sv m w) = Inl e \<Longrightarrow> service_fault sv e"
| defer_ephemeral: "fst (sv_defer_ephemeral sv w) = Inl e \<Longrightarrow> service_fault sv e"
| edit_response: "fst (sv_edit_response sv n w) = Inl e \<Longrightarrow> service_fault sv e"
| register_instance: "fst (sv_register_instance sv inst w) = Inl f \<Longrightarrow>
    service_fault sv (bad_request (Msg_InstanceRegister f))"
| generate: "fst (sv_generate sv w) = Inl f' \<Longrightarrow> service_fault sv (bad_request (Msg_InstanceId f'))"
| teardown: "fst (sv_teardown sv g i w) = Inl f'' \<Longrightarrow> service_fault sv (bad_request (Msg_InstanceTeardown f''))"

definition render_fault :: "runtime_adapter_error \<Rightarrow> bool" where
  "render_fault e \<longleftrightarrow>
     (\<exists>limit actual. e = bad_request (Msg_Template (TE_TooLong limit actual)))
     \<or> e = bad_request (Msg_Template TE_EmptyAfterSanitize)"

definition renders :: "string \<Rightarrow> runtime_context \<Rightarrow> bool" where
  "renders content context \<longleftrightarrow>
     (\<exists>template. parse content = Inr template
       \<and> (\<forall>key \<in> set (input_keys template). bm_get (rx_inputs context) key \<noteq> None))"

lemma input_keys_segments: "key \<in> set (input_keys template) \<longleftrightarrow> Seg_Input key \<in> set (tpl_segments template)"
proof -
  have "key \<in> set (List.map_filter (\<lambda>s. case s of Seg_Input k \<Rightarrow> Some k | Seg_Literal _ \<Rightarrow> None) ss)
      \<longleftrightarrow> Seg_Input key \<in> set ss" for ss
    by (induction ss) (auto simp: map_filter_simps split: segment.splits)
  then show ?thesis by (simp add: input_keys_def)
qed

lemma render_segments_total:
  assumes "\<forall>key. Seg_Input key \<in> set segments \<longrightarrow> bm_get inputs key \<noteq> None"
  shows "\<exists>body. render_segments segments inputs out = Inr body"
  using assms
proof (induction segments arbitrary: out)
  case (Cons s segments)
  then show ?case by (cases s) (auto split: option.split)
qed simp

lemma renders_fault:
  assumes "renders content context" "render_source content context sc = Inl e"
  shows "render_fault e"
proof -
  from assms(1) obtain template where template: "parse content = Inr template"
    "\<forall>key \<in> set (input_keys template). bm_get (rx_inputs context) key \<noteq> None"
    by (auto simp: renders_def)
  then obtain body where "render_segments (tpl_segments template) (rx_inputs context) [] = Inr body"
    using render_segments_total [of "tpl_segments template" "rx_inputs context" "[]"]
    by (auto simp: input_keys_segments)
  with template(1) assms(2) show ?thesis
    by (auto simp: render_source_def render_def sanitize_def render_fault_def Let_def
        split: if_splits sum.splits)
qed

text \<open>The text an action renders, and the faults a rule's texts can cause.\<close>

definition action_template :: "action_spec \<Rightarrow> (string \<times> sanitize_context) option" where
  "action_template action =
     (case action of
        AS_RespondEphemeral content \<Rightarrow> Some (content, SC_EphemeralMessageContent)
      | AS_EditResponse content \<Rightarrow> Some (content, SC_EphemeralMessageContent)
      | AS_PostPanel _ _ content _ \<Rightarrow> Some (content, SC_EphemeralMessageContent)
      | AS_CreateChannel _ name \<Rightarrow> Some (name, SC_ChannelName)
      | AS_CreateRole _ name \<Rightarrow> Some (name, SC_RoleName)
      | _ \<Rightarrow> None)"

definition template_fault :: "interaction_rule \<Rightarrow> runtime_context \<Rightarrow> runtime_adapter_error \<Rightarrow> bool" where
  "template_fault rule context e \<longleftrightarrow>
     render_fault e
     \<and> (\<exists>action \<in> set (ir_actions rule). \<exists>content sc.
          action_template action = Some (content, sc) \<and> render_source content context sc = Inl e)"

section \<open>The relation between validation and execution\<close>

definition holds_kind :: "execution_state \<Rightarrow> string \<Rightarrow> created_kind \<Rightarrow> bool" where
  "holds_kind state key kind =
     (case kind of
        CK_Role \<Rightarrow> bm_get (ex_created_roles state) key \<noteq> None
      | CK_Channel \<Rightarrow> bm_get (ex_created_channels state) key \<noteq> None
      | CK_Message \<Rightarrow> bm_get (ex_created_messages state) key \<noteq> None
      | CK_Instance \<Rightarrow> bm_get (ex_created_instances state) key \<noteq> None)"

definition resolves :: "created_map \<Rightarrow> execution_state \<Rightarrow> bool" where
  "resolves created state \<longleftrightarrow> (\<forall>key kind. bm_get created key = Some kind \<longrightarrow> holds_kind state key kind)"

definition state_le :: "execution_state \<Rightarrow> execution_state \<Rightarrow> bool" where
  "state_le state state' \<longleftrightarrow>
     (\<forall>key kind. holds_kind state key kind \<longrightarrow> holds_kind state' key kind)
     \<and> ex_planned_instances state' = ex_planned_instances state"

definition produces :: "prepared_action \<Rightarrow> (string \<times> created_kind) option" where
  "produces action =
     (case action of
        PP_CreateChannel _ key _ \<Rightarrow> Some (key, CK_Channel)
      | PP_CreateRole _ key _ \<Rightarrow> Some (key, CK_Role)
      | PP_PostPanel _ key _ _ \<Rightarrow> Some (key, CK_Message)
      | PP_RegisterInstance _ key _ _ \<Rightarrow> Some (key, CK_Instance)
      | _ \<Rightarrow> None)"

lemma map_ok_Inl: "map_prod (map_ok f) id r = (Inl e, w) \<longleftrightarrow> r = (Inl e, w)"
  by (cases r) (auto simp: map_ok_def split: sum.splits)

lemma map_ok_Inr: "map_prod (map_ok f) id r = (Inr y, w) \<longleftrightarrow> (\<exists>x. r = (Inr x, w) \<and> y = f x)"
  by (cases r) (auto simp: map_ok_def split: sum.splits)

lemma execute_action_fault:
  assumes "execute_action guild action sv state output world = (Inl e, world')"
  shows "service_fault sv e"
  using assms unfolding execute_action_def
  by (cases action)
    (auto simp: map_ok_Inl intro: service_fault.intros [of sv, unfolded fst_conv]
      split: prod.splits sum.splits if_splits dest!: arg_cong [of _ _ fst])

lemma execute_action_state:
  assumes "execute_action guild action sv state output world = (Inr (state', output'), world')"
  shows "state_le state state'" "produces action = Some (key, kind) \<Longrightarrow> holds_kind state' key kind"
proof -
  show "state_le state state'"
    using assms unfolding execute_action_def
    by (cases action)
      (auto simp: map_ok_Inr state_le_def holds_kind_def bm_get_insert split: prod.splits sum.splits if_splits created_kind.splits)
  show "produces action = Some (key, kind) \<Longrightarrow> holds_kind state' key kind"
    using assms unfolding execute_action_def
    by (cases action)
      (auto simp: map_ok_Inr produces_def holds_kind_def bm_get_insert split: prod.splits sum.splits)
qed

text \<open>What a rule needs beyond the validation of its rule set: a button it posts may only route to an
  instance that the rule registers, or to the instance of the event if there is one, and that instance
  owns the roles the rule refers to.\<close>

definition registered_keys :: "action_spec list \<Rightarrow> string set" where
  "registered_keys actions =
     set (List.map_filter (\<lambda>action. case action of AS_RegisterInstance key _ _ \<Rightarrow> Some key | _ \<Rightarrow> None) actions)"

lemma registered_keys_iff:
  "key \<in> registered_keys actions \<longleftrightarrow> (\<exists>kind resources. AS_RegisterInstance key kind resources \<in> set actions)"
  unfolding registered_keys_def
  by (induction actions) (auto simp: map_filter_simps split: action_spec.splits)

definition route_registered :: "interaction_rule \<Rightarrow> button_spec \<Rightarrow> bool" where
  "route_registered rule button =
     (case bs_route button of
        BR_Static _ \<Rightarrow> True
      | BR_InstanceAction IR_Event _ \<Rightarrow> is_instance_action (ir_trigger rule)
      | BR_InstanceAction (IR_Created key) _ \<Rightarrow> key \<in> registered_keys (ir_actions rule))"

definition routes_registered :: "interaction_rule \<Rightarrow> bool" where
  "routes_registered rule =
     list_all (\<lambda>action. case action of
       AS_PostPanel _ _ _ buttons \<Rightarrow> list_all (route_registered rule) buttons | _ \<Rightarrow> True) (ir_actions rule)"

fun role_alias :: "role_ref \<Rightarrow> string list" where
  "role_alias (RR_Instance _ alias) = [alias]"
| "role_alias _ = []"

definition action_aliases :: "action_spec \<Rightarrow> string list" where
  "action_aliases action =
     (case action of
        AS_GrantRole role _ \<Rightarrow> role_alias role
      | AS_UpsertOverwrite _ (OTS_Role role) _ _ \<Rightarrow> role_alias role
      | _ \<Rightarrow> [])"

definition instance_ready :: "interaction_rule \<Rightarrow> runtime_context \<Rightarrow> bool" where
  "instance_ready rule context \<longleftrightarrow>
     \<not> is_instance_action (ir_trigger rule)
     \<or> (case rx_instance context of
          None \<Rightarrow> False
        | Some resolved \<Rightarrow>
            list_all (\<lambda>action. list_all (\<lambda>alias.
                bm_get (in_roles (ai_resources (ric_instance resolved))) alias \<noteq> None) (action_aliases action))
              (ir_actions rule))"

lemma check_created_Nil:
  assumes "check_created kind unknown mismatch rule created reference = []" "resolves created state"
  shows "bm_get created reference = Some kind" "holds_kind state reference kind"
proof -
  show "bm_get created reference = Some kind"
    using assms(1) by (auto simp: check_created_def split: option.splits)
  with assms(2) show "holds_kind state reference kind" by (simp add: resolves_def)
qed

lemma resolve_role_sound:
  assumes "check_role_ref rule created role = []" "plan_role role b = Some planned_role"
    and "resolves created state" "instance_ready rule context"
    and "set (role_alias role) \<subseteq> set (action_aliases action)" "action \<in> set (ir_actions rule)"
  shows "\<exists>i. state_resolve_role state planned_role context = Inr i"
proof (cases role)
  case (RR_Existing key)
  with assms(2) show ?thesis by (auto simp: plan_role_def state_resolve_role_def)
next
  case (RR_Created key)
  then have "planned_role = PR_Created key" using assms(2) by (simp add: plan_role_def)
  moreover have "holds_kind state key CK_Role"
    using assms(1) RR_Created check_created_Nil(2) [OF _ assms(3)] by (auto simp: check_role_ref_def)
  ultimately show ?thesis by (auto simp: state_resolve_role_def holds_kind_def ok_or_else_def)
next
  case (RR_Instance inst role_name)
  then have trigger: "is_instance_action (ir_trigger rule)" and "inst = IR_Event"
    using assms(1) by (simp_all add: check_role_ref_def)
  then have "planned_role = PR_Instance role_name" using assms(2) RR_Instance by (simp add: plan_role_def)
  with trigger assms(4-6) RR_Instance show ?thesis
    by (fastforce simp: instance_ready_def state_resolve_role_def ok_or_else_def list_all_iff split: option.splits)
qed

lemma resolve_channel_sound:
  assumes "check_channel_ref rule created channel = []" "plan_channel channel b = Some p" "resolves created state"
  shows "\<exists>i. state_resolve_channel state p = Inr i"
proof (cases channel)
  case (CR_Existing key)
  with assms(2) show ?thesis by (auto simp: plan_channel_def state_resolve_channel_def)
next
  case (CR_Created key)
  then have "p = PC_Created key" using assms(2) by (simp add: plan_channel_def)
  moreover have "holds_kind state key CK_Channel"
    using assms(1) CR_Created check_created_Nil(2) [OF _ assms(3)] by (auto simp: check_channel_ref_def)
  ultimately show ?thesis by (auto simp: state_resolve_channel_def holds_kind_def ok_or_else_def)
qed

lemma resolve_refs_sound:
  "\<forall>x \<in> set refs. bm_get created (snd x) \<noteq> None \<Longrightarrow>
   \<exists>m. resolve_refs created refs resolved = Inr m"
proof (induction refs arbitrary: resolved)
  case (Cons x refs)
  then show ?case by (cases x) auto
qed simp

lemma resolve_manifest_sound:
  assumes "check_manifest rule (bm_insert key CK_Instance created) resources = []" "resolves created state"
  shows "\<exists>m. resolve_manifest state resources = Inr m"
proof -
  have kept: "holds_kind state reference kind"
    if "check_created kind unknown mismatch rule (bm_insert key CK_Instance created) reference = []"
      "kind \<noteq> CK_Instance" for kind unknown mismatch reference
  proof -
    have "bm_get created reference = Some kind"
      using that by (auto simp: check_created_def bm_get_insert split: option.splits if_splits)
    with assms(2) show ?thesis by (simp add: resolves_def)
  qed
  have "\<forall>x \<in> set (irr_roles resources). holds_kind state (snd x) CK_Role"
    "\<forall>x \<in> set (irr_channels resources). holds_kind state (snd x) CK_Channel"
    "\<forall>x \<in> set (irr_messages resources). holds_kind state (snd x) CK_Message"
    using assms(1) by (auto simp: check_manifest_def case_prod_beta intro: kept)
  then have "\<exists>m. resolve_refs (ex_created_roles state) (irr_roles resources) [] = Inr m"
    "\<exists>m. resolve_refs (ex_created_channels state) (irr_channels resources) [] = Inr m"
    "\<exists>m. resolve_refs (ex_created_messages state) (irr_messages resources) [] = Inr m"
    by (intro resolve_refs_sound; auto simp: holds_kind_def)+
  then show ?thesis by (auto simp: resolve_manifest_def)
qed

lemma resolve_buttons_sound:
  assumes "list_all (route_registered rule) buttons" "instance_ready rule context"
    and "\<forall>key \<in> registered_keys (ir_actions rule). bm_get (ex_planned_instances state) key \<noteq> None"
  shows "\<exists>specs. resolve_panel_buttons state buttons context = Inr specs"
  using assms(1)
proof (induction buttons)
  case (Cons button buttons)
  have "\<exists>i. resolve_button_instance state inst context = Inr i" if "bs_route button = BR_InstanceAction inst action" for inst action
    using Cons.prems assms(2,3) that
    by (cases inst)
      (auto simp: route_registered_def resolve_button_instance_def ok_or_else_def instance_ready_def split: option.splits)
  with Cons show ?case by (cases "bs_route button") auto
qed simp

section \<open>A validated action can be prepared\<close>

definition templates_ready :: "field_map \<Rightarrow> interaction_rule \<Rightarrow> runtime_context \<Rightarrow> bool" where
  "templates_ready mf rule context \<longleftrightarrow>
     (\<forall>content. check_template rule mf content = [] \<longrightarrow> renders content context)"

lemma bind_ok_Inl: "bind_ok r f = Inl e \<longleftrightarrow> r = Inl e \<or> (\<exists>x. r = Inr x \<and> f x = Inl e)"
  by (cases r) (auto simp: bind_ok_def)

lemma map_ok_eq_Inl: "map_ok f r = Inl e \<longleftrightarrow> r = Inl e"
  by (cases r) (auto simp: map_ok_def)

lemma prepare_action_sound:
  assumes interp: "interpret_action event ruleset b action = Some step"
    and check: "fst (check_action mk mf rule action created) = []"
    and res: "resolves created state" and templates: "templates_ready mf rule context"
    and inst: "instance_ready rule context" and mem: "action \<in> set (ir_actions rule)"
    and registered: "\<forall>key \<in> registered_keys (ir_actions rule). bm_get (ex_planned_instances state) key \<noteq> None"
    and routes: "routes_registered rule"
    and fault: "prepare_action index step context state = Inl e"
  shows "template_fault rule context e"
proof -
  have tmpl: "template_fault rule context e"
    if "render_source content context sc = Inl e" "check_template rule mf content = []"
      "action_template action = Some (content, sc)" for content sc
    using that templates mem by (auto simp: templates_ready_def template_fault_def intro: renders_fault)
  show ?thesis
  proof (cases action)
    case (AS_GrantRole role target)
    then obtain p where p: "plan_role role b = Some p" "step = PA_GrantRole p (re_actor event)"
      using interp by (cases target) (auto simp: interpret_action_def)
    then have "\<exists>i. state_resolve_role state p context = Inr i"
      using AS_GrantRole check by (intro resolve_role_sound [OF _ _ res inst _ mem]) (auto simp: check_action_def action_aliases_def)
    with p fault show ?thesis by (auto simp: prepare_action_def map_ok_eq_Inl)
  next
    case (AS_UpsertOverwrite channel target allow deny)
    then obtain c where c: "plan_channel channel b = Some c"
      using interp by (auto simp: interpret_action_def split: option.splits)
    then have "\<exists>i. state_resolve_channel state c = Inr i"
      using AS_UpsertOverwrite check by (intro resolve_channel_sound [OF _ _ res]) (auto simp: check_action_def)
    moreover have "\<exists>i. state_resolve_role state p context = Inr i" if "target = OTS_Role role" "plan_role role b = Some p" for role p
      using AS_UpsertOverwrite check that
      by (intro resolve_role_sound [OF _ _ res inst _ mem]) (auto simp: check_action_def action_aliases_def)
    ultimately show ?thesis using AS_UpsertOverwrite c interp fault
      by (cases target) (fastforce simp: interpret_action_def prepare_action_def bind_ok_Inl map_ok_eq_Inl)+
  next
    case (AS_PostPanel key channel content buttons)
    then obtain c where c: "plan_channel channel b = Some c" "step = PA_PostPanel key c content buttons"
      using interp by (auto simp: interpret_action_def)
    have "resolves (bm_insert key CK_Message created) (state\<lparr> ex_created_messages :=
        bm_insert key undefined (ex_created_messages state) \<rparr>)"
      using res by (auto simp: resolves_def holds_kind_def bm_get_insert split: created_kind.splits)
    then have "\<exists>i. state_resolve_channel (state\<lparr> ex_created_messages :=
        bm_insert key undefined (ex_created_messages state) \<rparr>) c = Inr i"
      using AS_PostPanel check c by (intro resolve_channel_sound) (auto simp: check_action_def create_def Let_def)
    then have "\<exists>i. state_resolve_channel state c = Inr i" by (cases c) (simp_all add: state_resolve_channel_def)
    moreover have "list_all (route_registered rule) buttons"
      using routes mem AS_PostPanel by (auto simp: routes_registered_def list_all_iff)
    then have "\<exists>specs. resolve_panel_buttons state buttons context = Inr specs"
      by (rule resolve_buttons_sound [OF _ inst registered])
    ultimately show ?thesis using AS_PostPanel c check fault
      by (auto simp: prepare_action_def bind_ok_Inl check_action_def Let_def create_def action_template_def intro: tmpl)
  next
    case (AS_RegisterInstance key kind resources)
    then have "key \<in> registered_keys (ir_actions rule)"
      using mem by (auto simp: registered_keys_iff)
    then obtain i where "bm_get (ex_planned_instances state) key = Some i" using registered by auto
    moreover have "\<exists>m. resolve_manifest state resources = Inr m"
      using AS_RegisterInstance check
      by (intro resolve_manifest_sound [OF _ res, of rule key]) (auto simp: check_action_def create_def Let_def)
    ultimately show ?thesis using AS_RegisterInstance interp fault
      by (auto simp: interpret_action_def prepare_action_def bind_ok_Inl ok_or_else_def)
  next
    case (AS_TeardownInstance target)
    have "\<exists>i. resolve_instance_ref state target context = Inr i"
    proof (cases target)
      case IR_Event
      then show ?thesis using AS_TeardownInstance check inst
        by (auto simp: check_action_def check_teardown_instance_ref_def instance_ready_def resolve_instance_ref_def
            ok_or_else_def split: option.splits)
    next
      case (IR_Created key)
      then have "holds_kind state key CK_Instance"
        using AS_TeardownInstance check check_created_Nil(2) [OF _ res]
        by (auto simp: check_action_def check_teardown_instance_ref_def)
      then show ?thesis using IR_Created
        by (auto simp: resolve_instance_ref_def ok_or_else_def holds_kind_def)
    qed
    with AS_TeardownInstance interp fault show ?thesis
      by (auto simp: interpret_action_def prepare_action_def map_ok_eq_Inl)
  qed (use interp check fault in \<open>auto simp: interpret_action_def prepare_action_def check_action_def map_ok_eq_Inl
      create_def Let_def action_template_def intro: tmpl\<close>)
qed

lemma prepare_action_produces:
  assumes "interpret_action event ruleset b action = Some step"
    and "prepare_action index step context state = Inr prepared"
  shows "snd (check_action mk mf rule action created) =
    (case produces prepared of None \<Rightarrow> created | Some (key, kind) \<Rightarrow> bm_insert key kind created)"
  using assms
  by (cases action)
    (auto simp: interpret_action_def prepare_action_def check_action_def create_def produces_def map_ok_def bind_ok_def
      Let_def split: sum.splits option.splits overwrite_target_spec.splits action_target.splits planned_overwrite_target.splits)

section \<open>A validated plan runs\<close>

lemma resolves_step:
  assumes "resolves created state" "state_le state state'"
    and "\<And>key kind. produces prepared = Some (key, kind) \<Longrightarrow> holds_kind state' key kind"
  shows "resolves (case produces prepared of None \<Rightarrow> created | Some (key, kind) \<Rightarrow> bm_insert key kind created) state'"
  using assms by (auto simp: resolves_def state_le_def bm_get_insert split: option.splits if_splits)

lemma execute_steps_sound:
  assumes "list_all2 (\<lambda>a p. interpret_action event ruleset b a = Some p) actions steps"
    and "set actions \<subseteq> set (ir_actions rule)"
    and "fst (collect (check_action mk mf rule) actions created) = []"
    and "resolves created state" and ready: "templates_ready mf rule context" "instance_ready rule context"
    and "\<forall>key \<in> registered_keys (ir_actions rule). bm_get (ex_planned_instances state) key \<noteq> None"
    and routes: "routes_registered rule"
    and "execute_steps sv context index steps state out world = (Inl e, world')"
  shows "service_fault sv e \<or> template_fault rule context e"
  using assms(1-4,7,9)
proof (induction actions steps arbitrary: created index state out world rule: list_all2_induct)
  case (Cons action actions step steps)
  have check: "fst (check_action mk mf rule action created) = []"
    "fst (collect (check_action mk mf rule) actions (snd (check_action mk mf rule action created))) = []"
    using Cons.prems by (simp_all add: collect_Cons)
  show ?case
  proof (cases "prepare_action index step context state")
    case (Inl e')
    then have "template_fault rule context e'"
      using Cons.prems Cons.hyps(1) check(1) by (intro prepare_action_sound [OF _ _ _ ready _ _ routes]) auto
    with Inl Cons.prems show ?thesis by simp
  next
    case (Inr prepared)
    show ?thesis
    proof (cases "execute_action (rx_guild_id context) prepared sv state out world")
      case (Pair r world1)
      show ?thesis
      proof (cases r)
        case (Inl e')
        then show ?thesis using Pair Inr Cons.prems execute_action_fault by fastforce
      next
        case out: (Inr so)
        obtain state' out' where so: "so = (state', out')" by force
        note step = execute_action_state [OF Pair [unfolded out so]]
        have "resolves (snd (check_action mk mf rule action created)) state'"
          unfolding prepare_action_produces [OF Cons.hyps(1) Inr]
          using Cons.prems step by (intro resolves_step) auto
        moreover have "execute_steps sv context (Suc index) steps state' out' world1 = (Inl e, world')"
          using Cons.prems Pair Inr out so by simp
        ultimately show ?thesis
          using Cons.prems step(1) check(2) by (intro Cons.IH) (auto simp: state_le_def)
      qed
    qed
  qed
qed simp

lemma plan_instances_sound:
  assumes "plan_instances sv steps reserved world = (r, world')"
  shows "r = Inl e \<Longrightarrow> service_fault sv e"
    and "r = Inr m \<Longrightarrow>
      (\<forall>key. bm_get reserved key \<noteq> None \<or> (\<exists>kind resources. PA_RegisterInstance key kind resources \<in> set steps)
        \<longrightarrow> bm_get m key \<noteq> None)"
proof -
  have "(case r of
      Inl e \<Rightarrow> service_fault sv e
    | Inr m \<Rightarrow> (\<forall>key. bm_get reserved key \<noteq> None
        \<or> (\<exists>kind resources. PA_RegisterInstance key kind resources \<in> set steps) \<longrightarrow> bm_get m key \<noteq> None))"
    using assms
  proof (induction sv steps reserved world arbitrary: r rule: plan_instances.induct)
    case (2 sv key kind resources steps reserved world)
    show ?case
    proof (cases "bm_get reserved key = None")
      case True
      show ?thesis
      proof (cases "sv_generate sv world")
        case (Pair g world1)
        show ?thesis
        proof (cases g)
          case (Inl f)
          then have "fst (sv_generate sv world) = Inl f" using Pair by simp
          from service_fault.generate [OF this] show ?thesis using 2 True Pair Inl by auto
        next
          case (Inr i)
          then have "plan_instances sv steps (bm_insert key i reserved) world1 = (r, world')"
            using 2(3) True Pair by simp
          from 2(1) [OF True Pair [symmetric, unfolded Inr] refl this] Inr show ?thesis
            by (auto simp: bm_get_insert split: sum.splits if_splits)
        qed
      qed
    next
      case False
      then have "plan_instances sv steps reserved world = (r, world')" using 2(3) by (auto split: if_splits)
      from 2(2) [OF False this] False show ?thesis by (auto split: sum.splits)
    qed
  qed (auto split: sum.splits)
  then show "r = Inl e \<Longrightarrow> service_fault sv e"
    and "r = Inr m \<Longrightarrow>
      (\<forall>key. bm_get reserved key \<noteq> None \<or> (\<exists>kind resources. PA_RegisterInstance key kind resources \<in> set steps)
        \<longrightarrow> bm_get m key \<noteq> None)"
    by auto
qed

lemma execute_plan_sound:
  assumes "list_all2 (\<lambda>a p. interpret_action event ruleset b a = Some p) actions (pl_steps plan)"
    and "set actions \<subseteq> set (ir_actions rule)" "registered_keys (ir_actions rule) \<subseteq> registered_keys actions"
    and "fst (collect (check_action mk mf rule) actions []) = []"
    and "templates_ready mf rule context" "instance_ready rule context" "routes_registered rule"
    and "execute_plan context plan sv world = (Inl e, world')"
  shows "service_fault sv e \<or> template_fault rule context e"
proof (cases "plan_instances sv (pl_steps plan) [] world")
  case (Pair r world1)
  show ?thesis
  proof (cases r)
    case (Inl e')
    with Pair assms(8) plan_instances_sound(1) [OF Pair Inl] show ?thesis
      by (simp add: execute_plan_def execution_state_prepare_def)
  next
    case (Inr m)
    let ?state = "\<lparr> ex_created_roles = [], ex_created_channels = [], ex_created_messages = [],
      ex_planned_instances = m, ex_created_instances = [] \<rparr>"
    have "bm_get m key \<noteq> None" if key: "key \<in> registered_keys (ir_actions rule)" for key
    proof -
      from key assms(3) have "key \<in> registered_keys actions" by blast
      then obtain kind resources where "AS_RegisterInstance key kind resources \<in> set actions"
        by (auto simp: registered_keys_iff)
      with assms(1) have "PA_RegisterInstance key kind resources \<in> set (pl_steps plan)"
        by (fastforce simp: list_all2_conv_all_nth in_set_conv_nth interpret_action_def)
      with plan_instances_sound(2) [OF Pair Inr] show ?thesis by blast
    qed
    moreover obtain out world2 where run:
      "execute_steps sv context 0 (pl_steps plan) ?state out world1 = (Inl e, world2)"
      using assms(8) Pair Inr
      by (auto simp: execute_plan_def execution_state_prepare_def split: prod.splits sum.splits)
    ultimately show ?thesis
      by (intro execute_steps_sound [OF assms(1,2,4) _ assms(5,6) _ assms(7) run]) (simp_all add: resolves_def)
  qed
qed

section \<open>Inputs of an event\<close>

definition input_fault :: "runtime_adapter_error \<Rightarrow> bool" where
  "input_fault e \<longleftrightarrow>
     (\<exists>err. e = bad_request (Msg (modal_input_error_display err)) \<and> (\<forall>modal. err \<noteq> MI_ModalDefinitionMissing modal))"

lemma normalize_inputs_fault:
  assumes "normalize_inputs spec inputs = Inl err"
  shows "err \<noteq> MI_ModalDefinitionMissing modal"
proof -
  have "normalize_field k field inputs \<noteq> Inl (MI_ModalDefinitionMissing modal)" for k field
    by (auto simp: normalize_field_def Let_def split: option.splits)
  then have "normalize_fields k fs inputs acc \<noteq> Inl (MI_ModalDefinitionMissing modal)" for k fs acc
    by (induction fs arbitrary: acc) (auto split: sum.splits)
  with assms show ?thesis by (auto simp: normalize_inputs_def split: option.splits)
qed

lemma normalize_inputs_keys:
  assumes "normalize_inputs spec inputs = Inr normalized" "distinct (map mf_key (ms_fields spec))"
    and "key \<in> set (map mf_key (ms_fields spec))"
  shows "bm_get normalized key \<noteq> None"
proof -
  have "normalized = fold (\<lambda>f. bm_insert (mf_key f) (field_value f inputs)) (ms_fields spec) []"
    using assms(1) normalize_fields_Inr [OF bm.invar_empty]
    by (auto simp: normalize_inputs_def split: option.splits)
  moreover obtain f where "f \<in> set (ms_fields spec)" "mf_key f = key" using assms(3) by auto
  ultimately show ?thesis
    using find_distinct_key [OF assms(2)] by (auto simp: fold_insert_get [OF assms(2)])
qed

lemma templates_ready_without_inputs:
  "(\<And>modal. ir_trigger rule \<noteq> TS_ModalSubmit modal) \<Longrightarrow> templates_ready mf rule context"
  by (cases "ir_trigger rule") (auto simp: templates_ready_def check_template_def renders_def split: sum.splits)

lemma templates_ready_modal:
  assumes "ir_trigger rule = TS_ModalSubmit modal" "bm_get mf modal = Some keys"
    and "\<And>key. key \<in> keys \<Longrightarrow> bm_get (rx_inputs context) key \<noteq> None"
  shows "templates_ready mf rule context"
  using assms by (auto simp: templates_ready_def check_template_def renders_def split: sum.splits)

lemma event_templates_ready:
  assumes valid: "validate_structural ruleset = Inr ()" and rule: "rule \<in> set (irs_rules ruleset)"
    and matches: "trigger_matches (ir_trigger rule) (re_kind event)"
    and inputs: "normalize_modal_submit_inputs event ruleset = Inr normalized"
    and ctx: "rx_inputs context = (case normalized of None \<Rightarrow> rx_inputs context0 | Some inputs \<Rightarrow> inputs)"
  shows "templates_ready (rule_modal_fields ruleset) rule context"
proof (cases "ir_trigger rule")
  case (TS_ModalSubmit modal)
  then obtain raw where kind: "re_kind event = EK_ModalSubmit modal raw"
    using matches by (auto simp: trigger_matches_def split: event_kind.splits)
  have "list_ex (\<lambda>r. ir_trigger r = TS_ModalSubmit modal) (irs_rules ruleset)"
    using rule TS_ModalSubmit by (auto simp: list_ex_iff)
  moreover obtain spec where spec: "find (\<lambda>m. ms_key m = modal) (irs_modals ruleset) = Some spec"
    "distinct (map mf_key (ms_fields spec))"
    "bm_get (rule_modal_fields ruleset) modal = Some (set (map mf_key (ms_fields spec)))"
    using validate_structural_OkD(1) [OF valid] validated_rule(2) [OF valid rule TS_ModalSubmit]
    by (rule validated_modal)
  ultimately obtain result where "normalize_inputs spec raw = Inr result" "normalized = Some result"
    using inputs kind by (auto simp: normalize_modal_submit_inputs_def split: sum.splits)
  with spec ctx show ?thesis
    by (intro templates_ready_modal [OF TS_ModalSubmit spec(3)]) (simp add: normalize_inputs_keys)
qed (simp_all add: templates_ready_without_inputs)

lemma event_input_fault:
  assumes "validate_structural ruleset = Inr ()" "normalize_modal_submit_inputs event ruleset = Inl err"
  shows "input_fault (bad_request (Msg (modal_input_error_display err)))"
proof -
  obtain modal raw where kind: "re_kind event = EK_ModalSubmit modal raw"
    using assms(2) by (auto simp: normalize_modal_submit_inputs_def split: event_kind.splits)
  with assms(2) obtain rule where rule: "rule \<in> set (irs_rules ruleset)" "ir_trigger rule = TS_ModalSubmit modal"
    by (auto simp: normalize_modal_submit_inputs_def list_ex_iff split: if_splits)
  from validate_structural_OkD(1) [OF assms(1)] validated_rule(2) [OF assms(1) rule]
  obtain spec where "find (\<lambda>m. ms_key m = modal) (irs_modals ruleset) = Some spec"
    by (rule validated_modal)
  with assms(2) kind rule have "normalize_inputs spec raw = Inl err"
    by (auto simp: normalize_modal_submit_inputs_def list_ex_iff split: sum.splits if_splits)
  then show ?thesis unfolding input_fault_def using normalize_inputs_fault by blast
qed

lemma interpret_event_SomeD:
  assumes "interpret_event event ruleset b = Some plan"
  obtains rule where "rule \<in> set (irs_rules ruleset)" "trigger_matches (ir_trigger rule) (re_kind event)"
    "list_all2 (\<lambda>a p. interpret_action event ruleset b a = Some p) (ir_actions rule) (pl_steps plan)"
proof -
  from assms obtain rule where
    rule: "find (\<lambda>rule. trigger_matches (ir_trigger rule) (re_kind event)) (irs_rules ruleset) = Some rule"
    by (auto simp: interpret_event_def split: option.splits)
  then have "rule \<in> set (irs_rules ruleset)" "trigger_matches (ir_trigger rule) (re_kind event)"
    by (auto simp: find_Some_iff)
  moreover have "interpret_actions event ruleset b (ir_actions rule) [] = Some (pl_steps plan)"
    using assms rule by (auto simp: interpret_event_def)
  ultimately show thesis using that by (auto simp: interpret_actions_iff)
qed

lemma defer_first:
  assumes "list_all2 (\<lambda>a p. interpret_action event ruleset b a = Some p) actions (PA_DeferEphemeral # steps)"
  obtains rest where "actions = AS_DeferEphemeral # rest"
    "list_all2 (\<lambda>a p. interpret_action event ruleset b a = Some p) rest steps"
proof -
  from assms obtain a rest where a: "actions = a # rest" "interpret_action event ruleset b a = Some PA_DeferEphemeral"
    "list_all2 (\<lambda>a p. interpret_action event ruleset b a = Some p) rest steps"
    by (auto simp: list_all2_Cons2)
  from a(2) have "a = AS_DeferEphemeral"
    by (cases a) (auto simp: interpret_action_def split: option.splits action_target.splits overwrite_target_spec.splits)
  with a that show thesis by blast
qed

lemma prepared_event_sound:
  assumes valid: "validate_ruleset ruleset b = Inr ()"
    and routes: "\<forall>rule \<in> set (irs_rules ruleset). routes_registered rule"
    and prepared: "prepare_event_execution event ruleset b identity = Inr (Some prepared)"
    and run: "execute_plan (pe_context prepared) (pe_plan prepared) sv world = (Inl e, world')"
  shows "service_fault sv e \<or> (\<exists>rule \<in> set (irs_rules ruleset). trigger_matches (ir_trigger rule) (re_kind event)
    \<and> template_fault rule (pe_context prepared) e)"
proof -
  note structural = validate_ruleset_OkD(1) [OF valid]
  from prepared obtain normalized plan where
    kind: "\<And>i a. re_kind event \<noteq> EK_InstanceAction i a"
    and inputs: "normalize_modal_submit_inputs event ruleset = Inr normalized"
    and plan: "interpret_event event ruleset b = Some plan"
    and ctx: "pe_context prepared = (case normalized of None \<Rightarrow> context_from_event event identity
        | Some inputs \<Rightarrow> (context_from_event event identity)\<lparr> rx_inputs := inputs \<rparr>)"
    and steps: "pl_steps (pe_plan prepared) = pl_steps plan
        \<or> PA_DeferEphemeral # pl_steps (pe_plan prepared) = pl_steps plan"
    by (auto simp: prepare_event_execution_def Let_def
        split: event_kind.splits sum.splits option.splits list.splits planned_action.splits)
  from interpret_event_SomeD [OF plan] obtain rule where
    rule: "rule \<in> set (irs_rules ruleset)" "trigger_matches (ir_trigger rule) (re_kind event)"
    and planned: "list_all2 (\<lambda>a p. interpret_action event ruleset b a = Some p) (ir_actions rule) (pl_steps plan)"
    by blast
  have checked: "fst (collect (check_action (rule_modal_keys ruleset) (rule_modal_fields ruleset) rule)
      (ir_actions rule) []) = []"
    using validated_rule(1) [OF structural rule(1)] by (simp add: rule_checked_def)
  have templates: "templates_ready (rule_modal_fields ruleset) rule (pe_context prepared)"
    by (rule event_templates_ready [OF structural rule inputs, of _ "context_from_event event identity"])
      (simp add: ctx split: option.split)
  have "\<not> is_instance_action (ir_trigger rule)"
    using rule(2) kind by (auto simp: is_instance_action_def trigger_matches_def split: trigger_spec.splits event_kind.splits)
  then have ready: "instance_ready rule (pe_context prepared)" by (simp add: instance_ready_def)
  from steps have "service_fault sv e \<or> template_fault rule (pe_context prepared) e"
  proof
    assume "pl_steps (pe_plan prepared) = pl_steps plan"
    with planned show ?thesis
      by (intro execute_plan_sound [OF _ _ _ checked templates ready bspec [OF routes rule(1)] run]) auto
  next
    assume "PA_DeferEphemeral # pl_steps (pe_plan prepared) = pl_steps plan"
    with planned obtain rest where rest: "ir_actions rule = AS_DeferEphemeral # rest"
      "list_all2 (\<lambda>a p. interpret_action event ruleset b a = Some p) rest (pl_steps (pe_plan prepared))"
      by (metis defer_first)
    have "fst (collect (check_action (rule_modal_keys ruleset) (rule_modal_fields ruleset) rule) rest []) = []"
      using checked by (simp add: rest(1) collect_Cons check_action_def)
    then show ?thesis
      using rest by (intro execute_plan_sound [OF rest(2) _ _ _ templates ready bspec [OF routes rule(1)] run])
        (auto simp: registered_keys_iff)
  qed
  with rule show ?thesis by blast
qed

section \<open>Properties\<close>

lemma prepare_event_execution_planned:
  assumes "\<And>i a. re_kind event \<noteq> EK_InstanceAction i a"
    and "normalize_modal_submit_inputs event ruleset = Inr normalized"
    and "interpret_event event ruleset b = Some plan"
  shows "\<exists>prepared. prepare_event_execution event ruleset b identity = Inr (Some prepared)"
proof (cases "pl_steps plan")
  case Nil
  then show ?thesis
    using assms by (cases "re_kind event") (auto simp: prepare_event_execution_def Let_def)
next
  case (Cons step steps)
  then show ?thesis
    using assms by (cases "re_kind event"; cases step) (auto simp: prepare_event_execution_def Let_def)
qed

definition event_fault :: "'w automation_services \<Rightarrow> runtime_event \<Rightarrow> interaction_rule_set \<Rightarrow>
    prepared_event_execution \<Rightarrow> runtime_adapter_error \<Rightarrow> bool" where
  "event_fault sv event ruleset prepared e \<longleftrightarrow>
     service_fault sv e
     \<or> (\<exists>rule \<in> set (irs_rules ruleset). trigger_matches (ir_trigger rule) (re_kind event)
          \<and> template_fault rule (pe_context prepared) e)"

lemma execute_prepared_event_fault:
  assumes "validate_ruleset ruleset b = Inr ()"
    and "\<forall>rule \<in> set (irs_rules ruleset). routes_registered rule"
    and prepared: "prepare_event_execution event ruleset b identity = Inr (Some prepared)"
    and "execute_prepared_event prepared sv failure_message world = (Inl e, w)"
  shows "event_fault sv event ruleset prepared e"
proof -
  have "event_fault sv event ruleset prepared e"
    if "fst (execute_plan (pe_context prepared) (pe_plan prepared) sv w0) = Inl e" for w0
    unfolding event_fault_def using prepared_event_sound [OF assms(1,2) prepared] that by (metis prod.collapse)
  moreover have "event_fault sv event ruleset prepared e" if "fst (sv_defer_ephemeral sv w0) = Inl e" for w0
    using service_fault.defer_ephemeral [OF that] by (simp add: event_fault_def)
  ultimately show ?thesis using assms(4)
    by (auto simp: execute_prepared_event_def
        split: prod.splits sum.splits if_splits dest!: arg_cong [of _ _ fst])
qed

lemma input_error_matched:
  assumes "normalize_modal_submit_inputs event ruleset = Inl err"
  shows "\<exists>rule \<in> set (irs_rules ruleset). trigger_matches (ir_trigger rule) (re_kind event)"
proof -
  from assms obtain modal raw rule where "re_kind event = EK_ModalSubmit modal raw"
    "rule \<in> set (irs_rules ruleset)" "ir_trigger rule = TS_ModalSubmit modal"
    by (auto simp: normalize_modal_submit_inputs_def list_ex_iff split: event_kind.splits if_splits)
  then show ?thesis by (intro bexI [of _ rule]) (simp_all add: trigger_matches_def)
qed

lemma handle_event_sound:
  assumes "validate_ruleset ruleset b = Inr ()"
    and "\<forall>rule \<in> set (irs_rules ruleset). routes_registered rule"
    and "\<And>i a. re_kind event \<noteq> EK_InstanceAction i a"
    and "handle_event event ruleset b sv failure_message identity world = (r, world')"
  shows "(\<forall>e. r = Inl e \<longrightarrow>
        (input_fault e \<and> (\<exists>modal raw. re_kind event = EK_ModalSubmit modal raw))
        \<or> (\<exists>prepared. prepare_event_execution event ruleset b identity = Inr (Some prepared)
             \<and> event_fault sv event ruleset prepared e))
    \<and> (r = Inr HO_NoOp \<longleftrightarrow>
        (\<forall>rule \<in> set (irs_rules ruleset). \<not> trigger_matches (ir_trigger rule) (re_kind event)))"
proof -
  note structural = validate_ruleset_OkD(1) [OF assms(1)]
  show ?thesis
  proof (cases "normalize_modal_submit_inputs event ruleset")
    case (Inl err)
    then have "r = Inl (bad_request (Msg (modal_input_error_display err)))"
      using assms(3,4) by (auto simp: handle_event_def prepare_event_execution_def split: event_kind.splits)
    moreover have "\<exists>modal raw. re_kind event = EK_ModalSubmit modal raw"
      using Inl by (auto simp: normalize_modal_submit_inputs_def split: event_kind.splits)
    ultimately show ?thesis using event_input_fault [OF structural Inl] input_error_matched [OF Inl] by auto
  next
    case (Inr normalized)
    show ?thesis
    proof (cases "interpret_event event ruleset b")
      case None
      then have "r = Inr HO_NoOp"
        using Inr assms(3,4) by (auto simp: handle_event_def prepare_event_execution_def Let_def split: event_kind.splits)
      with None interpret_event_total [OF assms(1), of event] show ?thesis by simp
    next
      case (Some plan)
      obtain prepared where prepared: "prepare_event_execution event ruleset b identity = Inr (Some prepared)"
        using prepare_event_execution_planned [OF assms(3) Inr Some] by blast
      then have "r = Inl e \<Longrightarrow> execute_prepared_event prepared sv failure_message world = (Inl e, world')" for e
        using assms(4) by (auto simp: handle_event_def map_ok_Inl)
      moreover have "r \<noteq> Inr HO_NoOp"
        using assms(4) prepared by (auto simp: handle_event_def map_ok_Inr)
      ultimately show ?thesis
        using execute_prepared_event_fault [OF assms(1,2) prepared, where w = world' and world = world] Some prepared
          interpret_event_total [OF assms(1), of event] by auto
    qed
  qed
qed

lemma event_fault_cases: "event_fault sv event ruleset prepared e \<Longrightarrow> service_fault sv e \<or> render_fault e"
  by (auto simp: event_fault_def template_fault_def)


text \<open>A rule set whose only rule creates a channel and posts a panel there. The panel's button routes to
  an instance; the rule registers it, or fails to.\<close>

definition room_rule :: "bool \<Rightarrow> interaction_rule" where
  "room_rule registers = \<lparr> ir_key = ''room_rule'', ir_trigger = TS_ButtonClick ''open'',
     ir_actions =
       [AS_DeferEphemeral, AS_CreateChannel ''room'' ''room'',
        AS_PostPanel ''card'' (CR_Created ''room'') ''hi''
          [\<lparr> bs_label = ''x'', bs_route = BR_InstanceAction (IR_Created ''inst'') ''close'' \<rparr>]]
       @ (if registers
          then [AS_RegisterInstance ''inst'' ''room'' \<lparr> irr_roles = [], irr_channels = [(''main'', ''room'')],
                  irr_messages = [(''card'', ''card'')] \<rparr>]
          else [])
       @ [AS_EditResponse ''ok''] \<rparr>"

definition room_rules :: "bool \<Rightarrow> interaction_rule_set" where
  "room_rules registers = \<lparr> irs_version = 1,
     irs_panels = [\<lparr> ps_key = ''lobby'', ps_channel = ''lobby'', ps_content = ''hi'',
       ps_buttons = [\<lparr> bs_label = ''x'', bs_route = BR_Static ''open'' \<rparr>] \<rparr>],
     irs_modals = [], irs_rules = [room_rule registers] \<rparr>"

definition lobby_bindings :: resource_binding_map where
  "lobby_bindings = \<lparr> role_bindings = [], channel_bindings = [(''lobby'', ChannelId 6)] \<rparr>"

definition open_event :: runtime_event where
  "open_event = \<lparr> re_guild_id = GuildId 1, re_actor = UserId 2, re_kind = EK_ButtonClick ''open'' \<rparr>"

definition room_identity :: running_ruleset_identity where
  "room_identity = \<lparr> rri_key = ''rooms'', rri_version = 1 \<rparr>"

text \<open>Services that always succeed and count the channels they create.\<close>

definition counting_services :: "nat automation_services" where
  "counting_services = \<lparr>
     sv_grant_role = (\<lambda>_ _ _ w. (Inr (), w)), sv_create_channel = (\<lambda>_ _ w. (Inr (ChannelId 7), Suc w)),
     sv_create_role = (\<lambda>_ _ w. (Inr (RoleId 8), w)), sv_upsert_overwrite = (\<lambda>_ _ _ _ _ w. (Inr (), w)),
     sv_post_panel = (\<lambda>_ _ _ w. (Inr (MessageId 9), w)), sv_respond_ephemeral = (\<lambda>_ w. (Inr (), w)),
     sv_open_modal = (\<lambda>_ w. (Inr (), w)), sv_defer_ephemeral = (\<lambda>w. (Inr (), w)),
     sv_edit_response = (\<lambda>_ w. (Inr (), w)), sv_register_instance = (\<lambda>_ w. (Inr (), w)),
     sv_generate = (\<lambda>w. (Inr ''i_1'', w)), sv_teardown = (\<lambda>_ _ w. (Inr TO_Completed, w)) \<rparr>"

lemma room_rules_valid:
  "validate_ruleset (room_rules True) lobby_bindings = Inr ()"
  "validate_ruleset (room_rules False) lobby_bindings = Inr ()"
  by code_simp+



end
