(* ===== verification/Automation_Spec.thy ===== *)
theory Automation_Spec
  imports Rule_Validation
begin

text \<open>
  The specification language of the crate \<open>automation-spec\<close> (\<open>model.rs\<close>) and its translation to rule sets
  (the \<open>lower\<close> functions of \<open>model.rs\<close> and \<open>lower_shape\<close> of \<open>validate.rs\<close>). Authors and language models
  write specifications; the interaction runtime executes the rule sets.
\<close>

section \<open>Specifications\<close>

record declared_button =
  db_label :: string
  db_trigger_id :: string

record declared_panel =
  dp_id :: string
  dp_channel :: string
  dp_content :: string
  dp_buttons :: "declared_button list"

datatype modal_field_style_v1 = FSV_Short | FSV_Paragraph

datatype modal_input_policy_v1 = IPV_Preserve | IPV_TrimUnicodeWhitespace

record modal_field_definition =
  fd_id :: string
  fd_label :: string
  fd_style :: modal_field_style_v1
  fd_required :: bool
  fd_min_length :: "u16 option"
  fd_max_length :: "u16 option"
  fd_input_policy :: modal_input_policy_v1

record modal_definition =
  md_id :: string
  md_title :: string
  md_fields :: "modal_field_definition list"

datatype trigger_v1 =
  TV_ButtonClick string
| TV_ModalSubmit string
| TV_InstanceAction string

datatype condition_expr =
  CE_Always
| CE_InputNonEmpty string
| CE_InputEquals string string
| CE_All "condition_expr list"
| CE_Any "condition_expr list"
| CE_Not condition_expr

datatype instance_reference_v1 = IRV_Event | IRV_Created string

datatype role_reference_v1 =
  RRV_Existing string
| RRV_Created string
| RRV_Instance instance_reference_v1 string

datatype channel_reference_v1 = CRV_Existing string | CRV_Created string

datatype overwrite_target_v1 = OTV_Everyone | OTV_Role role_reference_v1

datatype action_target_v1 = ATV_Actor

datatype action_button_route =
  ABR_Static string
| ABR_InstanceAction instance_reference_v1 string

record action_button =
  ab_label :: string
  ab_route :: action_button_route

record instance_resources_v1 =
  iv_roles :: "(string, string) bmap"
  iv_channels :: "(string, string) bmap"
  iv_messages :: "(string, string) bmap"

datatype discord_permission =
  DP_AddReactions | DP_ViewChannel | DP_SendMessages | DP_EmbedLinks | DP_AttachFiles
| DP_ReadMessageHistory | DP_Connect | DP_Speak

datatype action_v1 =
  AV_GrantRole role_reference_v1 action_target_v1
| AV_RespondEphemeral string
| AV_OpenModal string
| AV_CreateChannel string string
| AV_CreateRole string string
| AV_UpsertOverwrite channel_reference_v1 overwrite_target_v1 "discord_permission list" "discord_permission list"
| AV_PostPanel string channel_reference_v1 string "action_button list"
| AV_DeferEphemeral
| AV_EditResponse string
| AV_RegisterInstance string string instance_resources_v1
| AV_TeardownInstance instance_reference_v1

record action_node =
  an_id :: string
  an_action :: action_v1

record workflow_spec =
  wf_id :: string
  wf_trigger :: trigger_v1
  wf_condition :: condition_expr
  wf_actions :: "action_node list"

record automation_spec =
  sp_schema_version :: u16
  sp_kind :: string
  sp_key :: string
  sp_display_name :: string
  sp_description :: string
  sp_panels :: "declared_panel list"
  sp_modals :: "modal_definition list"
  sp_workflows :: "workflow_spec list"

definition AUTOMATION_SPEC_SCHEMA_VERSION_V1 :: u16 where
  "AUTOMATION_SPEC_SCHEMA_VERSION_V1 = 1"

definition AUTOMATION_SPEC_KIND_V1 :: string where
  "AUTOMATION_SPEC_KIND_V1 = ''starring.automation-spec.v1''"

section \<open>Lowering\<close>

fun runtime_permission :: "discord_permission \<Rightarrow> permissions" where
  "runtime_permission DP_AddReactions = ADD_REACTIONS"
| "runtime_permission DP_ViewChannel = VIEW_CHANNEL"
| "runtime_permission DP_SendMessages = SEND_MESSAGES"
| "runtime_permission DP_EmbedLinks = EMBED_LINKS"
| "runtime_permission DP_AttachFiles = ATTACH_FILES"
| "runtime_permission DP_ReadMessageHistory = READ_MESSAGE_HISTORY"
| "runtime_permission DP_Connect = CONNECT"
| "runtime_permission DP_Speak = SPEAK"

definition permission_set :: "discord_permission list \<Rightarrow> permissions" where
  "permission_set permissions = foldl (\<lambda>set permission. set OR runtime_permission permission) 0 permissions"

definition lower_panel :: "declared_panel \<Rightarrow> panel_spec" where
  "lower_panel panel =
     \<lparr> ps_key = dp_id panel, ps_channel = dp_channel panel, ps_content = dp_content panel,
       ps_buttons = map (\<lambda>button. \<lparr> bs_label = db_label button, bs_route = BR_Static (db_trigger_id button) \<rparr>)
         (dp_buttons panel) \<rparr>"

definition lower_modal :: "modal_definition \<Rightarrow> modal_spec" where
  "lower_modal modal =
     \<lparr> ms_key = md_id modal, ms_title = md_title modal,
       ms_fields = map (\<lambda>field.
         \<lparr> mf_key = fd_id field, mf_label = fd_label field,
           mf_style = (case fd_style field of FSV_Short \<Rightarrow> MFS_Short | FSV_Paragraph \<Rightarrow> MFS_Paragraph),
           mf_required = fd_required field, mf_min_length = fd_min_length field,
           mf_max_length = fd_max_length field,
           mf_input_policy = (case fd_input_policy field of
               IPV_Preserve \<Rightarrow> MIP_Preserve | IPV_TrimUnicodeWhitespace \<Rightarrow> MIP_TrimUnicodeWhitespace) \<rparr>)
         (md_fields modal) \<rparr>"

fun lower_trigger :: "trigger_v1 \<Rightarrow> trigger_spec" where
  "lower_trigger (TV_ButtonClick trigger_id) = TS_ButtonClick trigger_id"
| "lower_trigger (TV_ModalSubmit modal_id) = TS_ModalSubmit modal_id"
| "lower_trigger (TV_InstanceAction action_id) = TS_InstanceAction action_id"

fun lower_instance_reference :: "instance_reference_v1 \<Rightarrow> instance_ref" where
  "lower_instance_reference IRV_Event = IR_Event"
| "lower_instance_reference (IRV_Created key) = IR_Created key"

fun lower_role_reference :: "role_reference_v1 \<Rightarrow> role_ref" where
  "lower_role_reference (RRV_Existing binding) = RR_Existing binding"
| "lower_role_reference (RRV_Created key) = RR_Created key"
| "lower_role_reference (RRV_Instance inst name) = RR_Instance (lower_instance_reference inst) name"

fun lower_channel_reference :: "channel_reference_v1 \<Rightarrow> channel_ref" where
  "lower_channel_reference (CRV_Existing binding) = CR_Existing binding"
| "lower_channel_reference (CRV_Created key) = CR_Created key"

fun lower_route :: "action_button_route \<Rightarrow> button_route" where
  "lower_route (ABR_Static trigger_id) = BR_Static trigger_id"
| "lower_route (ABR_InstanceAction inst action_id) = BR_InstanceAction (lower_instance_reference inst) action_id"

fun lower_action :: "action_v1 \<Rightarrow> action_spec" where
  "lower_action (AV_GrantRole role ATV_Actor) = AS_GrantRole (lower_role_reference role) AT_Actor"
| "lower_action (AV_RespondEphemeral content) = AS_RespondEphemeral content"
| "lower_action (AV_OpenModal modal_id) = AS_OpenModal modal_id"
| "lower_action (AV_CreateChannel key name) = AS_CreateChannel key name"
| "lower_action (AV_CreateRole key name) = AS_CreateRole key name"
| "lower_action (AV_UpsertOverwrite channel target allow deny) =
     AS_UpsertOverwrite (lower_channel_reference channel)
       (case target of OTV_Everyone \<Rightarrow> OTS_Everyone | OTV_Role role \<Rightarrow> OTS_Role (lower_role_reference role))
       (permission_set allow) (permission_set deny)"
| "lower_action (AV_PostPanel key channel content buttons) =
     AS_PostPanel key (lower_channel_reference channel) content
       (map (\<lambda>button. \<lparr> bs_label = ab_label button, bs_route = lower_route (ab_route button) \<rparr>) buttons)"
| "lower_action AV_DeferEphemeral = AS_DeferEphemeral"
| "lower_action (AV_EditResponse content) = AS_EditResponse content"
| "lower_action (AV_RegisterInstance key kind resources) =
     AS_RegisterInstance key kind
       \<lparr> irr_roles = iv_roles resources, irr_channels = iv_channels resources,
         irr_messages = iv_messages resources \<rparr>"
| "lower_action (AV_TeardownInstance inst) = AS_TeardownInstance (lower_instance_reference inst)"

definition lower_workflow :: "workflow_spec \<Rightarrow> interaction_rule" where
  "lower_workflow workflow =
     \<lparr> ir_key = wf_id workflow, ir_trigger = lower_trigger (wf_trigger workflow),
       ir_actions = map (\<lambda>node. lower_action (an_action node)) (wf_actions workflow) \<rparr>"

definition lower_shape :: "automation_spec \<Rightarrow> interaction_rule_set" where
  "lower_shape spec =
     \<lparr> irs_version = 1, irs_panels = map lower_panel (sp_panels spec), irs_modals = map lower_modal (sp_modals spec),
       irs_rules = map lower_workflow (sp_workflows spec) \<rparr>"

end
