(* ===== verification/Spec_Diagnostics.thy ===== *)
theory Spec_Diagnostics
  imports Diagnostics Template "HOL-Library.Product_Lexorder"
begin

text \<open>
  Diagnostics of the specification validators: a code, the path of the offending part and a message. The
  helpers are those at the end of \<open>automation-spec/src/validate.rs\<close>; the stateful validator has the same.
\<close>

record spec_diagnostic =
  sd_code :: string
  sd_path :: string
  sd_message :: string

definition diagnostic :: "string \<Rightarrow> string \<Rightarrow> string \<Rightarrow> spec_diagnostic" where
  "diagnostic code path message = \<lparr> sd_code = code, sd_path = path, sd_message = message \<rparr>"

definition diagnostic_key :: "spec_diagnostic \<Rightarrow> string \<times> string \<times> string" where
  "diagnostic_key d = (sd_path d, sd_code d, sd_message d)"

definition indexed :: "string \<Rightarrow> nat \<Rightarrow> string" where
  "indexed path index = path @ ''/'' @ show_nat index"

definition MAX_IDENTIFIER_BYTES_V1 :: nat where
  "MAX_IDENTIFIER_BYTES_V1 = 64"

definition valid_identifier :: "string \<Rightarrow> bool" where
  "valid_identifier value \<longleftrightarrow>
     value \<noteq> [] \<and> length value \<le> MAX_IDENTIFIER_BYTES_V1 \<and> is_ascii_lowercase (hd value)
     \<and> list_all (\<lambda>byte. is_ascii_lowercase byte \<or> is_ascii_digit byte \<or> byte = CHR ''_'') value"

definition validate_identifier :: "string \<Rightarrow> string \<Rightarrow> spec_diagnostic list" where
  "validate_identifier path value =
     push_if (\<not> valid_identifier value)
       (diagnostic ''invalid_identifier'' path ''identifiers must match [a-z][a-z0-9_]{0,63}'')"

definition bounded_chars ::
  "string \<Rightarrow> string \<Rightarrow> nat \<Rightarrow> nat \<Rightarrow> string \<Rightarrow> spec_diagnostic list" where
  "bounded_chars path value minimum maximum code =
     push_if (chars_count value < minimum \<or> chars_count value > maximum)
       (diagnostic code path
          (''value must contain '' @ show_nat minimum @ ''..='' @ show_nat maximum @ '' characters''))"

definition bounded_len :: "string \<Rightarrow> nat \<Rightarrow> nat \<Rightarrow> spec_diagnostic list" where
  "bounded_len path actual maximum =
     push_if (actual > maximum)
       (diagnostic ''collection_budget_exceeded'' path
          (''collection must not exceed '' @ show_nat maximum @ '' entries''))"

text \<open>Diagnostics are reported in the order of their paths, codes and messages.\<close>

definition report :: "spec_diagnostic list \<Rightarrow> spec_diagnostic list + unit" where
  "report diagnostics = (let sorted = sort_key diagnostic_key diagnostics in if sorted = [] then Inr () else Inl sorted)"

lemma report_OkD: "report diagnostics = Inr () \<longleftrightarrow> diagnostics = []"
  by (simp add: report_def Let_def) (metis length_0_conv length_sort)

end
