(* ===== verification/Instance_Routes.thy ===== *)
theory Instance_Routes
  imports Automation_Spec Spec_Diagnostics
begin

text \<open>
  Routes to instances in a specification. The button of a posted panel may lead to an action of the instance
  being created; the handler of that action may use roles of the instance, and so may the handlers it
  forwards to. The validators of \<open>automation-spec\<close> and \<open>automation-stateful-spec\<close> collect what every
  handler needs, close it under forwarding by iteration, and check the resources of the created instance.
  The iteration is shown to end and to compute exactly what some chain of forwardings needs.
\<close>

section \<open>Requirements of the handlers\<close>

text \<open>An ordered set of strings is an increasing list.\<close>

type_synonym string_sets = "(string, string list) bmap"

definition extend_set :: "string list \<Rightarrow> string list \<Rightarrow> string list" where
  "extend_set xs ys = fold insort_insert xs ys"

definition collect_event_role_aliases :: "action_v1 \<Rightarrow> string list \<Rightarrow> string list" where
  "collect_event_role_aliases action aliases =
     (let role = (case action of
          AV_GrantRole role _ \<Rightarrow> Some role
        | AV_UpsertOverwrite _ (OTV_Role role) _ _ \<Rightarrow> Some role
        | _ \<Rightarrow> None)
      in case role of Some (RRV_Instance IRV_Event name) \<Rightarrow> insort_insert name aliases | _ \<Rightarrow> aliases)"

definition collect_forwarded :: "action_v1 \<Rightarrow> string list \<Rightarrow> string list" where
  "collect_forwarded action forwarded =
     (case action of
        AV_PostPanel _ _ _ buttons \<Rightarrow>
          fold (\<lambda>button forwarded. case ab_route button of
              ABR_InstanceAction IRV_Event action_id \<Rightarrow> insort_insert action_id forwarded
            | _ \<Rightarrow> forwarded) buttons forwarded
      | _ \<Rightarrow> forwarded)"

definition collect_handler_requirements ::
  "string \<Rightarrow> action_node list \<Rightarrow> string_sets \<times> string_sets \<Rightarrow> string_sets \<times> string_sets" where
  "collect_handler_requirements action_id actions state =
     (let (required_event_roles, forwarded_event_actions) = state
      in (bm_modify [] (fold (\<lambda>node. collect_event_role_aliases (an_action node)) actions) action_id
            required_event_roles,
          bm_modify [] (fold (\<lambda>node. collect_forwarded (an_action node)) actions) action_id
            forwarded_event_actions))"

type_synonym handler_tables = "(string, nat) bmap \<times> string_sets \<times> string_sets"

definition register_handler_requirements ::
  "string \<Rightarrow> action_node list \<Rightarrow> handler_tables \<Rightarrow> handler_tables" where
  "register_handler_requirements action_id actions tables =
     (let (handler_counts, requirements) = tables
      in (bm_modify 0 Suc action_id handler_counts, collect_handler_requirements action_id actions requirements))"

section \<open>Created instances\<close>

definition manifests :: "action_node list \<Rightarrow> (string, instance_resources_v1) bmap \<times> (string, nat) bmap" where
  "manifests actions =
     fold (\<lambda>node (manifests, counts). case an_action node of
         AV_RegisterInstance key _ resources \<Rightarrow> (bm_modify resources id key manifests, bm_modify 0 Suc key counts)
       | _ \<Rightarrow> (manifests, counts)) actions ([], [])"

text \<open>The two validators differ in the code and the wording of the diagnostic.\<close>

definition validate_creator_button ::
  "string \<times> (string \<Rightarrow> string) \<Rightarrow> action_node list \<Rightarrow> (string, nat) bmap \<Rightarrow> string_sets \<Rightarrow> string \<Rightarrow>
   action_button \<Rightarrow> spec_diagnostic list" where
  "validate_creator_button report_as actions handler_counts needed path button =
     (case ab_route button of
        ABR_InstanceAction (IRV_Created key) action_id \<Rightarrow>
          (let (manifests, manifest_counts) = manifests actions
           in if bm_get manifest_counts key \<noteq> Some 1 \<or> bm_get handler_counts action_id \<noteq> Some 1 then []
              else case (bm_get manifests key, bm_get needed action_id) of
                (Some resources, Some required_roles) \<Rightarrow>
                  concat (map (\<lambda>name. push_if (bm_get (iv_roles resources) name = None)
                    (diagnostic (fst report_as) (path @ ''/route/instance'') (snd report_as name))) required_roles)
              | _ \<Rightarrow> [])
      | _ \<Rightarrow> [])"

definition validate_creator_branch ::
  "string \<times> (string \<Rightarrow> string) \<Rightarrow> action_node list \<Rightarrow> string \<Rightarrow> (string, nat) bmap \<Rightarrow> string_sets \<Rightarrow>
   spec_diagnostic list" where
  "validate_creator_branch report_as actions path handler_counts needed =
     concat (map (\<lambda>(action_index, node).
       case an_action node of
         AV_PostPanel _ _ _ buttons \<Rightarrow>
           concat (map (\<lambda>(button_index, button).
             validate_creator_button report_as actions handler_counts needed
               (indexed (indexed path action_index @ ''/action/buttons'') button_index) button)
             (enumerate 0 buttons))
       | _ \<Rightarrow> []) (enumerate 0 actions))"

section \<open>The fixed point\<close>

text \<open>One iteration of the loop for one handler, and for all of them.\<close>

definition inherit_step :: "string \<times> string list \<Rightarrow> string_sets \<Rightarrow> string_sets \<times> bool" where
  "inherit_step entry needed =
     (let (action_id, downstream_actions) = entry;
          inherited = fold (\<lambda>downstream acc. case bm_get needed downstream of
              None \<Rightarrow> acc | Some roles \<Rightarrow> extend_set roles acc) downstream_actions [];
          roles = (case bm_get needed action_id of None \<Rightarrow> [] | Some roles \<Rightarrow> roles);
          roles' = extend_set inherited roles
      in (bm_insert action_id roles' needed, length roles' \<noteq> length roles))"

fun inherit_pass :: "string_sets \<Rightarrow> string_sets \<Rightarrow> string_sets \<times> bool" where
  "inherit_pass [] needed = (needed, False)"
| "inherit_pass (entry # entries) needed =
     (let (needed', changed) = inherit_step entry needed;
          (needed'', changed') = inherit_pass entries needed'
      in (needed'', changed \<or> changed'))"

definition roles_at :: "string_sets \<Rightarrow> string \<Rightarrow> string set" where
  "roles_at needed k = (case bm_get needed k of None \<Rightarrow> {} | Some roles \<Rightarrow> set roles)"

lemma set_insort_insert_id [simp]: "set (insort_insert x xs) = insert x (set xs)"
  by (auto simp: insort_insert_key_def set_insort_key)

lemma set_extend_set [simp]: "set (extend_set xs ys) = set xs \<union> set ys"
  by (induction xs arbitrary: ys) (auto simp: extend_set_def)

lemma length_extend_set: "length ys \<le> length (extend_set xs ys)"
proof (induction xs arbitrary: ys)
  case (Cons x xs)
  have "length ys \<le> length (insort_insert x ys)" by (simp add: insort_insert_key_def)
  also have "\<dots> \<le> length (extend_set xs (insort_insert x ys))" by (rule Cons)
  finally show ?case by (simp add: extend_set_def)
qed (simp add: extend_set_def)

lemma length_extend_set_iff: "length (extend_set xs ys) = length ys \<longleftrightarrow> set xs \<subseteq> set ys"
proof (induction xs arbitrary: ys)
  case (Cons x xs)
  have step: "extend_set (x # xs) ys = extend_set xs (insort_insert x ys)" by (simp add: extend_set_def)
  show ?case
  proof (cases "x \<in> set ys")
    case True
    then have "insort_insert x ys = ys" by (simp add: insort_insert_key_def)
    with Cons True show ?thesis by (simp add: step)
  next
    case False
    then have "length (insort_insert x ys) = Suc (length ys)" by (simp add: insort_insert_key_def)
    with False show ?thesis using length_extend_set [of "insort_insert x ys" xs] by (simp add: step)
  qed
qed (simp add: extend_set_def)

definition inherited_roles :: "string_sets \<Rightarrow> string list \<Rightarrow> string set" where
  "inherited_roles needed downstream = (\<Union>d \<in> set downstream. roles_at needed d)"

lemma inherit_step_roles:
  "roles_at (fst (inherit_step (k, ds) needed)) k' =
     (if k' = k then roles_at needed k \<union> inherited_roles needed ds else roles_at needed k')"
  "snd (inherit_step (k, ds) needed) \<longleftrightarrow> \<not> inherited_roles needed ds \<subseteq> roles_at needed k"
proof -
  define inherited where "inherited = fold (\<lambda>downstream acc. case bm_get needed downstream of
      None \<Rightarrow> acc | Some roles \<Rightarrow> extend_set roles acc) ds []"
  have "set (fold (\<lambda>downstream acc. case bm_get needed downstream of
      None \<Rightarrow> acc | Some roles \<Rightarrow> extend_set roles acc) ds acc) = set acc \<union> inherited_roles needed ds" for acc
    by (induction ds arbitrary: acc) (auto simp: inherited_roles_def roles_at_def split: option.splits)
  then have set: "set inherited = inherited_roles needed ds" by (simp add: inherited_def)
  show "roles_at (fst (inherit_step (k, ds) needed)) k' =
     (if k' = k then roles_at needed k \<union> inherited_roles needed ds else roles_at needed k')"
    by (auto simp: inherit_step_def Let_def inherited_def [symmetric] set roles_at_def bm_get_insert split: option.split)
  show "snd (inherit_step (k, ds) needed) \<longleftrightarrow> \<not> inherited_roles needed ds \<subseteq> roles_at needed k"
    by (auto simp: inherit_step_def Let_def inherited_def [symmetric] length_extend_set_iff set roles_at_def
        split: option.split)
qed


text \<open>
  A pass adds to the roles of some handlers roles that other handlers have. The pairs of a handler that
  forwards and a role it does not have yet are the measure of the loop.
\<close>

definition all_roles :: "string_sets \<Rightarrow> string set" where
  "all_roles needed = (\<Union>k \<in> fst ` set needed. roles_at needed k)"

lemma all_roles_iff: "x \<in> all_roles needed \<longleftrightarrow> (\<exists>k. x \<in> roles_at needed k)"
proof
  assume "\<exists>k. x \<in> roles_at needed k"
  then obtain k where k: "x \<in> roles_at needed k" by blast
  then have "map_of needed k \<noteq> None" by (auto simp: roles_at_def split: option.splits)
  then have "k \<in> fst ` set needed" by (simp add: map_of_eq_None_iff)
  with k show "x \<in> all_roles needed" unfolding all_roles_def by blast
qed (auto simp: all_roles_def)

lemma finite_roles_at: "finite (roles_at needed k)"
  by (simp add: roles_at_def split: option.split)

lemma finite_all_roles: "finite (all_roles needed)"
  by (simp add: all_roles_def finite_roles_at)

definition missing :: "string set \<Rightarrow> string_sets \<Rightarrow> (string \<times> string) set" where
  "missing ks needed = {(k, x). k \<in> ks \<and> x \<in> all_roles needed \<and> x \<notin> roles_at needed k}"

lemma inherited_subset: "inherited_roles needed ds \<subseteq> all_roles needed"
  by (auto simp: inherited_roles_def all_roles_iff)

lemma inherit_step_all: "all_roles (fst (inherit_step (k, ds) needed)) = all_roles needed"
proof (rule set_eqI)
  fix x show "x \<in> all_roles (fst (inherit_step (k, ds) needed)) \<longleftrightarrow> x \<in> all_roles needed"
    unfolding all_roles_iff inherit_step_roles(1) inherited_roles_def by (metis UN_E Un_iff)
qed

lemma inherit_step_missing:
  "missing ks (fst (inherit_step (k, ds) needed)) \<subseteq> missing ks needed"
  "snd (inherit_step (k, ds) needed) \<Longrightarrow> k \<in> ks \<Longrightarrow>
     missing ks (fst (inherit_step (k, ds) needed)) \<noteq> missing ks needed"
proof -
  show "missing ks (fst (inherit_step (k, ds) needed)) \<subseteq> missing ks needed"
    by (auto simp: missing_def inherit_step_all inherit_step_roles(1) split: if_splits)
  assume "snd (inherit_step (k, ds) needed)" and k: "k \<in> ks"
  then obtain x where x: "x \<in> inherited_roles needed ds" "x \<notin> roles_at needed k"
    by (auto simp: inherit_step_roles(2))
  then have "(k, x) \<in> missing ks needed" using inherited_subset k by (auto simp: missing_def)
  moreover have "(k, x) \<notin> missing ks (fst (inherit_step (k, ds) needed))"
    using x by (simp add: missing_def inherit_step_roles(1))
  ultimately show "missing ks (fst (inherit_step (k, ds) needed)) \<noteq> missing ks needed" by blast
qed

lemma inherit_pass_missing:
  assumes "fst ` set entries \<subseteq> ks"
  shows "missing ks (fst (inherit_pass entries needed)) \<subseteq> missing ks needed
    \<and> (snd (inherit_pass entries needed) \<longrightarrow> missing ks (fst (inherit_pass entries needed)) \<noteq> missing ks needed)"
  using assms
proof (induction entries arbitrary: needed)
  case (Cons entry entries)
  obtain k ds where entry: "entry = (k, ds)" by (cases entry)
  with Cons.prems have k: "k \<in> ks" "fst ` set entries \<subseteq> ks" by auto
  obtain needed' changed where step: "inherit_step (k, ds) needed = (needed', changed)"
    by (cases "inherit_step (k, ds) needed")
  have "missing ks needed' \<subseteq> missing ks needed" "changed \<longrightarrow> missing ks needed' \<noteq> missing ks needed"
    using inherit_step_missing [where ks = ks and k = k and ds = ds and needed = needed] k(1) by (simp_all add: step)
  moreover note Cons.IH [OF k(2), of needed']
  moreover have "fst (inherit_pass (entry # entries) needed) = fst (inherit_pass entries needed')"
    "snd (inherit_pass (entry # entries) needed) = (changed \<or> snd (inherit_pass entries needed'))"
    by (simp_all add: entry step split: prod.split)
  ultimately show ?case by auto
qed simp

function propagate :: "string_sets \<Rightarrow> string_sets \<Rightarrow> string_sets" where
  "propagate forwarded needed =
     (let (needed', changed) = inherit_pass forwarded needed
      in if changed then propagate forwarded needed' else needed')"
  by pat_completeness auto

termination propagate
proof (relation "measure (\<lambda>(forwarded, needed). card (missing (fst ` set forwarded) needed))")
  fix forwarded needed x needed' changed
  assume x: "x = inherit_pass forwarded needed" "(needed', changed) = x" changed
  have "finite (fst ` set forwarded \<times> all_roles needed)" by (simp add: finite_all_roles)
  then have "finite (missing (fst ` set forwarded) needed)"
    by (rule rev_finite_subset) (auto simp: missing_def)
  moreover have "missing (fst ` set forwarded) needed' \<subset> missing (fst ` set forwarded) needed"
    using inherit_pass_missing [of forwarded "fst ` set forwarded" needed] x by (metis fst_conv order_refl psubsetI snd_conv)
  ultimately show "((forwarded, needed'), forwarded, needed)
      \<in> measure (\<lambda>(forwarded, needed). card (missing (fst ` set forwarded) needed))"
    by (simp add: psubset_card_mono)
qed simp

declare propagate.simps [simp del]

text \<open>What the handler of an action needs, itself or through the actions it forwards to.\<close>

inductive needs :: "string_sets \<Rightarrow> string_sets \<Rightarrow> string \<Rightarrow> string \<Rightarrow> bool" for forwarded needed where
  own: "x \<in> roles_at needed k \<Longrightarrow> needs forwarded needed k x"
| forward: "d \<in> roles_at forwarded k \<Longrightarrow> needs forwarded needed d x \<Longrightarrow> needs forwarded needed k x"


lemma needs_eqI:
  assumes "\<And>k. roles_at needed k \<subseteq> roles_at needed' k"
    and "\<And>k x. x \<in> roles_at needed' k \<Longrightarrow> needs forwarded needed k x"
  shows "needs forwarded needed' = needs forwarded needed"
proof (intro ext iffI)
  fix k x show "needs forwarded needed' k x \<Longrightarrow> needs forwarded needed k x"
    by (induction rule: needs.induct) (auto intro: assms(2) needs.forward)
  show "needs forwarded needed k x \<Longrightarrow> needs forwarded needed' k x"
    by (induction rule: needs.induct) (use assms(1) in \<open>auto intro: needs.intros\<close>)
qed

lemma inherit_step_needs:
  assumes "distinct (map fst forwarded)" "(k, ds) \<in> set forwarded"
  shows "needs forwarded (fst (inherit_step (k, ds) needed)) = needs forwarded needed"
proof (rule needs_eqI)
  have ds: "roles_at forwarded k = set ds" using assms by (simp add: roles_at_def)
  show "roles_at needed k' \<subseteq> roles_at (fst (inherit_step (k, ds) needed)) k'" for k'
    by (simp add: inherit_step_roles(1))
  fix k' x assume "x \<in> roles_at (fst (inherit_step (k, ds) needed)) k'"
  then consider "x \<in> roles_at needed k'" | d where "k' = k" "d \<in> set ds" "x \<in> roles_at needed d"
    by (auto simp: inherit_step_roles(1) inherited_roles_def split: if_splits)
  then show "needs forwarded needed k' x"
    by cases (auto simp: ds intro: needs.intros)
qed

lemma inherit_pass_needs:
  assumes "distinct (map fst forwarded)" "set entries \<subseteq> set forwarded"
  shows "needs forwarded (fst (inherit_pass entries needed)) = needs forwarded needed"
  using assms(2)
proof (induction entries arbitrary: needed)
  case (Cons entry entries)
  obtain k ds where entry: "entry = (k, ds)" by (cases entry)
  have "fst (inherit_pass (entry # entries) needed) = fst (inherit_pass entries (fst (inherit_step (k, ds) needed)))"
    by (simp add: entry split: prod.split)
  with Cons entry show ?case by (simp add: inherit_step_needs [OF assms(1)])
qed simp

lemma inherit_pass_fixed:
  assumes "\<not> snd (inherit_pass entries needed)"
  shows "roles_at (fst (inherit_pass entries needed)) = roles_at needed
    \<and> (\<forall>k ds. (k, ds) \<in> set entries \<longrightarrow> inherited_roles needed ds \<subseteq> roles_at needed k)"
  using assms
proof (induction entries arbitrary: needed)
  case (Cons entry entries)
  obtain k ds where entry: "entry = (k, ds)" by (cases entry)
  define needed' where "needed' = fst (inherit_step (k, ds) needed)"
  have pass: "fst (inherit_pass (entry # entries) needed) = fst (inherit_pass entries needed')"
    "snd (inherit_pass (entry # entries) needed) \<longleftrightarrow>
       snd (inherit_step (k, ds) needed) \<or> snd (inherit_pass entries needed')"
    by (simp_all add: entry needed'_def split: prod.split)
  with Cons.prems have sub: "inherited_roles needed ds \<subseteq> roles_at needed k"
    and rest: "\<not> snd (inherit_pass entries needed')" by (auto simp: inherit_step_roles(2))
  from sub have same: "roles_at needed' = roles_at needed"
    by (intro ext) (auto simp: needed'_def inherit_step_roles(1))
  then have "inherited_roles needed' = inherited_roles needed" by (simp add: inherited_roles_def fun_eq_iff)
  with Cons.IH [OF rest] sub same pass(1) entry show ?case by simp
qed simp

lemma propagate_needs:
  assumes "distinct (map fst forwarded)"
  shows "x \<in> roles_at (propagate forwarded needed) k \<longleftrightarrow> needs forwarded needed k x"
  using assms
proof (induction forwarded needed rule: propagate.induct)
  case (1 forwarded needed)
  obtain needed' changed where pass: "inherit_pass forwarded needed = (needed', changed)"
    by (cases "inherit_pass forwarded needed")
  have needs: "needs forwarded needed' = needs forwarded needed"
    using inherit_pass_needs [OF 1(2) order_refl, of needed] by (simp add: pass)
  show ?case
  proof (cases changed)
    case True
    then show ?thesis
      using 1(1) [OF pass [symmetric] refl True 1(2)] by (simp add: propagate.simps [of forwarded needed] pass needs)
  next
    case False
    then have fixed: "roles_at needed' = roles_at needed"
      "\<And>k ds. (k, ds) \<in> set forwarded \<Longrightarrow> inherited_roles needed ds \<subseteq> roles_at needed k"
      using inherit_pass_fixed [of forwarded needed] by (simp_all add: pass)
    have "needs forwarded needed k x \<Longrightarrow> x \<in> roles_at needed k" for k
    proof (induction rule: needs.induct)
      case (forward d k x)
      then obtain ds where "(k, ds) \<in> set forwarded" "d \<in> set ds"
        by (auto simp: roles_at_def dest: map_of_SomeD split: option.splits)
      with forward fixed(2) [of k ds] show ?case by (auto simp: inherited_roles_def)
    qed
    with False fixed(1) show ?thesis
      by (auto simp: propagate.simps [of forwarded needed] pass intro: needs.own)
  qed
qed

end
