(* ===== verification/Spec_Validation.thy ===== *)
theory Spec_Validation
  imports Instance_Routes Rule_Soundness
begin

text \<open>
  The validation of specifications, \<open>automation-spec/src/validate.rs\<close>. Every helper that pushes diagnostics
  is a function that returns them; loops with state are \<open>collect\<close>s. Two facts come from outside: the length
  of the encoded specification (\<open>serde_json\<close>, \<open>None\<close> when encoding fails) and the debug text of an error of
  the rule validator.
\<close>

section \<open>Limits\<close>

definition MAX_AUTOMATION_SPEC_CANONICAL_BYTES_V1 :: nat where
  "MAX_AUTOMATION_SPEC_CANONICAL_BYTES_V1 = 40 * 1024"

definition MAX_INSTANCE_ACTION_ID_BYTES_V1 :: nat where
  "MAX_INSTANCE_ACTION_ID_BYTES_V1 = 56"

definition MAX_DISCORD_CUSTOM_ID_BYTES_V1 :: nat where
  "MAX_DISCORD_CUSTOM_ID_BYTES_V1 = 100"

definition COMPONENT_CUSTOM_ID_FIXED_BYTES :: nat where
  "COMPONENT_CUSTOM_ID_FIXED_BYTES = length ''starring:'' + 20 + 1 + 1 + length ''button:''"

section \<open>Identifiers, references and texts\<close>

definition validate_component_custom_id_budget :: "string \<Rightarrow> string \<Rightarrow> string \<Rightarrow> spec_diagnostic list" where
  "validate_component_custom_id_budget path ruleset_key component_key =
     push_if (COMPONENT_CUSTOM_ID_FIXED_BYTES + length ruleset_key + length component_key
         > MAX_DISCORD_CUSTOM_ID_BYTES_V1)
       (diagnostic ''component_custom_id_too_large'' path
         ''the automation key and component ID do not fit Discord's 100-byte custom ID limit'')"

definition validate_instance_action_id :: "string \<Rightarrow> string \<Rightarrow> spec_diagnostic list" where
  "validate_instance_action_id path value =
     validate_identifier path value
     @ push_if (length value > MAX_INSTANCE_ACTION_ID_BYTES_V1)
         (diagnostic ''instance_action_id_too_large'' path
           ''instance action IDs must fit the Discord custom ID budget'')"

definition validate_resource_alias :: "string \<Rightarrow> string \<Rightarrow> spec_diagnostic list" where
  "validate_resource_alias path value =
     push_if (\<not> is_resource_alias value)
       (diagnostic ''invalid_resource_alias'' path
         ''instance resource aliases must contain 1..=32 ASCII alphanumeric, '_' or '-' bytes'')"

definition validate_instance_ref :: "string \<Rightarrow> instance_reference_v1 \<Rightarrow> spec_diagnostic list" where
  "validate_instance_ref path reference =
     (case reference of
        IRV_Created key \<Rightarrow> validate_identifier (path @ ''/instance/output'') key
      | IRV_Event \<Rightarrow> [])"

definition validate_role_ref :: "string \<Rightarrow> role_reference_v1 \<Rightarrow> spec_diagnostic list" where
  "validate_role_ref path reference =
     (case reference of
        RRV_Existing binding \<Rightarrow> validate_identifier (path @ ''/role/binding'') binding
      | RRV_Created key \<Rightarrow> validate_identifier (path @ ''/role/output'') key
      | RRV_Instance inst name \<Rightarrow>
          validate_instance_ref (path @ ''/role'') inst @ validate_resource_alias (path @ ''/role/alias'') name)"

definition validate_channel_ref :: "string \<Rightarrow> channel_reference_v1 \<Rightarrow> spec_diagnostic list" where
  "validate_channel_ref path reference =
     (case reference of
        CRV_Existing binding \<Rightarrow> validate_identifier (path @ ''/channel/binding'') binding
      | CRV_Created key \<Rightarrow> validate_identifier (path @ ''/channel/output'') key)"

definition validate_permission_set :: "string \<Rightarrow> discord_permission list \<Rightarrow> spec_diagnostic list" where
  "validate_permission_set path permissions =
     push_if (\<not> distinct permissions)
       (diagnostic ''duplicate_permission'' path ''permission lists must not contain duplicates'')"

definition unrenderable :: "template_string \<Rightarrow> sanitize_context \<Rightarrow> bool" where
  "unrenderable template context =
     (let keys = input_keys template;
          empty_inputs = fold (\<lambda>key. bm_insert key []) keys []
      in case render template empty_inputs context of
           Inl (TE_TooLong _ _) \<Rightarrow> True
         | Inl TE_EmptyAfterSanitize \<Rightarrow> keys = []
         | Inl _ \<Rightarrow> True
         | Inr _ \<Rightarrow> False)"

definition validate_literal_template ::
  "string \<Rightarrow> string \<Rightarrow> sanitize_context \<Rightarrow> spec_diagnostic list" where
  "validate_literal_template path source context =
     (case parse source of
        Inl _ \<Rightarrow> []
      | Inr template \<Rightarrow>
          push_if (unrenderable template context)
            (diagnostic ''literal_template_unrenderable'' path
              (''the template's fixed output must remain within its runtime limit, and literal-only output ''
               @ ''must remain nonempty after sanitization'')))"

definition validate_declared_panel_content :: "string \<Rightarrow> string \<Rightarrow> spec_diagnostic list" where
  "validate_declared_panel_content path content =
     (if content = [] then []
      else
        (let rendered = (case parse content of
                Inl e \<Rightarrow> Inl e
              | Inr template \<Rightarrow> render template [] SC_EphemeralMessageContent)
         in push_if (rendered \<noteq> Inr content)
           (diagnostic ''unsafe_declared_panel_content'' path
             (''declared panel content must already be nonempty, mention-neutral, control-free, and ''
              @ ''within the runtime message limit''))))"

section \<open>Panels\<close>

definition validate_button ::
  "string \<Rightarrow> string \<Rightarrow> nat \<times> declared_button \<Rightarrow> string set \<Rightarrow> spec_diagnostic list \<times> string set" where
  "validate_button key path indexed_button trigger_ids =
     (let (button_index, button) = indexed_button;
          button_path = indexed (path @ ''/buttons'') button_index;
          (duplicate, trigger_ids') = register (db_trigger_id button)
            (diagnostic ''duplicate_button_trigger_id'' (button_path @ ''/trigger_id'')
              ''button trigger IDs must be unique across declared panels'') trigger_ids
      in (bounded_chars (button_path @ ''/label'') (db_label button) 1 80 ''invalid_button_label''
          @ validate_identifier (button_path @ ''/trigger_id'') (db_trigger_id button)
          @ validate_component_custom_id_budget (button_path @ ''/trigger_id'') key (db_trigger_id button)
          @ duplicate, trigger_ids'))"

definition validate_panel ::
  "string \<Rightarrow> nat \<times> declared_panel \<Rightarrow> string set \<times> string set \<Rightarrow>
   spec_diagnostic list \<times> string set \<times> string set" where
  "validate_panel key indexed_panel state =
     (let (panel_index, panel) = indexed_panel;
          (panel_ids, trigger_ids) = state;
          path = indexed ''/panels'' panel_index;
          (duplicate, panel_ids') = register (dp_id panel)
            (diagnostic ''duplicate_panel_id'' (path @ ''/id'') ''panel IDs must be unique'') panel_ids;
          (buttons, trigger_ids') = collect (validate_button key path) (enumerate 0 (dp_buttons panel)) trigger_ids
      in (validate_identifier (path @ ''/id'') (dp_id panel)
          @ validate_identifier (path @ ''/channel'') (dp_channel panel)
          @ duplicate
          @ push_if (dp_content panel = [] \<and> dp_buttons panel = [])
              (diagnostic ''empty_panel'' path ''a panel must contain content or at least one button'')
          @ bounded_chars (path @ ''/content'') (dp_content panel) 0 2000 ''invalid_panel_content''
          @ validate_declared_panel_content (path @ ''/content'') (dp_content panel)
          @ push_if (length (dp_buttons panel) > 5)
              (diagnostic ''too_many_panel_buttons'' (path @ ''/buttons'') ''panels support at most 5 buttons'')
          @ buttons, panel_ids', trigger_ids'))"

definition validate_panels :: "automation_spec \<Rightarrow> spec_diagnostic list" where
  "validate_panels spec = fst (collect (validate_panel (sp_key spec)) (enumerate 0 (sp_panels spec)) ({}, {}))"

section \<open>Modals\<close>

definition validate_modal_field ::
  "string \<Rightarrow> nat \<times> modal_field_definition \<Rightarrow> string set \<Rightarrow> spec_diagnostic list \<times> string set" where
  "validate_modal_field path indexed_field field_ids =
     (let (field_index, field) = indexed_field;
          field_path = indexed (path @ ''/fields'') field_index;
          (duplicate, field_ids') = register (fd_id field)
            (diagnostic ''duplicate_modal_field_id'' (field_path @ ''/id'')
              ''modal field IDs must be unique within the modal'') field_ids
      in (validate_identifier (field_path @ ''/id'') (fd_id field)
          @ duplicate
          @ bounded_chars (field_path @ ''/label'') (fd_label field) 1 45 ''invalid_modal_field_label''
          @ push_if (case fd_min_length field of None \<Rightarrow> False | Some units \<Rightarrow> unat units > 4000)
              (diagnostic ''invalid_modal_min_length'' (field_path @ ''/min_length'')
                ''modal min_length must not exceed 4000 UTF-16 code units'')
          @ push_if (case fd_max_length field of None \<Rightarrow> False | Some units \<Rightarrow> units = 0 \<or> unat units > 4000)
              (diagnostic ''invalid_modal_max_length'' (field_path @ ''/max_length'')
                ''modal max_length must be in 1..=4000 UTF-16 code units'')
          @ push_if (case (fd_min_length field, fd_max_length field) of
                (Some min_length, Some max_length) \<Rightarrow> min_length > max_length | _ \<Rightarrow> False)
              (diagnostic ''invalid_modal_length_range'' field_path
                ''modal min_length must not exceed max_length''), field_ids'))"

definition validate_modal ::
  "string \<Rightarrow> nat \<times> modal_definition \<Rightarrow> string set \<times> field_map \<Rightarrow>
   spec_diagnostic list \<times> string set \<times> field_map" where
  "validate_modal key indexed_modal state =
     (let (modal_index, modal) = indexed_modal;
          (modal_ids, modal_fields) = state;
          path = indexed ''/modals'' modal_index;
          (duplicate, modal_ids') = register (md_id modal)
            (diagnostic ''duplicate_modal_id'' (path @ ''/id'') ''modal IDs must be unique'') modal_ids;
          (fields', field_ids) = collect (validate_modal_field path) (enumerate 0 (md_fields modal)) {}
      in (validate_identifier (path @ ''/id'') (md_id modal)
          @ validate_component_custom_id_budget (path @ ''/id'') key (md_id modal)
          @ duplicate
          @ bounded_chars (path @ ''/title'') (md_title modal) 1 45 ''invalid_modal_title''
          @ push_if (md_fields modal = [] \<or> length (md_fields modal) > 5)
              (diagnostic ''invalid_modal_field_count'' (path @ ''/fields'') ''modals must contain 1..=5 fields'')
          @ fields', modal_ids', bm_insert (md_id modal) field_ids modal_fields))"

definition validate_modals :: "automation_spec \<Rightarrow> spec_diagnostic list \<times> field_map" where
  "validate_modals spec =
     (let (diagnostics, _, modal_fields) =
        collect (validate_modal (sp_key spec)) (enumerate 0 (sp_modals spec)) ({}, [])
      in (diagnostics, modal_fields))"


section \<open>Conditions\<close>

definition validate_condition_input ::
  "string \<Rightarrow> string \<Rightarrow> string set option \<Rightarrow> bool \<Rightarrow> spec_diagnostic list" where
  "validate_condition_input input_id path declared_fields modal_trigger =
     validate_identifier (path @ ''/input_id'') input_id
     @ (if \<not> modal_trigger then
          [diagnostic ''input_condition_requires_modal_trigger'' path
            ''input conditions are available only for modal_submit workflows'']
        else push_if (case declared_fields of None \<Rightarrow> False | Some names \<Rightarrow> input_id \<notin> names)
          (diagnostic ''unknown_condition_input'' (path @ ''/input_id'')
            ''condition input_id must name a field declared by the trigger modal''))"

definition within_budget ::
  "string \<Rightarrow> nat \<Rightarrow> nat \<Rightarrow> (nat \<Rightarrow> spec_diagnostic list \<times> nat) \<Rightarrow> spec_diagnostic list \<times> nat" where
  "within_budget path depth nodes continue =
     (let nodes = saturating_add nodes 1
      in if depth > 8 then
           ([diagnostic ''condition_depth_exceeded'' path ''condition depth must not exceed 8''], nodes)
         else if nodes > 64 then
           ([diagnostic ''condition_node_budget_exceeded'' path ''a condition must not exceed 64 nodes''], nodes)
         else continue nodes)"

definition validate_condition_group ::
  "string \<Rightarrow> condition_expr list \<Rightarrow> spec_diagnostic list \<times> nat \<Rightarrow> spec_diagnostic list \<times> nat" where
  "validate_condition_group path conditions children =
     (push_if (conditions = [])
        (diagnostic ''empty_condition_group'' (path @ ''/conditions'')
          ''all and any condition groups must not be empty'') @ fst children, snd children)"

fun validate_condition ::
  "condition_expr \<Rightarrow> string \<Rightarrow> nat \<Rightarrow> string set option \<Rightarrow> bool \<Rightarrow> nat \<Rightarrow> spec_diagnostic list \<times> nat"
and validate_conditions ::
  "condition_expr list \<Rightarrow> string \<Rightarrow> nat \<Rightarrow> nat \<Rightarrow> string set option \<Rightarrow> bool \<Rightarrow> nat \<Rightarrow>
   spec_diagnostic list \<times> nat" where
  "validate_condition CE_Always path depth declared_fields modal_trigger nodes =
     within_budget path depth nodes (\<lambda>nodes. ([], nodes))"
| "validate_condition (CE_InputNonEmpty input_id) path depth declared_fields modal_trigger nodes =
     within_budget path depth nodes
       (\<lambda>nodes. (validate_condition_input input_id path declared_fields modal_trigger, nodes))"
| "validate_condition (CE_InputEquals input_id expected) path depth declared_fields modal_trigger nodes =
     within_budget path depth nodes
       (\<lambda>nodes. (validate_condition_input input_id path declared_fields modal_trigger
          @ push_if (utf16_len expected > 4000)
              (diagnostic ''condition_literal_too_large'' (path @ ''/value'')
                ''condition literals must not exceed 4000 UTF-16 code units''), nodes))"
| "validate_condition (CE_All conditions) path depth declared_fields modal_trigger nodes =
     within_budget path depth nodes (\<lambda>nodes. validate_condition_group path conditions
       (validate_conditions conditions path 0 (depth + 1) declared_fields modal_trigger nodes))"
| "validate_condition (CE_Any conditions) path depth declared_fields modal_trigger nodes =
     within_budget path depth nodes (\<lambda>nodes. validate_condition_group path conditions
       (validate_conditions conditions path 0 (depth + 1) declared_fields modal_trigger nodes))"
| "validate_condition (CE_Not inner) path depth declared_fields modal_trigger nodes =
     within_budget path depth nodes (\<lambda>nodes.
       validate_condition inner (path @ ''/condition'') (depth + 1) declared_fields modal_trigger nodes)"
| "validate_conditions [] path index depth declared_fields modal_trigger nodes = ([], nodes)"
| "validate_conditions (child # children) path index depth declared_fields modal_trigger nodes =
     (let (es, nodes') = validate_condition child (indexed (path @ ''/conditions'') index) depth declared_fields
            modal_trigger nodes;
          (es', nodes'') = validate_conditions children path (Suc index) depth declared_fields modal_trigger nodes'
      in (es @ es', nodes''))"

section \<open>Actions\<close>

definition is_instance_trigger :: "trigger_v1 \<Rightarrow> bool" where
  "is_instance_trigger trigger = (case trigger of TV_InstanceAction _ \<Rightarrow> True | _ \<Rightarrow> False)"

definition duplicate_route :: "string \<Rightarrow> spec_diagnostic" where
  "duplicate_route button_path = diagnostic ''duplicate_runtime_panel_route'' (button_path @ ''/route'')
     ''runtime panel button routes must produce unique custom IDs''"

definition validate_runtime_button ::
  "string \<Rightarrow> string \<Rightarrow> trigger_v1 \<Rightarrow> string set \<Rightarrow> nat \<times> action_button \<Rightarrow> string set \<Rightarrow>
   spec_diagnostic list \<times> string set" where
  "validate_runtime_button key path workflow_trigger registered_instance_outputs indexed_button route_identities =
     (let (button_index, button) = indexed_button;
          button_path = indexed (path @ ''/buttons'') button_index;
          label = bounded_chars (button_path @ ''/label'') (ab_label button) 1 80 ''invalid_button_label''
      in case ab_route button of
           ABR_Static trigger_id \<Rightarrow>
             (let (duplicate, identities) =
                    register (''static:'' @ trigger_id) (duplicate_route button_path) route_identities
              in (label
                  @ validate_identifier (button_path @ ''/route/trigger_id'') trigger_id
                  @ validate_component_custom_id_budget (button_path @ ''/route/trigger_id'') key trigger_id
                  @ duplicate, identities))
         | ABR_InstanceAction inst action_id \<Rightarrow>
             (let (unavailable, route_identity) = (case inst of
                    IRV_Event \<Rightarrow>
                      (push_if (\<not> is_instance_trigger workflow_trigger)
                        (diagnostic ''event_instance_requires_instance_trigger'' (button_path @ ''/route/instance'')
                          ''the event instance is available only in an instance_action workflow''),
                       ''event:'' @ action_id)
                  | IRV_Created key \<Rightarrow>
                      (push_if (key \<notin> registered_instance_outputs)
                        (diagnostic ''unknown_panel_instance_output'' (button_path @ ''/route/instance/output'')
                          ''created instance routes must reference a register_instance output in the same workflow''),
                       ''created:'' @ key @ '':'' @ action_id));
                  (duplicate, identities) =
                    register route_identity (duplicate_route button_path) route_identities
              in (label
                  @ validate_instance_ref button_path inst
                  @ validate_instance_action_id (button_path @ ''/route/action_id'') action_id
                  @ unavailable @ duplicate, identities)))"

definition validate_resources :: "string \<Rightarrow> string \<Rightarrow> (string, string) bmap \<Rightarrow> spec_diagnostic list" where
  "validate_resources path kind entries =
     concat (map (\<lambda>(name, reference).
       validate_resource_alias (path @ ''/resources/'' @ kind @ ''/'' @ name) name
       @ validate_identifier (path @ ''/resources/'' @ kind @ ''/'' @ name @ ''/output'') reference) entries)"

definition validate_response_content :: "string \<Rightarrow> string \<Rightarrow> spec_diagnostic list" where
  "validate_response_content path content =
     bounded_chars (path @ ''/content'') content 1 2000 ''invalid_response_content''
     @ validate_literal_template (path @ ''/content'') content SC_EphemeralMessageContent"

definition validate_created_resource ::
  "string \<Rightarrow> string \<Rightarrow> string \<Rightarrow> sanitize_context \<Rightarrow> spec_diagnostic list" where
  "validate_created_resource path key name context =
     validate_identifier (path @ ''/output'') key
     @ bounded_chars (path @ ''/name'') name 1 100 ''invalid_resource_name_template''
     @ validate_literal_template (path @ ''/name'') name context"

definition validate_action ::
  "automation_spec \<Rightarrow> action_v1 \<Rightarrow> string \<Rightarrow> trigger_v1 \<Rightarrow> string set \<Rightarrow> spec_diagnostic list" where
  "validate_action spec action path workflow_trigger registered_instance_outputs =
     (case action of
        AV_GrantRole role _ \<Rightarrow> validate_role_ref path role
      | AV_RespondEphemeral content \<Rightarrow> validate_response_content path content
      | AV_EditResponse content \<Rightarrow> validate_response_content path content
      | AV_OpenModal modal_id \<Rightarrow> validate_identifier (path @ ''/modal_id'') modal_id
      | AV_CreateChannel key name \<Rightarrow> validate_created_resource path key name SC_ChannelName
      | AV_CreateRole key name \<Rightarrow> validate_created_resource path key name SC_RoleName
      | AV_UpsertOverwrite channel target allow deny \<Rightarrow>
          validate_channel_ref path channel
          @ (case target of OTV_Role role \<Rightarrow> validate_role_ref path role | OTV_Everyone \<Rightarrow> [])
          @ validate_permission_set (path @ ''/allow'') allow
          @ validate_permission_set (path @ ''/deny'') deny
          @ push_if (list_ex (\<lambda>permission. permission \<in> set deny) allow)
              (diagnostic ''overlapping_overwrite_permissions'' path
                ''the same permission cannot be both allowed and denied'')
          @ push_if (allow = [] \<and> deny = [])
              (diagnostic ''empty_overwrite'' path ''an overwrite must allow or deny at least one permission'')
      | AV_PostPanel key channel content buttons \<Rightarrow>
          validate_identifier (path @ ''/output'') key
          @ validate_channel_ref path channel
          @ push_if (content = [])
              (diagnostic ''empty_panel_content'' (path @ ''/content'') ''runtime panels require nonempty content'')
          @ bounded_chars (path @ ''/content'') content 1 2000 ''invalid_panel_content''
          @ validate_literal_template (path @ ''/content'') content SC_EphemeralMessageContent
          @ push_if (buttons = [] \<or> length buttons > 5)
              (diagnostic ''invalid_runtime_panel_button_count'' (path @ ''/buttons'')
                ''runtime panels require 1..=5 buttons in runtime V1'')
          @ fst (collect (validate_runtime_button (sp_key spec) path workflow_trigger registered_instance_outputs)
              (enumerate 0 buttons) {})
      | AV_DeferEphemeral \<Rightarrow> []
      | AV_RegisterInstance key instance_kind resources \<Rightarrow>
          validate_identifier (path @ ''/output'') key
          @ validate_identifier (path @ ''/instance_kind'') instance_kind
          @ push_if (length (iv_roles resources) + length (iv_channels resources) + length (iv_messages resources) > 64)
              (diagnostic ''instance_resource_budget_exceeded'' (path @ ''/resources'')
                ''an instance may declare at most 64 resource aliases'')
          @ validate_resources path ''roles'' (iv_roles resources)
          @ validate_resources path ''channels'' (iv_channels resources)
          @ validate_resources path ''messages'' (iv_messages resources)
      | AV_TeardownInstance inst \<Rightarrow> validate_instance_ref path inst)"


section \<open>Workflows\<close>

definition trigger_identity :: "trigger_v1 \<Rightarrow> string" where
  "trigger_identity trigger =
     (case trigger of
        TV_ButtonClick trigger_id \<Rightarrow> ''button:'' @ trigger_id
      | TV_ModalSubmit modal_id \<Rightarrow> ''modal:'' @ modal_id
      | TV_InstanceAction action_id \<Rightarrow> ''instance:'' @ action_id)"

definition validate_trigger :: "string \<Rightarrow> trigger_v1 \<Rightarrow> spec_diagnostic list" where
  "validate_trigger path trigger =
     (case trigger of
        TV_ButtonClick trigger_id \<Rightarrow> validate_identifier (path @ ''/trigger/trigger_id'') trigger_id
      | TV_ModalSubmit modal_id \<Rightarrow> validate_identifier (path @ ''/trigger/modal_id'') modal_id
      | TV_InstanceAction action_id \<Rightarrow> validate_instance_action_id (path @ ''/trigger/action_id'') action_id)"

definition is_direct_response :: "action_v1 \<Rightarrow> bool" where
  "is_direct_response action =
     (case action of AV_RespondEphemeral _ \<Rightarrow> True | AV_OpenModal _ \<Rightarrow> True | _ \<Rightarrow> False)"

definition is_initial_response :: "action_v1 \<Rightarrow> bool" where
  "is_initial_response action = (is_direct_response action \<or> action = AV_DeferEphemeral)"

definition registered_instance_outputs :: "action_node list \<Rightarrow> string set" where
  "registered_instance_outputs actions =
     set (List.map_filter (\<lambda>node. case an_action node of
       AV_RegisterInstance key _ _ \<Rightarrow> Some key | _ \<Rightarrow> None) actions)"

definition validate_node ::
  "automation_spec \<Rightarrow> workflow_spec \<Rightarrow> string \<Rightarrow> nat \<times> action_node \<Rightarrow> bool \<times> string set \<Rightarrow>
   spec_diagnostic list \<times> bool \<times> string set" where
  "validate_node spec workflow path indexed_node state =
     (let (action_index, node) = indexed_node;
          (teardown_seen, action_ids) = state;
          node_path = indexed (path @ ''/actions'') action_index;
          (duplicate, action_ids') = register (an_id node)
            (diagnostic ''duplicate_action_node_id'' (node_path @ ''/id'')
              ''action node IDs must be unique across the automation'') action_ids
      in (push_if (is_direct_response (an_action node) \<and> action_index + 1 \<noteq> length (wf_actions workflow))
            (diagnostic ''initial_response_not_final'' (node_path @ ''/action'')
              ''respond_ephemeral and open_modal must be the final workflow action'')
          @ push_if (teardown_seen \<and> (case an_action node of AV_EditResponse _ \<Rightarrow> False | _ \<Rightarrow> True))
              (diagnostic ''action_after_teardown'' (node_path @ ''/action'')
                ''teardown_instance must be the final mutable action; only edit_response may follow'')
          @ validate_identifier (node_path @ ''/id'') (an_id node)
          @ duplicate
          @ validate_action spec (an_action node) (node_path @ ''/action'') (wf_trigger workflow)
              (registered_instance_outputs (wf_actions workflow)),
          teardown_seen \<or> (case an_action node of AV_TeardownInstance _ \<Rightarrow> True | _ \<Rightarrow> False), action_ids'))"

type_synonym workflow_tables = "string set \<times> string set \<times> string set \<times> nat"

definition validate_workflow ::
  "automation_spec \<Rightarrow> field_map \<Rightarrow> nat \<times> workflow_spec \<Rightarrow> workflow_tables \<Rightarrow>
   spec_diagnostic list \<times> workflow_tables" where
  "validate_workflow spec modal_fields indexed_workflow tables =
     (let (workflow_index, workflow) = indexed_workflow;
          (workflow_ids, action_ids, trigger_identities, total_actions) = tables;
          path = indexed ''/workflows'' workflow_index;
          actions = wf_actions workflow;
          (duplicate, workflow_ids') = register (wf_id workflow)
            (diagnostic ''duplicate_workflow_id'' (path @ ''/id'') ''workflow IDs must be unique'') workflow_ids;
          (duplicate_trigger, trigger_identities') = register (trigger_identity (wf_trigger workflow))
            (diagnostic ''duplicate_trigger'' (path @ ''/trigger'') ''only one workflow may consume a trigger'')
            trigger_identities;
          declared_fields = (case wf_trigger workflow of
              TV_ModalSubmit modal_id \<Rightarrow> bm_get modal_fields modal_id | _ \<Rightarrow> None);
          (nodes, _, action_ids') =
            collect (validate_node spec workflow path) (enumerate 0 actions) (False, action_ids)
      in (validate_identifier (path @ ''/id'') (wf_id workflow)
          @ duplicate
          @ validate_trigger path (wf_trigger workflow)
          @ duplicate_trigger
          @ push_if (actions = [] \<or> length actions > 64)
              (diagnostic ''invalid_action_count'' (path @ ''/actions'')
                ''each workflow must contain 1..=64 actions'')
          @ fst (validate_condition (wf_condition workflow) (path @ ''/condition'') 1 declared_fields
              (case wf_trigger workflow of TV_ModalSubmit _ \<Rightarrow> True | _ \<Rightarrow> False) 0)
          @ nodes
          @ push_if (length (filter (\<lambda>node. is_initial_response (an_action node)) actions) \<noteq> 1)
              (diagnostic ''invalid_initial_response_count'' (path @ ''/actions'')
                (''each workflow must acknowledge its interaction exactly once with respond_ephemeral, open_modal, ''
                 @ ''or a leading defer_ephemeral''))
          @ push_if (length (filter (\<lambda>node. is_direct_response (an_action node)) actions) > 1)
              (diagnostic ''multiple_initial_responses'' (path @ ''/actions'')
                ''a workflow may send at most one immediate interaction response''),
          workflow_ids', action_ids', trigger_identities', saturating_add total_actions (length actions)))"

definition validate_workflows :: "automation_spec \<Rightarrow> field_map \<Rightarrow> spec_diagnostic list" where
  "validate_workflows spec modal_fields =
     (let (diagnostics, _, _, _, total_actions) =
            collect (validate_workflow spec modal_fields) (enumerate 0 (sp_workflows spec)) ({}, {}, {}, 0)
      in diagnostics
         @ push_if (total_actions > 256)
             (diagnostic ''automation_action_budget_exceeded'' ''/workflows''
               ''the automation must not exceed 256 total actions''))"

section \<open>Routes\<close>

definition handler_table :: "workflow_spec list \<Rightarrow> (string, nat) bmap" where
  "handler_table workflows =
     fold (\<lambda>workflow. bm_modify 0 Suc (trigger_identity (wf_trigger workflow))) workflows []"

definition require_route_handler :: "(string, nat) bmap \<Rightarrow> string \<Rightarrow> string \<Rightarrow> spec_diagnostic list" where
  "require_route_handler handlers path identity =
     push_if (bm_get handlers identity \<noteq> Some 1)
       (diagnostic ''rendered_route_without_handler'' path
         ''every rendered button or opened modal must have exactly one matching workflow'')"

definition route_identity :: "action_button_route \<Rightarrow> string" where
  "route_identity route =
     (case route of
        ABR_Static trigger_id \<Rightarrow> ''button:'' @ trigger_id
      | ABR_InstanceAction _ action_id \<Rightarrow> ''instance:'' @ action_id)"

definition validate_rendered_action :: "(string, nat) bmap \<Rightarrow> string \<Rightarrow> action_v1 \<Rightarrow> spec_diagnostic list" where
  "validate_rendered_action handlers path action =
     (case action of
        AV_OpenModal modal_id \<Rightarrow> require_route_handler handlers (path @ ''/modal_id'') (''modal:'' @ modal_id)
      | AV_PostPanel _ _ _ buttons \<Rightarrow>
          concat (map (\<lambda>(button_index, button).
            require_route_handler handlers (indexed (path @ ''/buttons'') button_index @ ''/route'')
              (route_identity (ab_route button))) (enumerate 0 buttons))
      | _ \<Rightarrow> [])"

definition validate_rendered_route_handlers :: "automation_spec \<Rightarrow> spec_diagnostic list" where
  "validate_rendered_route_handlers spec =
     (let handlers = handler_table (sp_workflows spec)
      in concat (map (\<lambda>(panel_index, panel).
             concat (map (\<lambda>(button_index, button).
               require_route_handler handlers
                 (indexed (indexed ''/panels'' panel_index @ ''/buttons'') button_index @ ''/trigger_id'')
                 (''button:'' @ db_trigger_id button)) (enumerate 0 (dp_buttons panel))))
             (enumerate 0 (sp_panels spec)))
         @ concat (map (\<lambda>(workflow_index, workflow).
             concat (map (\<lambda>(action_index, node).
               validate_rendered_action handlers
                 (indexed (indexed ''/workflows'' workflow_index @ ''/actions'') action_index @ ''/action'')
                 (an_action node)) (enumerate 0 (wf_actions workflow))))
             (enumerate 0 (sp_workflows spec))))"

definition handler_requirements :: "workflow_spec list \<Rightarrow> handler_tables" where
  "handler_requirements workflows =
     fold (\<lambda>workflow tables. case wf_trigger workflow of
         TV_InstanceAction action_id \<Rightarrow> register_handler_requirements action_id (wf_actions workflow) tables
       | _ \<Rightarrow> tables) workflows ([], [], [])"

definition missing_handler_resource :: "string \<times> (string \<Rightarrow> string)" where
  "missing_handler_resource =
     (''created_instance_missing_handler_resource'',
      \<lambda>name. ''the created instance must declare role alias '' @ name
        @ '' required by this handler or a forwarded instance action'')"

definition validate_created_instance_route_resources :: "automation_spec \<Rightarrow> spec_diagnostic list" where
  "validate_created_instance_route_resources spec =
     (let (handler_counts, required_event_roles, forwarded_event_actions) = handler_requirements (sp_workflows spec);
          required_event_roles = propagate forwarded_event_actions required_event_roles
      in concat (map (\<lambda>(workflow_index, workflow).
           validate_creator_branch missing_handler_resource (wf_actions workflow)
             (indexed ''/workflows'' workflow_index @ ''/actions'') handler_counts required_event_roles)
           (enumerate 0 (sp_workflows spec))))"

section \<open>A specification\<close>

definition spec_diagnostics :: "(automation_spec \<Rightarrow> nat option) \<Rightarrow> automation_spec \<Rightarrow> spec_diagnostic list" where
  "spec_diagnostics encoded_length spec =
     push_if (sp_schema_version spec \<noteq> AUTOMATION_SPEC_SCHEMA_VERSION_V1)
       (diagnostic ''unsupported_schema_version'' ''/schema_version'' ''AutomationSpec V1 requires schema_version 1'')
     @ push_if (sp_kind spec \<noteq> AUTOMATION_SPEC_KIND_V1)
         (diagnostic ''invalid_kind'' ''/kind'' (''AutomationSpec V1 requires kind '' @ AUTOMATION_SPEC_KIND_V1))
     @ push_if (case encoded_length spec of
           None \<Rightarrow> False | Some bytes \<Rightarrow> bytes > MAX_AUTOMATION_SPEC_CANONICAL_BYTES_V1)
         (diagnostic ''automation_spec_too_large'' ''/''
           (''the automation spec must not exceed '' @ show_nat MAX_AUTOMATION_SPEC_CANONICAL_BYTES_V1
            @ '' encoded bytes''))
     @ validate_identifier ''/key'' (sp_key spec)
     @ push_if (trim (sp_display_name spec) = [] \<or> chars_count (sp_display_name spec) > 100)
         (diagnostic ''invalid_display_name'' ''/display_name'' ''display_name must contain 1..=100 characters'')
     @ push_if (length (sp_description spec) > 2000)
         (diagnostic ''description_too_large'' ''/description'' ''description must not exceed 2000 UTF-8 bytes'')
     @ bounded_len ''/panels'' (length (sp_panels spec)) 16
     @ bounded_len ''/modals'' (length (sp_modals spec)) 16
     @ push_if (sp_workflows spec = [] \<or> length (sp_workflows spec) > 32)
         (diagnostic ''invalid_workflow_count'' ''/workflows'' ''workflows must contain 1..=32 entries'')
     @ validate_panels spec
     @ (let (modals, modal_fields) = validate_modals spec in modals @ validate_workflows spec modal_fields)
     @ validate_rendered_route_handlers spec
     @ validate_created_instance_route_resources spec"

definition graph_diagnostics ::
  "(rule_validation_error \<Rightarrow> string) \<Rightarrow> automation_spec \<Rightarrow> spec_diagnostic list" where
  "graph_diagnostics debug spec =
     (case validate_structural (lower_shape spec) of
        Inr () \<Rightarrow> []
      | Inl errors \<Rightarrow> map (\<lambda>(index, error).
          diagnostic ''invalid_interaction_graph'' (indexed ''/compiled_ruleset/errors'' index) (debug error))
          (enumerate 0 errors))"

definition validate_automation_spec ::
  "(automation_spec \<Rightarrow> nat option) \<Rightarrow> (rule_validation_error \<Rightarrow> string) \<Rightarrow> automation_spec \<Rightarrow>
   spec_diagnostic list + unit" where
  "validate_automation_spec encoded_length debug spec =
     (let diagnostics = spec_diagnostics encoded_length spec
      in report (diagnostics @ (if diagnostics = [] then graph_diagnostics debug spec else [])))"

end
