(* ===== verification/Instance_Ids.thy ===== *)
theory Instance_Ids
  imports Instance_Store
begin

text \<open>
  The ids the secure generator of \<open>automation-instance/src/generator.rs\<close> makes: fifteen bytes of entropy
  are written in base 32. The loop over the bytes keeps the bits it has not written yet in a 16-bit
  buffer. The lemmas relate the digits written and the buffer to the number the bytes denote.
\<close>

section \<open>Numbers in a base\<close>

definition base_value :: "nat \<Rightarrow> nat list \<Rightarrow> nat" where
  "base_value base digits = foldl (\<lambda>a d. a * base + d) 0 digits"

lemma base_value_append:
  "base_value base (xs @ ys) = base_value base xs * base ^ length ys + base_value base ys"
proof -
  have "foldl (\<lambda>a d. a * base + d) a ys = a * base ^ length ys + foldl (\<lambda>a d. a * base + d) 0 ys" for a
  proof (induction ys rule: rev_induct)
    case (snoc y ys)
    then show ?case by (simp only: foldl_append foldl.simps length_append_singleton power_Suc2 add_mult_distrib
          mult.assoc add.assoc)
  qed simp
  then show ?thesis unfolding base_value_def foldl_append .
qed

lemma base_value_Nil [simp]: "base_value base [] = 0"
  and base_value_single [simp]: "base_value base [d] = d"
  by (simp_all add: base_value_def)

lemma base_value_inj:
  assumes "length xs = length ys" "\<forall>d \<in> set xs \<union> set ys. d < base" "base_value base xs = base_value base ys"
  shows "xs = ys"
  using assms
proof (induction xs arbitrary: ys rule: rev_induct)
  case (snoc x xs)
  then obtain y zs where ys: "ys = zs @ [y]" by (cases ys rule: rev_cases) auto
  have eq: "base_value base xs * base + x = base_value base zs * base + y"
    using snoc.prems(3) by (simp add: ys base_value_append)
  moreover have "x < base" "y < base" using snoc.prems(2) by (simp_all add: ys)
  ultimately have "x = y" "base_value base xs = base_value base zs"
    by (metis mod_mult_self3 mod_less, metis div_mult_self3 div_less add.right_neutral less_nat_zero_code)
  with snoc.IH [of zs] snoc.prems show ?case by (simp add: ys)
qed simp

section \<open>The loops of the encoder\<close>

definition digits_text :: "nat list \<Rightarrow> string" where
  "digits_text ds = map ((!) SECURE_INSTANCE_ID_ALPHABET) ds"

lemma top_digit: "unat (drop_bit n (buffer :: u16) AND 0x1f) = unat buffer div 2 ^ n mod 32"
proof -
  have "drop_bit n buffer AND 0x1f = take_bit 5 (drop_bit n buffer)"
    by (simp add: take_bit_eq_mask mask_eq_exp_minus_1)
  then have "unat (drop_bit n buffer AND 0x1f) = take_bit 5 (drop_bit n (unat buffer))"
    by (simp only: unsigned_take_bit_eq unat_drop_bit_eq)
  then show ?thesis by (simp add: take_bit_eq_mod drop_bit_eq_div)
qed

lemma low_bits: "unat ((buffer :: u16) AND (push_bit n 1 - 1)) = unat buffer mod 2 ^ n"
proof -
  have "buffer AND (push_bit n 1 - 1) = take_bit n buffer"
    by (simp add: take_bit_eq_mask mask_eq_exp_minus_1 push_bit_eq_mult)
  then have "unat (buffer AND (push_bit n 1 - 1)) = take_bit n (unat buffer)" by (simp only: unsigned_take_bit_eq)
  then show ?thesis by (simp only: take_bit_eq_mod)
qed

lemma emit_bits_value:
  assumes "unat buffer < 2 ^ bits" "bits \<le> 16" "emit_bits buffer bits encoded = (buffer', bits', encoded')"
  shows "\<exists>ds. encoded' = encoded @ digits_text ds \<and> (\<forall>d \<in> set ds. d < 32) \<and> bits' < 5
    \<and> unat buffer' < 2 ^ bits' \<and> bits = 5 * length ds + bits'
    \<and> unat buffer = base_value 32 ds * 2 ^ bits' + unat buffer'"
  using assms
proof (induction buffer bits encoded rule: emit_bits.induct)
  case (1 buffer bits encoded)
  show ?case
  proof (cases "5 \<le> bits")
    case False
    with 1 show ?thesis by (intro exI [of _ "[]"]) (simp add: emit_bits.simps [of buffer] digits_text_def)
  next
    case True
    define rest where "rest = bits - 5"
    define digit where "digit = unat (drop_bit rest buffer AND 0x1f)"
    have "(2 :: nat) ^ bits = 32 * 2 ^ rest"
      using True power_add [of "2 :: nat" 5 rest] by (simp add: rest_def)
    then have small: "unat buffer div 2 ^ rest < 32"
      using "1.prems"(1) by (intro less_mult_imp_div_less) simp
    then have digit: "digit = unat buffer div 2 ^ rest" by (simp add: digit_def top_digit)
    have buffer: "unat (buffer AND (push_bit rest 1 - 1)) = unat buffer mod 2 ^ rest" by (rule low_bits)
    have step: "emit_bits buffer bits encoded = emit_bits (buffer AND (push_bit rest 1 - 1)) rest
        (encoded @ [SECURE_INSTANCE_ID_ALPHABET ! digit])"
      using True by (subst emit_bits.simps) (simp add: rest_def digit_def Let_def)
    have bounds: "unat (buffer AND (push_bit rest 1 - 1)) < 2 ^ rest" "rest \<le> 16"
      using "1.prems"(2) unfolding buffer by (simp_all add: rest_def)
    obtain ds where ds: "encoded' = (encoded @ [SECURE_INSTANCE_ID_ALPHABET ! digit]) @ digits_text ds"
      "\<forall>d \<in> set ds. d < 32" "bits' < 5" "unat buffer' < 2 ^ bits'" "rest = 5 * length ds + bits'"
      "unat buffer mod 2 ^ rest = base_value 32 ds * 2 ^ bits' + unat buffer'"
      using "1.IH" [OF True rest_def digit_def bounds step [unfolded "1.prems"(3), symmetric]]
      unfolding buffer by blast
    have "unat buffer = digit * 2 ^ rest + unat buffer mod 2 ^ rest"
      unfolding digit by (rule div_mult_mod_eq [symmetric])
    moreover have "(2 :: nat) ^ rest = 32 ^ length ds * 2 ^ bits'"
      by (simp add: ds(5) power_add power_mult)
    moreover have "base_value 32 (digit # ds) = digit * 32 ^ length ds + base_value 32 ds"
      using base_value_append [of 32 "[digit]" ds] by simp
    ultimately have "unat buffer = base_value 32 (digit # ds) * 2 ^ bits' + unat buffer'"
      using ds(6) by (simp add: add_mult_distrib)
    moreover have "bits = 5 * length (digit # ds) + bits'" using ds(5) True by (simp add: rest_def)
    moreover have "encoded' = encoded @ digits_text (digit # ds)" using ds(1) by (simp add: digits_text_def)
    moreover have "\<forall>d \<in> set (digit # ds). d < 32" using ds(2) small digit by simp
    ultimately show ?thesis using ds(3,4) by blast
  qed
qed

lemma shift_in:
  assumes "unat (buffer :: u16) < 2 ^ bits" "bits < 5"
  shows "unat (push_bit 8 buffer OR ucast (byte :: u8)) = unat buffer * 256 + unat byte"
proof -
  have "unat buffer < 2 ^ 4"
    using assms power_increasing [of bits 4 "2 :: nat"] by linarith
  moreover have byte: "unat byte < 256" using unsigned_less [of byte, where ?'a = nat] by simp
  ultimately have bound: "unat buffer * 256 + unat byte < 2 ^ 16" by simp
  have "\<not> bit (push_bit 8 buffer) n \<or> \<not> bit (ucast byte :: u16) n" for n
    by (auto simp: bit_push_bit_iff bit_unsigned_iff dest: bit_imp_le_length)
  then have "push_bit 8 buffer OR ucast byte = push_bit 8 buffer + ucast byte"
    by (simp add: disjunctive_add)
  also have "\<dots> = of_nat (unat buffer * 256 + unat byte)"
    by (simp add: push_bit_eq_mult)
  finally have "unat (push_bit 8 buffer OR ucast byte) = (unat buffer * 256 + unat byte) mod 2 ^ 16"
    by (simp only: unat_of_nat) simp
  with bound show ?thesis by (simp only: mod_less)
qed

definition bytes_value :: "u8 list \<Rightarrow> nat" where
  "bytes_value bytes = base_value 256 (map unat bytes)"

text \<open>After any number of bytes the digits written and the buffer hold the number of the bytes.\<close>

lemma encode_bytes_value:
  assumes "fold encode_byte bytes (0, 0, []) = (buffer, bits, encoded)"
  shows "\<exists>ds. encoded = digits_text ds \<and> (\<forall>d \<in> set ds. d < 32) \<and> bits < 5 \<and> unat buffer < 2 ^ bits
    \<and> 8 * length bytes = 5 * length ds + bits
    \<and> bytes_value bytes = base_value 32 ds * 2 ^ bits + unat buffer"
  using assms
proof (induction bytes arbitrary: buffer bits encoded rule: rev_induct)
  case Nil
  then show ?case by (simp add: digits_text_def bytes_value_def)
next
  case (snoc byte bytes)
  obtain buffer0 bits0 encoded0 where fold: "fold encode_byte bytes (0, 0, []) = (buffer0, bits0, encoded0)"
    by (rule prod_cases3)
  obtain ds where ds: "encoded0 = digits_text ds" "\<forall>d \<in> set ds. d < 32" "bits0 < 5" "unat buffer0 < 2 ^ bits0"
    "8 * length bytes = 5 * length ds + bits0" "bytes_value bytes = base_value 32 ds * 2 ^ bits0 + unat buffer0"
    using snoc.IH [OF fold] by blast
  define joined where "joined = push_bit 8 buffer0 OR ucast byte"
  have joined: "unat joined = unat buffer0 * 256 + unat byte"
    unfolding joined_def by (rule shift_in [OF ds(4,3)])
  have "unat byte < 256" using unsigned_less [of byte, where ?'a = nat] by simp
  then have "unat joined < (unat buffer0 + 1) * 256" by (simp add: joined)
  also have "\<dots> \<le> 2 ^ bits0 * 256" using ds(4) by (intro mult_le_mono1) simp
  finally have bound: "unat joined < 2 ^ (bits0 + 8)" by (simp add: power_add)
  have "encode_byte byte (buffer0, bits0, encoded0) = (buffer, bits, encoded)"
    using snoc.prems by (simp add: fold)
  then have "emit_bits joined (bits0 + 8) encoded0 = (buffer, bits, encoded)"
    by (simp add: encode_byte_def joined_def)
  from emit_bits_value [OF bound _ this] ds(3) obtain es where es:
    "encoded = encoded0 @ digits_text es" "\<forall>d \<in> set es. d < 32" "bits < 5" "unat buffer < 2 ^ bits"
    "bits0 + 8 = 5 * length es + bits" "unat joined = base_value 32 es * 2 ^ bits + unat buffer"
    by auto
  have "(2 :: nat) ^ (bits0 + 8) = 2 ^ (5 * length es + bits)" by (simp only: es(5))
  then have power: "(2 :: nat) ^ bits0 * 256 = 32 ^ length es * 2 ^ bits" by (simp add: power_add power_mult)
  have "bytes_value (bytes @ [byte]) = bytes_value bytes * 256 + unat byte"
    by (simp add: bytes_value_def base_value_append)
  also have "\<dots> = base_value 32 ds * (2 ^ bits0 * 256) + unat joined"
    by (simp only: ds(6) joined add_mult_distrib mult.assoc add.assoc)
  also have "\<dots> = base_value 32 (ds @ es) * 2 ^ bits + unat buffer"
    by (simp only: power es(6) base_value_append add_mult_distrib mult.assoc add.assoc)
  finally have "bytes_value (bytes @ [byte]) = base_value 32 (ds @ es) * 2 ^ bits + unat buffer" .
  moreover have "encoded = digits_text (ds @ es)" using ds(1) es(1) by (simp add: digits_text_def)
  moreover have "\<forall>d \<in> set (ds @ es). d < 32" using ds(2) es(2) by auto
  moreover have "8 * length (bytes @ [byte]) = 5 * length (ds @ es) + bits" using ds(5) es(5) by simp
  ultimately show ?case using es(3,4) by blast
qed

lemma alphabet_facts:
  "length SECURE_INSTANCE_ID_ALPHABET = 32" "distinct SECURE_INSTANCE_ID_ALPHABET"
  "list_all (\<lambda>c. is_ascii_alphanumeric c \<or> c = CHR ''_'' \<or> c = CHR ''-'') SECURE_INSTANCE_ID_ALPHABET"
  by code_simp+

lemma prefix_valid: "list_all (\<lambda>c. is_ascii_alphanumeric c \<or> c = CHR ''_'' \<or> c = CHR ''-'') ''i_''"
  by code_simp

lemma digits_text_inj:
  assumes "\<forall>d \<in> set ds. d < 32" "\<forall>d \<in> set es. d < 32" "digits_text ds = digits_text es"
  shows "ds = es"
proof (rule map_inj_on)
  show "map ((!) SECURE_INSTANCE_ID_ALPHABET) ds = map ((!) SECURE_INSTANCE_ID_ALPHABET) es"
    using assms(3) by (simp add: digits_text_def)
  show "inj_on ((!) SECURE_INSTANCE_ID_ALPHABET) (set ds \<union> set es)"
    using assms(1,2) alphabet_facts(1,2) by (auto simp: inj_on_def nth_eq_iff_index_eq)
qed

text \<open>Fifteen bytes are written as twenty-four digits with nothing left in the buffer.\<close>

lemma encode_fifteen:
  assumes "length bytes = 15"
  obtains ds where "encode_secure_instance_id bytes = digits_text ds" "\<forall>d \<in> set ds. d < 32"
    "length ds = 24" "bytes_value bytes = base_value 32 ds"
proof -
  obtain buffer bits encoded where fold: "fold encode_byte bytes (0, 0, []) = (buffer, bits, encoded)"
    by (rule prod_cases3)
  from encode_bytes_value [OF this] obtain ds where ds: "encoded = digits_text ds" "\<forall>d \<in> set ds. d < 32" "bits < 5"
    "unat buffer < 2 ^ bits" "8 * length bytes = 5 * length ds + bits"
    "bytes_value bytes = base_value 32 ds * 2 ^ bits + unat buffer" by blast
  from ds(3,5) assms have "length ds = 24" "bits = 0" by presburger+
  with ds(4,6) have "bytes_value bytes = base_value 32 ds" by simp
  with ds(1,2) \<open>length ds = 24\<close> fold show ?thesis by (intro that) (simp_all add: encode_secure_instance_id_def)
qed

lemma encoded_valid:
  assumes "length bytes = 15"
  shows "length (encode_secure_instance_id bytes) = 24"
    and "set (encode_secure_instance_id bytes) \<subseteq> set SECURE_INSTANCE_ID_ALPHABET"
proof -
  obtain ds where ds: "encode_secure_instance_id bytes = digits_text ds" "\<forall>d \<in> set ds. d < 32" "length ds = 24"
    by (rule encode_fifteen [OF assms])
  then show "length (encode_secure_instance_id bytes) = 24" by (simp add: digits_text_def)
  show "set (encode_secure_instance_id bytes) \<subseteq> set SECURE_INSTANCE_ID_ALPHABET"
  proof
    fix c assume "c \<in> set (encode_secure_instance_id bytes)"
    then obtain d where "d \<in> set ds" "c = SECURE_INSTANCE_ID_ALPHABET ! d"
      unfolding ds(1) digits_text_def by auto
    then show "c \<in> set SECURE_INSTANCE_ID_ALPHABET" using ds(2) alphabet_facts(1) by simp
  qed
qed

text \<open>C33: The secure generator always succeeds on fifteen bytes of entropy, every id it makes is
  \<open>i_\<close> followed by twenty-four characters of its alphabet, and different entropy gives different ids: no
  entropy is lost in the 16-bit buffer of the encoder.\<close>

theorem secure_ids_valid_and_distinct:
  assumes "length entropy = 15" "length entropy' = 15"
  shows "secure_generate (Some entropy) = Inr (''i_'' @ encode_secure_instance_id entropy)
    \<and> length (encode_secure_instance_id entropy) = 24
    \<and> (secure_generate (Some entropy) = secure_generate (Some entropy') \<longleftrightarrow> entropy = entropy')"
proof -
  have generated: "secure_generate (Some bytes) = Inr (''i_'' @ encode_secure_instance_id bytes)"
    if "length bytes = 15" for bytes
  proof -
    have "list_all (\<lambda>c. is_ascii_alphanumeric c \<or> c = CHR ''_'' \<or> c = CHR ''-'')
        (''i_'' @ encode_secure_instance_id bytes)"
      using encoded_valid(2) [OF that] alphabet_facts(3) prefix_valid by (auto simp: list_all_iff)
    then show ?thesis
      using encoded_valid(1) [OF that]
      by (simp add: secure_generate_def instance_id_parse_def INSTANCE_ID_MAX_LEN_def)
  qed
  have "entropy = entropy'" if "encode_secure_instance_id entropy = encode_secure_instance_id entropy'"
  proof -
    obtain ds where ds: "encode_secure_instance_id entropy = digits_text ds" "\<forall>d \<in> set ds. d < 32"
      "length ds = 24" "bytes_value entropy = base_value 32 ds" by (rule encode_fifteen [OF assms(1)])
    obtain es where es: "encode_secure_instance_id entropy' = digits_text es" "\<forall>d \<in> set es. d < 32"
      "length es = 24" "bytes_value entropy' = base_value 32 es" by (rule encode_fifteen [OF assms(2)])
    have "ds = es" using that ds es digits_text_inj by simp
    then have "map unat entropy = map unat entropy'"
      using ds(4) es(4) assms unsigned_less [where ?'a = nat and ?'b = 8]
      by (intro base_value_inj [where base = 256]) (auto simp: bytes_value_def)
    then show ?thesis by (rule map_injective) (auto intro: injI unsigned_word_eqI)
  qed
  then show ?thesis using generated assms encoded_valid(1) by auto
qed

theorem secure_ids_valid_and_distinct_witness:
  "secure_generate (Some (replicate 15 0)) \<noteq> secure_generate (Some (replicate 14 0 @ [1]))"
proof -
  have "replicate 15 (0 :: u8) \<noteq> replicate 14 0 @ [1]" by code_simp
  then show ?thesis using secure_ids_valid_and_distinct [of "replicate 15 0" "replicate 14 0 @ [1]"] by fastforce
qed

end
