(* ===== verification/Instance_Scan.thy ===== *)
theory Instance_Scan
  imports Instance_Store "HOL-Library.Product_Lexorder"
begin

text \<open>
  The paged scan of \<open>automation-instance/src/store.rs\<close> over the instances whose deletion has to be retried,
  and the invariant of the in-memory store it relies on: every instance is filed under its own guild and id.
  A cycle of scans, each from the cursor of the page before, may see a different store on every page.
\<close>

section \<open>Keys, cursors and pages\<close>

definition MAX_INSTANCE_TEARDOWN_RETRY_SCAN_BATCH_V2 :: nat where
  "MAX_INSTANCE_TEARDOWN_RETRY_SCAN_BATCH_V2 = 256"

record retry_key =
  rk_guild_id :: guild_id
  rk_instance_id :: instance_id

definition retry_key_new :: "guild_id \<Rightarrow> instance_id \<Rightarrow> retry_key option" where
  "retry_key_new guild i =
     (if guild_u64 guild \<noteq> 0 then Some \<lparr> rk_guild_id = guild, rk_instance_id = i \<rparr> else None)"

text \<open>\<open>cmp_c_v2\<close> compares the decimal text of the guild id, then the instance id, bytewise.\<close>

definition c_key :: "retry_key \<Rightarrow> string \<times> string" where
  "c_key key = (id_display (guild_u64 (rk_guild_id key)), rk_instance_id key)"

record scan_cursor =
  sc_after :: "retry_key option"
  sc_through :: "retry_key option"

definition cursor_initial :: scan_cursor where
  "cursor_initial = \<lparr> sc_after = None, sc_through = None \<rparr>"

definition continue_after :: "retry_key \<Rightarrow> retry_key \<Rightarrow> scan_cursor option" where
  "continue_after after through =
     (if c_key after < c_key through
      then Some \<lparr> sc_after = Some after, sc_through = Some through \<rparr> else None)"

record scan_page =
  pg_keys :: "retry_key list"
  pg_through :: "retry_key option"

definition page_new :: "retry_key list \<Rightarrow> retry_key option \<Rightarrow> nat \<Rightarrow> scan_page option" where
  "page_new keys through limit =
     (if limit > MAX_INSTANCE_TEARDOWN_RETRY_SCAN_BATCH_V2
        \<or> length keys > limit
        \<or> \<not> successively (\<lambda>a b. c_key a < c_key b) keys
        \<or> list_ex (\<lambda>key. case through of None \<Rightarrow> True | Some t \<Rightarrow> c_key key > c_key t) keys
        \<or> keys \<noteq> [] \<and> through = None
      then None else Some \<lparr> pg_keys = keys, pg_through = through \<rparr>)"

definition next_cursor_v2 :: "scan_page \<Rightarrow> scan_cursor option" where
  "next_cursor_v2 page =
     (if pg_keys page = [] then None
      else (case pg_through page of None \<Rightarrow> None
            | Some through \<Rightarrow> continue_after (last (pg_keys page)) through))"

section \<open>The scan\<close>

text \<open>The keys of the instances being deleted; \<open>unwrap\<close> panics on a key that cannot be built.\<close>

definition retry_keys :: "instance_store \<Rightarrow> retry_key option list" where
  "retry_keys store =
     concat (map (\<lambda>(guild, entries).
       map (\<lambda>inst. retry_key_new guild (ai_id inst))
         (filter (\<lambda>inst. ai_status inst = IS_Deleting) (map snd entries))) store)"

definition scan_retryable_v2 ::
  "scan_cursor \<Rightarrow> nat \<Rightarrow> instance_store \<Rightarrow> (instance_store_error, scan_page) result" where
  "scan_retryable_v2 cursor limit store =
     (if limit > MAX_INSTANCE_TEARDOWN_RETRY_SCAN_BATCH_V2
      then Err (InstanceStoreBackend ''instance_teardown_retry_scan_batch_invalid'')
      else if None \<in> set (retry_keys store) then Panic
      else
        (let deleting = sort_key c_key (map the (retry_keys store));
             through = (case sc_through cursor of
                 Some through \<Rightarrow> Some through
               | None \<Rightarrow> if deleting = [] then None else Some (last deleting));
             keys = take limit (filter (\<lambda>key.
                 (case sc_after cursor of None \<Rightarrow> True | Some after \<Rightarrow> c_key key > c_key after)
                 \<and> (case through of None \<Rightarrow> False | Some t \<Rightarrow> c_key key \<le> c_key t)) deleting)
         in ok_or (InstanceStoreBackend ''instance_teardown_retry_scan_corrupt'')
              (page_new keys through limit)))"

section \<open>The invariant of the store\<close>

definition entry_ok :: "guild_id \<Rightarrow> instance_id \<times> automation_instance \<Rightarrow> bool" where
  "entry_ok guild entry \<longleftrightarrow> ai_id (snd entry) = fst entry \<and> ai_guild_id (snd entry) = guild"

definition guild_ok :: "guild_id \<times> (instance_id, automation_instance) bmap \<Rightarrow> bool" where
  "guild_ok entry \<longleftrightarrow> bm_invar (snd entry) \<and> list_all (entry_ok (fst entry)) (snd entry)"

definition store_ok :: "instance_store \<Rightarrow> bool" where
  "store_ok store \<longleftrightarrow> bm_invar store \<and> list_all guild_ok store"

lemma bm_insert_set: "set (bm_insert k v m) \<subseteq> insert (k, v) (set m)"
  by (induction k v m rule: bm_insert.induct) auto

lemma entries_of_ok:
  "store_ok store \<Longrightarrow> bm_invar (entries_of guild store) \<and> list_all (entry_ok guild) (entries_of guild store)"
  by (auto simp: store_ok_def entries_of_def guild_ok_def list_all_iff bm_invar_def
      dest!: map_of_SomeD split: option.split)

lemma store_ok_insert:
  "store_ok store \<Longrightarrow> bm_invar entries \<Longrightarrow> list_all (entry_ok guild) entries \<Longrightarrow>
    store_ok (bm_insert guild entries store)"
  using bm_insert_set [of guild entries store]
  by (auto simp: store_ok_def list_all_iff [of guild_ok] guild_ok_def [of "(guild, entries)"] bm_invar_insert)

lemma store_ok_register: "store_ok store \<Longrightarrow> store_ok (snd (store_register inst store))"
proof -
  assume ok: "store_ok store"
  let ?entries = "entries_of (ai_guild_id inst) store"
  have "list_all (entry_ok (ai_guild_id inst)) (bm_insert (ai_id inst) inst ?entries)"
    using entries_of_ok [OF ok, of "ai_guild_id inst"] bm_insert_set [of "ai_id inst" inst ?entries]
    by (auto simp: list_all_iff entry_ok_def)
  then show ?thesis
    using entries_of_ok [OF ok, of "ai_guild_id inst"] ok
    by (simp add: store_register_def Let_def store_ok_insert bm_invar_insert)
qed

lemma map_fst_set_status: "map fst (set_status guild i status store) = map fst store"
  by (simp add: set_status_def case_prod_unfold comp_def)

lemma store_ok_set_status: "store_ok store \<Longrightarrow> store_ok (set_status guild i status store)"
  unfolding store_ok_def bm_invar_def map_fst_set_status
  by (auto simp: set_status_def guild_ok_def bm_invar_def list_all_iff entry_ok_def comp_def case_prod_unfold)

lemmas store_ops = update_status_def transition_to_deleting_def mark_deleted_def claim_deleting_v1_def
  mark_deleted_v1_def

lemma store_ok_ops:
  assumes "store_ok store"
  shows "store_ok (snd (update_status guild i status store))"
    and "store_ok (snd (transition_to_deleting guild i store))"
    and "store_ok (snd (mark_deleted guild i store))"
    and "store_ok (snd (claim_deleting_v1 guild i store))"
    and "store_ok (snd (mark_deleted_v1 guild i store))"
  using store_ok_set_status [OF assms] assms
  by (auto simp: store_ops split: option.split instance_status.split)

section \<open>Cycles of scans\<close>

definition deleting_keys :: "instance_store \<Rightarrow> retry_key set" where
  "deleting_keys store = {\<lparr> rk_guild_id = guild, rk_instance_id = i \<rparr> |guild i inst.
     store_get guild i store = Some inst \<and> ai_status inst = IS_Deleting}"

definition guilds_nonzero :: "instance_store \<Rightarrow> bool" where
  "guilds_nonzero store \<longleftrightarrow> list_all (\<lambda>(guild, _). guild_u64 guild \<noteq> 0) store"

definition sorted_keys :: "instance_store \<Rightarrow> retry_key list" where
  "sorted_keys store = sort_key c_key (map the (retry_keys store))"

lemma c_key_inj: "c_key a = c_key b \<longleftrightarrow> a = b"
  by (cases a; cases b) (auto simp: c_key_def id_display_def show_u64_inj guild_id.expand)

lemma store_get_iff:
  assumes "store_ok store"
  shows "store_get guild i store = Some inst \<longleftrightarrow>
    (\<exists>entries. (guild, entries) \<in> set store \<and> (i, inst) \<in> set entries)"
proof -
  have outer: "bm_get store guild = Some entries \<longleftrightarrow> (guild, entries) \<in> set store" for entries
    using assms by (simp add: store_ok_def bm_invar_distinct)
  have inner: "bm_get entries i = Some inst \<longleftrightarrow> (i, inst) \<in> set entries" if "(guild, entries) \<in> set store" for entries
    using assms that by (auto simp: store_ok_def guild_ok_def list_all_iff bm_invar_distinct)
  have "store_get guild i store = Some inst \<longleftrightarrow>
      (\<exists>entries. bm_get store guild = Some entries \<and> bm_get entries i = Some inst)"
    by (simp add: store_get_def split: option.split)
  also have "\<dots> \<longleftrightarrow> (\<exists>entries. (guild, entries) \<in> set store \<and> (i, inst) \<in> set entries)"
    using outer inner by (simp cong: conj_cong)
  finally show ?thesis .
qed

definition guild_keys :: "guild_id \<times> (instance_id, automation_instance) bmap \<Rightarrow> retry_key list" where
  "guild_keys entry = map (\<lambda>inst. \<lparr> rk_guild_id = fst entry, rk_instance_id = ai_id inst \<rparr>)
     (filter (\<lambda>inst. ai_status inst = IS_Deleting) (map snd (snd entry)))"

lemma retry_keys_guilds_nonzero:
  "guilds_nonzero store \<Longrightarrow> retry_keys store = map Some (concat (map guild_keys store))"
  by (induction store) (auto simp: retry_keys_def guilds_nonzero_def retry_key_new_def guild_keys_def)

lemma guild_ok_entry: "guild_ok (guild, entries) \<Longrightarrow> (i, inst) \<in> set entries \<Longrightarrow> ai_id inst = i"
  by (auto simp: guild_ok_def entry_ok_def list_all_iff)

lemma guild_keys_eq:
  assumes "guild_ok entry"
  shows "guild_keys entry = map (\<lambda>p. \<lparr> rk_guild_id = fst entry, rk_instance_id = fst p \<rparr>)
    (filter (\<lambda>p. ai_status (snd p) = IS_Deleting) (snd entry))"
  using assms by (auto simp: guild_keys_def guild_ok_def entry_ok_def list_all_iff filter_map comp_def)

lemma set_guild_keys:
  "guild_ok entry \<Longrightarrow> set (guild_keys entry) = (\<lambda>p. \<lparr> rk_guild_id = fst entry, rk_instance_id = fst p \<rparr>)
    ` {p \<in> set (snd entry). ai_status (snd p) = IS_Deleting}"
  by (simp add: guild_keys_eq)

lemma deleting_keys_eq:
  assumes "store_ok store"
  shows "deleting_keys store = set (concat (map guild_keys store))"
proof
  show "deleting_keys store \<subseteq> set (concat (map guild_keys store))"
  proof
    fix key assume "key \<in> deleting_keys store"
    then obtain guild entries i inst where "(guild, entries) \<in> set store" "(i, inst) \<in> set entries"
      "ai_status inst = IS_Deleting" "key = \<lparr> rk_guild_id = guild, rk_instance_id = i \<rparr>"
      by (auto simp: deleting_keys_def store_get_iff [OF assms])
    moreover have "guild_ok (guild, entries)"
      using assms \<open>(guild, entries) \<in> set store\<close> by (auto simp: store_ok_def list_all_iff)
    ultimately have "key \<in> set (guild_keys (guild, entries))" by (force simp: set_guild_keys)
    with \<open>(guild, entries) \<in> set store\<close> show "key \<in> set (concat (map guild_keys store))" by (simp add: bexI)
  qed
next
  show "set (concat (map guild_keys store)) \<subseteq> deleting_keys store"
  proof
    fix key assume "key \<in> set (concat (map guild_keys store))"
    then obtain entry where entry: "entry \<in> set store" "key \<in> set (guild_keys entry)" by auto
    then have "guild_ok entry" using assms by (simp add: store_ok_def list_all_iff)
    with entry obtain p where "p \<in> set (snd entry)" "ai_status (snd p) = IS_Deleting"
      "key = \<lparr> rk_guild_id = fst entry, rk_instance_id = fst p \<rparr>" by (auto simp: set_guild_keys)
    with entry(1) have "store_get (fst entry) (fst p) store = Some (snd p)"
      by (subst store_get_iff [OF assms]) (metis prod.collapse)
    with \<open>ai_status (snd p) = IS_Deleting\<close> \<open>key = _\<close> show "key \<in> deleting_keys store"
      unfolding deleting_keys_def by blast
  qed
qed

lemma distinct_guild_keys:
  assumes "guild_ok entry"
  shows "distinct (guild_keys entry)"
proof -
  have "map ai_id (map snd (snd entry)) = map fst (snd entry)"
    using assms by (auto simp: guild_ok_def entry_ok_def list_all_iff)
  moreover have "distinct (map fst (snd entry))" using assms by (simp add: guild_ok_def bm_invar_distinct)
  ultimately have "distinct (map ai_id (map snd (snd entry)))" by (simp only:)
  then have "distinct (map ai_id (filter (\<lambda>inst. ai_status inst = IS_Deleting) (map snd (snd entry))))"
    by (rule distinct_map_filter)
  then show ?thesis by (simp add: guild_keys_def distinct_map inj_on_def)
qed

lemma guild_keys_guild: "key \<in> set (guild_keys entry) \<Longrightarrow> rk_guild_id key = fst entry"
  by (auto simp: guild_keys_def)

lemma distinct_retry_keys: "store_ok store \<Longrightarrow> distinct (concat (map guild_keys store))"
proof (induction store)
  case (Cons entry store)
  have "key \<notin> set (guild_keys p)" if "p \<in> set store" "key \<in> set (guild_keys entry)" for p key
  proof
    assume "key \<in> set (guild_keys p)"
    then have "fst p = fst entry" using guild_keys_guild that(2) by metis
    moreover have "fst p \<in> fst ` set store" using that(1) by simp
    ultimately show False using Cons.prems by (auto simp: store_ok_def bm_invar_def)
  qed
  then have "set (guild_keys entry) \<inter> set (concat (map guild_keys store)) = {}" by auto
  with Cons show ?case by (simp add: store_ok_def bm_invar_def distinct_guild_keys)
qed simp

lemma sorted_keys_facts:
  assumes "store_ok store" "guilds_nonzero store"
  shows "None \<notin> set (retry_keys store)" "set (sorted_keys store) = deleting_keys store"
    "sorted_wrt (\<lambda>a b. c_key a < c_key b) (sorted_keys store)"
proof -
  note eq = retry_keys_guilds_nonzero [OF assms(2)]
  show "None \<notin> set (retry_keys store)" unfolding eq by auto
  show "set (sorted_keys store) = deleting_keys store"
    by (simp add: sorted_keys_def eq comp_def deleting_keys_eq [OF assms(1)])
  have "distinct (map c_key (sorted_keys store))"
    using distinct_retry_keys [OF assms(1)]
    by (simp add: sorted_keys_def eq comp_def distinct_map inj_on_def c_key_inj)
  moreover have "sorted (map c_key (sorted_keys store))" by (simp add: sorted_keys_def)
  ultimately have "sorted_wrt (<) (map c_key (sorted_keys store))" by (simp only: strict_sorted_iff)
  then show "sorted_wrt (\<lambda>a b. c_key a < c_key b) (sorted_keys store)" by (simp add: sorted_wrt_map)
qed

text \<open>A page from a cursor whose upper end is fixed holds the first keys of the window.\<close>

definition in_window :: "retry_key option \<Rightarrow> retry_key \<Rightarrow> retry_key \<Rightarrow> bool" where
  "in_window after through key \<longleftrightarrow>
     (case after of None \<Rightarrow> True | Some a \<Rightarrow> c_key a < c_key key) \<and> c_key key \<le> c_key through"

definition window_page :: "nat \<Rightarrow> retry_key option \<Rightarrow> retry_key \<Rightarrow> instance_store \<Rightarrow> retry_key list" where
  "window_page limit after through store = take limit (filter (in_window after through) (sorted_keys store))"

lemma length_window_page: "length (window_page limit after through store) \<le> limit"
  by (simp add: window_page_def)

lemma page_new_window:
  assumes "store_ok store" "guilds_nonzero store" "limit \<le> 256"
  shows "page_new (window_page limit after through store) (Some through) limit
    = Some \<lparr> pg_keys = window_page limit after through store, pg_through = Some through \<rparr>"
proof -
  have "sorted_wrt (\<lambda>a b. c_key a < c_key b) (window_page limit after through store)"
    using sorted_keys_facts(3) [OF assms(1,2)] by (simp add: window_page_def sorted_wrt_take sorted_wrt_filter)
  moreover have "\<forall>key \<in> set (window_page limit after through store). c_key key \<le> c_key through"
    by (auto simp: window_page_def in_window_def dest: in_set_takeD)
  ultimately show ?thesis
    using assms(3) length_window_page [of limit after through store]
    by (auto simp: page_new_def MAX_INSTANCE_TEARDOWN_RETRY_SCAN_BATCH_V2_def list_ex_iff successively_if_sorted_wrt)
qed

text \<open>The pages of a cycle, one store per page. The cycle is finished when a page has no next cursor.\<close>

fun scan_cycle ::
  "nat \<Rightarrow> instance_store list \<Rightarrow> scan_cursor \<Rightarrow> (instance_store_error, retry_key list \<times> bool) result" where
  "scan_cycle limit [] cursor = Ok ([], False)"
| "scan_cycle limit (store # stores) cursor =
     and_then (scan_retryable_v2 cursor limit store) (\<lambda>page.
       case next_cursor_v2 page of
         None \<Rightarrow> Ok (pg_keys page, True)
       | Some cursor' \<Rightarrow>
           and_then (scan_cycle limit stores cursor') (\<lambda>(keys, finished). Ok (pg_keys page @ keys, finished)))"

definition scannable :: "instance_store \<Rightarrow> bool" where
  "scannable store \<longleftrightarrow> store_ok store \<and> guilds_nonzero store"

lemma scan_window:
  assumes "scannable store" "limit \<le> 256" "sc_through cursor = Some through"
  shows "scan_retryable_v2 cursor limit store
    = Ok \<lparr> pg_keys = window_page limit (sc_after cursor) through store, pg_through = Some through \<rparr>"
proof -
  have "store_ok store" "guilds_nonzero store" using assms(1) by (simp_all add: scannable_def)
  then show ?thesis
    using page_new_window [of store limit "sc_after cursor" through] sorted_keys_facts(1) [of store] assms(2,3)
    by (simp add: scan_retryable_v2_def MAX_INSTANCE_TEARDOWN_RETRY_SCAN_BATCH_V2_def Let_def
        sorted_keys_def [symmetric] window_page_def in_window_def [abs_def])
qed

lemma scan_initial:
  assumes "scannable store" "limit \<le> 256"
  shows "scan_retryable_v2 cursor_initial limit store = (if sorted_keys store = []
    then Ok \<lparr> pg_keys = [], pg_through = None \<rparr>
    else scan_retryable_v2 \<lparr> sc_after = None, sc_through = Some (last (sorted_keys store)) \<rparr> limit store)"
  using assms sorted_keys_facts(1)
  by (simp add: scannable_def scan_retryable_v2_def MAX_INSTANCE_TEARDOWN_RETRY_SCAN_BATCH_V2_def
      sorted_keys_def [symmetric] cursor_initial_def page_new_def Let_def)

text \<open>What a page misses of the window lies above its last key.\<close>

lemma window_page_split:
  assumes "scannable store" "0 < limit" and page_def: "page = window_page limit after through store"
  shows "sorted_wrt (\<lambda>a b. c_key a < c_key b) page"
    and "key \<in> set page \<Longrightarrow> in_window after through key \<and> key \<in> deleting_keys store"
    and "key \<in> deleting_keys store \<Longrightarrow> in_window after through key \<Longrightarrow>
      key \<in> set page \<or> page \<noteq> [] \<and> in_window (Some (last page)) through key"
proof -
  let ?rest = "filter (in_window after through) (sorted_keys store)"
  note facts = sorted_keys_facts [OF assms(1) [unfolded scannable_def, THEN conjunct1]
      assms(1) [unfolded scannable_def, THEN conjunct2]]
  show "sorted_wrt (\<lambda>a b. c_key a < c_key b) page"
    using facts(3) by (simp add: page_def window_page_def sorted_wrt_take sorted_wrt_filter)
  show "key \<in> set page \<Longrightarrow> in_window after through key \<and> key \<in> deleting_keys store"
  proof
    assume "key \<in> set page"
    then have "key \<in> set ?rest" unfolding page_def window_page_def by (rule in_set_takeD)
    then show "in_window after through key" "key \<in> deleting_keys store" using facts(2) by simp_all
  qed
  assume key: "key \<in> deleting_keys store" "in_window after through key"
  have sorted: "sorted_wrt (\<lambda>a b. c_key a < c_key b) (page @ drop limit ?rest)"
    unfolding page_def window_page_def append_take_drop_id using facts(3) by (rule sorted_wrt_filter)
  have "key \<in> set ?rest" using key facts(2) by simp
  moreover have "set ?rest = set page \<union> set (drop limit ?rest)"
    unfolding page_def window_page_def set_append [symmetric] append_take_drop_id ..
  ultimately have "key \<in> set page \<or> key \<in> set (drop limit ?rest)" by blast
  moreover have "page \<noteq> []" "in_window (Some (last page)) through key" if late: "key \<in> set (drop limit ?rest)"
  proof -
    from late assms(2) show "page \<noteq> []" by (cases ?rest) (auto simp: page_def window_page_def)
    then have "c_key (last page) < c_key key" using sorted late by (simp add: sorted_wrt_append)
    with key(2) show "in_window (Some (last page)) through key" by (simp add: in_window_def)
  qed
  ultimately show "key \<in> set page \<or> page \<noteq> [] \<and> in_window (Some (last page)) through key" by blast
qed

lemma sorted_wrt_append_last:
  "sorted_wrt (\<lambda>a b. c_key a < c_key b) page \<Longrightarrow> key \<in> set page \<Longrightarrow> c_key key \<le> c_key (last page)"
  by (induction page) (auto intro: less_imp_le)

lemma in_window_mono: "in_window after through a \<Longrightarrow> in_window (Some a) through key \<Longrightarrow> in_window after through key"
  by (auto simp: in_window_def split: option.splits)

lemma next_cursor_cases:
  "next_cursor_v2 \<lparr> pg_keys = page, pg_through = Some through \<rparr> = (if page \<noteq> [] \<and> c_key (last page) < c_key through
     then Some \<lparr> sc_after = Some (last page), sc_through = Some through \<rparr> else None)"
  by (simp add: next_cursor_v2_def continue_after_def)

lemma scan_cycle_window:
  assumes "\<forall>store \<in> set stores. scannable store" "0 < limit" "limit \<le> 256"
  shows "\<exists>keys finished.
    scan_cycle limit stores \<lparr> sc_after = after, sc_through = Some through \<rparr> = Ok (keys, finished)
    \<and> sorted_wrt (\<lambda>a b. c_key a < c_key b) keys
    \<and> (\<forall>key \<in> set keys. in_window after through key \<and> (\<exists>store \<in> set stores. key \<in> deleting_keys store))
    \<and> (finished \<longrightarrow> (\<forall>key. in_window after through key \<longrightarrow>
        (\<forall>store \<in> set stores. key \<in> deleting_keys store) \<longrightarrow> key \<in> set keys))"
  using assms(1)
proof (induction stores arbitrary: after)
  case (Cons store stores)
  define page where "page = window_page limit after through store"
  have "scannable store" using Cons.prems by simp
  note split = window_page_split [OF this assms(2) page_def]
  note scan = scan_window [OF \<open>scannable store\<close> assms(3), of _ through]
  show ?case
  proof (cases "page \<noteq> [] \<and> c_key (last page) < c_key through")
    case True
    obtain keys finished where rest:
      "scan_cycle limit stores \<lparr> sc_after = Some (last page), sc_through = Some through \<rparr> = Ok (keys, finished)"
      "sorted_wrt (\<lambda>a b. c_key a < c_key b) keys"
      "\<forall>key \<in> set keys. in_window (Some (last page)) through key \<and> (\<exists>store \<in> set stores. key \<in> deleting_keys store)"
      "finished \<longrightarrow> (\<forall>key. in_window (Some (last page)) through key \<longrightarrow>
        (\<forall>store \<in> set stores. key \<in> deleting_keys store) \<longrightarrow> key \<in> set keys)"
      using Cons.IH [of "Some (last page)"] Cons.prems by auto
    have window: "in_window after through (last page)" using split(2) True by simp
    have "sorted_wrt (\<lambda>a b. c_key a < c_key b) (page @ keys)"
      using split(1) rest(2,3) sorted_wrt_append_last [OF split(1)] True
      by (fastforce simp: sorted_wrt_append in_window_def)
    moreover have "\<forall>key \<in> set (page @ keys). in_window after through key
        \<and> (\<exists>store \<in> set (store # stores). key \<in> deleting_keys store)"
      using split(2) rest(3) in_window_mono [OF window] by auto
    moreover have "finished \<longrightarrow> (\<forall>key. in_window after through key \<longrightarrow>
        (\<forall>store \<in> set (store # stores). key \<in> deleting_keys store) \<longrightarrow> key \<in> set (page @ keys))"
      using split(3) rest(4) by auto
    moreover have "scan_cycle limit (store # stores) \<lparr> sc_after = after, sc_through = Some through \<rparr>
        = Ok (page @ keys, finished)"
      using True rest(1) by (simp add: scan page_def [symmetric] next_cursor_cases)
    ultimately show ?thesis by blast
  next
    case False
    have all: "\<forall>key. in_window after through key \<longrightarrow>
        (\<forall>store \<in> set (store # stores). key \<in> deleting_keys store) \<longrightarrow> key \<in> set page"
    proof (intro allI impI)
      fix key assume "in_window after through key" "\<forall>store \<in> set (store # stores). key \<in> deleting_keys store"
      then show "key \<in> set page" using split(3) [of key] False by (auto simp: in_window_def)
    qed
    moreover have "\<forall>key \<in> set page. in_window after through key
        \<and> (\<exists>store \<in> set (store # stores). key \<in> deleting_keys store)" using split(2) by auto
    moreover have "scan_cycle limit (store # stores) \<lparr> sc_after = after, sc_through = Some through \<rparr> = Ok (page, True)"
      using False by (auto simp: scan page_def [symmetric] next_cursor_cases)
    ultimately show ?thesis using split(1) by blast
  qed
qed auto

lemma finite_deleting_keys: "scannable store \<Longrightarrow> finite (deleting_keys store)"
  by (simp add: scannable_def sorted_keys_facts(2) [symmetric])

text \<open>Over an unchanging store a cycle ends after at most one page more than it has keys.\<close>

lemma scan_cycle_ends:
  assumes "scannable store" "0 < limit" "limit \<le> 256"
    and "card {key \<in> deleting_keys store. in_window after through key} < n"
  shows "\<exists>keys. scan_cycle limit (replicate n store) \<lparr> sc_after = after, sc_through = Some through \<rparr> = Ok (keys, True)"
  using assms(4)
proof (induction n arbitrary: after)
  case (Suc n)
  define page where "page = window_page limit after through store"
  note split = window_page_split [OF assms(1,2) page_def]
  note scan = scan_window [OF assms(1,3), of _ through]
  show ?case
  proof (cases "page \<noteq> [] \<and> c_key (last page) < c_key through")
    case True
    then have window: "in_window after through (last page)" and "last page \<in> deleting_keys store"
      using split(2) by simp_all
    then have smaller: "{key \<in> deleting_keys store. in_window (Some (last page)) through key}
        \<subset> {key \<in> deleting_keys store. in_window after through key}"
      using in_window_mono [OF window] by (auto simp: in_window_def)
    then have "card {key \<in> deleting_keys store. in_window (Some (last page)) through key} < n"
      using psubset_card_mono [OF _ smaller] finite_deleting_keys [OF assms(1)] Suc.prems by simp
    from Suc.IH [OF this] True show ?thesis by (auto simp: scan page_def [symmetric] next_cursor_cases)
  next
    case False
    then show ?thesis by (auto simp: scan page_def [symmetric] next_cursor_cases)
  qed
qed simp

lemma in_window_last:
  assumes "scannable store" "key \<in> deleting_keys store"
  shows "in_window None (last (sorted_keys store)) key"
  using assms sorted_keys_facts [of store] sorted_wrt_append_last by (auto simp: scannable_def in_window_def)

lemma scan_cycle_initial:
  assumes "scannable store" "limit \<le> 256"
  shows "scan_cycle limit (store # stores) cursor_initial = (if sorted_keys store = [] then Ok ([], True)
    else scan_cycle limit (store # stores) \<lparr> sc_after = None, sc_through = Some (last (sorted_keys store)) \<rparr>)"
  by (simp add: scan_initial [OF assms] next_cursor_v2_def)

lemma scan_cycle_fixed:
  assumes "scannable store" "0 < limit" "limit \<le> 256" "card (deleting_keys store) < n"
  shows "\<exists>keys. scan_cycle limit (replicate n store) cursor_initial = Ok (keys, True) \<and> set keys = deleting_keys store"
proof -
  obtain m where n: "n = Suc m" using assms(4) by (cases n) auto
  define through where "through = last (sorted_keys store)"
  have window: "{key \<in> deleting_keys store. in_window None through key} = deleting_keys store"
    using in_window_last [OF assms(1)] by (auto simp: through_def)
  obtain keys where
    run: "scan_cycle limit (replicate n store) \<lparr> sc_after = None, sc_through = Some through \<rparr> = Ok (keys, True)"
    using scan_cycle_ends [OF assms(1-3), of None through n] assms(4) window by auto
  then have "set keys = deleting_keys store"
    using scan_cycle_window [of "replicate n store" limit None through] assms(1-3) window
    by (auto simp: n)
  moreover have "sorted_keys store = [] \<Longrightarrow> deleting_keys store = {}"
    using sorted_keys_facts(2) [of store] assms(1) by (simp add: scannable_def)
  ultimately show ?thesis
    using scan_cycle_initial [OF assms(1,3), of "replicate m store"] run by (auto simp: n through_def)
qed


text \<open>A store with two instances being deleted. Their keys are ordered as texts: guild 10 before guild 2.\<close>

definition waiting_instance :: "u64 \<Rightarrow> automation_instance" where
  "waiting_instance guild = \<lparr> ai_id = ''i_1'', ai_guild_id = GuildId guild, ai_ruleset_key = ''rooms'',
     ai_ruleset_version = 1, ai_kind = ''room'', ai_created_by = UserId 3,
     ai_resources = \<lparr> in_roles = [], in_channels = [(''main'', ChannelId 7)], in_messages = [] \<rparr>,
     ai_status = IS_Deleting \<rparr>"

definition waiting_store :: instance_store where
  "waiting_store = [(GuildId 2, [(''i_1'', waiting_instance 2)]), (GuildId 10, [(''i_1'', waiting_instance 10)])]"

lemma waiting_store_facts:
  "scannable waiting_store"
  "sorted_keys waiting_store = [\<lparr> rk_guild_id = GuildId 10, rk_instance_id = ''i_1'' \<rparr>,
     \<lparr> rk_guild_id = GuildId 2, rk_instance_id = ''i_1'' \<rparr>]"
  by code_simp+


section \<open>The life of an instance\<close>

lemma map_of_map_entries: "map_of (map (\<lambda>(k, v). (k, f k v)) m) k = map_option (f k) (map_of m k)"
  by (induction m) auto

lemma store_get_set_status:
  "store_get g j (set_status guild i status store) = (if g = guild \<and> j = i
     then map_option (\<lambda>inst. inst\<lparr> ai_status := status \<rparr>) (store_get g j store) else store_get g j store)"
  unfolding set_status_def store_get_def map_of_map_entries
  by (auto simp: map_of_map_entries option.map_ident split: option.split)

lemma store_get_register:
  "store_get g j (snd (store_register inst store)) = (if g = ai_guild_id inst \<and> j = ai_id inst
     \<and> store_get g j store = None then Some inst else store_get g j store)"
  by (auto simp: store_register_def store_get_def entries_of_def bm_get_insert Let_def split: option.split)

text \<open>Every operation of the store but the unconditional \<open>update_status\<close>.\<close>

inductive store_step :: "instance_store \<Rightarrow> instance_store \<Rightarrow> bool" where
  "store_step store (snd (store_register inst store))"
| "store_step store (snd (transition_to_deleting guild i store))"
| "store_step store (snd (mark_deleted guild i store))"
| "store_step store (snd (claim_deleting_v1 guild i store))"
| "store_step store (snd (mark_deleted_v1 guild i store))"

inductive status_step :: "instance_status \<Rightarrow> instance_status \<Rightarrow> bool" where
  "status_step status status"
| "status_step IS_Active IS_Deleting"
| "status_step IS_Disabled IS_Deleting"
| "status_step IS_Deleting IS_Deleted"

inductive status_reaches :: "instance_status \<Rightarrow> instance_status \<Rightarrow> bool" where
  "status_step a b \<Longrightarrow> status_reaches a b"
| "status_reaches IS_Active IS_Deleted"
| "status_reaches IS_Disabled IS_Deleted"

inductive_simps status_step_simps [simp]:
  "status_step IS_Active b" "status_step IS_Disabled b" "status_step IS_Deleting b" "status_step IS_Deleted b"

inductive_simps status_reaches_simps [simp]:
  "status_reaches IS_Active b" "status_reaches IS_Disabled b" "status_reaches IS_Deleting b"
  "status_reaches IS_Deleted b"

lemma status_reaches_refl [simp]: "status_reaches a a"
  by (intro status_reaches.intros status_step.intros)

lemma status_reaches_step: "status_reaches a b \<Longrightarrow> status_step b c \<Longrightarrow> status_reaches a c"
  by (cases a) auto

definition status_result :: "guild_id \<Rightarrow> instance_id \<Rightarrow> instance_store \<Rightarrow> instance_store \<Rightarrow> bool" where
  "status_result guild i store store' \<longleftrightarrow> store' = store \<or> (\<exists>inst status.
     store_get guild i store = Some inst \<and> status_step (ai_status inst) status
     \<and> store' = set_status guild i status store)"

lemma status_ops:
  "status_result guild i store (snd (transition_to_deleting guild i store))"
  "status_result guild i store (snd (mark_deleted guild i store))"
  "status_result guild i store (snd (claim_deleting_v1 guild i store))"
  "status_result guild i store (snd (mark_deleted_v1 guild i store))"
  by (cases "store_get guild i store";
      (auto simp: status_result_def store_ops status_step.simps split: instance_status.split; fail))+

lemma store_step_cases:
  "store_step store store' \<Longrightarrow> (\<exists>inst. store' = snd (store_register inst store))
     \<or> (\<exists>guild i. status_result guild i store store')"
  by (cases rule: store_step.cases) (use status_ops in blast)+

lemma status_unchanged:
  "\<exists>status. Some inst = Some (inst\<lparr> ai_status := status \<rparr>) \<and> status_step (ai_status inst) status"
  by (rule exI [of _ "ai_status inst"]) (simp add: status_step.simps)

lemma store_step_get:
  assumes "store_step store store'" "store_get g j store = Some inst"
  shows "\<exists>status. store_get g j store' = Some (inst\<lparr> ai_status := status \<rparr>) \<and> status_step (ai_status inst) status"
proof -
  have "store_get g j store' = Some inst \<or> (\<exists>status. store_get g j store' = Some (inst\<lparr> ai_status := status \<rparr>)
      \<and> status_step (ai_status inst) status)"
    using store_step_cases [OF assms(1)] assms(2)
    by (auto simp: store_get_register status_result_def store_get_set_status)
  then show ?thesis using status_unchanged [of inst] by auto
qed

lemma store_step_ok: "store_step store store' \<Longrightarrow> store_ok store \<Longrightarrow> store_ok store'"
  by (cases rule: store_step.cases) (auto simp: store_ok_register store_ok_ops)



end
