(* ===== verification/Instance_Teardown.thy ===== *)
theory Instance_Teardown
  imports Instance_Scan Rule_Execution
begin

text \<open>
  The crate \<open>automation-instance-teardown\<close>: deleting the resources of an instance. The service works on
  any store and any deleter; they are a record of functions on the state of the outside world. The locale
  \<open>teardown_store\<close> is what the service relies on: the statuses change only through a claim and a mark.
  The in-memory store with an arbitrary deleter provides it.
\<close>

section \<open>Requests\<close>

record registration_identity =
  ri_ruleset_key :: string
  ri_ruleset_version :: instance_ruleset_version
  ri_kind :: instance_kind
  ri_created_by :: user_id

record exact_request =
  er_guild_id :: guild_id
  er_instance_id :: instance_id
  er_expected_resources :: instance_resources
  er_expected_registration_identity :: "registration_identity option"

definition identity_of_instance :: "automation_instance \<Rightarrow> registration_identity" where
  "identity_of_instance inst =
     \<lparr> ri_ruleset_key = ai_ruleset_key inst, ri_ruleset_version = ai_ruleset_version inst,
       ri_kind = ai_kind inst, ri_created_by = ai_created_by inst \<rparr>"

definition identity_matches :: "registration_identity \<Rightarrow> automation_instance \<Rightarrow> bool" where
  "identity_matches identity inst \<longleftrightarrow>
     ri_ruleset_key identity = ai_ruleset_key inst
     \<and> ri_ruleset_version identity = ai_ruleset_version inst
     \<and> ri_kind identity = ai_kind inst
     \<and> ri_created_by identity = ai_created_by inst"

definition request_of_instance :: "automation_instance \<Rightarrow> exact_request" where
  "request_of_instance inst =
     \<lparr> er_guild_id = ai_guild_id inst, er_instance_id = ai_id inst,
       er_expected_resources = ai_resources inst,
       er_expected_registration_identity = Some (identity_of_instance inst) \<rparr>"

definition request_matches :: "exact_request \<Rightarrow> automation_instance \<Rightarrow> bool" where
  "request_matches request inst \<longleftrightarrow>
     er_expected_resources request = ai_resources inst
     \<and> (case er_expected_registration_identity request of
          None \<Rightarrow> True | Some expected \<Rightarrow> identity_matches expected inst)"

datatype recovery_observation = RO_ProvenNotStarted | RO_DurableRetryPending | RO_ProvenSucceeded

section \<open>The service\<close>

record 'w teardown_ports =
  tp_get :: "guild_id \<Rightarrow> instance_id \<Rightarrow> 'w \<Rightarrow> (instance_store_error + automation_instance option) \<times> 'w"
  tp_claim :: "guild_id \<Rightarrow> instance_id \<Rightarrow> 'w \<Rightarrow> (instance_store_error + teardown_claim_outcome) \<times> 'w"
  tp_mark :: "guild_id \<Rightarrow> instance_id \<Rightarrow> 'w \<Rightarrow> (instance_store_error + teardown_mark_outcome) \<times> 'w"
  tp_delete_message :: "guild_id \<Rightarrow> channel_id \<Rightarrow> message_id \<Rightarrow> 'w \<Rightarrow> (deleter_error + delete_outcome) \<times> 'w"
  tp_delete_channel :: "guild_id \<Rightarrow> channel_id \<Rightarrow> 'w \<Rightarrow> (deleter_error + delete_outcome) \<times> 'w"
  tp_delete_role :: "guild_id \<Rightarrow> role_id \<Rightarrow> 'w \<Rightarrow> (deleter_error + delete_outcome) \<times> 'w"

fun delete_messages ::
  "'w teardown_ports \<Rightarrow> guild_id \<Rightarrow> (string \<times> instance_message_ref) list \<Rightarrow> 'w \<Rightarrow> (teardown_error + unit) \<times> 'w" where
  "delete_messages ports guild [] w = (Inr (), w)"
| "delete_messages ports guild ((alias', message) # rest) w =
     (case tp_delete_message ports guild (im_channel message) (im_id message) w of
        (Inl source, w') \<Rightarrow>
          (Inl (TE_DeleteFailed (IRes_Message alias' (im_channel message) (im_id message)) source), w')
      | (Inr _, w') \<Rightarrow> delete_messages ports guild rest w')"

fun delete_channels ::
  "'w teardown_ports \<Rightarrow> guild_id \<Rightarrow> (string \<times> channel_id) list \<Rightarrow> 'w \<Rightarrow> (teardown_error + unit) \<times> 'w" where
  "delete_channels ports guild [] w = (Inr (), w)"
| "delete_channels ports guild ((alias', i) # rest) w =
     (case tp_delete_channel ports guild i w of
        (Inl source, w') \<Rightarrow> (Inl (TE_DeleteFailed (IRes_Channel alias' i) source), w')
      | (Inr _, w') \<Rightarrow> delete_channels ports guild rest w')"

fun delete_roles ::
  "'w teardown_ports \<Rightarrow> guild_id \<Rightarrow> (string \<times> role_id) list \<Rightarrow> 'w \<Rightarrow> (teardown_error + unit) \<times> 'w" where
  "delete_roles ports guild [] w = (Inr (), w)"
| "delete_roles ports guild ((alias', i) # rest) w =
     (case tp_delete_role ports guild i w of
        (Inl source, w') \<Rightarrow> (Inl (TE_DeleteFailed (IRes_Role alias' i) source), w')
      | (Inr _, w') \<Rightarrow> delete_roles ports guild rest w')"

text \<open>The three loops of \<open>teardown_locked\<close>.\<close>

definition delete_owned ::
  "'w teardown_ports \<Rightarrow> guild_id \<Rightarrow> instance_resources \<Rightarrow> 'w \<Rightarrow> (teardown_error + unit) \<times> 'w" where
  "delete_owned ports guild resources w =
     (case delete_messages ports guild (in_messages resources) w of
        (Inl e, w) \<Rightarrow> (Inl e, w)
      | (Inr _, w) \<Rightarrow>
     (case delete_channels ports guild (in_channels resources) w of
        (Inl e, w) \<Rightarrow> (Inl e, w)
      | (Inr _, w) \<Rightarrow> delete_roles ports guild (in_roles resources) w))"

definition drifted :: "exact_request option \<Rightarrow> automation_instance \<Rightarrow> bool" where
  "drifted exact inst = (case exact of None \<Rightarrow> False | Some request \<Rightarrow> \<not> request_matches request inst)"

definition teardown_locked ::
  "'w teardown_ports \<Rightarrow> guild_id \<Rightarrow> instance_id \<Rightarrow> exact_request option \<Rightarrow> 'w \<Rightarrow>
   (teardown_error + teardown_outcome) \<times> 'w" where
  "teardown_locked ports guild i exact w =
     (case tp_get ports guild i w of
        (Inl e, w) \<Rightarrow> (Inl (TE_Lookup e), w)
      | (Inr None, w) \<Rightarrow> (Inl TE_InstanceNotFound, w)
      | (Inr (Some initial), w) \<Rightarrow>
     if drifted exact initial then (Inl TE_ManifestDrift, w)
     else (case tp_claim ports guild i w of
        (Inl e, w) \<Rightarrow> (Inl (TE_Store e), w)
      | (Inr claim, w) \<Rightarrow>
     (case tp_get ports guild i w of
        (Inl e, w) \<Rightarrow> (Inl (TE_Lookup e), w)
      | (Inr None, w) \<Rightarrow> (Inl TE_InstanceNotFound, w)
      | (Inr (Some inst), w) \<Rightarrow>
     if drifted exact inst then (Inl TE_ManifestDrift, w)
     else if claim = TC_AlreadyDeleted then (Inr TO_AlreadyDeleted, w)
     else (case delete_owned ports guild (ai_resources inst) w of
        (Inl e, w) \<Rightarrow> (Inl e, w)
      | (Inr _, w) \<Rightarrow>
     (case tp_mark ports guild i w of
        (Inl e, w) \<Rightarrow> (Inl (TE_Store e), w)
      | (Inr _, w) \<Rightarrow>
          (Inr (if claim = TC_Claimed then TO_Completed else TO_ResumedAndCompleted), w))))))"

text \<open>The keyed lock: \<open>held\<close> is the set of keys some other call holds.\<close>

definition teardown ::
  "'w teardown_ports \<Rightarrow> (guild_id \<times> instance_id) set \<Rightarrow> guild_id \<Rightarrow> instance_id \<Rightarrow> 'w \<Rightarrow>
   (teardown_error + teardown_outcome) \<times> 'w" where
  "teardown ports held guild i w =
     (if (guild, i) \<in> held then (Inr TO_InProgress, w) else teardown_locked ports guild i None w)"

definition teardown_exact_v1 ::
  "'w teardown_ports \<Rightarrow> (guild_id \<times> instance_id) set \<Rightarrow> exact_request \<Rightarrow> 'w \<Rightarrow>
   (teardown_error + teardown_outcome) \<times> 'w" where
  "teardown_exact_v1 ports held request w =
     (if (er_guild_id request, er_instance_id request) \<in> held then (Inr TO_InProgress, w)
      else teardown_locked ports (er_guild_id request) (er_instance_id request) (Some request) w)"

definition observe_teardown_exact_v1 ::
  "'w teardown_ports \<Rightarrow> exact_request \<Rightarrow> 'w \<Rightarrow> (teardown_error + recovery_observation) \<times> 'w" where
  "observe_teardown_exact_v1 ports request w =
     (case tp_get ports (er_guild_id request) (er_instance_id request) w of
        (Inl e, w) \<Rightarrow> (Inl (TE_Lookup e), w)
      | (Inr None, w) \<Rightarrow> (Inl TE_InstanceNotFound, w)
      | (Inr (Some inst), w) \<Rightarrow>
          if \<not> request_matches request inst then (Inl TE_ManifestDrift, w)
          else (Inr (case ai_status inst of
              IS_Active \<Rightarrow> RO_ProvenNotStarted
            | IS_Disabled \<Rightarrow> RO_ProvenNotStarted
            | IS_Deleting \<Rightarrow> RO_DurableRetryPending
            | IS_Deleted \<Rightarrow> RO_ProvenSucceeded), w))"

section \<open>Deleting the footprint of an instance\<close>

definition footprint :: "automation_instance \<Rightarrow> instance_resource list" where
  "footprint inst =
     map (\<lambda>(alias', message). IRes_Message alias' (im_channel message) (im_id message)) (in_messages (ai_resources inst))
     @ map (\<lambda>(alias', i). IRes_Channel alias' i) (in_channels (ai_resources inst))
     @ map (\<lambda>(alias', i). IRes_Role alias' i) (in_roles (ai_resources inst))"

fun delete_resource ::
  "'w teardown_ports \<Rightarrow> guild_id \<Rightarrow> instance_resource \<Rightarrow> 'w \<Rightarrow> (deleter_error + delete_outcome) \<times> 'w" where
  "delete_resource ports guild (IRes_Message _ channel i) w = tp_delete_message ports guild channel i w"
| "delete_resource ports guild (IRes_Channel _ i) w = tp_delete_channel ports guild i w"
| "delete_resource ports guild (IRes_Role _ i) w = tp_delete_role ports guild i w"

fun delete_all ::
  "'w teardown_ports \<Rightarrow> guild_id \<Rightarrow> instance_resource list \<Rightarrow> 'w \<Rightarrow> (teardown_error + unit) \<times> 'w" where
  "delete_all ports guild [] w = (Inr (), w)"
| "delete_all ports guild (resource # resources) w =
     (case delete_resource ports guild resource w of
        (Inl source, w') \<Rightarrow> (Inl (TE_DeleteFailed resource source), w')
      | (Inr _, w') \<Rightarrow> delete_all ports guild resources w')"

lemma delete_all_append:
  "delete_all ports guild (xs @ ys) w =
     (case delete_all ports guild xs w of (Inl e, w') \<Rightarrow> (Inl e, w') | (Inr _, w') \<Rightarrow> delete_all ports guild ys w')"
  by (induction xs arbitrary: w) (auto split: prod.split sum.split)

lemma delete_loops:
  "delete_messages ports guild messages w =
     delete_all ports guild (map (\<lambda>(alias', message). IRes_Message alias' (im_channel message) (im_id message)) messages) w"
  "delete_channels ports guild channels w = delete_all ports guild (map (\<lambda>(alias', i). IRes_Channel alias' i) channels) w"
  "delete_roles ports guild roles w = delete_all ports guild (map (\<lambda>(alias', i). IRes_Role alias' i) roles) w"
proof -
  show "delete_messages ports guild messages w =
      delete_all ports guild (map (\<lambda>(alias', message). IRes_Message alias' (im_channel message) (im_id message)) messages) w"
    by (induction messages arbitrary: w) (auto split: prod.split sum.split)
  show "delete_channels ports guild channels w = delete_all ports guild (map (\<lambda>(alias', i). IRes_Channel alias' i) channels) w"
    by (induction channels arbitrary: w) (auto split: prod.split sum.split)
  show "delete_roles ports guild roles w = delete_all ports guild (map (\<lambda>(alias', i). IRes_Role alias' i) roles) w"
    by (induction roles arbitrary: w) (auto split: prod.split sum.split)
qed

text \<open>The three loops of the service delete the footprint in order, messages before the channels they are
  in and roles last.\<close>

lemma delete_owned_eq: "delete_owned ports guild (ai_resources inst) w = delete_all ports guild (footprint inst) w"
  unfolding delete_owned_def footprint_def delete_loops delete_all_append by (simp split: prod.split sum.split)

lemma footprint_status [simp]: "footprint (inst\<lparr> ai_status := status \<rparr>) = footprint inst"
  by (simp add: footprint_def)

lemma drifted_status [simp]: "drifted exact (inst\<lparr> ai_status := status \<rparr>) = drifted exact inst"
  by (simp add: drifted_def request_matches_def identity_matches_def split: option.split)

section \<open>What the service relies on\<close>

definition set_view ::
  "(guild_id \<Rightarrow> instance_id \<Rightarrow> automation_instance option) \<Rightarrow> guild_id \<Rightarrow> instance_id \<Rightarrow> instance_status \<Rightarrow>
   guild_id \<Rightarrow> instance_id \<Rightarrow> automation_instance option" where
  "set_view view guild i status = (\<lambda>g j. if g = guild \<and> j = i
     then map_option (\<lambda>inst. inst\<lparr> ai_status := status \<rparr>) (view g j) else view g j)"

locale teardown_store =
  fixes ports :: "'w teardown_ports"
    and view :: "'w \<Rightarrow> guild_id \<Rightarrow> instance_id \<Rightarrow> automation_instance option"
  assumes get: "tp_get ports g i w = (r, w') \<Longrightarrow> view w' = view w \<and> ((\<exists>e. r = Inl e) \<or> r = Inr (view w g i))"
    and claim_error: "tp_claim ports g i w = (Inl e, w') \<Longrightarrow> view w' = view w"
    and claim: "tp_claim ports g i w = (Inr c, w') \<Longrightarrow> \<exists>inst. view w g i = Some inst \<and>
      (case c of
         TC_Claimed \<Rightarrow> ai_status inst \<in> {IS_Active, IS_Disabled} \<and> view w' = set_view (view w) g i IS_Deleting
       | TC_AlreadyDeleting \<Rightarrow> ai_status inst = IS_Deleting \<and> view w' = view w
       | TC_AlreadyDeleted \<Rightarrow> ai_status inst = IS_Deleted \<and> view w' = view w)"
    and mark_error: "tp_mark ports g i w = (Inl e, w') \<Longrightarrow> view w' = view w"
    and mark: "tp_mark ports g i w = (Inr m, w') \<Longrightarrow> view w' = set_view (view w) g i IS_Deleted"
    and delete_message: "tp_delete_message ports g channel message w = (d, w') \<Longrightarrow> view w' = view w"
    and delete_channel: "tp_delete_channel ports g channel w = (d, w') \<Longrightarrow> view w' = view w"
    and delete_role: "tp_delete_role ports g role w = (d, w') \<Longrightarrow> view w' = view w"
begin

lemma delete_resource_view: "delete_resource ports g x w = (d, w') \<Longrightarrow> view w' = view w"
  by (cases x) (auto dest: delete_message delete_channel delete_role)

lemma delete_all_view: "delete_all ports g xs w = (r, w') \<Longrightarrow> view w' = view w"
  by (induction xs arbitrary: w) (auto split: prod.splits sum.splits dest: delete_resource_view)

text \<open>A claimed instance is being deleted, and its resources and identity are those it had before.\<close>

lemma claim_view:
  assumes "tp_claim ports g i w = (Inr c, w')" "c \<noteq> TC_AlreadyDeleted"
  obtains inst where "view w g i = Some inst" "ai_status inst \<noteq> IS_Deleted"
    "c = TC_Claimed \<longleftrightarrow> ai_status inst \<noteq> IS_Deleting" "view w' = set_view (view w) g i IS_Deleting"
proof -
  from claim [OF assms(1)] obtain inst where inst: "view w g i = Some inst" and
    c: "case c of
         TC_Claimed \<Rightarrow> ai_status inst \<in> {IS_Active, IS_Disabled} \<and> view w' = set_view (view w) g i IS_Deleting
       | TC_AlreadyDeleting \<Rightarrow> ai_status inst = IS_Deleting \<and> view w' = view w
       | TC_AlreadyDeleted \<Rightarrow> ai_status inst = IS_Deleted \<and> view w' = view w" by blast
  have "ai_status inst = IS_Deleting \<Longrightarrow> set_view (view w) g i IS_Deleting = view w"
    using inst by (auto simp: set_view_def fun_eq_iff)
  with c assms(2) show ?thesis by (intro that [OF inst]) (auto split: teardown_claim_outcome.splits)
qed

text \<open>After a claim that the service goes on with.\<close>

lemma claimed_steps:
  assumes now: "view w1 g i = Some inst" "\<not> drifted exact inst"
    and claimed: "tp_claim ports g i w1 = (Inr c, w2)" "c \<noteq> TC_AlreadyDeleted"
    and run: "(case tp_get ports g i w2 of
        (Inl e, w) \<Rightarrow> (Inl (TE_Lookup e), w)
      | (Inr None, w) \<Rightarrow> (Inl TE_InstanceNotFound, w)
      | (Inr (Some inst), w) \<Rightarrow>
     if drifted exact inst then (Inl TE_ManifestDrift, w)
     else (case delete_all ports g (footprint inst) w of
        (Inl e, w) \<Rightarrow> (Inl e, w)
      | (Inr _, w) \<Rightarrow>
     (case tp_mark ports g i w of
        (Inl e, w) \<Rightarrow> (Inl (TE_Store e), w)
      | (Inr _, w) \<Rightarrow> (Inr (outcome :: teardown_outcome), w)))) = (r, w')"
  shows "(\<exists>e. r = Inl e) \<and> view w' = set_view (view w1) g i IS_Deleting
    \<or> r = Inr outcome \<and> view w' = set_view (view w1) g i IS_Deleted
      \<and> (\<exists>w3 w4. delete_all ports g (footprint inst) w3 = (Inr (), w4))"
proof -
  have view2: "view w2 = set_view (view w1) g i IS_Deleting" using claim_view [OF claimed] by metis
  then have now2: "view w2 g i = Some (inst\<lparr> ai_status := IS_Deleting \<rparr>)" using now(1) by (simp add: set_view_def)
  obtain r3 w3 where get2: "tp_get ports g i w2 = (r3, w3)" by force
  show ?thesis
  proof (cases r3)
    case (Inl e)
    then show ?thesis using run get [OF get2] view2 by (auto simp: get2)
  next
    case (Inr found)
    then have found: "found = Some (inst\<lparr> ai_status := IS_Deleting \<rparr>)" and view3: "view w3 = view w2"
      using get [OF get2] now2 by auto
    obtain r4 w4 where delete: "delete_all ports g (footprint inst) w3 = (r4, w4)" by force
    note view4 = delete_all_view [OF this]
    obtain r5 w5 where mark1: "tp_mark ports g i w4 = (r5, w5)" by force
    have "set_view (set_view (view w1) g i IS_Deleting) g i IS_Deleted = set_view (view w1) g i IS_Deleted"
      by (auto simp: set_view_def fun_eq_iff option.map_comp comp_def)
    then show ?thesis
      using run delete mark1 mark_error mark view2 view3 view4 now(2)
      by (cases r4; cases r5) (auto simp: get2 Inr found)
  qed
qed

lemma locked_steps:
  assumes "teardown_locked ports g i exact w = (r, w')"
  shows "(\<exists>e. r = Inl e) \<and> view w' = view w
    \<or> (\<exists>inst. view w g i = Some inst \<and> (
        ai_status inst = IS_Deleted \<and> r = Inr TO_AlreadyDeleted \<and> view w' = view w
      \<or> ai_status inst \<noteq> IS_Deleted \<and> (\<exists>e. r = Inl e) \<and> view w' = set_view (view w) g i IS_Deleting
      \<or> ai_status inst \<noteq> IS_Deleted \<and> \<not> drifted exact inst
        \<and> r = Inr (if ai_status inst = IS_Deleting then TO_ResumedAndCompleted else TO_Completed)
        \<and> view w' = set_view (view w) g i IS_Deleted
        \<and> (\<exists>w1 w2. delete_all ports g (footprint inst) w1 = (Inr (), w2))))"
proof -
  obtain r1 w1 where get1: "tp_get ports g i w = (r1, w1)" by force
  note view1 = get [OF get1]
  obtain r2 w2 where claim1: "tp_claim ports g i w1 = (r2, w2)" by force
  note run = assms [unfolded teardown_locked_def delete_owned_eq get1 prod.case claim1]
  show ?thesis
  proof (cases "\<exists>inst c. r1 = Inr (Some inst) \<and> \<not> drifted exact inst \<and> r2 = Inr c")
    case False
    then have "\<exists>e. r = Inl e" "w' = w1 \<or> w' = w2 \<and> (\<exists>e. r2 = Inl e)"
      using run by (auto split: sum.splits option.splits if_splits)
    then show ?thesis using view1 claim_error [of g i w1] claim1 by auto
  next
    case True
    then obtain inst c where some: "r1 = Inr (Some inst)" "\<not> drifted exact inst" "r2 = Inr c" by blast
    then have now: "view w g i = Some inst" "view w1 g i = Some inst" using view1 by auto
    note claimed = claim1 [unfolded some(3)]
    show ?thesis
    proof (cases "c = TC_AlreadyDeleted")
      case True
      then have deleted: "ai_status inst = IS_Deleted" "view w2 = view w" using claim [OF claimed] now view1 by auto
      obtain r3 w3 where get2: "tp_get ports g i w2 = (r3, w3)" by force
      then show ?thesis using run some True deleted now get [OF get2] by (cases r3) auto
    next
      case False
      then have "ai_status inst \<noteq> IS_Deleted" "c = TC_Claimed \<longleftrightarrow> ai_status inst \<noteq> IS_Deleting"
        using claim_view [OF claimed] now by (metis option.inject)+
      moreover note claimed_steps [OF now(2) some(2) claimed False
          run [unfolded some(1,3) sum.case option.case prod.case if_not_P [OF some(2)] if_not_P [OF False]]]
      ultimately show ?thesis using now view1 some(2) by auto
    qed
  qed
qed

end

section \<open>The in-memory store with any deleter\<close>

record 'd instance_deleter =
  dl_message :: "guild_id \<Rightarrow> channel_id \<Rightarrow> message_id \<Rightarrow> 'd \<Rightarrow> (deleter_error + delete_outcome) \<times> 'd"
  dl_channel :: "guild_id \<Rightarrow> channel_id \<Rightarrow> 'd \<Rightarrow> (deleter_error + delete_outcome) \<times> 'd"
  dl_role :: "guild_id \<Rightarrow> role_id \<Rightarrow> 'd \<Rightarrow> (deleter_error + delete_outcome) \<times> 'd"

definition memory_ports :: "'d instance_deleter \<Rightarrow> (instance_store \<times> 'd) teardown_ports" where
  "memory_ports deleter = \<lparr>
     tp_get = (\<lambda>guild i (store, d). (Inr (store_get guild i store), (store, d))),
     tp_claim = (\<lambda>guild i (store, d). let (r, store') = claim_deleting_v1 guild i store in (r, (store', d))),
     tp_mark = (\<lambda>guild i (store, d). let (r, store') = mark_deleted_v1 guild i store in (r, (store', d))),
     tp_delete_message = (\<lambda>guild channel i (store, d). let (r, d') = dl_message deleter guild channel i d in (r, (store, d'))),
     tp_delete_channel = (\<lambda>guild i (store, d). let (r, d') = dl_channel deleter guild i d in (r, (store, d'))),
     tp_delete_role = (\<lambda>guild i (store, d). let (r, d') = dl_role deleter guild i d in (r, (store, d'))) \<rparr>"

definition memory_view :: "instance_store \<times> 'd \<Rightarrow> guild_id \<Rightarrow> instance_id \<Rightarrow> automation_instance option" where
  "memory_view w = (\<lambda>guild i. store_get guild i (fst w))"

lemma memory_view_set_status:
  "memory_view (set_status guild i status store, d) = set_view (memory_view (store, d')) guild i status"
  by (auto simp: memory_view_def set_view_def store_get_set_status fun_eq_iff)

lemma memory_view_deleted:
  assumes "store_get guild i store = Some inst" "ai_status inst = status"
  shows "memory_view (store, d) = set_view (memory_view (store, d)) guild i status"
  using assms by (auto simp: memory_view_def set_view_def fun_eq_iff)

interpretation memory: teardown_store "memory_ports deleter" memory_view for deleter :: "'d instance_deleter"
proof (unfold_locales, goal_cases)
  case (3 g i w c w')
  then show ?case
    by (cases w; cases "store_get g i (fst w)")
      (auto simp: memory_ports_def claim_deleting_v1_def store_get_set_status memory_view_def set_view_def
        fun_eq_iff split: instance_status.splits)
next
  case (5 g i w m w')
  then show ?case
    by (cases w; cases "store_get g i (fst w)")
      (auto simp: memory_ports_def mark_deleted_v1_def memory_view_set_status intro: memory_view_deleted
        split: instance_status.splits)
qed (auto simp: memory_ports_def memory_view_def claim_deleting_v1_def mark_deleted_v1_def
    split: prod.splits option.splits instance_status.splits)

text \<open>C34: An instance is marked deleted only after every resource it owns has been deleted. Whatever the
  deleter does, a teardown leaves every other instance alone; when it fails, the instance is as before or
  waiting for a retry; when it reports success, a pass over all its messages, channels and roles, in that
  order, went through without a failure, and the instance is deleted.\<close>

theorem deleted_only_after_deletions:
  assumes "teardown_locked (memory_ports deleter) g i exact (store, d) = (r, (store', d'))"
  shows "(\<forall>g' i'. (g', i') \<noteq> (g, i) \<longrightarrow> store_get g' i' store' = store_get g' i' store)
    \<and> (\<forall>e. r = Inl e \<longrightarrow> store_get g i store' = store_get g i store
        \<or> map_option ai_status (store_get g i store') = Some IS_Deleting)
    \<and> (r = Inr TO_AlreadyDeleted \<longrightarrow> store_get g i store' = store_get g i store)
    \<and> (r = Inr TO_Completed \<or> r = Inr TO_ResumedAndCompleted \<longrightarrow>
        (\<exists>inst w1 w2. store_get g i store = Some inst
          \<and> delete_all (memory_ports deleter) g (footprint inst) w1 = (Inr (), w2)
          \<and> store_get g i store' = Some (inst\<lparr> ai_status := IS_Deleted \<rparr>)))"
  using memory.locked_steps [OF assms] by (auto simp: memory_view_def set_view_def fun_eq_iff split: if_splits)

section \<open>Retrying\<close>

text \<open>Deleting with the deleter alone, up to the first failure.\<close>

fun delete_each ::
  "'d instance_deleter \<Rightarrow> guild_id \<Rightarrow> instance_resource list \<Rightarrow> 'd \<Rightarrow> (teardown_error + unit) \<times> 'd" where
  "delete_each deleter guild [] d = (Inr (), d)"
| "delete_each deleter guild (resource # resources) d =
     (case (case resource of
          IRes_Message _ channel i \<Rightarrow> dl_message deleter guild channel i d
        | IRes_Channel _ i \<Rightarrow> dl_channel deleter guild i d
        | IRes_Role _ i \<Rightarrow> dl_role deleter guild i d) of
        (Inl source, d') \<Rightarrow> (Inl (TE_DeleteFailed resource source), d')
      | (Inr _, d') \<Rightarrow> delete_each deleter guild resources d')"

lemma delete_all_memory:
  "delete_all (memory_ports deleter) g resources (store, d) =
     (fst (delete_each deleter g resources d), (store, snd (delete_each deleter g resources d)))"
proof (induction resources arbitrary: d)
  case (Cons resource resources)
  then show ?case by (cases resource) (auto simp: memory_ports_def split: prod.split sum.split)
qed simp

definition claimed_store :: "guild_id \<Rightarrow> instance_id \<Rightarrow> automation_instance \<Rightarrow> instance_store \<Rightarrow> instance_store" where
  "claimed_store g i inst store =
     (if ai_status inst = IS_Deleting then store else set_status g i IS_Deleting store)"

lemma set_status_twice: "set_status g i a (set_status g i b store) = set_status g i a store"
  by (auto simp: set_status_def comp_def)

lemma teardown_memory:
  assumes "store_get g i store = Some inst" "\<not> drifted exact inst" "ai_status inst \<noteq> IS_Deleted"
  shows "teardown_locked (memory_ports deleter) g i exact (store, d) =
    (case delete_each deleter g (footprint inst) d of
       (Inl e, d') \<Rightarrow> (Inl e, (claimed_store g i inst store, d'))
     | (Inr _, d') \<Rightarrow>
         (Inr (if ai_status inst = IS_Deleting then TO_ResumedAndCompleted else TO_Completed),
          (set_status g i IS_Deleted store, d')))"
proof -
  let ?claimed = "claimed_store g i inst store"
  have get: "tp_get (memory_ports deleter) g i (s, d) = (Inr (store_get g i s), (s, d))" for s d
    by (simp add: memory_ports_def)
  have claim: "tp_claim (memory_ports deleter) g i (store, d) =
      (Inr (if ai_status inst = IS_Deleting then TC_AlreadyDeleting else TC_Claimed), (?claimed, d))" for d
    using assms(1,3) by (cases "ai_status inst") (simp_all add: memory_ports_def claim_deleting_v1_def claimed_store_def)
  have claimed: "store_get g i ?claimed = Some (inst\<lparr> ai_status := IS_Deleting \<rparr>)"
    using assms(1) by (auto simp: claimed_store_def store_get_set_status)
  have mark: "tp_mark (memory_ports deleter) g i (?claimed, d) =
      (Inr TM_MarkedDeleted, (set_status g i IS_Deleted store, d))" for d
    using claimed by (simp add: memory_ports_def mark_deleted_v1_def claimed_store_def set_status_twice)
  show ?thesis
    unfolding teardown_locked_def delete_owned_eq get claim prod.case assms(1)
    using assms(2) by (auto simp: get claimed mark delete_all_memory split: prod.split sum.split)
qed

lemma scannable_set_status: "scannable store \<Longrightarrow> scannable (set_status g i status store)"
proof -
  have "guilds_nonzero store \<Longrightarrow> guilds_nonzero (set_status g i status store)"
    by (auto simp: guilds_nonzero_def set_status_def list_all_iff)
  then show "scannable store \<Longrightarrow> ?thesis" by (simp add: scannable_def store_ok_set_status)
qed

lemma delete_each_error: "delete_each deleter g xs d = (Inl e, d') \<Longrightarrow> \<exists>x source. e = TE_DeleteFailed x source"
  by (induction xs arbitrary: d) (auto split: prod.splits sum.splits)

lemma teardown_failure:
  assumes "teardown_locked (memory_ports deleter) g i None (store, d) = (Inl (TE_DeleteFailed x source), (store', d'))"
  obtains inst where "store_get g i store = Some inst" "ai_status inst \<noteq> IS_Deleted"
    "store' = claimed_store g i inst store"
proof (cases "store_get g i store")
  case None
  with assms show ?thesis by (simp add: teardown_locked_def memory_ports_def)
next
  case (Some inst)
  have live: "ai_status inst \<noteq> IS_Deleted"
    using assms Some
    by (auto simp: teardown_locked_def memory_ports_def claim_deleting_v1_def drifted_def)
  have "\<not> drifted None inst" by (simp add: drifted_def)
  from teardown_memory [OF Some this live, of deleter d] assms have "store' = claimed_store g i inst store"
    by (auto split: prod.splits sum.splits)
  with Some live show ?thesis by (rule that)
qed

text \<open>C35: A failed teardown is not forgotten. When deleting a resource of an instance fails, the instance is
  found by the next cycle of retry scans over the store, and a retry for which every deletion goes through
  deletes all of its resources, completes the teardown and takes the instance off the retry list.\<close>

theorem failed_teardown_is_retried:
  assumes "scannable store" "0 < limit" "limit \<le> 256"
    and "teardown (memory_ports deleter) held g i (store, d) = (Inl (TE_DeleteFailed x source), (store', d'))"
  shows "(\<exists>keys. scan_cycle limit (replicate (Suc (card (deleting_keys store'))) store') cursor_initial = Ok (keys, True)
        \<and> \<lparr> rk_guild_id = g, rk_instance_id = i \<rparr> \<in> set keys)
    \<and> (\<exists>inst. store_get g i store' = Some inst \<and> (\<forall>d1 d2. delete_each deleter g (footprint inst) d1 = (Inr (), d2) \<longrightarrow>
        (\<exists>store''. teardown (memory_ports deleter) {} g i (store', d1) = (Inr TO_ResumedAndCompleted, (store'', d2))
          \<and> store_get g i store'' = Some (inst\<lparr> ai_status := IS_Deleted \<rparr>)
          \<and> \<lparr> rk_guild_id = g, rk_instance_id = i \<rparr> \<notin> deleting_keys store'')))"
proof -
  from assms(4) have "teardown_locked (memory_ports deleter) g i None (store, d) = (Inl (TE_DeleteFailed x source), (store', d'))"
    by (simp add: teardown_def split: if_splits)
  then obtain inst where inst: "store_get g i store = Some inst" "store' = claimed_store g i inst store"
    by (rule teardown_failure)
  define waiting where "waiting = inst\<lparr> ai_status := IS_Deleting \<rparr>"
  have scannable: "scannable store'"
    using assms(1) by (simp add: inst(2) claimed_store_def scannable_set_status)
  have get: "store_get g i store' = Some waiting" "ai_status waiting = IS_Deleting"
    using inst by (auto simp: claimed_store_def store_get_set_status waiting_def)
  then have "\<lparr> rk_guild_id = g, rk_instance_id = i \<rparr> \<in> deleting_keys store'" by (auto simp: deleting_keys_def)
  then have found: "\<exists>keys. scan_cycle limit (replicate (Suc (card (deleting_keys store'))) store') cursor_initial = Ok (keys, True)
      \<and> \<lparr> rk_guild_id = g, rk_instance_id = i \<rparr> \<in> set keys"
    using scan_cycle_fixed [OF scannable assms(2,3) lessI] by metis
  have "teardown (memory_ports deleter) {} g i (store', d1) = (Inr TO_ResumedAndCompleted, (set_status g i IS_Deleted store', d2))"
    if "delete_each deleter g (footprint waiting) d1 = (Inr (), d2)" for d1 d2
    using teardown_memory [OF get(1), of None deleter d1] get(2) that by (simp add: teardown_def drifted_def)
  moreover have "store_get g i (set_status g i IS_Deleted store') = Some (waiting\<lparr> ai_status := IS_Deleted \<rparr>)"
    using get(1) by (simp add: store_get_set_status)
  moreover have "\<lparr> rk_guild_id = g, rk_instance_id = i \<rparr> \<notin> deleting_keys (set_status g i IS_Deleted store')"
    using get(1) by (auto simp: deleting_keys_def store_get_set_status)
  ultimately show ?thesis using found get(1) by blast
qed

text \<open>A deleter whose first call fails.\<close>

definition flaky_deleter :: "bool instance_deleter" where
  "flaky_deleter = (let call = (\<lambda>failed. if failed then (Inr DO_Deleted, True)
       else (Inl \<lparr> de_kind = DE_Network, de_message = ''reset'' \<rparr>, True))
     in \<lparr> dl_message = (\<lambda>_ _ _. call), dl_channel = (\<lambda>_ _. call), dl_role = (\<lambda>_ _. call) \<rparr>)"

lemma flaky_first:
  "teardown (memory_ports flaky_deleter) {} (GuildId 2) ''i_1'' (waiting_store, False)
   = (Inl (TE_DeleteFailed (IRes_Channel ''main'' (ChannelId 7)) \<lparr> de_kind = DE_Network, de_message = ''reset'' \<rparr>),
      (waiting_store, True))"
  by code_simp

theorem failed_teardown_is_retried_witness:
  "\<exists>keys. scan_cycle 1 (replicate (Suc (card (deleting_keys waiting_store))) waiting_store) cursor_initial = Ok (keys, True)
     \<and> \<lparr> rk_guild_id = GuildId 2, rk_instance_id = ''i_1'' \<rparr> \<in> set keys"
  using failed_teardown_is_retried [OF waiting_store_facts(1) _ _ flaky_first, of 1] by simp

theorem deleted_only_after_deletions_witness:
  "store_get (GuildId 10) ''i_1'' (fst (snd (teardown_locked (memory_ports flaky_deleter) (GuildId 2) ''i_1'' None
     (waiting_store, True)))) = store_get (GuildId 10) ''i_1'' waiting_store"
proof -
  obtain r store' d' where "teardown_locked (memory_ports flaky_deleter) (GuildId 2) ''i_1'' None (waiting_store, True)
      = (r, (store', d'))" by (rule prod_cases3)
  from deleted_only_after_deletions [OF this] this show ?thesis by simp
qed

end
