(* ===== verification/Teardown_Locks.thy ===== *)
theory Teardown_Locks
  imports Instance_Teardown
begin

text \<open>
  The keyed lock of \<open>automation-instance-teardown/src/service.rs\<close> under concurrency. The registry maps a
  key to a shared entry; an entry is a flag set by \<open>compare_exchange\<close>, and a guard that is dropped clears
  the flag and removes the entry when nobody else refers to it. The steps are the atomic actions of the
  code: the registry is read and changed only under its mutex, the flag is changed without it, and a
  reference to an entry is given up some time after it was last used.
\<close>

section \<open>State and steps\<close>

type_synonym teardown_key = "guild_id \<times> instance_id"

text \<open>A thread with a clone of an entry is between the two halves of \<open>try_lock\<close>. A releasing thread is
  inside \<open>drop\<close> and holds the mutex. A dropping thread only has its reference left.\<close>

datatype lock_thread =
  LT_Idle
| LT_Cloned teardown_key nat
| LT_Guarding teardown_key nat
| LT_Releasing teardown_key nat
| LT_Dropping nat

record lock_state =
  lk_registry :: "(teardown_key, nat) bmap"
  lk_held :: "nat \<Rightarrow> bool"
  lk_next :: nat
  lk_threads :: "lock_thread list"

definition lock_initial :: "nat \<Rightarrow> lock_state" where
  "lock_initial n = \<lparr> lk_registry = [], lk_held = (\<lambda>_. False), lk_next = 0, lk_threads = replicate n LT_Idle \<rparr>"

fun refers :: "nat \<Rightarrow> lock_thread \<Rightarrow> bool" where
  "refers e LT_Idle = False"
| "refers e (LT_Cloned _ e') = (e' = e)"
| "refers e (LT_Guarding _ e') = (e' = e)"
| "refers e (LT_Releasing _ e') = (e' = e)"
| "refers e (LT_Dropping e') = (e' = e)"

definition strong_count :: "nat \<Rightarrow> lock_state \<Rightarrow> nat" where
  "strong_count e st =
     length (filter (\<lambda>(_, e'). e' = e) (lk_registry st)) + length (filter (refers e) (lk_threads st))"

definition mutex_free :: "lock_state \<Rightarrow> bool" where
  "mutex_free st \<longleftrightarrow> list_all (\<lambda>thread. case thread of LT_Releasing _ _ \<Rightarrow> False | _ \<Rightarrow> True) (lk_threads st)"

text \<open>\<open>locks.entry(key).or_default().clone()\<close>\<close>

definition clone_entry :: "teardown_key \<Rightarrow> lock_state \<Rightarrow> nat \<times> lock_state" where
  "clone_entry key st =
     (case bm_get (lk_registry st) key of
        Some e \<Rightarrow> (e, st)
      | None \<Rightarrow>
          (lk_next st,
           st\<lparr> lk_registry := bm_insert key (lk_next st) (lk_registry st),
               lk_held := (lk_held st)(lk_next st := False), lk_next := Suc (lk_next st) \<rparr>))"

definition set_thread :: "nat \<Rightarrow> lock_thread \<Rightarrow> lock_state \<Rightarrow> lock_state" where
  "set_thread t thread st = st\<lparr> lk_threads := (lk_threads st)[t := thread] \<rparr>"

text \<open>The end of \<open>drop\<close>, with the mutex held.\<close>

definition remove_unused :: "teardown_key \<Rightarrow> nat \<Rightarrow> lock_state \<Rightarrow> lock_state" where
  "remove_unused key e st =
     (if strong_count e st = 2 \<and> bm_get (lk_registry st) key = Some e
      then st\<lparr> lk_registry := filter (\<lambda>(k, _). k \<noteq> key) (lk_registry st) \<rparr> else st)"

inductive lock_step :: "lock_state \<Rightarrow> lock_state \<Rightarrow> bool" where
  clone: "t < length (lk_threads st) \<Longrightarrow> lk_threads st ! t = LT_Idle \<Longrightarrow> mutex_free st \<Longrightarrow>
    clone_entry key st = (e, st') \<Longrightarrow> lock_step st (set_thread t (LT_Cloned key e) st')"
| acquire: "t < length (lk_threads st) \<Longrightarrow> lk_threads st ! t = LT_Cloned key e \<Longrightarrow> \<not> lk_held st e \<Longrightarrow>
    lock_step st (set_thread t (LT_Guarding key e) (st\<lparr> lk_held := (lk_held st)(e := True) \<rparr>))"
| refuse: "t < length (lk_threads st) \<Longrightarrow> lk_threads st ! t = LT_Cloned key e \<Longrightarrow> lk_held st e \<Longrightarrow>
    lock_step st (set_thread t (LT_Dropping e) st)"
| release: "t < length (lk_threads st) \<Longrightarrow> lk_threads st ! t = LT_Guarding key e \<Longrightarrow> mutex_free st \<Longrightarrow>
    lock_step st (set_thread t (LT_Releasing key e) (st\<lparr> lk_held := (lk_held st)(e := False) \<rparr>))"
| cleanup: "t < length (lk_threads st) \<Longrightarrow> lk_threads st ! t = LT_Releasing key e \<Longrightarrow>
    lock_step st (set_thread t (LT_Dropping e) (remove_unused key e st))"
| forget: "t < length (lk_threads st) \<Longrightarrow> lk_threads st ! t = LT_Dropping e \<Longrightarrow>
    lock_step st (set_thread t LT_Idle st)"

section \<open>The invariant\<close>

text \<open>The entry a thread uses under a key is the registered one; an entry is registered under one key and
  allocated; and its flag is set exactly when one thread guards it.\<close>

fun uses :: "teardown_key \<Rightarrow> nat \<Rightarrow> lock_thread \<Rightarrow> bool" where
  "uses key e (LT_Cloned k e') = (k = key \<and> e' = e)"
| "uses key e (LT_Guarding k e') = (k = key \<and> e' = e)"
| "uses key e (LT_Releasing k e') = (k = key \<and> e' = e)"
| "uses key e _ = False"

fun guards :: "nat \<Rightarrow> lock_thread \<Rightarrow> bool" where
  "guards e (LT_Guarding _ e') = (e' = e)"
| "guards e _ = False"

definition thread_at :: "lock_state \<Rightarrow> nat \<Rightarrow> lock_thread" where
  "thread_at st t = (if t < length (lk_threads st) then lk_threads st ! t else LT_Idle)"

definition lock_invar :: "lock_state \<Rightarrow> bool" where
  "lock_invar st \<longleftrightarrow>
     (\<forall>t key e. uses key e (thread_at st t) \<longrightarrow> bm_get (lk_registry st) key = Some e)
     \<and> (\<forall>k k' e. bm_get (lk_registry st) k = Some e \<longrightarrow> bm_get (lk_registry st) k' = Some e \<longrightarrow> k = k')
     \<and> (\<forall>k e. bm_get (lk_registry st) k = Some e \<longrightarrow> e < lk_next st)
     \<and> (\<forall>e. lk_held st e \<longleftrightarrow> (\<exists>t. guards e (thread_at st t)))
     \<and> (\<forall>t t' e. guards e (thread_at st t) \<longrightarrow> guards e (thread_at st t') \<longrightarrow> t = t')"

lemma thread_at_set_thread:
  "t < length (lk_threads st) \<Longrightarrow> thread_at (set_thread t thread st) = (thread_at st)(t := thread)"
  by (auto simp: thread_at_def set_thread_def fun_eq_iff)

lemma set_thread_fields [simp]:
  "lk_registry (set_thread t thread st) = lk_registry st" "lk_held (set_thread t thread st) = lk_held st"
  "lk_next (set_thread t thread st) = lk_next st"
  by (simp_all add: set_thread_def)

lemma thread_at_update [simp]:
  "thread_at (st\<lparr> lk_held := h \<rparr>) = thread_at st" "thread_at (st\<lparr> lk_registry := r \<rparr>) = thread_at st"
  by (auto simp: thread_at_def fun_eq_iff)

lemma guards_uses: "guards e thread \<Longrightarrow> \<exists>key. uses key e thread"
  by (cases thread) auto

lemma uses_refers: "uses key e thread \<Longrightarrow> refers e thread"
  by (cases thread) auto

lemma lock_invar_initial: "lock_invar (lock_initial n)"
  by (auto simp: lock_invar_def lock_initial_def thread_at_def)

lemma lock_invarD:
  assumes "lock_invar st"
  shows "uses key e (thread_at st t) \<Longrightarrow> bm_get (lk_registry st) key = Some e"
    and "bm_get (lk_registry st) k = Some e \<Longrightarrow> bm_get (lk_registry st) k' = Some e \<Longrightarrow> k = k'"
    and "bm_get (lk_registry st) k = Some e \<Longrightarrow> e < lk_next st"
    and "lk_held st e \<longleftrightarrow> (\<exists>t. guards e (thread_at st t))"
    and "guards e (thread_at st t) \<Longrightarrow> guards e (thread_at st t') \<Longrightarrow> t = t'"
  using assms unfolding lock_invar_def by blast+

lemma lock_invarI:
  assumes "\<And>t key e. uses key e (thread_at st t) \<Longrightarrow> bm_get (lk_registry st) key = Some e"
    and "\<And>k k' e. bm_get (lk_registry st) k = Some e \<Longrightarrow> bm_get (lk_registry st) k' = Some e \<Longrightarrow> k = k'"
    and "\<And>k e. bm_get (lk_registry st) k = Some e \<Longrightarrow> e < lk_next st"
    and "\<And>e. lk_held st e \<longleftrightarrow> (\<exists>t. guards e (thread_at st t))"
    and "\<And>t t' e. guards e (thread_at st t) \<Longrightarrow> guards e (thread_at st t') \<Longrightarrow> t = t'"
  shows "lock_invar st"
  using assms unfolding lock_invar_def by blast

lemma thread_atI: "t < length (lk_threads st) \<Longrightarrow> lk_threads st ! t = thread \<Longrightarrow> thread_at st t = thread"
  by (simp add: thread_at_def)

text \<open>A thread that guards nothing, before and after, changes its state; what it uses is registered.\<close>

lemma lock_invar_thread:
  assumes "lock_invar st" "t < length (lk_threads st)" "\<And>e. \<not> guards e (thread_at st t)"
    "\<And>e. \<not> guards e thread" "\<And>key e. uses key e thread \<Longrightarrow> bm_get (lk_registry st) key = Some e"
  shows "lock_invar (set_thread t thread st)"
proof -
  have at: "thread_at (set_thread t thread st) = (thread_at st)(t := thread)"
    by (rule thread_at_set_thread [OF assms(2)])
  have guards: "guards e (((thread_at st)(t := thread)) t') \<longleftrightarrow> guards e (thread_at st t')" for e t'
    using assms(3,4) by simp
  show ?thesis
  proof (rule lock_invarI, unfold at guards set_thread_fields)
    fix t' key e assume "uses key e (((thread_at st)(t := thread)) t')"
    then show "bm_get (lk_registry st) key = Some e"
      using assms(5) lock_invarD(1) [OF assms(1)] by (auto simp: fun_upd_def split: if_splits)
  qed (fact lock_invarD(2-5) [OF assms(1)])+
qed

lemma lock_invar_acquire:
  assumes "lock_invar st" "t < length (lk_threads st)" "thread_at st t = LT_Cloned key e" "\<not> lk_held st e"
  shows "lock_invar (set_thread t (LT_Guarding key e) (st\<lparr> lk_held := (lk_held st)(e := True) \<rparr>))" (is "lock_invar ?st")
proof -
  have at: "thread_at ?st = (thread_at st)(t := LT_Guarding key e)"
    using assms(2) by (subst thread_at_set_thread) simp_all
  have fields: "lk_registry ?st = lk_registry st" "lk_next ?st = lk_next st" "lk_held ?st = (lk_held st)(e := True)"
    by simp_all
  have none: "\<not> guards e (thread_at st t')" for t' using lock_invarD(4) [OF assms(1)] assms(4) by blast
  have guards: "guards e' (((thread_at st)(t := LT_Guarding key e)) t') \<longleftrightarrow>
      (if e' = e then t' = t else guards e' (thread_at st t'))" for e' t'
    using none assms(3) by auto
  have registered: "bm_get (lk_registry st) key = Some e" using lock_invarD(1) [OF assms(1), of key e t] assms(3) by simp
  show ?thesis
  proof (rule lock_invarI, unfold at fields guards)
    fix t' key' e' assume "uses key' e' (((thread_at st)(t := LT_Guarding key e)) t')"
    then show "bm_get (lk_registry st) key' = Some e'"
      using registered lock_invarD(1) [OF assms(1)] by (auto simp: fun_upd_def split: if_splits)
  next
    fix e' show "((lk_held st)(e := True)) e' \<longleftrightarrow> (\<exists>t'. if e' = e then t' = t else guards e' (thread_at st t'))"
      using lock_invarD(4) [OF assms(1), of e'] by simp
  next
    fix t1 t2 e'
    assume "if e' = e then t1 = t else guards e' (thread_at st t1)" "if e' = e then t2 = t else guards e' (thread_at st t2)"
    then show "t1 = t2" using lock_invarD(5) [OF assms(1)] by (auto split: if_splits)
  qed (fact lock_invarD(2,3) [OF assms(1)])+
qed

lemma lock_invar_release:
  assumes "lock_invar st" "t < length (lk_threads st)" "thread_at st t = LT_Guarding key e"
  shows "lock_invar (set_thread t (LT_Releasing key e) (st\<lparr> lk_held := (lk_held st)(e := False) \<rparr>))" (is "lock_invar ?st")
proof -
  have at: "thread_at ?st = (thread_at st)(t := LT_Releasing key e)"
    using assms(2) by (subst thread_at_set_thread) simp_all
  have fields: "lk_registry ?st = lk_registry st" "lk_next ?st = lk_next st" "lk_held ?st = (lk_held st)(e := False)"
    by simp_all
  have guards: "guards e' (((thread_at st)(t := LT_Releasing key e)) t') \<longleftrightarrow> e' \<noteq> e \<and> guards e' (thread_at st t')" for e' t'
  proof (cases "t' = t")
    case False
    then have "\<not> guards e (thread_at st t')" using lock_invarD(5) [OF assms(1), of e t t'] assms(3) by auto
    with False show ?thesis by auto
  qed (auto simp: assms(3))
  have registered: "bm_get (lk_registry st) key = Some e" using lock_invarD(1) [OF assms(1), of key e t] assms(3) by simp
  show ?thesis
  proof (rule lock_invarI, unfold at fields guards)
    fix t' key' e' assume "uses key' e' (((thread_at st)(t := LT_Releasing key e)) t')"
    then show "bm_get (lk_registry st) key' = Some e'"
      using registered lock_invarD(1) [OF assms(1)] by (auto simp: fun_upd_def split: if_splits)
  next
    fix e' show "((lk_held st)(e := False)) e' \<longleftrightarrow> (\<exists>t'. e' \<noteq> e \<and> guards e' (thread_at st t'))"
      using lock_invarD(4) [OF assms(1), of e'] by auto
  next
    fix t1 t2 e' assume "e' \<noteq> e \<and> guards e' (thread_at st t1)" "e' \<noteq> e \<and> guards e' (thread_at st t2)"
    then show "t1 = t2" using lock_invarD(5) [OF assms(1)] by blast
  qed (fact lock_invarD(2,3) [OF assms(1)])+
qed

lemma lock_invar_clone:
  assumes "lock_invar st" "clone_entry key st = (e, st')"
  shows "lock_invar st'" "bm_get (lk_registry st') key = Some e" "lk_threads st' = lk_threads st"
proof -
  have "lock_invar st' \<and> bm_get (lk_registry st') key = Some e \<and> lk_threads st' = lk_threads st"
  proof (cases "bm_get (lk_registry st) key")
    case (Some found)
    then show ?thesis using assms by (simp add: clone_entry_def)
  next
    case None
    then have st': "st' = st\<lparr> lk_registry := bm_insert key (lk_next st) (lk_registry st),
        lk_held := (lk_held st)(lk_next st := False), lk_next := Suc (lk_next st) \<rparr>" and e: "e = lk_next st"
      using assms(2) by (auto simp: clone_entry_def)
    have at: "thread_at st' = thread_at st" by (auto simp: st' thread_at_def fun_eq_iff)
    have fresh: "\<not> guards (lk_next st) (thread_at st t)" for t
      using guards_uses lock_invarD(1,3) [OF assms(1)] by blast
    have "lock_invar st'"
    proof (rule lock_invarI, unfold at)
      fix t key' e' assume "uses key' e' (thread_at st t)"
      then have "bm_get (lk_registry st) key' = Some e'" by (rule lock_invarD(1) [OF assms(1)])
      then show "bm_get (lk_registry st') key' = Some e'" using None by (auto simp: st' bm_get_insert)
    next
      fix k k' e' assume "bm_get (lk_registry st') k = Some e'" "bm_get (lk_registry st') k' = Some e'"
      then show "k = k'"
        using lock_invarD(2) [OF assms(1), of k e' k'] lock_invarD(3) [OF assms(1), of k e']
          lock_invarD(3) [OF assms(1), of k' e'] by (auto simp: st' bm_get_insert split: if_splits)
    next
      fix k e' assume "bm_get (lk_registry st') k = Some e'"
      then show "e' < lk_next st'" using lock_invarD(3) [OF assms(1), of k e'] by (auto simp: st' bm_get_insert split: if_splits)
    next
      fix e' show "lk_held st' e' \<longleftrightarrow> (\<exists>t. guards e' (thread_at st t))"
        using lock_invarD(4) [OF assms(1), of e'] fresh by (auto simp: st')
    qed (fact lock_invarD(5) [OF assms(1)])
    then show ?thesis by (simp add: st' e bm_get_insert)
  qed
  then show "lock_invar st'" "bm_get (lk_registry st') key = Some e" "lk_threads st' = lk_threads st" by simp_all
qed

text \<open>An entry is removed only when the releasing thread has the last reference besides the registry.\<close>

lemma two_references:
  assumes "i < length xs" "j < length xs" "i \<noteq> j" "P (xs ! i)" "P (xs ! j)"
  shows "2 \<le> length (filter P xs)"
proof -
  have "card {i, j} \<le> card {k. k < length xs \<and> P (xs ! k)}" using assms by (intro card_mono) auto
  with assms(3) show ?thesis by (simp add: length_filter_conv_card)
qed

lemma last_reference:
  assumes "strong_count e st = 2" "bm_get (lk_registry st) key = Some e" "t < length (lk_threads st)"
    "refers e (thread_at st t)" "refers e (thread_at st t')"
  shows "t' = t"
proof (rule ccontr)
  assume "t' \<noteq> t"
  moreover have "t' < length (lk_threads st)" using assms(5) by (auto simp: thread_at_def split: if_splits)
  ultimately have "2 \<le> length (filter (refers e) (lk_threads st))"
    using assms(3-5) by (intro two_references [of t _ t']) (auto simp: thread_at_def)
  moreover have "(key, e) \<in> set (filter (\<lambda>(_, e'). e' = e) (lk_registry st))"
    using map_of_SomeD [OF assms(2)] by simp
  then have "0 < length (filter (\<lambda>(_, e'). e' = e) (lk_registry st))" by (metis length_pos_if_in_set)
  ultimately show False using assms(1) unfolding strong_count_def by linarith
qed

lemma bm_get_filter: "bm_get (filter (\<lambda>(k, _). k \<noteq> key) m) k = (if k = key then None else bm_get m k)"
  by (induction m) auto

lemma lock_invar_cleanup:
  assumes "lock_invar st" "t < length (lk_threads st)" "thread_at st t = LT_Releasing key e"
  shows "lock_invar (set_thread t (LT_Dropping e) (remove_unused key e st))"
proof -
  have dropping: "lock_invar (set_thread t (LT_Dropping e) st)"
    using assms by (intro lock_invar_thread) auto
  show ?thesis
  proof (cases "strong_count e st = 2 \<and> bm_get (lk_registry st) key = Some e")
    case True
    let ?registry = "filter (\<lambda>(k, _). k \<noteq> key) (lk_registry st)"
    let ?st = "set_thread t (LT_Dropping e) (st\<lparr> lk_registry := ?registry \<rparr>)"
    note get = bm_get_filter [of key "lk_registry st"]
    have at: "thread_at ?st = thread_at (set_thread t (LT_Dropping e) st)"
      using assms(2) by (simp add: thread_at_set_thread)
    have unused: "\<not> uses key e' (thread_at (set_thread t (LT_Dropping e) st) t')" for e' t'
    proof
      assume used: "uses key e' (thread_at (set_thread t (LT_Dropping e) st) t')"
      then have "t' \<noteq> t" "uses key e' (thread_at st t')"
        using assms(2) by (auto simp: thread_at_set_thread fun_upd_def split: if_splits)
      moreover have "e' = e" using lock_invarD(1) [OF assms(1) calculation(2)] True by simp
      ultimately show False
        using last_reference [of e st key t t'] True assms(2,3) uses_refers by auto
    qed
    have "lock_invar ?st"
    proof (rule lock_invarI, unfold at)
      fix t' key' e' assume "uses key' e' (thread_at (set_thread t (LT_Dropping e) st) t')"
      then show "bm_get (lk_registry ?st) key' = Some e'"
        using lock_invarD(1) [OF dropping, of key' e' t'] unused by (auto simp: get)
    next
      fix k k' e' assume "bm_get (lk_registry ?st) k = Some e'" "bm_get (lk_registry ?st) k' = Some e'"
      then show "k = k'" using lock_invarD(2) [OF assms(1)] by (auto simp: get split: if_splits)
    next
      fix k e' assume "bm_get (lk_registry ?st) k = Some e'"
      then show "e' < lk_next ?st" using lock_invarD(3) [OF assms(1), of k e'] by (auto simp: get split: if_splits)
    next
      fix e' show "lk_held ?st e' \<longleftrightarrow> (\<exists>t'. guards e' (thread_at (set_thread t (LT_Dropping e) st) t'))"
        using lock_invarD(4) [OF dropping, of e'] by simp
    qed (fact lock_invarD(5) [OF dropping])
    with True show ?thesis by (simp add: remove_unused_def)
  next
    case False
    then show ?thesis using dropping by (simp only: remove_unused_def if_False)
  qed
qed

lemma lock_invar_step:
  assumes "lock_step st st'" "lock_invar st"
  shows "lock_invar st'"
  using assms(1)
proof cases
  case (clone t key e st1)
  note st1 = lock_invar_clone [OF assms(2) clone(5)]
  have "thread_at st1 t = LT_Idle" using clone st1(3) by (simp add: thread_at_def)
  then show ?thesis
    unfolding clone(1) using clone(2) st1 by (intro lock_invar_thread) auto
next
  case (acquire t key e)
  then show ?thesis using assms(2) lock_invar_acquire thread_atI by metis
next
  case (refuse t key e)
  then show ?thesis using assms(2) by (auto intro!: lock_invar_thread dest: thread_atI)
next
  case (release t key e)
  then show ?thesis using assms(2) lock_invar_release thread_atI by metis
next
  case (cleanup t key e)
  then show ?thesis using assms(2) lock_invar_cleanup thread_atI by metis
next
  case (forget t e)
  then show ?thesis using assms(2) by (auto intro!: lock_invar_thread dest: thread_atI)
qed

lemma lock_invar_reachable: "lock_step\<^sup>*\<^sup>* (lock_initial n) st \<Longrightarrow> lock_invar st"
  by (induction rule: rtranclp_induct) (auto intro: lock_invar_initial lock_invar_step)

text \<open>C36: Mutual exclusion of teardowns. Whatever the interleaving of the threads, two of them never hold
  the lock of the same instance, although entries are removed from the registry while others may be
  looking them up; and a thread about to try the lock is refused exactly when another one holds it.\<close>

theorem teardown_lock_exclusive:
  assumes "lock_step\<^sup>*\<^sup>* (lock_initial n) st"
  shows "(\<forall>t t' key e e'. thread_at st t = LT_Guarding key e \<longrightarrow> thread_at st t' = LT_Guarding key e' \<longrightarrow> t = t')
    \<and> (\<forall>t key e. thread_at st t = LT_Cloned key e \<longrightarrow>
        (lk_held st e \<longleftrightarrow> (\<exists>t' e'. thread_at st t' = LT_Guarding key e')))"
proof (intro conjI allI impI)
  note invar = lock_invar_reachable [OF assms]
  fix t t' key e e' assume guarding: "thread_at st t = LT_Guarding key e" "thread_at st t' = LT_Guarding key e'"
  then have "e' = e" using lock_invarD(1) [OF invar, of key e t] lock_invarD(1) [OF invar, of key e' t'] by simp
  with guarding show "t = t'" using lock_invarD(5) [OF invar, of e t t'] by simp
next
  note invar = lock_invar_reachable [OF assms]
  fix t key e assume cloned: "thread_at st t = LT_Cloned key e"
  then have key: "bm_get (lk_registry st) key = Some e" using lock_invarD(1) [OF invar, of key e t] by simp
  show "lk_held st e \<longleftrightarrow> (\<exists>t' e'. thread_at st t' = LT_Guarding key e')"
  proof
    assume "lk_held st e"
    then obtain t' where "guards e (thread_at st t')" using lock_invarD(4) [OF invar] by blast
    then obtain key' where guarding: "thread_at st t' = LT_Guarding key' e" by (cases "thread_at st t'") auto
    then have "key' = key" using lock_invarD(1) [OF invar, of key' e t'] lock_invarD(2) [OF invar _ key] by simp
    with guarding show "\<exists>t' e'. thread_at st t' = LT_Guarding key e'" by blast
  next
    assume "\<exists>t' e'. thread_at st t' = LT_Guarding key e'"
    then obtain t' e' where guarding: "thread_at st t' = LT_Guarding key e'" by blast
    then have "e' = e" using lock_invarD(1) [OF invar, of key e' t'] key by simp
    with guarding show "lk_held st e" using lock_invarD(4) [OF invar, of e] by (metis guards.simps(1))
  qed
qed

text \<open>Two threads look up the same entry; the first takes the lock and the second is refused.\<close>

definition contended_state :: lock_state where
  "contended_state = (let key = (GuildId 2, ''i_1'') in
     \<lparr> lk_registry = [(key, 0)], lk_held = (\<lambda>_. False)(0 := False, 0 := True), lk_next = 1,
       lk_threads = [LT_Guarding key 0, LT_Cloned key 0] \<rparr>)"

lemma contended_reachable: "lock_step\<^sup>*\<^sup>* (lock_initial 2) contended_state"
proof -
  let ?key = "(GuildId 2, ''i_1'')"
  let ?st1 = "\<lparr> lk_registry = [(?key, 0)], lk_held = (\<lambda>_. False)(0 := False), lk_next = 1,
       lk_threads = [LT_Cloned ?key 0, LT_Idle] \<rparr>"
  let ?st2 = "\<lparr> lk_registry = [(?key, 0)], lk_held = (\<lambda>_. False)(0 := False), lk_next = 1,
       lk_threads = [LT_Cloned ?key 0, LT_Cloned ?key 0] \<rparr>"
  have "lock_step (lock_initial 2) ?st1"
    using lock_step.clone [of 0 "lock_initial 2" ?key]
    by (simp add: lock_initial_def mutex_free_def clone_entry_def set_thread_def numeral_2_eq_2)
  moreover have "lock_step ?st1 ?st2"
    using lock_step.clone [of 1 ?st1 ?key] by (simp add: mutex_free_def clone_entry_def set_thread_def)
  moreover have "lock_step ?st2 contended_state"
    using lock_step.acquire [of 0 ?st2 ?key 0] by (simp add: set_thread_def contended_state_def Let_def)
  ultimately show ?thesis by (meson converse_rtranclp_into_rtranclp rtranclp.rtrancl_refl)
qed

theorem teardown_lock_exclusive_witness:
  "lk_held contended_state 0 \<longleftrightarrow>
     (\<exists>t' e'. thread_at contended_state t' = LT_Guarding (GuildId 2, ''i_1'') e')"
proof -
  have "thread_at contended_state 1 = LT_Cloned (GuildId 2, ''i_1'') 0"
    by (simp add: contended_state_def thread_at_def Let_def)
  then show ?thesis using teardown_lock_exclusive [OF contended_reachable] by blast
qed

end
