(* ===== verification/Spec2Isabelle.thy ===== *)
theory Spec2Isabelle
  imports Executor_Core Convergence_Properties Rule_Soundness Spec_Validation Instance_Ids Teardown_Locks
begin

text \<open>Root of the verification library of the guild automation crates.\<close>

end
